(* ===== verification/Clondike_Prelude.thy ===== *)
theory Clondike_Prelude
  imports Main "HOL-Library.Word"
begin

text \<open>
  Shared vocabulary of the development: the machine types of the C sources, the
  error numbers the kernel modules return, the effect of \<^verbatim>\<open>memcpy\<close> on a byte
  region, user-space memory seen as a function of addresses, and the word lemmas
  the component theories use.
\<close>

unbundle bit_operations_syntax

type_synonym byte = "8 word"
type_synonym u16 = "16 word"
type_synonym u32 = "32 word"
type_synonym u64 = "64 word"
type_synonym ptr = "64 word"
type_synonym i32 = "32 word"

text \<open>Error numbers (\<^verbatim>\<open>asm-generic/errno-base.h\<close>, \<^verbatim>\<open>errno.h\<close>), as returned negated.\<close>

abbreviation (input) EINTR :: int where "EINTR \<equiv> 4"
abbreviation (input) EIO :: int where "EIO \<equiv> 5"
abbreviation (input) ESRCH :: int where "ESRCH \<equiv> 3"
abbreviation (input) ENOEXEC :: int where "ENOEXEC \<equiv> 8"
abbreviation (input) EAGAIN :: int where "EAGAIN \<equiv> 11"
abbreviation (input) ENOMEM :: int where "ENOMEM \<equiv> 12"
abbreviation (input) EFAULT :: int where "EFAULT \<equiv> 14"
abbreviation (input) EINVAL :: int where "EINVAL \<equiv> 22"
abbreviation (input) EPIPE :: int where "EPIPE \<equiv> 32"
abbreviation (input) ERESTARTSYS :: int where "ERESTARTSYS \<equiv> 512"

definition memcpy_at :: "byte list \<Rightarrow> nat \<Rightarrow> byte list \<Rightarrow> byte list" where
  "memcpy_at mem off bs = take off mem @ bs @ drop (off + length bs) mem"

lemma length_memcpy_at [simp]:
  "off + length bs \<le> length mem \<Longrightarrow> length (memcpy_at mem off bs) = length mem"
  by (simp add: memcpy_at_def)

lemma memcpy_at_nth:
  "off + length bs \<le> length mem \<Longrightarrow> i < length mem \<Longrightarrow>
   memcpy_at mem off bs ! i = (if off \<le> i \<and> i < off + length bs then bs ! (i - off) else mem ! i)"
  by (auto simp: memcpy_at_def nth_append min_def)

lemma ptr_in_region_iff:
  fixes b s y :: "64 word"
  assumes "unat b + unat s < 2 ^ 64"
  shows "(b + s \<le> b + y \<or> b + y < b) \<longleftrightarrow> s \<le> y"
  using assms unsigned_less [of y, where ?'a = nat] by (auto simp: word_le_nat_alt word_less_nat_alt unat_plus_if')

lemma unat_ucast_32_64 [simp]: "unat (ucast (x :: 32 word) :: 64 word) = unat x"
  by (simp add: unsigned_ucast_eq take_bit_nat_eq_self unsigned_less [of x, where ?'a = nat, THEN order_less_le_trans])

lemma unat_ucast_64_32: "unat (y :: 64 word) < 2 ^ 32 \<Longrightarrow> unat (ucast y :: 32 word) = unat y"
  by (simp add: unsigned_ucast_eq take_bit_nat_eq_self)

lemma unat_ne_0_iff [simp]: "unat (w :: 'a :: len word) = 0 \<longleftrightarrow> w = 0"
  by (metis unsigned_0 unsigned_word_eqI)

lemma word_diff_decreases:
  fixes r c d :: "'a :: len word"
  assumes "r \<noteq> 0" "r \<le> c" "c \<le> d"
  shows "unat (c - r) < unat d"
proof -
  have "unat (c - r) = unat c - unat r" using assms(2) by (simp add: unat_sub)
  moreover have "unat r \<noteq> 0" "unat r \<le> unat c" "unat c \<le> unat d"
    using assms by (auto simp: word_le_nat_alt)
  ultimately show ?thesis by linarith
qed

lemma unat_add_small: "unat (x :: 'a::len word) + unat y < 2 ^ LENGTH('a) \<Longrightarrow> unat (x + y) = unat x + unat y"
  by (simp add: unat_plus_if')

lemma unat_clamp: "unat (if x < y then x else y :: 'a::len word) = min (unat y) (unat x)"
  by (simp add: word_less_nat_alt min_def)

lemma unat_ptr_of_offset:
  fixes b p :: ptr
  assumes "unat b + n < 2 ^ 64" "unat (p - b) < n"
  shows "unat p = unat b + unat (p - b)"
proof -
  have "unat (b + (p - b)) = unat b + unat (p - b)"
    using assms by (subst unat_plus_if') (simp del: diff_add_cancel add_diff_cancel_left')
  then show ?thesis by simp
qed

lemma unat_ptr_diff:
  fixes p q :: ptr
  assumes "unat p = a + i" "unat q = a + j" "i \<le> j"
  shows "unat (q - p) = j - i"
proof -
  have "unat (q - p) = unat q - unat p"
    by (rule unat_sub) (simp add: word_le_nat_alt assms)
  then show ?thesis by (simp add: assms)
qed

definition user_bytes :: "(u64 \<Rightarrow> byte) \<Rightarrow> u64 \<Rightarrow> nat \<Rightarrow> byte list" where
  "user_bytes umem a n = map (\<lambda>i. umem (a + of_nat i)) [0..<n]"

lemma length_user_bytes [simp]: "length (user_bytes umem a n) = n"
  by (simp add: user_bytes_def)

lemma take_user_bytes: "k \<le> n \<Longrightarrow> take k (user_bytes umem a n) = user_bytes umem a k"
  by (simp add: user_bytes_def take_map)

lemma drop_user_bytes: "drop k (user_bytes umem a n) = user_bytes umem (a + of_nat k) (n - k)"
  by (rule nth_equalityI) (simp_all add: user_bytes_def ac_simps less_diff_conv)

lemma of_nat_unat_ucast: "(of_nat (unat (w :: u32)) :: u64) = ucast w"
  by (simp add: of_nat_unat)

end
