(* ===== verification/Tcmi_Slotvec.thy ===== *)
theory Tcmi_Slotvec
  imports Clondike_Prelude "HOL-Library.Monad_Syntax"
begin

text \<open>
  Slots and slot vectors of the TCMI library (\<^verbatim>\<open>src/tcmi/lib/tcmi_slot.h\<close>,
  \<^verbatim>\<open>tcmi_slotvec.h\<close>, \<^verbatim>\<open>tcmi_slotvec.c\<close>): the hash tables of transactions and tasks and
  the allocator of migration manager numbers.

  A slot is named by its position in the vector, which stands for its address. The
  two linked lists of the vector hold slot positions from head to tail; a slot that
  has been reserved is on neither. All slots of a vector share its spin lock:
  \<open>sv_locked\<close> records whether it is held, and taking a held lock is the value
  \<open>None\<close> (the caller spins for ever). The nodes of a slot are its hlist from the
  head on; unlinking a node works on the node alone, so it is removed wherever it
  hangs.
\<close>

subsection \<open>State\<close>

record 'n tcmi_slot =
  slot_index :: u32
  slot_nodes :: "'n list"

record 'n tcmi_slotvec =
  sv_slots :: "'n tcmi_slot list"
  sv_slot_count :: u32
  sv_hashmsk :: u32
  sv_unused :: "nat list"
  sv_used :: "nat list"
  sv_ref_count :: int
  sv_locked :: bool

abbreviation nodes_at :: "'n tcmi_slotvec \<Rightarrow> nat \<Rightarrow> 'n list" where
  "nodes_at sv i \<equiv> slot_nodes (sv_slots sv ! i)"

subsection \<open>Slot operations\<close>

definition tcmi_slot_init :: "nat \<Rightarrow> 'n tcmi_slotvec \<Rightarrow> 'n tcmi_slotvec" where
  "tcmi_slot_init i sv = sv\<lparr>
     sv_slots := sv_slots sv @ [\<lparr>slot_index = of_nat i, slot_nodes = []\<rparr>],
     sv_unused := sv_unused sv @ [i]\<rparr>"

definition tcmi_slot_empty :: "'n tcmi_slotvec \<Rightarrow> nat \<Rightarrow> bool" where
  "tcmi_slot_empty sv self \<longleftrightarrow> nodes_at sv self = []"

definition tcmi_slot_lock :: "'n tcmi_slotvec \<Rightarrow> 'n tcmi_slotvec option" where
  "tcmi_slot_lock sv = (if sv_locked sv then None else Some (sv\<lparr>sv_locked := True\<rparr>))"

definition tcmi_slot_unlock :: "'n tcmi_slotvec \<Rightarrow> 'n tcmi_slotvec" where
  "tcmi_slot_unlock sv = sv\<lparr>sv_locked := False\<rparr>"

abbreviation tcmi_slotvec_lock :: "'n tcmi_slotvec \<Rightarrow> 'n tcmi_slotvec option" where
  "tcmi_slotvec_lock \<equiv> tcmi_slot_lock"

abbreviation tcmi_slotvec_unlock :: "'n tcmi_slotvec \<Rightarrow> 'n tcmi_slotvec" where
  "tcmi_slotvec_unlock \<equiv> tcmi_slot_unlock"

definition tcmi_slot_move_used :: "nat \<Rightarrow> 'n tcmi_slotvec \<Rightarrow> 'n tcmi_slotvec" where
  "tcmi_slot_move_used self sv =
     sv\<lparr>sv_unused := remove1 self (sv_unused sv), sv_used := self # remove1 self (sv_used sv)\<rparr>"

definition tcmi_slot_move_unused :: "nat \<Rightarrow> 'n tcmi_slotvec \<Rightarrow> 'n tcmi_slotvec" where
  "tcmi_slot_move_unused self sv =
     sv\<lparr>sv_used := remove1 self (sv_used sv), sv_unused := self # remove1 self (sv_unused sv)\<rparr>"

definition hlist_add_head :: "nat \<Rightarrow> 'n \<Rightarrow> 'n tcmi_slotvec \<Rightarrow> 'n tcmi_slotvec" where
  "hlist_add_head self node sv =
     sv\<lparr>sv_slots := (sv_slots sv)[self := (sv_slots sv ! self)\<lparr>slot_nodes := node # nodes_at sv self\<rparr>]\<rparr>"

definition hlist_del_init :: "'n \<Rightarrow> 'n tcmi_slotvec \<Rightarrow> 'n tcmi_slotvec" where
  "hlist_del_init node sv =
     sv\<lparr>sv_slots := map (\<lambda>s. s\<lparr>slot_nodes := remove1 node (slot_nodes s)\<rparr>) (sv_slots sv)\<rparr>"

definition tcmi_slot_insert :: "nat \<Rightarrow> 'n \<Rightarrow> 'n tcmi_slotvec \<Rightarrow> 'n tcmi_slotvec option" where
  "tcmi_slot_insert self node sv = do {
     sv \<leftarrow> tcmi_slot_lock sv;
     let sv = hlist_add_head self node sv;
     let sv = tcmi_slot_move_used self sv;
     Some (tcmi_slot_unlock sv)
   }"

definition tcmi_slot_remove_nolock :: "nat \<Rightarrow> 'n \<Rightarrow> 'n tcmi_slotvec \<Rightarrow> 'n tcmi_slotvec" where
  "tcmi_slot_remove_nolock self node sv =
     (let sv = hlist_del_init node sv in
      if tcmi_slot_empty sv self then tcmi_slot_move_unused self sv else sv)"

definition tcmi_slot_remove :: "nat option \<Rightarrow> 'n \<Rightarrow> 'n tcmi_slotvec \<Rightarrow> 'n tcmi_slotvec option" where
  "tcmi_slot_remove slot node sv =
     (case slot of
        None \<Rightarrow> Some sv
      | Some self \<Rightarrow>
          if sv_locked sv then Some (tcmi_slot_remove_nolock self node sv)
          else do {
            sv \<leftarrow> tcmi_slot_lock sv;
            let sv = tcmi_slot_remove_nolock self node sv;
            Some (tcmi_slot_unlock sv)
          })"

definition tcmi_slot_remove_safe :: "nat option \<Rightarrow> 'n \<Rightarrow> 'n tcmi_slotvec \<Rightarrow> 'n tcmi_slotvec option" where
  "tcmi_slot_remove_safe slot node sv =
     (case slot of
        None \<Rightarrow> Some sv
      | Some self \<Rightarrow> do {
          sv \<leftarrow> tcmi_slot_lock sv;
          let found = list_ex (\<lambda>n. n = node) (nodes_at sv self);
          let sv = (if found then tcmi_slot_remove_nolock self node sv else sv);
          Some (tcmi_slot_unlock sv)
        })"

text \<open>
  The iteration macro of the kernel lists with a search condition that breaks out of
  the loop: the cursor ends at the first match, or, when nothing matches, at the last
  element visited; on an empty slot it keeps the value it had before.
\<close>

fun slot_for_each_until :: "('n \<Rightarrow> bool) \<Rightarrow> 'n option \<Rightarrow> 'n list \<Rightarrow> 'n option" where
  "slot_for_each_until found cursor [] = cursor"
| "slot_for_each_until found cursor (n # ns) =
     (if found n then Some n else slot_for_each_until found (Some n) ns)"

definition tcmi_slot_find_first :: "'n option \<Rightarrow> nat \<Rightarrow> 'n tcmi_slotvec \<Rightarrow> 'n option" where
  "tcmi_slot_find_first object slot sv = slot_for_each_until (\<lambda>_. True) object (nodes_at sv slot)"

definition tcmi_slot_remove_first :: "'n option \<Rightarrow> nat \<Rightarrow> 'n tcmi_slotvec \<Rightarrow> 'n option \<times> 'n tcmi_slotvec" where
  "tcmi_slot_remove_first object slot sv =
     (case nodes_at sv slot of
        [] \<Rightarrow> (object, sv)
      | n # _ \<Rightarrow> (Some n, tcmi_slot_remove_nolock slot n sv))"

subsection \<open>Slot vector operations\<close>

text \<open>
  \<open>vec\<close> and \<open>slots_ok\<close> stand for the two allocations: the first yields uninitialised
  memory for the vector or fails, the second tells whether the slot array of that
  size could be had.
\<close>

definition tcmi_slotvec_new ::
  "'n tcmi_slotvec option \<Rightarrow> (u32 \<Rightarrow> bool) \<Rightarrow> u32 \<Rightarrow> 'n tcmi_slotvec option" where
  "tcmi_slotvec_new vec slots_ok sz =
     (case vec of
        None \<Rightarrow> None
      | Some v \<Rightarrow>
          if \<not> slots_ok sz then None
          else Some (fold tcmi_slot_init [0..<unat sz]
            (v\<lparr>sv_slots := [], sv_slot_count := sz, sv_unused := [], sv_used := [],
               sv_ref_count := 1, sv_locked := False\<rparr>)))"

definition tcmi_slotvec_hnew ::
  "'n tcmi_slotvec option \<Rightarrow> (u32 \<Rightarrow> bool) \<Rightarrow> nat \<Rightarrow> 'n tcmi_slotvec option" where
  "tcmi_slotvec_hnew vec slots_ok order =
     (case tcmi_slotvec_new vec slots_ok (push_bit order 1) of
        None \<Rightarrow> None
      | Some v \<Rightarrow> Some (v\<lparr>sv_hashmsk := sv_slot_count v - 1\<rparr>))"

definition tcmi_slotvec_get :: "'n tcmi_slotvec \<Rightarrow> 'n tcmi_slotvec" where
  "tcmi_slotvec_get self = self\<lparr>sv_ref_count := sv_ref_count self + 1\<rparr>"

text \<open>The last put frees the vector: no vector is left.\<close>

definition tcmi_slotvec_put :: "'n tcmi_slotvec \<Rightarrow> 'n tcmi_slotvec option" where
  "tcmi_slotvec_put self =
     (if sv_ref_count self - 1 = 0 then None
      else Some (self\<lparr>sv_ref_count := sv_ref_count self - 1\<rparr>))"

definition tcmi_slotvec_at :: "'n tcmi_slotvec \<Rightarrow> u32 \<Rightarrow> nat option" where
  "tcmi_slotvec_at self index = (if index < sv_slot_count self then Some (unat index) else None)"

definition tcmi_slotvec_reserve_empty :: "'n tcmi_slotvec \<Rightarrow> (nat option \<times> 'n tcmi_slotvec) option" where
  "tcmi_slotvec_reserve_empty self = do {
     self \<leftarrow> tcmi_slot_lock self;
     let (slot, self) = (case sv_unused self of
         [] \<Rightarrow> (None, self)
       | i # rest \<Rightarrow> (Some i, self\<lparr>sv_unused := rest\<rparr>));
     Some (slot, tcmi_slot_unlock self)
   }"

definition tcmi_slotvec_insert_at ::
  "'n tcmi_slotvec \<Rightarrow> u32 \<Rightarrow> 'n \<Rightarrow> (nat option \<times> 'n tcmi_slotvec) option" where
  "tcmi_slotvec_insert_at self index node =
     (case tcmi_slotvec_at self index of
        None \<Rightarrow> Some (None, self)
      | Some slot \<Rightarrow> do { self \<leftarrow> tcmi_slot_insert slot node self; Some (Some slot, self) })"

definition tcmi_slotvec_insert_at_empty ::
  "'n tcmi_slotvec \<Rightarrow> 'n \<Rightarrow> (nat option \<times> 'n tcmi_slotvec) option" where
  "tcmi_slotvec_insert_at_empty self node = do {
     (slot, self) \<leftarrow> tcmi_slotvec_reserve_empty self;
     (case slot of
        None \<Rightarrow> Some (None, self)
      | Some i \<Rightarrow> do { self \<leftarrow> tcmi_slot_insert i node self; Some (Some i, self) })
   }"

definition tcmi_slotvec_empty :: "'n tcmi_slotvec \<Rightarrow> bool" where
  "tcmi_slotvec_empty self \<longleftrightarrow> sv_used self = []"

definition tcmi_slotvec_remove_one_entry :: "'n tcmi_slotvec \<Rightarrow> 'n option \<times> 'n tcmi_slotvec" where
  "tcmi_slotvec_remove_one_entry self =
     (case sv_used self of
        [] \<Rightarrow> (None, self)
      | slot # _ \<Rightarrow> tcmi_slot_remove_first None slot self)"

subsection \<open>Invariant\<close>

text \<open>
  Every slot carries its own number, a slot is on the used list exactly when it
  holds a node, on at most one of the two lists, and no node hangs in two places.
\<close>

definition slots_disjoint :: "'n tcmi_slot list \<Rightarrow> bool" where
  "slots_disjoint ss \<longleftrightarrow>
     (\<forall>i < length ss. distinct (slot_nodes (ss ! i))) \<and>
     (\<forall>i < length ss. \<forall>j < length ss. i \<noteq> j \<longrightarrow>
        set (slot_nodes (ss ! i)) \<inter> set (slot_nodes (ss ! j)) = {})"

definition slotvec_inv :: "'n tcmi_slotvec \<Rightarrow> bool" where
  "slotvec_inv sv \<longleftrightarrow>
     length (sv_slots sv) = unat (sv_slot_count sv) \<and>
     (\<forall>i < length (sv_slots sv). slot_index (sv_slots sv ! i) = of_nat i) \<and>
     distinct (sv_unused sv @ sv_used sv) \<and>
     (\<forall>i \<in> set (sv_unused sv) \<union> set (sv_used sv). i < length (sv_slots sv)) \<and>
     (\<forall>i < length (sv_slots sv). i \<in> set (sv_used sv) \<longleftrightarrow> nodes_at sv i \<noteq> []) \<and>
     slots_disjoint (sv_slots sv)"

abbreviation nslots :: "'n tcmi_slotvec \<Rightarrow> nat" where
  "nslots sv \<equiv> length (sv_slots sv)"

definition fresh_node :: "'n \<Rightarrow> 'n tcmi_slotvec \<Rightarrow> bool" where
  "fresh_node n sv \<longleftrightarrow> (\<forall>i < nslots sv. n \<notin> set (nodes_at sv i))"

lemma slots_disjoint_insert:
  assumes "slots_disjoint ss" "i < length ss" "\<forall>j < length ss. n \<notin> set (slot_nodes (ss ! j))"
  shows "slots_disjoint (ss[i := (ss ! i)\<lparr>slot_nodes := n # slot_nodes (ss ! i)\<rparr>])"
  using assms unfolding slots_disjoint_def by (auto simp: nth_list_update)

lemma slots_disjoint_remove:
  "slots_disjoint ss \<Longrightarrow> slots_disjoint (map (\<lambda>s. s\<lparr>slot_nodes := remove1 n (slot_nodes s)\<rparr>) ss)"
  unfolding slots_disjoint_def by (auto dest!: set_remove1_subset [THEN subsetD])

lemma slotvec_invD:
  assumes "slotvec_inv sv"
  shows "nslots sv = unat (sv_slot_count sv)" "distinct (sv_unused sv)" "distinct (sv_used sv)"
    "set (sv_unused sv) \<inter> set (sv_used sv) = {}"
    "i \<in> set (sv_unused sv) \<Longrightarrow> i < nslots sv" "i \<in> set (sv_used sv) \<Longrightarrow> i < nslots sv"
    "i < nslots sv \<Longrightarrow> i \<in> set (sv_used sv) \<longleftrightarrow> nodes_at sv i \<noteq> []"
    "slots_disjoint (sv_slots sv)"
    "i < nslots sv \<Longrightarrow> slot_index (sv_slots sv ! i) = of_nat i"
  using assms by (auto simp: slotvec_inv_def)

lemma for_each_until_found:
  "n \<in> set ns \<Longrightarrow> found n \<Longrightarrow> \<exists>m \<in> set ns. found m \<and> slot_for_each_until found c ns = Some m"
  by (induction ns arbitrary: c) auto

lemma for_each_until_not_found:
  "\<forall>n \<in> set ns. \<not> found n \<Longrightarrow>
   slot_for_each_until found c ns = (if ns = [] then c else Some (last ns))"
  by (induction ns arbitrary: c) auto

lemma for_each_until_mem:
  "slot_for_each_until found None ns = Some m \<Longrightarrow> m \<in> set ns"
proof -
  have "slot_for_each_until found c ns = Some m \<Longrightarrow> m \<in> set ns \<or> c = Some m" for c
    by (induction ns arbitrary: c) (auto split: if_splits)
  then show "slot_for_each_until found None ns = Some m \<Longrightarrow> m \<in> set ns" by blast
qed

lemma unused_slot_empty:
  "slotvec_inv sv \<Longrightarrow> i \<in> set (sv_unused sv) \<Longrightarrow> nodes_at sv i = []"
  by (metis disjoint_iff slotvec_invD(4,5,7))

lemma node_unique:
  "\<lbrakk>slotvec_inv sv; i < nslots sv; j < nslots sv; n \<in> set (nodes_at sv i); n \<in> set (nodes_at sv j)\<rbrakk> \<Longrightarrow> i = j"
  using slotvec_invD(8) [of sv] by (fastforce simp: slots_disjoint_def)

subsection \<open>Inserting and removing\<close>

lemma slot_insert_ok:
  assumes inv: "slotvec_inv sv" and i: "i < nslots sv" and fresh: "fresh_node n sv"
    and unl: "\<not> sv_locked sv"
  shows "\<exists>sv'. tcmi_slot_insert i n sv = Some sv' \<and> slotvec_inv sv' \<and> \<not> sv_locked sv' \<and>
    sv_slot_count sv' = sv_slot_count sv \<and> sv_hashmsk sv' = sv_hashmsk sv \<and> nslots sv' = nslots sv \<and>
    sv_used sv' = i # remove1 i (sv_used sv) \<and> sv_unused sv' = remove1 i (sv_unused sv) \<and>
    nodes_at sv' i = n # nodes_at sv i \<and> (\<forall>j. j \<noteq> i \<longrightarrow> nodes_at sv' j = nodes_at sv j)"
proof -
  note d = slotvec_invD [OF inv]
  let ?sv' = "sv\<lparr>sv_slots := (sv_slots sv)[i := (sv_slots sv ! i)\<lparr>slot_nodes := n # nodes_at sv i\<rparr>],
    sv_unused := remove1 i (sv_unused sv), sv_used := i # remove1 i (sv_used sv), sv_locked := False\<rparr>"
  have eq: "tcmi_slot_insert i n sv = Some ?sv'"
    using unl by (simp add: tcmi_slot_insert_def tcmi_slot_lock_def tcmi_slot_unlock_def Let_def
        hlist_add_head_def tcmi_slot_move_used_def)
  have "slotvec_inv ?sv'"
    unfolding slotvec_inv_def
  proof (intro conjI)
    show "slots_disjoint (sv_slots ?sv')"
      using slots_disjoint_insert [OF d(8) i] fresh by (simp add: fresh_node_def)
  qed (use d i in \<open>auto simp: nth_list_update\<close>)
  then show ?thesis using eq i by (simp add: nth_list_update)
qed

lemma slot_remove_nolock_ok:
  assumes inv: "slotvec_inv sv" and i: "i < nslots sv"
    and mem: "n \<in> set (nodes_at sv i) \<or> fresh_node n sv"
  defines "sv' \<equiv> tcmi_slot_remove_nolock i n sv"
  shows "slotvec_inv sv' \<and> sv_locked sv' = sv_locked sv \<and> sv_slot_count sv' = sv_slot_count sv \<and>
    sv_hashmsk sv' = sv_hashmsk sv \<and> nslots sv' = nslots sv \<and>
    nodes_at sv' i = remove1 n (nodes_at sv i) \<and>
    (\<forall>j < nslots sv. j \<noteq> i \<longrightarrow> nodes_at sv' j = nodes_at sv j) \<and> fresh_node n sv'"
proof -
  note d = slotvec_invD [OF inv]
  let ?h = "hlist_del_init n sv"
  have other: "n \<notin> set (nodes_at sv j)" if "j < nslots sv" "j \<noteq> i" for j
    using mem node_unique [OF inv i that(1)] that by (auto simp: fresh_node_def)
  have h: "nslots ?h = nslots sv" "nodes_at ?h i = remove1 n (nodes_at sv i)"
    "\<And>j. j < nslots sv \<Longrightarrow> j \<noteq> i \<Longrightarrow> nodes_at ?h j = nodes_at sv j"
    "\<And>j. j < nslots sv \<Longrightarrow> slot_index (sv_slots ?h ! j) = slot_index (sv_slots sv ! j)"
    "sv_used ?h = sv_used sv" "sv_unused ?h = sv_unused sv" "sv_slot_count ?h = sv_slot_count sv"
    "sv_locked ?h = sv_locked sv" "sv_hashmsk ?h = sv_hashmsk sv" "slots_disjoint (sv_slots ?h)"
    using i other slots_disjoint_remove [OF d(8)]
    by (auto simp: hlist_del_init_def remove1_idem)
  have sl: "sv_slots sv' = sv_slots ?h" "sv_slot_count sv' = sv_slot_count sv"
    "sv_locked sv' = sv_locked sv" "sv_hashmsk sv' = sv_hashmsk sv"
    using h by (simp_all add: sv'_def tcmi_slot_remove_nolock_def tcmi_slot_move_unused_def Let_def)
  have lists: "sv_used sv' = (if remove1 n (nodes_at sv i) = [] then remove1 i (sv_used sv) else sv_used sv)"
     "sv_unused sv' = (if remove1 n (nodes_at sv i) = [] then i # remove1 i (sv_unused sv) else sv_unused sv)"
    using h by (simp_all add: sv'_def tcmi_slot_remove_nolock_def tcmi_slot_move_unused_def Let_def tcmi_slot_empty_def)
  have nonempty: "remove1 n (nodes_at sv i) \<noteq> [] \<Longrightarrow> nodes_at sv i \<noteq> []" by auto
  have "slotvec_inv sv'"
    unfolding slotvec_inv_def sl
  proof (intro conjI allI impI)
    fix j assume "j < nslots ?h"
    then show "(j \<in> set (sv_used sv')) = (nodes_at ?h j \<noteq> [])"
      using h d(3,7) nonempty i unfolding lists by (cases "j = i") auto
  qed (use d h i nonempty in \<open>auto simp: lists\<close>)
  moreover have "fresh_node n sv'"
    using h other d(8) i unfolding fresh_node_def sl
    by (metis slots_disjoint_def set_remove1_eq Diff_iff singletonI)
  ultimately show ?thesis using sl h by simp
qed

subsection \<open>The contract of a table of slots\<close>

locale slot_table =
  fixes inv :: "'s \<Rightarrow> bool" and slot_num :: "'s \<Rightarrow> nat" and nodes :: "'s \<Rightarrow> nat \<Rightarrow> 'n list"
    and ins :: "nat \<Rightarrow> 'n \<Rightarrow> 's \<Rightarrow> 's option" and del :: "nat \<Rightarrow> 'n \<Rightarrow> 's \<Rightarrow> 's option"
  assumes ins_law: "\<lbrakk>inv s; i < slot_num s; \<forall>j < slot_num s. n \<notin> set (nodes s j)\<rbrakk> \<Longrightarrow>
      \<exists>s'. ins i n s = Some s' \<and> inv s' \<and> slot_num s' = slot_num s \<and>
        nodes s' i = n # nodes s i \<and> (\<forall>j < slot_num s. j \<noteq> i \<longrightarrow> nodes s' j = nodes s j)"
    and del_law: "\<lbrakk>inv s; i < slot_num s; n \<in> set (nodes s i)\<rbrakk> \<Longrightarrow>
      \<exists>s'. del i n s = Some s' \<and> inv s' \<and> slot_num s' = slot_num s \<and>
        nodes s' i = remove1 n (nodes s i) \<and> (\<forall>j < slot_num s. j \<noteq> i \<longrightarrow> nodes s' j = nodes s j)"
begin

lemma ins_del:
  assumes "inv s" "i < slot_num s" "\<forall>j < slot_num s. n \<notin> set (nodes s j)"
  shows "\<exists>s' s''. ins i n s = Some s' \<and> del i n s' = Some s'' \<and> inv s'' \<and>
    (\<forall>j < slot_num s. nodes s'' j = nodes s j)"
proof -
  obtain s' where s': "ins i n s = Some s'" "inv s'" "slot_num s' = slot_num s"
    "nodes s' i = n # nodes s i" "\<forall>j < slot_num s. j \<noteq> i \<longrightarrow> nodes s' j = nodes s j"
    using ins_law [OF assms] by blast
  moreover obtain s'' where "del i n s' = Some s''" "inv s''" "nodes s'' i = remove1 n (nodes s' i)"
    "\<forall>j < slot_num s. j \<noteq> i \<longrightarrow> nodes s'' j = nodes s' j"
    using del_law [OF s'(2), of i n] s' assms(2) by fastforce
  ultimately show ?thesis by (metis remove1.simps(2))
qed

lemma find_inserted:
  assumes "inv s" "i < slot_num s" "\<forall>j < slot_num s. n \<notin> set (nodes s j)" "P n" "ins i n s = Some s'"
  shows "find P (nodes s' i) = Some n"
  using ins_law [OF assms(1-3)] assms(4,5) by auto

lemma find_other:
  assumes "inv s" "i < slot_num s" "\<forall>j < slot_num s. n \<notin> set (nodes s j)" "\<not> P n"
    "ins i n s = Some s'" "j < slot_num s"
  shows "find P (nodes s' j) = find P (nodes s j)"
  using ins_law [OF assms(1-3)] assms(4-6) by (cases "j = i") auto

end

definition slotvec_ready :: "'n tcmi_slotvec \<Rightarrow> bool" where
  "slotvec_ready sv \<longleftrightarrow> slotvec_inv sv \<and> \<not> sv_locked sv"

lemma locked_irrelevant [simp]:
  "slotvec_inv (sv\<lparr>sv_locked := b\<rparr>) = slotvec_inv sv" "fresh_node n (sv\<lparr>sv_locked := b\<rparr>) = fresh_node n sv"
  by (simp_all add: slotvec_inv_def fresh_node_def)

lemma slot_remove_ok:
  assumes "slotvec_inv sv" "i < nslots sv" "n \<in> set (nodes_at sv i) \<or> fresh_node n sv"
  shows "\<exists>sv'. tcmi_slot_remove (Some i) n sv = Some sv' \<and> slotvec_inv sv' \<and> sv_locked sv' = sv_locked sv \<and>
    sv_slot_count sv' = sv_slot_count sv \<and> sv_hashmsk sv' = sv_hashmsk sv \<and> nslots sv' = nslots sv \<and>
    nodes_at sv' i = remove1 n (nodes_at sv i) \<and>
    (\<forall>j < nslots sv. j \<noteq> i \<longrightarrow> nodes_at sv' j = nodes_at sv j) \<and> fresh_node n sv'"
proof (cases "sv_locked sv")
  case True
  then show ?thesis using slot_remove_nolock_ok [OF assms] by (simp add: tcmi_slot_remove_def)
next
  case False
  let ?l = "sv\<lparr>sv_locked := True\<rparr>" and ?d = "tcmi_slot_remove_nolock i n (sv\<lparr>sv_locked := True\<rparr>)"
  have "tcmi_slot_remove (Some i) n sv = Some (?d\<lparr>sv_locked := False\<rparr>)"
    using False by (simp add: tcmi_slot_remove_def tcmi_slot_lock_def tcmi_slot_unlock_def Let_def)
  then show ?thesis using slot_remove_nolock_ok [of ?l i n] assms False by simp
qed

interpretation sv: slot_table slotvec_ready nslots nodes_at tcmi_slot_insert "\<lambda>i. tcmi_slot_remove (Some i)"
proof
  fix s :: "'n tcmi_slotvec" and i n
  assume a: "slotvec_ready s" "i < nslots s"
  note i = a(1) [unfolded slotvec_ready_def]
  show "\<exists>s'. tcmi_slot_insert i n s = Some s' \<and> slotvec_ready s' \<and> nslots s' = nslots s \<and>
      nodes_at s' i = n # nodes_at s i \<and> (\<forall>j < nslots s. j \<noteq> i \<longrightarrow> nodes_at s' j = nodes_at s j)"
    if "\<forall>j < nslots s. n \<notin> set (nodes_at s j)"
    using slot_insert_ok [OF conjunct1 [OF i] a(2) _ conjunct2 [OF i], of n] that
    unfolding slotvec_ready_def fresh_node_def by blast
  show "\<exists>s'. tcmi_slot_remove (Some i) n s = Some s' \<and> slotvec_ready s' \<and> nslots s' = nslots s \<and>
      nodes_at s' i = remove1 n (nodes_at s i) \<and> (\<forall>j < nslots s. j \<noteq> i \<longrightarrow> nodes_at s' j = nodes_at s j)"
    if "n \<in> set (nodes_at s i)"
    using slot_remove_ok [OF conjunct1 [OF i] a(2), of n] that conjunct2 [OF i]
    unfolding slotvec_ready_def by metis
qed

subsection \<open>Construction and allocation\<close>

lemma fold_slot_init:
  "sv_slots v = [] \<Longrightarrow> sv_unused v = [] \<Longrightarrow>
   fold tcmi_slot_init [0..<n] v =
     v\<lparr>sv_slots := map (\<lambda>i. \<lparr>slot_index = of_nat i, slot_nodes = []\<rparr>) [0..<n], sv_unused := [0..<n]\<rparr>"
  by (induction n) (simp_all add: tcmi_slot_init_def)

lemma slotvec_new_ok:
  assumes "tcmi_slotvec_new vec ok sz = Some sv"
  shows "slotvec_ready sv \<and> sv_slot_count sv = sz \<and> sv_unused sv = [0..<unat sz] \<and> sv_used sv = [] \<and>
    nslots sv = unat sz \<and> (\<forall>i < unat sz. nodes_at sv i = []) \<and> sv_ref_count sv = 1"
  using assms
  by (auto simp: tcmi_slotvec_new_def fold_slot_init slotvec_ready_def slotvec_inv_def slots_disjoint_def
      split: option.splits if_splits)

lemma reserve_empty_ok:
  assumes "slotvec_ready sv"
  shows "tcmi_slotvec_reserve_empty sv =
    Some (case sv_unused sv of [] \<Rightarrow> (None, sv) | i # r \<Rightarrow> (Some i, sv\<lparr>sv_unused := r\<rparr>))"
  using assms
  by (cases "sv_unused sv")
     (simp_all add: tcmi_slotvec_reserve_empty_def tcmi_slot_lock_def tcmi_slot_unlock_def slotvec_ready_def)

lemma insert_at_empty_ok:
  assumes rdy: "slotvec_ready sv" and fresh: "fresh_node n sv"
  shows "\<exists>sv'. tcmi_slotvec_insert_at_empty sv n =
      Some (case sv_unused sv of [] \<Rightarrow> None | i # _ \<Rightarrow> Some i, sv') \<and>
    slotvec_ready sv' \<and> nslots sv' = nslots sv \<and> sv_unused sv' = tl (sv_unused sv) \<and>
    (\<forall>j < nslots sv. nodes_at sv' j =
       (if sv_unused sv \<noteq> [] \<and> j = hd (sv_unused sv) then [n] else nodes_at sv j))"
proof (cases "sv_unused sv")
  case Nil
  then show ?thesis using rdy reserve_empty_ok [OF rdy] by (simp add: tcmi_slotvec_insert_at_empty_def)
next
  case (Cons i r)
  note rdy' = rdy [unfolded slotvec_ready_def]
  note d = slotvec_invD [OF conjunct1 [OF rdy']]
  let ?r = "sv\<lparr>sv_unused := r\<rparr>"
  have i: "i < nslots sv" "nodes_at sv i = []" "i \<notin> set r"
    using Cons d(2,5) unused_slot_empty [of sv i] rdy' by auto
  have "slotvec_inv ?r" using rdy' Cons by (auto simp: slotvec_inv_def)
  then obtain sv' where sv': "tcmi_slot_insert i n ?r = Some sv'" "slotvec_inv sv'" "\<not> sv_locked sv'"
      "nslots sv' = nslots sv" "sv_unused sv' = r" "nodes_at sv' i = n # nodes_at ?r i"
      "\<forall>j. j \<noteq> i \<longrightarrow> nodes_at sv' j = nodes_at ?r j"
    using slot_insert_ok [of ?r i n] i fresh rdy' by (auto simp: fresh_node_def remove1_idem)
  moreover have "tcmi_slotvec_insert_at_empty sv n = Some (Some i, sv')"
    using reserve_empty_ok [OF rdy] Cons sv'(1) by (simp add: tcmi_slotvec_insert_at_empty_def)
  ultimately show ?thesis using Cons i by (auto simp: slotvec_ready_def)
qed

fun insert_all :: "'n tcmi_slotvec \<Rightarrow> 'n list \<Rightarrow> (nat option list \<times> 'n tcmi_slotvec) option" where
  "insert_all sv [] = Some ([], sv)"
| "insert_all sv (n # ns) = do {
     (r, sv) \<leftarrow> tcmi_slotvec_insert_at_empty sv n;
     (rs, sv) \<leftarrow> insert_all sv ns;
     Some (r # rs, sv)
   }"

lemma insert_all_ok:
  "\<lbrakk>slotvec_ready sv; distinct ns; \<forall>n \<in> set ns. fresh_node n sv\<rbrakk> \<Longrightarrow>
   \<exists>sv'. insert_all sv ns = Some (map Some (take (length ns) (sv_unused sv)) @
       replicate (length ns - length (sv_unused sv)) None, sv') \<and> slotvec_ready sv'"
proof (induction ns arbitrary: sv)
  case Nil
  then show ?case by simp
next
  case (Cons n ns)
  obtain sv' where s: "tcmi_slotvec_insert_at_empty sv n =
      Some (case sv_unused sv of [] \<Rightarrow> None | i # _ \<Rightarrow> Some i, sv')"
    "slotvec_ready sv'" "nslots sv' = nslots sv" "sv_unused sv' = tl (sv_unused sv)"
    "\<forall>j < nslots sv. nodes_at sv' j =
       (if sv_unused sv \<noteq> [] \<and> j = hd (sv_unused sv) then [n] else nodes_at sv j)"
    using insert_at_empty_ok [OF Cons.prems(1), of n] Cons.prems(3) by auto
  have "\<forall>m \<in> set ns. fresh_node m sv'"
    using Cons.prems(2,3) s(3,5) by (auto simp: fresh_node_def)
  then obtain sv'' where "insert_all sv' ns = Some (map Some (take (length ns) (sv_unused sv')) @
       replicate (length ns - length (sv_unused sv')) None, sv'')" "slotvec_ready sv''"
    using Cons.IH [OF s(2)] Cons.prems(2) by auto
  then show ?case using s(1,4) by (cases "sv_unused sv") simp_all
qed

lemma remove_safe_eq:
  assumes "\<not> sv_locked sv"
  shows "tcmi_slot_remove_safe (Some i) n sv =
    (if n \<in> set (nodes_at sv i) then tcmi_slot_remove (Some i) n sv else Some sv)"
  using assms
  by (auto simp: tcmi_slot_remove_safe_def tcmi_slot_remove_def tcmi_slot_lock_def tcmi_slot_unlock_def
      Let_def list_ex_iff)

lemma hash_in_range:
  assumes "order < 32"
  shows "(h AND (push_bit order 1 - 1) :: u32) < push_bit order 1"
proof -
  let ?p = "push_bit order 1 :: u32"
  have "bit ?p order" using assms by (simp add: bit_exp_iff)
  then have "?p \<noteq> 0" by (metis bit_0_eq bot_apply bot_bool_def)
  then have "unat (?p - 1) < unat ?p"
    using unat_gt_0 [of ?p] by (simp add: unat_sub word_le_nat_alt)
  moreover have "unat (h AND (?p - 1)) \<le> unat (?p - 1)"
    using word_and_le1 [of h "?p - 1"] by (simp add: word_le_nat_alt)
  ultimately show ?thesis by (simp add: word_less_nat_alt)
qed

subsection \<open>Properties\<close>

text \<open>
  C28. Allocation in a new slot vector: inserting distinct items into empty slots one
  after the other hands out the slots 0, 1, 2, ... in this order, never the same slot
  twice, and reports that there is none left exactly when all slots are taken.
\<close>
theorem slotvec_allocates_in_order:
  assumes "tcmi_slotvec_new vec slots_ok sz = Some sv" "distinct ns"
  shows "\<exists>sv'. insert_all sv ns =
      Some (map (\<lambda>k. if k < unat sz then Some k else None) [0..<length ns], sv') \<and> slotvec_ready sv'"
proof -
  note n = slotvec_new_ok [OF assms(1)]
  obtain sv' where "insert_all sv ns = Some (map Some (take (length ns) (sv_unused sv)) @
       replicate (length ns - length (sv_unused sv)) None, sv')" "slotvec_ready sv'"
    using insert_all_ok [of sv ns] n assms(2) by (auto simp: fresh_node_def)
  moreover have "map Some (take (length ns) [0..<unat sz]) @ replicate (length ns - unat sz) None =
      map (\<lambda>k. if k < unat sz then Some k else None) [0..<length ns]"
    by (rule nth_equalityI) (auto simp: nth_append)
  ultimately show ?thesis using n by simp
qed

definition blank_vec :: "nat tcmi_slotvec" where
  "blank_vec = \<lparr>sv_slots = [], sv_slot_count = 0, sv_hashmsk = 99, sv_unused = [], sv_used = [],
     sv_ref_count = 0, sv_locked = True\<rparr>"

theorem slotvec_allocates_in_order_witness:
  "\<exists>sv sv'. tcmi_slotvec_new (Some blank_vec) (\<lambda>_. True) 2 = Some sv \<and>
    insert_all sv [71, 72, 73] = Some ([Some 0, Some 1, None], sv')"
proof -
  obtain sv where sv: "tcmi_slotvec_new (Some blank_vec) (\<lambda>_. True) 2 = Some sv"
    by (simp add: tcmi_slotvec_new_def)
  show ?thesis using slotvec_allocates_in_order [OF sv, of "[71, 72, 73]"] sv
    by (auto simp: upt_rec)
qed

text \<open>
  C29. Inserting an item into any slot of a well-formed vector and removing it again
  succeeds, restores the items of every slot, and keeps the vector well formed: the
  slot is on the used list exactly while it holds an item.
\<close>
theorem slot_insert_remove_restores:
  assumes "slotvec_ready sv" "i < nslots sv" "fresh_node n sv"
  shows "\<exists>sv1 sv2. tcmi_slot_insert i n sv = Some sv1 \<and> i \<in> set (sv_used sv1) \<and>
    tcmi_slot_remove (Some i) n sv1 = Some sv2 \<and> slotvec_ready sv2 \<and>
    (\<forall>j < nslots sv. nodes_at sv2 j = nodes_at sv j)"
proof -
  obtain sv1 sv2 where "tcmi_slot_insert i n sv = Some sv1" "tcmi_slot_remove (Some i) n sv1 = Some sv2"
      "slotvec_ready sv2" "\<forall>j < nslots sv. nodes_at sv2 j = nodes_at sv j"
    using sv.ins_del [OF assms(1,2)] assms(3) unfolding fresh_node_def by blast
  moreover have "i \<in> set (sv_used sv1)"
    using slot_insert_ok [OF _ assms(2,3)] assms(1) calculation(1) by (auto simp: slotvec_ready_def)
  ultimately show ?thesis by blast
qed

theorem slot_insert_remove_restores_witness:
  "\<exists>sv sv1 sv2. tcmi_slotvec_new (Some blank_vec) (\<lambda>_. True) 2 = Some sv \<and>
     tcmi_slot_insert 1 9 sv = Some sv1 \<and> 1 \<in> set (sv_used sv1) \<and>
     tcmi_slot_remove (Some 1) 9 sv1 = Some sv2 \<and> nodes_at sv2 1 = []"
proof -
  obtain sv where sv: "tcmi_slotvec_new (Some blank_vec) (\<lambda>_. True) 2 = Some sv"
    by (simp add: tcmi_slotvec_new_def)
  have "slotvec_ready sv" "1 < nslots sv" "fresh_node 9 sv" "nodes_at sv 1 = []"
    using slotvec_new_ok [OF sv] by (auto simp: fresh_node_def)
  then show ?thesis using slot_insert_remove_restores [of sv 1 9] sv by fastforce
qed

text \<open>
  The safe removal takes an item out of a slot only if it hangs in that slot; an
  item of another slot is left alone, while the plain removal would unlink it.
\<close>
theorem slot_remove_safe_only_own:
  assumes "slotvec_ready sv" "i < nslots sv" "j < nslots sv" "i \<noteq> j" "n \<in> set (nodes_at sv j)"
  shows "tcmi_slot_remove_safe (Some i) n sv = Some sv \<and>
    tcmi_slot_remove_safe (Some j) n sv = tcmi_slot_remove (Some j) n sv"
  using assms node_unique [of sv i j n] remove_safe_eq [of sv] by (auto simp: slotvec_ready_def)

theorem slot_remove_safe_only_own_witness:
  "\<exists>sv sv1. tcmi_slotvec_new (Some blank_vec) (\<lambda>_. True) 2 = Some sv \<and>
     tcmi_slot_insert 1 9 sv = Some sv1 \<and> tcmi_slot_remove_safe (Some 0) 9 sv1 = Some sv1"
proof -
  obtain sv where sv: "tcmi_slotvec_new (Some blank_vec) (\<lambda>_. True) 2 = Some sv"
    by (simp add: tcmi_slotvec_new_def)
  have n: "slotvec_ready sv" "1 < nslots sv" "\<forall>j < nslots sv. 9 \<notin> set (nodes_at sv j)"
    using slotvec_new_ok [OF sv] by auto
  then have "sv_slots sv \<noteq> []" by auto
  moreover obtain sv1 where "tcmi_slot_insert 1 9 sv = Some sv1" "slotvec_ready sv1" "nslots sv1 = nslots sv"
      "9 \<in> set (nodes_at sv1 1)"
    using sv.ins_law [OF n] by auto
  ultimately show ?thesis using slot_remove_safe_only_own [of sv1 0 1 9] n sv by auto
qed

text \<open>
  In a slot vector created as a hash table with \<open>2 ^ order\<close> buckets, every hash
  value masked with the stored hash mask names an existing slot, so that inserting
  under it cannot fail for the lack of a slot.
\<close>
theorem slotvec_hash_always_has_slot:
  assumes "tcmi_slotvec_hnew vec slots_ok order = Some sv" "order < 32"
  shows "\<exists>i. tcmi_slotvec_at sv (h AND sv_hashmsk sv) = Some i \<and> i < nslots sv"
proof -
  obtain v where v: "tcmi_slotvec_new vec slots_ok (push_bit order 1) = Some v"
      "sv = v\<lparr>sv_hashmsk := sv_slot_count v - 1\<rparr>"
    using assms(1) by (auto simp: tcmi_slotvec_hnew_def split: option.splits)
  then show ?thesis
    using slotvec_new_ok [OF v(1)] hash_in_range [OF assms(2), of h]
    by (auto simp: tcmi_slotvec_at_def word_less_nat_alt)
qed

theorem slotvec_hash_always_has_slot_witness:
  "\<exists>sv i. tcmi_slotvec_hnew (Some blank_vec) (\<lambda>_. True) 3 = Some sv \<and> tcmi_slotvec_at sv (1000003 AND sv_hashmsk sv) = Some i"
proof -
  obtain sv where sv: "tcmi_slotvec_hnew (Some blank_vec) (\<lambda>_. True) 3 = Some sv"
    by (simp add: tcmi_slotvec_hnew_def tcmi_slotvec_new_def)
  show ?thesis using slotvec_hash_always_has_slot [OF sv, of 1000003] sv by auto
qed

end
