(* ===== verification/Tcmi_Transaction.thy ===== *)
theory Tcmi_Transaction
  imports Tcmi_Slotvec
begin

text \<open>
  Transactions (\<^verbatim>\<open>src/tcmi/comm/tcmi_transaction.h\<close>, \<^verbatim>\<open>tcmi_transaction.c\<close>): a request
  that waits for a response with a given identifier, a timer that aborts it, a
  reference counter, and a hash table in which a response finds it.

  Transactions live on a heap addressed by numbers; the slot vector holds the
  addresses. \<open>None\<close> as the result of an operation means that the code touches a
  transaction that has been freed or spins on a lock that is held. The timer is armed
  or not; its expiry is an operation of its own that may happen while it is armed.
\<close>

subsection \<open>State\<close>

datatype tcmi_trans_state_t = TCMI_TRANSACTION_INIT | TCMI_TRANSACTION_RUNNING
  | TCMI_TRANSACTION_COMPLETE | TCMI_TRANSACTION_ABORTED

abbreviation (input) TCMI_TRANSACTION_INVAL_ID :: u32 where "TCMI_TRANSACTION_INVAL_ID \<equiv> 0"

definition TCMI_TRANS_FLAGS_ANONYMOUS :: u32 where "TCMI_TRANS_FLAGS_ANONYMOUS = 1"
definition TCMI_TRANS_FLAGS_EXPIRED :: u32 where "TCMI_TRANS_FLAGS_EXPIRED = 2"

record 'c tcmi_transaction =
  t_slot :: "nat option"
  t_id :: u32
  t_resp_id :: u32
  t_state :: tcmi_trans_state_t
  t_flags :: u32
  t_armed :: bool
  t_expires :: u64
  t_context :: "'c option"
  t_ref_count :: int
  t_locked :: bool
  t_wakeups :: nat

record 'c trans_table =
  tt_vec :: "nat tcmi_slotvec"
  tt_heap :: "nat \<rightharpoonup> 'c tcmi_transaction"

definition tt_store :: "nat \<Rightarrow> 'c tcmi_transaction \<Rightarrow> 'c trans_table \<Rightarrow> 'c trans_table" where
  "tt_store a t tt = tt\<lparr>tt_heap := (tt_heap tt)(a \<mapsto> t)\<rparr>"

subsection \<open>Accessors\<close>

definition tcmi_transaction_lock :: "'c tcmi_transaction \<Rightarrow> 'c tcmi_transaction option" where
  "tcmi_transaction_lock self = (if t_locked self then None else Some (self\<lparr>t_locked := True\<rparr>))"

definition tcmi_transaction_unlock :: "'c tcmi_transaction \<Rightarrow> 'c tcmi_transaction" where
  "tcmi_transaction_unlock self = self\<lparr>t_locked := False\<rparr>"

definition tcmi_transaction_get :: "'c tcmi_transaction \<Rightarrow> 'c tcmi_transaction" where
  "tcmi_transaction_get self = self\<lparr>t_ref_count := t_ref_count self + 1\<rparr>"

definition tcmi_transaction_set_flags :: "u32 \<Rightarrow> 'c tcmi_transaction \<Rightarrow> 'c tcmi_transaction" where
  "tcmi_transaction_set_flags flags self = self\<lparr>t_flags := t_flags self OR flags\<rparr>"

definition tcmi_transaction_is_complete :: "'c tcmi_transaction \<Rightarrow> bool" where
  "tcmi_transaction_is_complete self \<longleftrightarrow> t_state self = TCMI_TRANSACTION_COMPLETE"

definition tcmi_transaction_is_aborted :: "'c tcmi_transaction \<Rightarrow> bool" where
  "tcmi_transaction_is_aborted self \<longleftrightarrow> t_state self = TCMI_TRANSACTION_ABORTED"

definition tcmi_transaction_is_running :: "'c tcmi_transaction \<Rightarrow> bool" where
  "tcmi_transaction_is_running self \<longleftrightarrow> t_state self = TCMI_TRANSACTION_RUNNING"

definition tcmi_transaction_is_anon :: "'c tcmi_transaction \<Rightarrow> bool" where
  "tcmi_transaction_is_anon self \<longleftrightarrow> t_flags self AND TCMI_TRANS_FLAGS_ANONYMOUS \<noteq> 0"

definition tcmi_transaction_is_expired :: "'c tcmi_transaction \<Rightarrow> bool" where
  "tcmi_transaction_is_expired self \<longleftrightarrow> t_flags self AND TCMI_TRANS_FLAGS_EXPIRED \<noteq> 0"

definition tcmi_transaction_set_expired :: "'c tcmi_transaction \<Rightarrow> 'c tcmi_transaction" where
  "tcmi_transaction_set_expired self = tcmi_transaction_set_flags TCMI_TRANS_FLAGS_EXPIRED self"

definition tcmi_transaction_hash :: "u32 \<Rightarrow> u32 \<Rightarrow> u32" where
  "tcmi_transaction_hash trans_id hashmask = (drop_bit 16 trans_id XOR trans_id) AND hashmask"

definition tcmi_transaction_notify_owner :: "'c tcmi_transaction \<Rightarrow> 'c tcmi_transaction" where
  "tcmi_transaction_notify_owner self = self\<lparr>t_wakeups := t_wakeups self + 1\<rparr>"

text \<open>Waiting: \<open>None\<close> is the caller asleep; \<open>signalled\<close> is a pending signal.\<close>

definition tcmi_transaction_wait :: "'c tcmi_transaction \<Rightarrow> tcmi_trans_state_t option" where
  "tcmi_transaction_wait self =
     (if tcmi_transaction_is_aborted self \<or> tcmi_transaction_is_complete self
      then Some (t_state self) else None)"

definition tcmi_transaction_wait_interruptible ::
  "bool \<Rightarrow> 'c tcmi_transaction \<Rightarrow> (int + tcmi_trans_state_t) option" where
  "tcmi_transaction_wait_interruptible signalled self =
     (if tcmi_transaction_is_aborted self \<or> tcmi_transaction_is_complete self
      then Some (Inr (t_state self))
      else if signalled then Some (Inl (- ERESTARTSYS)) else None)"

subsection \<open>Operations\<close>

text \<open>
  \<open>rnd\<close> is the stream of 32-bit values \<^verbatim>\<open>get_random_bytes\<close> delivers, read from position
  \<open>k\<close> on; the loop draws until the value is not the invalid identifier.
\<close>

partial_function (option) tcmi_transaction_gen_id :: "(nat \<Rightarrow> u32) \<Rightarrow> nat \<Rightarrow> (u32 \<times> nat) option" where
  "tcmi_transaction_gen_id rnd k =
     (let i = rnd k in
      if i = TCMI_TRANSACTION_INVAL_ID then tcmi_transaction_gen_id rnd (k + 1)
      else Some (i, k + 1))"

text \<open>
  \<open>mem\<close> is the address the allocator returns (\<open>None\<close> when it fails). The result is the
  address of the new transaction, or \<open>None\<close> when none could be created.
\<close>

definition tcmi_transaction_new ::
  "nat option \<Rightarrow> (nat \<Rightarrow> u32) \<Rightarrow> nat \<Rightarrow> 'c trans_table \<Rightarrow> u32 \<Rightarrow> u64 \<Rightarrow>
   (nat option \<times> 'c trans_table \<times> nat) option" where
  "tcmi_transaction_new mem rnd k tt resp_id timeout =
     (case mem of
        None \<Rightarrow> Some (None, tt, k)
      | Some a \<Rightarrow> do {
          (i, k) \<leftarrow> tcmi_transaction_gen_id rnd k;
          let hash = tcmi_transaction_hash i (sv_hashmsk (tt_vec tt));
          let trans = \<lparr>t_slot = None, t_id = i, t_resp_id = resp_id, t_state = TCMI_TRANSACTION_INIT,
              t_flags = 0, t_armed = False, t_expires = timeout, t_context = None, t_ref_count = 1,
              t_locked = False, t_wakeups = 0\<rparr>;
          (slot, vec) \<leftarrow> tcmi_slotvec_insert_at (tt_vec tt) hash a;
          (case slot of
             None \<Rightarrow> Some (None, tt\<lparr>tt_vec := vec\<rparr>, k)
           | Some s \<Rightarrow> Some (Some a, tt_store a (trans\<lparr>t_slot := Some s\<rparr>) (tt\<lparr>tt_vec := vec\<rparr>), k))
        })"

definition tcmi_transaction_start :: "u64 \<Rightarrow> nat \<Rightarrow> u32 \<Rightarrow> 'c trans_table \<Rightarrow> (int \<times> 'c trans_table) option" where
  "tcmi_transaction_start jiffies self flags tt = do {
     t \<leftarrow> tt_heap tt self;
     t \<leftarrow> tcmi_transaction_lock t;
     (if t_state t \<noteq> TCMI_TRANSACTION_INIT then
        Some (- EINVAL, tt_store self (tcmi_transaction_unlock t) tt)
      else do {
        let t = tcmi_transaction_get t;
        let t = tcmi_transaction_set_flags flags t;
        let t = t\<lparr>t_expires := t_expires t + jiffies, t_state := TCMI_TRANSACTION_RUNNING, t_armed := True\<rparr>;
        Some (0, tt_store self (tcmi_transaction_unlock t) tt)
      })
   }"

definition tcmi_transaction_put :: "nat option \<Rightarrow> 'c trans_table \<Rightarrow> 'c trans_table option" where
  "tcmi_transaction_put self tt =
     (case self of
        None \<Rightarrow> Some tt
      | Some a \<Rightarrow> do {
          t \<leftarrow> tt_heap tt a;
          vec \<leftarrow> tcmi_slotvec_lock (tt_vec tt);
          let t = t\<lparr>t_ref_count := t_ref_count t - 1\<rparr>;
          (if t_ref_count t = 0 then do {
             vec \<leftarrow> tcmi_slot_remove (t_slot t) a vec;
             Some (tt\<lparr>tt_vec := tcmi_slotvec_unlock vec, tt_heap := (tt_heap tt)(a := None)\<rparr>)
           }
           else Some ((tt_store a t tt)\<lparr>tt_vec := tcmi_slotvec_unlock vec\<rparr>))
        })"

definition tcmi_transaction_abort :: "nat \<Rightarrow> 'c trans_table \<Rightarrow> ('c option \<times> 'c trans_table) option" where
  "tcmi_transaction_abort self tt = do {
     t \<leftarrow> tt_heap tt self;
     t \<leftarrow> tcmi_transaction_lock (t\<lparr>t_armed := False\<rparr>);
     let put_needed = \<not> tcmi_transaction_is_expired t;
     let t = (if put_needed then tcmi_transaction_set_expired t else t);
     let t = (if \<not> tcmi_transaction_is_complete t
              then tcmi_transaction_notify_owner (t\<lparr>t_state := TCMI_TRANSACTION_ABORTED\<rparr>) else t);
     let t = tcmi_transaction_unlock t;
     let tt = tt_store self t tt;
     (if put_needed then do { tt \<leftarrow> tcmi_transaction_put (Some self) tt; Some (None, tt) }
      else Some (t_context t, tt))
   }"

definition tcmi_transaction_complete ::
  "nat \<Rightarrow> 'c option \<Rightarrow> u32 \<Rightarrow> 'c trans_table \<Rightarrow> (int \<times> 'c trans_table) option" where
  "tcmi_transaction_complete self context resp_id tt = do {
     t \<leftarrow> tt_heap tt self;
     t \<leftarrow> tcmi_transaction_lock (t\<lparr>t_armed := False\<rparr>);
     let put_needed = \<not> tcmi_transaction_is_expired t;
     let t = (if put_needed then tcmi_transaction_set_expired t else t);
     let (err, t) =
       (if \<not> tcmi_transaction_is_running t then (- EINVAL, t)
        else if t_resp_id t = resp_id then
          (0, tcmi_transaction_notify_owner (t\<lparr>t_state := TCMI_TRANSACTION_COMPLETE, t_context := context\<rparr>))
        else (- EINVAL, tcmi_transaction_notify_owner (t\<lparr>t_state := TCMI_TRANSACTION_ABORTED\<rparr>)));
     let tt = tt_store self (tcmi_transaction_unlock t) tt;
     (if put_needed then do { tt \<leftarrow> tcmi_transaction_put (Some self) tt; Some (err, tt) }
      else Some (err, tt))
   }"

definition tcmi_transaction_lookup :: "'c trans_table \<Rightarrow> u32 \<Rightarrow> (nat option \<times> 'c trans_table) option" where
  "tcmi_transaction_lookup tt trans_id = do {
     let hash = tcmi_transaction_hash trans_id (sv_hashmsk (tt_vec tt));
     vec \<leftarrow> tcmi_slotvec_lock (tt_vec tt);
     (case tcmi_slotvec_at vec hash of
        None \<Rightarrow> Some (None, tt\<lparr>tt_vec := tcmi_slotvec_unlock vec\<rparr>)
      | Some slot \<Rightarrow>
          (case slot_for_each_until
                  (\<lambda>a. case tt_heap tt a of Some t \<Rightarrow> t_id t = trans_id | None \<Rightarrow> False)
                  None (nodes_at vec slot) of
             None \<Rightarrow> Some (None, tt\<lparr>tt_vec := tcmi_slotvec_unlock vec\<rparr>)
           | Some a \<Rightarrow> do {
               t \<leftarrow> tt_heap tt a;
               Some (Some a, (tt_store a (tcmi_transaction_get t) tt)\<lparr>tt_vec := tcmi_slotvec_unlock vec\<rparr>)
             }))
   }"

definition tcmi_transaction_timer :: "nat \<Rightarrow> 'c trans_table \<Rightarrow> 'c trans_table option" where
  "tcmi_transaction_timer self tt = do {
     t \<leftarrow> tt_heap tt self;
     let t = t\<lparr>t_armed := False, t_state := TCMI_TRANSACTION_ABORTED\<rparr>;
     let t = tcmi_transaction_notify_owner (tcmi_transaction_set_expired t);
     tcmi_transaction_put (Some self) (tt_store self t tt)
   }"

subsection \<open>Invariants\<close>

text \<open>
  \<open>tt_core tt cr\<close>: the table is well formed, every live transaction hangs in its own
  slot, the slots hold only live transactions, and \<open>cr\<close> gives each reference counter.
\<close>

definition tt_core :: "'c trans_table \<Rightarrow> (nat \<Rightarrow> int) \<Rightarrow> bool" where
  "tt_core tt cr \<longleftrightarrow> slotvec_ready (tt_vec tt) \<and>
     (\<forall>a t. tt_heap tt a = Some t \<longrightarrow> t_ref_count t = cr a \<and> 0 < cr a \<and>
        (\<exists>i < nslots (tt_vec tt). t_slot t = Some i \<and> a \<in> set (nodes_at (tt_vec tt) i))) \<and>
     (\<forall>a. tt_heap tt a = None \<longrightarrow> cr a = 0) \<and>
     (\<forall>i < nslots (tt_vec tt). \<forall>a \<in> set (nodes_at (tt_vec tt) i).
        \<exists>t. tt_heap tt a = Some t \<and> t_slot t = Some i)"

text \<open>
  \<open>st_ok\<close>: the timer is armed exactly while the transaction runs, and the transaction
  is marked expired exactly when it has been completed or aborted.
\<close>

definition st_ok :: "'c tcmi_transaction \<Rightarrow> bool" where
  "st_ok t \<longleftrightarrow> \<not> t_locked t \<and> t_id t \<noteq> TCMI_TRANSACTION_INVAL_ID \<and>
     (t_armed t \<longleftrightarrow> t_state t = TCMI_TRANSACTION_RUNNING) \<and>
     (tcmi_transaction_is_expired t \<longleftrightarrow>
        t_state t = TCMI_TRANSACTION_COMPLETE \<or> t_state t = TCMI_TRANSACTION_ABORTED)"

definition timer_ref :: "'c trans_table \<Rightarrow> nat \<Rightarrow> int" where
  "timer_ref tt a = (case tt_heap tt a of Some t \<Rightarrow> if t_armed t then 1 else 0 | None \<Rightarrow> 0)"

definition mask_ok :: "nat tcmi_slotvec \<Rightarrow> bool" where
  "mask_ok vec \<longleftrightarrow> (\<forall>h. h AND sv_hashmsk vec < sv_slot_count vec)"

definition hash_slot :: "nat tcmi_slotvec \<Rightarrow> u32 \<Rightarrow> nat" where
  "hash_slot vec i = unat (tcmi_transaction_hash i (sv_hashmsk vec))"

text \<open>\<open>ext a\<close> counts the references that clients hold on the transaction at \<open>a\<close>.\<close>

definition tt_ok :: "'c trans_table \<Rightarrow> (nat \<Rightarrow> nat) \<Rightarrow> bool" where
  "tt_ok tt ext \<longleftrightarrow> tt_core tt (\<lambda>a. int (ext a) + timer_ref tt a) \<and> mask_ok (tt_vec tt) \<and>
     (\<forall>a t. tt_heap tt a = Some t \<longrightarrow> st_ok t \<and> t_slot t = Some (hash_slot (tt_vec tt) (t_id t)))"

lemma expired_set [simp]: "tcmi_transaction_is_expired (tcmi_transaction_set_expired t)"
  by (simp add: tcmi_transaction_is_expired_def tcmi_transaction_set_expired_def
      tcmi_transaction_set_flags_def TCMI_TRANS_FLAGS_EXPIRED_def bit.conj_disj_distrib2)

lemma set_expired_fields [simp]:
  "t_slot (tcmi_transaction_set_expired t) = t_slot t" "t_id (tcmi_transaction_set_expired t) = t_id t"
  "t_state (tcmi_transaction_set_expired t) = t_state t" "t_armed (tcmi_transaction_set_expired t) = t_armed t"
  "t_ref_count (tcmi_transaction_set_expired t) = t_ref_count t"
  "t_locked (tcmi_transaction_set_expired t) = t_locked t"
  "t_resp_id (tcmi_transaction_set_expired t) = t_resp_id t"
  "t_context (tcmi_transaction_set_expired t) = t_context t"
  by (simp_all add: tcmi_transaction_set_expired_def tcmi_transaction_set_flags_def)

lemma expired_frame [simp]:
  "tcmi_transaction_is_expired (t\<lparr>t_state := s\<rparr>) = tcmi_transaction_is_expired t"
  "tcmi_transaction_is_expired (t\<lparr>t_armed := b\<rparr>) = tcmi_transaction_is_expired t"
  "tcmi_transaction_is_expired (t\<lparr>t_locked := b\<rparr>) = tcmi_transaction_is_expired t"
  "tcmi_transaction_is_expired (t\<lparr>t_context := c\<rparr>) = tcmi_transaction_is_expired t"
  "tcmi_transaction_is_expired (t\<lparr>t_ref_count := r\<rparr>) = tcmi_transaction_is_expired t"
  "tcmi_transaction_is_expired (t\<lparr>t_wakeups := w\<rparr>) = tcmi_transaction_is_expired t"
  "tcmi_transaction_is_expired (t\<lparr>t_expires := e\<rparr>) = tcmi_transaction_is_expired t"
  by (simp_all add: tcmi_transaction_is_expired_def)

lemma tt_coreD:
  assumes "tt_core tt cr" "tt_heap tt a = Some t"
  shows "t_ref_count t = cr a" "0 < cr a"
    "\<exists>i < nslots (tt_vec tt). t_slot t = Some i \<and> a \<in> set (nodes_at (tt_vec tt) i)"
  using assms by (auto simp: tt_core_def)

lemma tt_core_node:
  assumes "tt_core tt cr" "i < nslots (tt_vec tt)" "a \<in> set (nodes_at (tt_vec tt) i)"
  shows "\<exists>t. tt_heap tt a = Some t \<and> t_slot t = Some i"
proof -
  have "\<forall>i < nslots (tt_vec tt). \<forall>a \<in> set (nodes_at (tt_vec tt) i). \<exists>t. tt_heap tt a = Some t \<and> t_slot t = Some i"
    using assms(1) unfolding tt_core_def by (elim conjE)
  then show ?thesis using assms(2,3) by blast
qed

lemma tt_core_None: "tt_core tt cr \<Longrightarrow> tt_heap tt a = None \<Longrightarrow> cr a = 0"
  by (simp add: tt_core_def)

lemma tt_core_ready: "tt_core tt cr \<Longrightarrow> slotvec_ready (tt_vec tt)"
  by (simp add: tt_core_def)

lemma tt_coreI:
  assumes "slotvec_ready (tt_vec tt)" "\<And>a. tt_heap tt a = None \<Longrightarrow> cr a = 0"
    and "\<And>a t. tt_heap tt a = Some t \<Longrightarrow> t_ref_count t = cr a \<and> 0 < cr a"
    and "\<And>a t. tt_heap tt a = Some t \<Longrightarrow>
      \<exists>i < nslots (tt_vec tt). t_slot t = Some i \<and> a \<in> set (nodes_at (tt_vec tt) i)"
    and "\<And>i a. i < nslots (tt_vec tt) \<Longrightarrow> a \<in> set (nodes_at (tt_vec tt) i) \<Longrightarrow>
      \<exists>t. tt_heap tt a = Some t \<and> t_slot t = Some i"
  shows "tt_core tt cr"
  unfolding tt_core_def using assms by (intro conjI allI impI ballI) simp_all

lemma store_core:
  assumes "tt_core tt cr" "tt_heap tt a = Some t" "t_slot t' = t_slot t" "t_ref_count t' = n" "0 < n"
  shows "tt_core (tt_store a t' tt) (cr(a := n))"
proof (rule tt_coreI)
  show "slotvec_ready (tt_vec (tt_store a t' tt))"
    using tt_core_ready [OF assms(1)] by (simp add: tt_store_def)
next
  fix b assume "tt_heap (tt_store a t' tt) b = None"
  then show "(cr(a := n)) b = 0"
    using tt_core_None [OF assms(1), of b] by (cases "b = a") (simp_all add: tt_store_def)
next
  fix b u assume u: "tt_heap (tt_store a t' tt) b = Some u"
  then show "t_ref_count u = (cr(a := n)) b \<and> 0 < (cr(a := n)) b"
    using assms(4,5) tt_coreD(1,2) [OF assms(1), of b u] by (cases "b = a") (simp_all add: tt_store_def)
  show "\<exists>i < nslots (tt_vec (tt_store a t' tt)). t_slot u = Some i \<and> b \<in> set (nodes_at (tt_vec (tt_store a t' tt)) i)"
    using u assms(3) tt_coreD(3) [OF assms(1), of b u] tt_coreD(3) [OF assms(1,2)]
    by (cases "b = a") (simp_all add: tt_store_def)
next
  fix i b assume "i < nslots (tt_vec (tt_store a t' tt))" "b \<in> set (nodes_at (tt_vec (tt_store a t' tt)) i)"
  then show "\<exists>u. tt_heap (tt_store a t' tt) b = Some u \<and> t_slot u = Some i"
    using tt_core_node [OF assms(1), of i b] assms(2,3) by (auto simp: tt_store_def)
qed

lemma put_core:
  assumes core: "tt_core tt cr" and t: "tt_heap tt a = Some t"
  shows "\<exists>tt'. tcmi_transaction_put (Some a) tt = Some tt' \<and> tt_core tt' (cr(a := cr a - 1)) \<and>
    tt_heap tt' = (tt_heap tt)(a := if cr a = 1 then None else Some (t\<lparr>t_ref_count := cr a - 1\<rparr>)) \<and>
    sv_hashmsk (tt_vec tt') = sv_hashmsk (tt_vec tt) \<and> sv_slot_count (tt_vec tt') = sv_slot_count (tt_vec tt)"
proof -
  let ?l = "(tt_vec tt)\<lparr>sv_locked := True\<rparr>"
  note d = tt_coreD [OF core t]
  have rdy: "slotvec_inv (tt_vec tt)" "\<not> sv_locked (tt_vec tt)"
    using core by (auto simp: tt_core_def slotvec_ready_def)
  have lk: "tcmi_slot_lock (tt_vec tt) = Some ?l" using rdy by (simp add: tcmi_slot_lock_def)
  show ?thesis
  proof (cases "cr a = 1")
    case True
    obtain i where i: "i < nslots (tt_vec tt)" "t_slot t = Some i" "a \<in> set (nodes_at (tt_vec tt) i)"
      using d(3) by blast
    obtain v where v: "tcmi_slot_remove (Some i) a ?l = Some v" "slotvec_inv v"
      "sv_slot_count v = sv_slot_count ?l" "sv_hashmsk v = sv_hashmsk ?l" "nslots v = nslots ?l"
      "nodes_at v i = remove1 a (nodes_at ?l i)"
      "\<forall>j < nslots ?l. j \<noteq> i \<longrightarrow> nodes_at v j = nodes_at ?l j" "fresh_node a v"
      using slot_remove_ok [of ?l i a] rdy i by auto
    let ?tt' = "tt\<lparr>tt_vec := tcmi_slot_unlock v, tt_heap := (tt_heap tt)(a := None)\<rparr>"
    have put: "tcmi_transaction_put (Some a) tt = Some ?tt'"
      using t lk d(1) True v(1) i(2) by (simp add: tcmi_transaction_put_def Let_def)
    have nodes: "set (nodes_at v j) = set (nodes_at (tt_vec tt) j) - {a}" if "j < nslots (tt_vec tt)" for j
      using that v(6,7) node_unique [OF rdy(1) i(1) that i(3)] slotvec_invD(8) [OF rdy(1)]
      by (cases "j = i") (auto simp: slots_disjoint_def)
    have slot: "\<exists>i < nslots v. t_slot u = Some i \<and> b \<in> set (nodes_at v i)"
      if "tt_heap tt b = Some u" "b \<noteq> a" for b u
      using tt_coreD(3) [OF core that(1)] nodes that(2) v(5) by auto
    have "tt_core ?tt' (cr(a := cr a - 1))"
    proof (rule tt_coreI)
      show "slotvec_ready (tt_vec ?tt')" using v(2) by (simp add: slotvec_ready_def tcmi_slot_unlock_def)
      show "\<And>b. tt_heap ?tt' b = None \<Longrightarrow> (cr(a := cr a - 1)) b = 0"
        using True tt_core_None [OF core] by (simp split: if_splits)
      show "\<And>b u. tt_heap ?tt' b = Some u \<Longrightarrow> t_ref_count u = (cr(a := cr a - 1)) b \<and> 0 < (cr(a := cr a - 1)) b"
        using tt_coreD(1,2) [OF core] by (simp split: if_splits)
      show "\<And>b u. tt_heap ?tt' b = Some u \<Longrightarrow>
        \<exists>i < nslots (tt_vec ?tt'). t_slot u = Some i \<and> b \<in> set (nodes_at (tt_vec ?tt') i)"
        using slot by (simp add: tcmi_slot_unlock_def split: if_splits)
      show "\<And>i b. i < nslots (tt_vec ?tt') \<Longrightarrow> b \<in> set (nodes_at (tt_vec ?tt') i) \<Longrightarrow>
        \<exists>u. tt_heap ?tt' b = Some u \<and> t_slot u = Some i"
        using tt_core_node [OF core] nodes v(5) by (simp add: tcmi_slot_unlock_def)
    qed
    then show ?thesis using put True v by (auto simp: tcmi_slot_unlock_def)
  next
    case False
    let ?tt' = "(tt_store a (t\<lparr>t_ref_count := t_ref_count t - 1\<rparr>) tt)\<lparr>tt_vec := tcmi_slot_unlock ?l\<rparr>"
    have "tcmi_transaction_put (Some a) tt = Some ?tt'"
      using t lk d(1) False by (simp add: tcmi_transaction_put_def Let_def)
    moreover have same: "?tt' = tt_store a (t\<lparr>t_ref_count := t_ref_count t - 1\<rparr>) tt"
      using rdy(2) by (simp add: tcmi_slot_unlock_def tt_store_def)
    moreover have "tt_core ?tt' (cr(a := cr a - 1))"
      unfolding same using store_core [OF core t, of "t\<lparr>t_ref_count := t_ref_count t - 1\<rparr>"] d False by simp
    ultimately show ?thesis using False d(1) by (simp add: tt_store_def)
  qed
qed

lemma tt_okD:
  assumes "tt_ok tt ext"
  shows "tt_core tt (\<lambda>a. int (ext a) + timer_ref tt a)" "mask_ok (tt_vec tt)"
    "tt_heap tt a = Some t \<Longrightarrow> st_ok t \<and> t_slot t = Some (hash_slot (tt_vec tt) (t_id t))"
    "tt_heap tt a = Some t \<Longrightarrow> t_ref_count t = int (ext a) + (if t_armed t then 1 else 0)"
    "tt_heap tt a = None \<Longrightarrow> ext a = 0"
  using assms tt_coreD(1) [of tt "\<lambda>a. int (ext a) + timer_ref tt a" a t]
    tt_core_None [of tt "\<lambda>a. int (ext a) + timer_ref tt a" a]
  by (auto simp: tt_ok_def timer_ref_def)

lemma tt_ok_live: "tt_ok tt ext \<Longrightarrow> 0 < ext a \<Longrightarrow> \<exists>t. tt_heap tt a = Some t"
  using tt_okD(5) [of tt ext a] by (cases "tt_heap tt a") auto

lemma tt_ok_ready: "tt_ok tt ext \<Longrightarrow> slotvec_ready (tt_vec tt)"
  using tt_core_ready tt_okD(1) by blast

lemma timer_ref_store [simp]:
  "timer_ref (tt_store a t tt) = (timer_ref tt)(a := if t_armed t then 1 else 0)"
  by (auto simp: timer_ref_def tt_store_def fun_eq_iff)

lemma timer_ref_vec [simp]: "timer_ref (tt\<lparr>tt_vec := v\<rparr>) = timer_ref tt"
  by (simp add: timer_ref_def fun_eq_iff)

lemma store_sel [simp]:
  "tt_heap (tt_store a t tt) = (tt_heap tt)(a \<mapsto> t)" "tt_vec (tt_store a t tt) = tt_vec tt"
  by (simp_all add: tt_store_def)

lemma store_ok:
  assumes ok: "tt_ok tt ext" and t: "tt_heap tt a = Some t"
    and same: "t_slot t' = t_slot t" "t_id t' = t_id t" and st: "st_ok t'"
    and ref: "t_ref_count t' = int n + (if t_armed t' then 1 else 0)" "0 < t_ref_count t'"
  shows "tt_ok (tt_store a t' tt) (ext(a := n))"
proof -
  have "tt_core (tt_store a t' tt) ((\<lambda>b. int (ext b) + timer_ref tt b)(a := t_ref_count t'))"
    by (rule store_core [OF tt_okD(1) [OF ok] t same(1) refl ref(2)])
  moreover have "(\<lambda>b. int (ext b) + timer_ref tt b)(a := t_ref_count t') =
      (\<lambda>b. int ((ext(a := n)) b) + timer_ref (tt_store a t' tt) b)"
    using ref(1) by (auto simp: fun_eq_iff)
  ultimately show ?thesis
    using tt_okD(2,3) [OF ok] t same st by (simp add: tt_ok_def)
qed

lemma put_ok:
  assumes core: "tt_core tt (\<lambda>b. int (ext b) + timer_ref tt b + (if b = a then 1 else 0))"
    and msk: "mask_ok (tt_vec tt)"
    and all: "\<forall>b t. tt_heap tt b = Some t \<longrightarrow> st_ok t \<and> t_slot t = Some (hash_slot (tt_vec tt) (t_id t))"
    and t: "tt_heap tt a = Some t"
  shows "\<exists>tt'. tcmi_transaction_put (Some a) tt = Some tt' \<and> tt_ok tt' ext \<and>
    tt_heap tt' = (tt_heap tt)(a := if int (ext a) + timer_ref tt a = 0 then None
       else Some (t\<lparr>t_ref_count := int (ext a) + timer_ref tt a\<rparr>))"
proof -
  define cr where "cr = (\<lambda>b. int (ext b) + timer_ref tt b + (if b = a then 1 else 0))"
  obtain tt' where p: "tcmi_transaction_put (Some a) tt = Some tt'" "tt_core tt' (cr(a := cr a - 1))"
    "tt_heap tt' = (tt_heap tt)(a := if cr a = 1 then None else Some (t\<lparr>t_ref_count := cr a - 1\<rparr>))"
    "sv_hashmsk (tt_vec tt') = sv_hashmsk (tt_vec tt)" "sv_slot_count (tt_vec tt') = sv_slot_count (tt_vec tt)"
    using put_core [OF core t] unfolding cr_def by blast
  have cra: "cr a = int (ext a) + timer_ref tt a + 1" by (simp add: cr_def)
  have tr: "timer_ref tt' = (timer_ref tt)(a := if cr a = 1 then 0 else timer_ref tt a)"
    using t by (auto simp: timer_ref_def p(3) fun_eq_iff)
  have nonneg: "0 \<le> timer_ref tt a" by (simp add: timer_ref_def split: option.split)
  have "(cr(a := cr a - 1)) = (\<lambda>b. int (ext b) + timer_ref tt' b)"
    using nonneg cra unfolding tr by (auto simp: cr_def fun_eq_iff)
  then have c': "tt_core tt' (\<lambda>b. int (ext b) + timer_ref tt' b)" using p(2) by simp
  have "st_ok u \<and> t_slot u = Some (hash_slot (tt_vec tt') (t_id u))" if "tt_heap tt' b = Some u" for b u
    using that all [rule_format, of b] all [rule_format, OF t] t p(3,4) by (auto simp: hash_slot_def st_ok_def split: if_splits)
  then have "tt_ok tt' ext" using c' msk p(4,5) by (simp add: tt_ok_def mask_ok_def)
  then show ?thesis using p(1,3) cra by simp
qed

lemma drop_timer_ok:
  assumes ok: "tt_ok tt ext" and t: "tt_heap tt a = Some t" "t_armed t"
    and t': "t_slot t' = t_slot t" "t_id t' = t_id t" "st_ok t'" "\<not> t_armed t'" "t_ref_count t' = t_ref_count t"
  shows "\<exists>tt'. tcmi_transaction_put (Some a) (tt_store a t' tt) = Some tt' \<and> tt_ok tt' ext \<and>
    tt_heap tt' = (tt_heap tt)(a := if ext a = 0 then None else Some (t'\<lparr>t_ref_count := int (ext a)\<rparr>))"
proof -
  let ?s = "tt_store a t' tt"
  have r: "t_ref_count t' = int (ext a) + 1" using tt_okD(4) [OF ok t(1)] t t'(5) by simp
  have "tt_core ?s ((\<lambda>b. int (ext b) + timer_ref tt b)(a := t_ref_count t'))"
    by (rule store_core [OF tt_okD(1) [OF ok] t(1) t'(1) refl]) (simp add: r)
  moreover have "(\<lambda>b. int (ext b) + timer_ref tt b)(a := t_ref_count t') =
      (\<lambda>b. int (ext b) + timer_ref ?s b + (if b = a then 1 else 0))"
    using r t'(4) by (auto simp: fun_eq_iff)
  ultimately have c: "tt_core ?s (\<lambda>b. int (ext b) + timer_ref ?s b + (if b = a then 1 else 0))" by simp
  have all: "\<forall>b u. tt_heap ?s b = Some u \<longrightarrow> st_ok u \<and> t_slot u = Some (hash_slot (tt_vec ?s) (t_id u))"
    using tt_okD(3) [OF ok] tt_okD(3) [OF ok t(1)] t' by simp
  have s: "tt_heap ?s a = Some t'" "mask_ok (tt_vec ?s)" using tt_okD(2) [OF ok] by simp_all
  have z: "timer_ref ?s a = 0" using t'(4) by simp
  show ?thesis using put_ok [OF c s(2) all s(1), unfolded z add_0_right] by (simp split: if_split_asm)
qed

lemma client_put_ok:
  assumes ok: "tt_ok tt ext" and e: "0 < ext a"
  shows "\<exists>tt'. tcmi_transaction_put (Some a) tt = Some tt' \<and> tt_ok tt' (ext(a := ext a - 1)) \<and>
    (tt_heap tt' a = None \<longleftrightarrow> ext a = 1 \<and> timer_ref tt a = 0)"
proof -
  obtain t where t: "tt_heap tt a = Some t" using tt_ok_live [OF ok e] by blast
  have "(\<lambda>b. int (ext b) + timer_ref tt b) =
      (\<lambda>b. int ((ext(a := ext a - 1)) b) + timer_ref tt b + (if b = a then 1 else 0))"
    using e by (auto simp: fun_eq_iff of_nat_diff)
  then have "tt_core tt (\<lambda>b. int ((ext(a := ext a - 1)) b) + timer_ref tt b + (if b = a then 1 else 0))"
    using tt_okD(1) [OF ok] by simp
  moreover have "\<forall>b u. tt_heap tt b = Some u \<longrightarrow> st_ok u \<and> t_slot u = Some (hash_slot (tt_vec tt) (t_id u))"
    using tt_okD(3) [OF ok] by blast
  ultimately obtain tt' where p: "tcmi_transaction_put (Some a) tt = Some tt'" "tt_ok tt' (ext(a := ext a - 1))"
      "tt_heap tt' = (tt_heap tt)(a := if int ((ext(a := ext a - 1)) a) + timer_ref tt a = 0 then None
       else Some (t\<lparr>t_ref_count := int ((ext(a := ext a - 1)) a) + timer_ref tt a\<rparr>))"
    using put_ok [OF _ tt_okD(2) [OF ok] _ t, of "ext(a := ext a - 1)"] by blast
  have "0 \<le> timer_ref tt a" by (simp add: timer_ref_def split: option.split)
  then have "tt_heap tt' a = None \<longleftrightarrow> ext a = 1 \<and> timer_ref tt a = 0"
    using e by (simp add: p(3))
  then show ?thesis using p(1,2) by (intro exI conjI)
qed

lemmas trans_simps = tcmi_transaction_lock_def tcmi_transaction_unlock_def tcmi_transaction_get_def
  tcmi_transaction_notify_owner_def tcmi_transaction_is_complete_def tcmi_transaction_is_running_def
  tcmi_transaction_is_aborted_def

lemma start_ok:
  assumes ok: "tt_ok tt ext" and e: "0 < ext a" and f: "flags AND TCMI_TRANS_FLAGS_EXPIRED = 0"
    and t: "tt_heap tt a = Some t"
  shows "\<exists>t'. tcmi_transaction_start j a flags tt =
      Some (if t_state t = TCMI_TRANSACTION_INIT then 0 else - EINVAL, tt_store a t' tt) \<and>
    tt_ok (tt_store a t' tt) ext \<and> t_context t' = t_context t \<and> t_resp_id t' = t_resp_id t \<and> t_id t' = t_id t \<and>
    t_state t' = (if t_state t = TCMI_TRANSACTION_INIT then TCMI_TRANSACTION_RUNNING else t_state t)"
proof -
  note st = tt_okD(3) [OF ok t, THEN conjunct1, unfolded st_ok_def]
  have r: "t_ref_count t = int (ext a) + (if t_armed t then 1 else 0)" by (rule tt_okD(4) [OF ok t])
  define t' where "t' = (if t_state t = TCMI_TRANSACTION_INIT
    then t\<lparr>t_ref_count := t_ref_count t + 1, t_flags := t_flags t OR flags,
        t_expires := t_expires t + j, t_state := TCMI_TRANSACTION_RUNNING, t_armed := True, t_locked := False\<rparr>
    else t\<lparr>t_locked := False\<rparr>)"
  have run: "tcmi_transaction_start j a flags tt =
      Some (if t_state t = TCMI_TRANSACTION_INIT then 0 else - EINVAL, tt_store a t' tt)"
    using t st by (simp add: tcmi_transaction_start_def trans_simps tcmi_transaction_set_flags_def t'_def)
  have "tcmi_transaction_is_expired (t\<lparr>t_flags := t_flags t OR flags\<rparr>) = tcmi_transaction_is_expired t"
    using f by (simp add: tcmi_transaction_is_expired_def bit.conj_disj_distrib2)
  then have "st_ok t'" using st by (simp add: t'_def st_ok_def tcmi_transaction_is_expired_def)
  then have "tt_ok (tt_store a t' tt) (ext(a := ext a))"
    using store_ok [OF ok t, of t' "ext a"] r e st by (simp add: t'_def)
  then show ?thesis using run by (auto simp: t'_def)
qed

lemma abort_running_ok:
  assumes ok: "tt_ok tt ext" and t: "tt_heap tt a = Some t" "t_state t = TCMI_TRANSACTION_RUNNING"
  shows "\<exists>tt' t'. tcmi_transaction_abort a tt = Some (None, tt') \<and> tt_ok tt' ext \<and>
    t_state t' = TCMI_TRANSACTION_ABORTED \<and> t_context t' = t_context t \<and>
    tt_heap tt' = (tt_heap tt)(a := if ext a = 0 then None else Some t')"
proof -
  note st = tt_okD(3) [OF ok t(1), THEN conjunct1, unfolded st_ok_def]
  define t' where "t' = (tcmi_transaction_set_expired (t\<lparr>t_armed := False, t_locked := True\<rparr>))
    \<lparr>t_state := TCMI_TRANSACTION_ABORTED, t_wakeups := t_wakeups (tcmi_transaction_set_expired (t\<lparr>t_armed := False, t_locked := True\<rparr>)) + 1, t_locked := False\<rparr>"
  have f: "st_ok t'" "\<not> t_armed t'" "t_slot t' = t_slot t" "t_id t' = t_id t" "t_ref_count t' = t_ref_count t"
    "t_state t' = TCMI_TRANSACTION_ABORTED" "t_context t' = t_context t"
    using st t by (simp_all add: t'_def st_ok_def)
  obtain tt' where p: "tcmi_transaction_put (Some a) (tt_store a t' tt) = Some tt'" "tt_ok tt' ext"
    "tt_heap tt' = (tt_heap tt)(a := if ext a = 0 then None else Some (t'\<lparr>t_ref_count := int (ext a)\<rparr>))"
    using drop_timer_ok [OF ok t(1) _ f(3,4,1,2,5)] st t by blast
  have "tcmi_transaction_abort a tt = Some (None, tt')"
    using t st p(1) by (simp add: tcmi_transaction_abort_def trans_simps Let_def t'_def)
  then show ?thesis
    using p(2,3) f(6,7) by (intro exI [of _ tt'] exI [of _ "t'\<lparr>t_ref_count := int (ext a)\<rparr>"]) simp
qed

lemma abort_finished_ok:
  assumes ok: "tt_ok tt ext" and e: "0 < ext a" and t: "tt_heap tt a = Some t"
    "t_state t = TCMI_TRANSACTION_COMPLETE \<or> t_state t = TCMI_TRANSACTION_ABORTED"
  shows "\<exists>t'. tcmi_transaction_abort a tt = Some (t_context t, tt_store a t' tt) \<and> tt_ok (tt_store a t' tt) ext \<and>
    t_state t' = t_state t \<and> t_context t' = t_context t"
proof -
  note st = tt_okD(3) [OF ok t(1), THEN conjunct1, unfolded st_ok_def]
  have r: "t_ref_count t = int (ext a)" using tt_okD(4) [OF ok t(1)] st t(2) by auto
  define t' where "t' = (if t_state t = TCMI_TRANSACTION_COMPLETE then t\<lparr>t_armed := False, t_locked := False\<rparr>
    else t\<lparr>t_armed := False, t_state := TCMI_TRANSACTION_ABORTED, t_wakeups := t_wakeups t + 1, t_locked := False\<rparr>)"
  have f: "st_ok t'" "\<not> t_armed t'" "t_slot t' = t_slot t" "t_id t' = t_id t" "t_ref_count t' = t_ref_count t"
    "t_state t' = t_state t" "t_context t' = t_context t"
    using st t by (auto simp: t'_def st_ok_def)
  have "tcmi_transaction_abort a tt = Some (t_context t, tt_store a t' tt)"
    using t st by (auto simp: tcmi_transaction_abort_def trans_simps Let_def t'_def)
  moreover have "tt_ok (tt_store a t' tt) (ext(a := ext a))"
    using store_ok [OF ok t(1) f(3,4,1)] f r e by simp
  ultimately show ?thesis using f by auto
qed

lemma complete_running_ok:
  assumes ok: "tt_ok tt ext" and t: "tt_heap tt a = Some t" "t_state t = TCMI_TRANSACTION_RUNNING"
  shows "\<exists>tt' t'. tcmi_transaction_complete a ctx rid tt = Some (if t_resp_id t = rid then 0 else - EINVAL, tt') \<and>
    tt_ok tt' ext \<and>
    t_state t' = (if t_resp_id t = rid then TCMI_TRANSACTION_COMPLETE else TCMI_TRANSACTION_ABORTED) \<and>
    t_context t' = (if t_resp_id t = rid then ctx else t_context t) \<and>
    tt_heap tt' = (tt_heap tt)(a := if ext a = 0 then None else Some t')"
proof -
  note st = tt_okD(3) [OF ok t(1), THEN conjunct1, unfolded st_ok_def]
  define u where "u = tcmi_transaction_set_expired (t\<lparr>t_armed := False, t_locked := True\<rparr>)"
  define t' where "t' = (if t_resp_id t = rid
    then u\<lparr>t_state := TCMI_TRANSACTION_COMPLETE, t_context := ctx, t_wakeups := t_wakeups u + 1, t_locked := False\<rparr>
    else u\<lparr>t_state := TCMI_TRANSACTION_ABORTED, t_wakeups := t_wakeups u + 1, t_locked := False\<rparr>)"
  have f: "st_ok t'" "\<not> t_armed t'" "t_slot t' = t_slot t" "t_id t' = t_id t" "t_ref_count t' = t_ref_count t"
    "t_state t' = (if t_resp_id t = rid then TCMI_TRANSACTION_COMPLETE else TCMI_TRANSACTION_ABORTED)"
    "t_context t' = (if t_resp_id t = rid then ctx else t_context t)"
    using st t by (simp_all add: t'_def u_def st_ok_def)
  obtain tt' where p: "tcmi_transaction_put (Some a) (tt_store a t' tt) = Some tt'" "tt_ok tt' ext"
    "tt_heap tt' = (tt_heap tt)(a := if ext a = 0 then None else Some (t'\<lparr>t_ref_count := int (ext a)\<rparr>))"
    using drop_timer_ok [OF ok t(1) _ f(3,4,1,2,5)] st t by blast
  have "tcmi_transaction_complete a ctx rid tt = Some (if t_resp_id t = rid then 0 else - EINVAL, tt')"
    using t st p(1) by (simp add: tcmi_transaction_complete_def trans_simps Let_def t'_def u_def split: if_splits)
  then show ?thesis
    using p(2,3) f(6,7) by (intro exI [of _ tt'] exI [of _ "t'\<lparr>t_ref_count := int (ext a)\<rparr>"]) simp
qed

lemma complete_finished_ok:
  assumes ok: "tt_ok tt ext" and e: "0 < ext a" and t: "tt_heap tt a = Some t"
    "t_state t = TCMI_TRANSACTION_COMPLETE \<or> t_state t = TCMI_TRANSACTION_ABORTED"
  shows "tcmi_transaction_complete a ctx rid tt = Some (- EINVAL, tt)"
proof -
  note st = tt_okD(3) [OF ok t(1), THEN conjunct1, unfolded st_ok_def]
  have "t\<lparr>t_armed := False, t_locked := True, t_locked := False\<rparr> = t" using st t(2) by auto
  moreover have "tt_store a t tt = tt" using t(1) by (simp add: tt_store_def fun_upd_idem)
  ultimately show ?thesis
    using t st by (auto simp: tcmi_transaction_complete_def trans_simps Let_def)
qed

lemma timer_ok:
  assumes ok: "tt_ok tt ext" and t: "tt_heap tt a = Some t" "t_armed t"
  shows "\<exists>tt' t'. tcmi_transaction_timer a tt = Some tt' \<and> tt_ok tt' ext \<and>
    t_state t' = TCMI_TRANSACTION_ABORTED \<and>
    tt_heap tt' = (tt_heap tt)(a := if ext a = 0 then None else Some t')"
proof -
  note st = tt_okD(3) [OF ok t(1), THEN conjunct1, unfolded st_ok_def]
  define u where "u = tcmi_transaction_set_expired (t\<lparr>t_armed := False, t_state := TCMI_TRANSACTION_ABORTED\<rparr>)"
  define t' where "t' = u\<lparr>t_wakeups := t_wakeups u + 1\<rparr>"
  have f: "st_ok t'" "\<not> t_armed t'" "t_slot t' = t_slot t" "t_id t' = t_id t" "t_ref_count t' = t_ref_count t"
    "t_state t' = TCMI_TRANSACTION_ABORTED"
    using st t by (simp_all add: t'_def u_def st_ok_def)
  obtain tt' where p: "tcmi_transaction_put (Some a) (tt_store a t' tt) = Some tt'" "tt_ok tt' ext"
    "tt_heap tt' = (tt_heap tt)(a := if ext a = 0 then None else Some (t'\<lparr>t_ref_count := int (ext a)\<rparr>))"
    using drop_timer_ok [OF ok t f(3,4,1,2,5)] by blast
  have "tcmi_transaction_timer a tt = Some tt'"
    using t p(1) by (simp add: tcmi_transaction_timer_def trans_simps Let_def t'_def u_def)
  then show ?thesis
    using p(2,3) f(6) by (intro exI [of _ tt'] exI [of _ "t'\<lparr>t_ref_count := int (ext a)\<rparr>"]) simp
qed

lemma lookup_slot:
  assumes "tt_ok tt ext"
  shows "tcmi_slotvec_at (tt_vec tt) (tcmi_transaction_hash i (sv_hashmsk (tt_vec tt))) = Some (hash_slot (tt_vec tt) i)"
    and "hash_slot (tt_vec tt) i < nslots (tt_vec tt)"
  using tt_okD(2) [OF assms] tt_ok_ready [OF assms]
  by (auto simp: mask_ok_def tcmi_slotvec_at_def hash_slot_def tcmi_transaction_hash_def
      slotvec_ready_def slotvec_inv_def word_less_nat_alt)

definition trans_bucket :: "'c trans_table \<Rightarrow> u32 \<Rightarrow> nat list" where
  "trans_bucket tt i = nodes_at (tt_vec tt) (hash_slot (tt_vec tt) i)"

definition trans_scan :: "'c trans_table \<Rightarrow> u32 \<Rightarrow> nat option" where
  "trans_scan tt i = slot_for_each_until
     (\<lambda>a. case tt_heap tt a of Some t \<Rightarrow> t_id t = i | None \<Rightarrow> False) None (trans_bucket tt i)"

lemma lookup_ok:
  assumes ok: "tt_ok tt ext"
  shows "\<exists>tt'. tcmi_transaction_lookup tt i = Some (trans_scan tt i, tt') \<and>
    (case trans_scan tt i of None \<Rightarrow> tt' = tt
     | Some a \<Rightarrow> a \<in> set (trans_bucket tt i) \<and> (\<exists>t. tt_heap tt a = Some t \<and> tt' = tt_store a (tcmi_transaction_get t) tt) \<and>
        tt_ok tt' (ext(a := ext a + 1)))"
proof -
  let ?l = "(tt_vec tt)\<lparr>sv_locked := True\<rparr>"
  have unl: "\<not> sv_locked (tt_vec tt)" using tt_ok_ready [OF ok] by (simp add: slotvec_ready_def)
  then have lk: "tcmi_slot_lock (tt_vec tt) = Some ?l" by (simp add: tcmi_slot_lock_def)
  have at: "tcmi_slotvec_at ?l (tcmi_transaction_hash i (sv_hashmsk (tt_vec tt))) = Some (hash_slot (tt_vec tt) i)"
    using lookup_slot(1) [OF ok] by (simp add: tcmi_slotvec_at_def)
  have same: "tt\<lparr>tt_vec := tcmi_slot_unlock ?l\<rparr> = tt"
    using unl by (simp add: tcmi_slot_unlock_def)
  show ?thesis
  proof (cases "trans_scan tt i")
    case None
    then show ?thesis
      using lk at same by (simp add: tcmi_transaction_lookup_def trans_scan_def trans_bucket_def)
  next
    case (Some a)
    have mem: "a \<in> set (trans_bucket tt i)" using for_each_until_mem Some unfolding trans_scan_def by fast
    obtain t where t: "tt_heap tt a = Some t"
      using tt_core_node [OF tt_okD(1) [OF ok] lookup_slot(2) [OF ok]] mem unfolding trans_bucket_def by blast
    let ?tt' = "tt_store a (tcmi_transaction_get t) tt"
    have "tcmi_transaction_lookup tt i = Some (Some a, ?tt'\<lparr>tt_vec := tcmi_slot_unlock ?l\<rparr>)"
      using lk at Some t by (simp add: tcmi_transaction_lookup_def trans_scan_def trans_bucket_def)
    moreover have "?tt'\<lparr>tt_vec := tcmi_slot_unlock ?l\<rparr> = ?tt'"
      using unl by (simp add: tcmi_slot_unlock_def tt_store_def)
    moreover have "tt_ok ?tt' (ext(a := ext a + 1))"
      using store_ok [OF ok t, of "tcmi_transaction_get t" "ext a + 1"] tt_okD(3,4) [OF ok t]
      by (simp add: tcmi_transaction_get_def st_ok_def)
    ultimately show ?thesis using Some mem t by simp
  qed
qed

lemma gen_id_valid:
  assumes "tcmi_transaction_gen_id rnd k = Some (i, k')"
  shows "i \<noteq> TCMI_TRANSACTION_INVAL_ID"
proof -
  have "fst (i, k') \<noteq> TCMI_TRANSACTION_INVAL_ID"
    by (rule tcmi_transaction_gen_id.raw_induct [where P = "\<lambda>rnd k y. fst y \<noteq> TCMI_TRANSACTION_INVAL_ID",
          OF _ assms]) (auto simp: Let_def split: if_splits)
  then show ?thesis by simp
qed

lemma gen_id_first:
  "\<lbrakk>rnd (k + n) \<noteq> TCMI_TRANSACTION_INVAL_ID; \<forall>j < n. rnd (k + j) = TCMI_TRANSACTION_INVAL_ID\<rbrakk> \<Longrightarrow>
   tcmi_transaction_gen_id rnd k = Some (rnd (k + n), k + n + 1)"
proof (induction n arbitrary: k)
  case 0
  then show ?case by (subst tcmi_transaction_gen_id.simps) (simp add: Let_def)
next
  case (Suc n)
  have "rnd k = TCMI_TRANSACTION_INVAL_ID" using Suc.prems(2) [rule_format, of 0] by simp
  moreover have "tcmi_transaction_gen_id rnd (k + 1) = Some (rnd (k + 1 + n), k + 1 + n + 1)"
    using Suc.prems by (intro Suc.IH) (auto dest: spec [of _ "Suc _"])
  ultimately show ?case by (subst tcmi_transaction_gen_id.simps) (simp add: Let_def)
qed

lemma new_ok:
  assumes ok: "tt_ok tt ext" and a: "tt_heap tt a = None"
    and new: "tcmi_transaction_new (Some a) rnd k tt rid to = Some (r, tt', k')"
  shows "r = Some a \<and> tt_ok tt' (ext(a := 1)) \<and>
    (\<exists>t. tt_heap tt' = (tt_heap tt)(a \<mapsto> t) \<and> t_state t = TCMI_TRANSACTION_INIT \<and> t_resp_id t = rid \<and> t_context t = None)"
proof -
  obtain i where i: "tcmi_transaction_gen_id rnd k = Some (i, k')"
    using new by (auto simp: tcmi_transaction_new_def Let_def split: bind_splits option.splits)
  define s where "s = hash_slot (tt_vec tt) i"
  have at: "tcmi_slotvec_at (tt_vec tt) (tcmi_transaction_hash i (sv_hashmsk (tt_vec tt))) = Some s"
    and s: "s < nslots (tt_vec tt)"
    using lookup_slot [OF ok, of i] by (simp_all add: s_def)
  note rdy = tt_ok_ready [OF ok, unfolded slotvec_ready_def]
  note core = tt_okD(1) [OF ok]
  have fresh: "fresh_node a (tt_vec tt)"
    using tt_core_node [OF core] a by (fastforce simp: fresh_node_def)
  obtain v where v: "tcmi_slot_insert s a (tt_vec tt) = Some v" "slotvec_inv v" "\<not> sv_locked v"
    "sv_slot_count v = sv_slot_count (tt_vec tt)" "sv_hashmsk v = sv_hashmsk (tt_vec tt)"
    "nslots v = nslots (tt_vec tt)" "nodes_at v s = a # nodes_at (tt_vec tt) s"
    "\<forall>j. j \<noteq> s \<longrightarrow> nodes_at v j = nodes_at (tt_vec tt) j"
    using slot_insert_ok [OF conjunct1 [OF rdy] s fresh conjunct2 [OF rdy]] by blast
  define t where "t = \<lparr>t_slot = Some s, t_id = i, t_resp_id = rid, t_state = TCMI_TRANSACTION_INIT,
      t_flags = 0, t_armed = False, t_expires = to, t_context = None :: 'a option, t_ref_count = 1,
      t_locked = False, t_wakeups = 0\<rparr>"
  have res: "r = Some a" "tt' = tt_store a t (tt\<lparr>tt_vec := v\<rparr>)"
    using new i at v(1) by (auto simp: tcmi_transaction_new_def tcmi_slotvec_insert_at_def t_def Let_def)
  have node: "set (nodes_at v j) = set (nodes_at (tt_vec tt) j) \<union> (if j = s then {a} else {})" for j
    using v(7,8) by (cases "j = s") auto
  have tr: "timer_ref tt' = timer_ref tt"
    using a by (auto simp: res timer_ref_def t_def fun_eq_iff)
  have "tt_core tt' (\<lambda>b. int ((ext(a := 1)) b) + timer_ref tt' b)"
  proof (rule tt_coreI)
    show "slotvec_ready (tt_vec tt')" using v(2,3) by (simp add: res slotvec_ready_def)
    show "int ((ext(a := 1)) b) + timer_ref tt' b = 0" if "tt_heap tt' b = None" for b
      using that tt_core_None [OF core, of b] by (simp add: res tr split: if_splits)
    show "t_ref_count u = int ((ext(a := 1)) b) + timer_ref tt' b \<and> 0 < int ((ext(a := 1)) b) + timer_ref tt' b"
      if "tt_heap tt' b = Some u" for b u
      using that tt_coreD(1,2) [OF core, of b u] a
      by (cases "b = a") (auto simp: res tr t_def timer_ref_def)
    show "\<exists>j < nslots (tt_vec tt'). t_slot u = Some j \<and> b \<in> set (nodes_at (tt_vec tt') j)"
      if "tt_heap tt' b = Some u" for b u
      using that tt_coreD(3) [OF core, of b u] s v(6) node
      by (cases "b = a") (auto simp: res t_def)
    show "\<exists>u. tt_heap tt' b = Some u \<and> t_slot u = Some j"
      if "j < nslots (tt_vec tt')" "b \<in> set (nodes_at (tt_vec tt') j)" for j b
      using that tt_core_node [OF core, of j b] a v(6) node [of j]
      by (cases "b = a") (auto simp: res t_def split: if_splits)
  qed
  moreover have "st_ok t" using gen_id_valid [OF i] by (simp add: t_def st_ok_def tcmi_transaction_is_expired_def)
  ultimately have "tt_ok tt' (ext(a := 1))"
    using tt_okD(2,3) [OF ok] v(4,5) unfolding tt_ok_def
    by (auto simp: res mask_ok_def hash_slot_def t_def s_def)
  then show ?thesis using res by (auto simp: t_def)
qed

lemma new_succeeds:
  assumes ok: "tt_ok tt ext" and a: "tt_heap tt a = None" and i: "tcmi_transaction_gen_id rnd k = Some (i, k')"
  shows "\<exists>tt'. tcmi_transaction_new (Some a) rnd k tt rid to = Some (Some a, tt', k') \<and>
    tt_heap tt' = (tt_heap tt)(a \<mapsto> \<lparr>t_slot = Some (hash_slot (tt_vec tt) i), t_id = i, t_resp_id = rid,
      t_state = TCMI_TRANSACTION_INIT, t_flags = 0, t_armed = False, t_expires = to, t_context = None,
      t_ref_count = 1, t_locked = False, t_wakeups = 0\<rparr>) \<and>
    sv_hashmsk (tt_vec tt') = sv_hashmsk (tt_vec tt)"
proof -
  note rdy = tt_ok_ready [OF ok, unfolded slotvec_ready_def]
  have fresh: "fresh_node a (tt_vec tt)"
    using tt_core_node [OF tt_okD(1) [OF ok]] a by (fastforce simp: fresh_node_def)
  obtain v where "tcmi_slot_insert (hash_slot (tt_vec tt) i) a (tt_vec tt) = Some v" "sv_hashmsk v = sv_hashmsk (tt_vec tt)"
    using slot_insert_ok [OF conjunct1 [OF rdy] lookup_slot(2) [OF ok] fresh conjunct2 [OF rdy]] by blast
  then show ?thesis
    using i lookup_slot(1) [OF ok, of i]
    by (simp add: tcmi_transaction_new_def tcmi_slotvec_insert_at_def Let_def)
qed

subsection \<open>Clients of transactions\<close>

text \<open>
  The interleavings of the users of a transaction table. \<open>ext a\<close> counts the references
  clients hold; a client operates only on transactions it holds a reference on, starts
  them with flags that do not contain the internal expiry mark, and aborts or completes
  only transactions that have been started.
\<close>

inductive trans_step :: "'c trans_table \<times> (nat \<Rightarrow> nat) \<Rightarrow> 'c trans_table \<times> (nat \<Rightarrow> nat) \<Rightarrow> bool" where
  step_new: "\<lbrakk>tt_heap tt a = None; tcmi_transaction_new (Some a) rnd k tt rid to = Some (Some b, tt', k')\<rbrakk> \<Longrightarrow>
    trans_step (tt, ext) (tt', ext(b := 1))"
| step_start: "\<lbrakk>0 < ext a; flags AND TCMI_TRANS_FLAGS_EXPIRED = 0;
    tcmi_transaction_start jiffies a flags tt = Some (r, tt')\<rbrakk> \<Longrightarrow> trans_step (tt, ext) (tt', ext)"
| step_abort: "\<lbrakk>0 < ext a; tt_heap tt a = Some t; t_state t \<noteq> TCMI_TRANSACTION_INIT;
    tcmi_transaction_abort a tt = Some (c, tt')\<rbrakk> \<Longrightarrow> trans_step (tt, ext) (tt', ext)"
| step_complete: "\<lbrakk>0 < ext a; tt_heap tt a = Some t; t_state t \<noteq> TCMI_TRANSACTION_INIT;
    tcmi_transaction_complete a ctx rid tt = Some (r, tt')\<rbrakk> \<Longrightarrow> trans_step (tt, ext) (tt', ext)"
| step_timer: "\<lbrakk>tt_heap tt a = Some t; t_armed t; tcmi_transaction_timer a tt = Some tt'\<rbrakk> \<Longrightarrow>
    trans_step (tt, ext) (tt', ext)"
| step_lookup: "tcmi_transaction_lookup tt i = Some (r, tt') \<Longrightarrow>
    trans_step (tt, ext) (tt', case r of None \<Rightarrow> ext | Some a \<Rightarrow> ext(a := ext a + 1))"
| step_put: "\<lbrakk>0 < ext a; tcmi_transaction_put (Some a) tt = Some tt'\<rbrakk> \<Longrightarrow>
    trans_step (tt, ext) (tt', ext(a := ext a - 1))"

inductive trans_reach :: "'c trans_table \<Rightarrow> (nat \<Rightarrow> nat) \<Rightarrow> bool" where
  reach_init: "\<lbrakk>tcmi_slotvec_hnew vec slots_ok order = Some v; order < 32\<rbrakk> \<Longrightarrow>
    trans_reach \<lparr>tt_vec = v, tt_heap = Map.empty\<rparr> (\<lambda>_. 0)"
| reach_step: "\<lbrakk>trans_reach tt ext; trans_step (tt, ext) (tt', ext')\<rbrakk> \<Longrightarrow> trans_reach tt' ext'"

text \<open>
  One step seen from a live transaction: the table stays well formed, and a transaction
  that has reached its outcome keeps it as long as it lives.
\<close>

definition trans_final :: "'c tcmi_transaction \<Rightarrow> bool" where
  "trans_final t \<longleftrightarrow> t_state t = TCMI_TRANSACTION_COMPLETE \<or> t_state t = TCMI_TRANSACTION_ABORTED"

definition outcome_kept :: "'c trans_table \<Rightarrow> 'c trans_table \<Rightarrow> bool" where
  "outcome_kept tt tt' \<longleftrightarrow> (\<forall>a t t'. tt_heap tt a = Some t \<longrightarrow> trans_final t \<longrightarrow> tt_heap tt' a = Some t' \<longrightarrow>
     t_state t' = t_state t \<and> t_context t' = t_context t)"

lemma outcome_kept_upd:
  assumes "tt_heap tt' = (tt_heap tt)(a := x)"
    and "\<And>t t'. \<lbrakk>tt_heap tt a = Some t; trans_final t; x = Some t'\<rbrakk> \<Longrightarrow>
      t_state t' = t_state t \<and> t_context t' = t_context t"
  shows "outcome_kept tt tt'"
  unfolding outcome_kept_def
proof (intro allI impI)
  fix b t t' assume h: "tt_heap tt b = Some t" "trans_final t" "tt_heap tt' b = Some t'"
  show "t_state t' = t_state t \<and> t_context t' = t_context t"
  proof (cases "b = a")
    case True
    then show ?thesis using h assms(1) by (intro assms(2)) auto
  next
    case False
    then show ?thesis using h assms(1) by simp
  qed
qed

lemma hnew_ok:
  assumes "tcmi_slotvec_hnew vec slots_ok order = Some v" "order < 32"
  shows "tt_ok \<lparr>tt_vec = v, tt_heap = Map.empty\<rparr> (\<lambda>_. 0)"
proof -
  obtain w where w: "tcmi_slotvec_new vec slots_ok (push_bit order 1) = Some w"
      "v = w\<lparr>sv_hashmsk := sv_slot_count w - 1\<rparr>"
    using assms(1) by (auto simp: tcmi_slotvec_hnew_def split: option.splits)
  have "slotvec_ready v" "mask_ok v" "\<forall>i < nslots v. nodes_at v i = []"
    using slotvec_new_ok [OF w(1)] hash_in_range [OF assms(2)]
    by (auto simp: w(2) mask_ok_def slotvec_ready_def slotvec_inv_def)
  then show ?thesis by (simp add: tt_ok_def tt_core_def timer_ref_def)
qed

lemma put_outcome:
  assumes "tt_ok tt ext" "0 < ext a" "tcmi_transaction_put (Some a) tt = Some tt'"
  shows "tt_ok tt' (ext(a := ext a - 1)) \<and> outcome_kept tt tt'"
proof -
  obtain t where t: "tt_heap tt a = Some t" using tt_ok_live [OF assms(1,2)] by blast
  have x: "tt_heap tt' = (tt_heap tt)(a := if int (ext a) + timer_ref tt a = 1 then None
      else Some (t\<lparr>t_ref_count := int (ext a) + timer_ref tt a - 1\<rparr>))"
    using put_core [OF tt_okD(1) [OF assms(1)] t] assms(3) by auto
  have "outcome_kept tt tt'" by (rule outcome_kept_upd [OF x]) (use t in \<open>auto split: if_splits\<close>)
  then show ?thesis using client_put_ok [OF assms(1,2)] assms(3) by auto
qed

lemma start_outcome:
  assumes ok: "tt_ok tt ext" and s: "0 < ext a" "flags AND TCMI_TRANS_FLAGS_EXPIRED = 0"
    "tcmi_transaction_start jiffies a flags tt = Some (r, tt')"
  shows "tt_ok tt' ext \<and> outcome_kept tt tt'"
proof -
  obtain t where t: "tt_heap tt a = Some t" using tt_ok_live [OF ok s(1)] by blast
  obtain t' where u: "tt' = tt_store a t' tt" "tt_ok tt' ext" "t_context t' = t_context t"
      "t_state t' = (if t_state t = TCMI_TRANSACTION_INIT then TCMI_TRANSACTION_RUNNING else t_state t)"
    using start_ok [OF ok s(1,2) t, of jiffies] s(3) by auto
  have "outcome_kept tt tt'"
    by (rule outcome_kept_upd [where a = a and x = "Some t'"]) (use u t in \<open>auto simp: trans_final_def\<close>)
  then show ?thesis using u by simp
qed

lemma started_cases:
  assumes "t_state t \<noteq> TCMI_TRANSACTION_INIT"
  obtains (running) "t_state t = TCMI_TRANSACTION_RUNNING"
  | (finished) "t_state t = TCMI_TRANSACTION_COMPLETE \<or> t_state t = TCMI_TRANSACTION_ABORTED"
  using assms by (cases "t_state t") auto

lemma running_outcome:
  assumes "tt_heap tt a = Some t" "t_state t = TCMI_TRANSACTION_RUNNING" "tt_heap tt' = (tt_heap tt)(a := x)"
  shows "outcome_kept tt tt'"
  using assms(3) by (rule outcome_kept_upd) (use assms(1,2) in \<open>simp add: trans_final_def\<close>)

lemma abort_outcome:
  assumes ok: "tt_ok tt ext" and s: "0 < ext a" "tt_heap tt a = Some t" "t_state t \<noteq> TCMI_TRANSACTION_INIT"
    "tcmi_transaction_abort a tt = Some (c, tt')"
  shows "tt_ok tt' ext \<and> outcome_kept tt tt'"
  using s(3)
proof (cases rule: started_cases)
  case running
  then show ?thesis
    using abort_running_ok [OF ok s(2) running] s(4) running_outcome [OF s(2) running] by auto
next
  case finished
  obtain t' where a: "tt' = tt_store a t' tt" "tt_ok tt' ext" "t_state t' = t_state t" "t_context t' = t_context t"
    using abort_finished_ok [OF ok s(1,2) finished] s(4) by auto
  have "outcome_kept tt tt'"
    by (rule outcome_kept_upd [where a = a and x = "Some t'"]) (use a s(2) in auto)
  then show ?thesis using a by simp
qed

lemma complete_outcome:
  assumes ok: "tt_ok tt ext" and s: "0 < ext a" "tt_heap tt a = Some t" "t_state t \<noteq> TCMI_TRANSACTION_INIT"
    "tcmi_transaction_complete a ctx rid tt = Some (r, tt')"
  shows "tt_ok tt' ext \<and> outcome_kept tt tt'"
  using s(3)
proof (cases rule: started_cases)
  case running
  then show ?thesis
    using complete_running_ok [OF ok s(2) running, of ctx rid] s(4) running_outcome [OF s(2) running] by auto
next
  case finished
  then have "tt' = tt" using complete_finished_ok [OF ok s(1,2) finished] s(4) by simp
  then show ?thesis using ok by (simp add: outcome_kept_def)
qed

lemma timer_outcome:
  assumes ok: "tt_ok tt ext" and s: "tt_heap tt a = Some t" "t_armed t" "tcmi_transaction_timer a tt = Some tt'"
  shows "tt_ok tt' ext \<and> outcome_kept tt tt'"
  using timer_ok [OF ok s(1,2)] s(3) running_outcome [OF s(1)] tt_okD(3) [OF ok s(1)] s(2)
  by (auto simp: st_ok_def)

lemma lookup_outcome:
  assumes ok: "tt_ok tt ext" and s: "tcmi_transaction_lookup tt i = Some (r, tt')"
  shows "tt_ok tt' (case r of None \<Rightarrow> ext | Some a \<Rightarrow> ext(a := ext a + 1)) \<and> outcome_kept tt tt'"
proof (cases r)
  case None
  have sc: "trans_scan tt i = None" using lookup_ok [OF ok, of i] s None by auto
  then have "tt' = tt" using lookup_ok [OF ok, of i, unfolded sc] s by simp
  then show ?thesis using ok None by (simp add: outcome_kept_def)
next
  case (Some a)
  have sc: "trans_scan tt i = Some a" using lookup_ok [OF ok, of i] s Some by auto
  obtain t where t: "tt_heap tt a = Some t" "tt' = tt_store a (tcmi_transaction_get t) tt"
      "tt_ok tt' (ext(a := ext a + 1))"
    using lookup_ok [OF ok, of i, unfolded sc] s by auto
  have "outcome_kept tt tt'"
    by (rule outcome_kept_upd [where a = a and x = "Some (tcmi_transaction_get t)"])
       (use t in \<open>auto simp: tcmi_transaction_get_def\<close>)
  then show ?thesis using t Some by simp
qed

lemma new_outcome:
  assumes ok: "tt_ok tt ext" and s: "tt_heap tt a = None"
    "tcmi_transaction_new (Some a) rnd k tt rid to = Some (Some b, tt', k')"
  shows "tt_ok tt' (ext(b := 1)) \<and> outcome_kept tt tt'"
proof -
  note n = new_ok [OF ok s]
  then obtain t where "tt_heap tt' = (tt_heap tt)(a \<mapsto> t)" by blast
  then have "outcome_kept tt tt'" by (rule outcome_kept_upd) (simp add: s(1))
  then show ?thesis using n by auto
qed

lemma trans_step_ok:
  assumes ok: "tt_ok tt ext" and step: "trans_step (tt, ext) (tt', ext')"
  shows "tt_ok tt' ext' \<and> outcome_kept tt tt'"
  using step
proof cases
  case step_new
  then show ?thesis using new_outcome [OF ok] by blast
next
  case step_start
  then show ?thesis using start_outcome [OF ok] by blast
next
  case step_abort
  then show ?thesis using abort_outcome [OF ok] by blast
next
  case step_complete
  then show ?thesis using complete_outcome [OF ok] by blast
next
  case step_timer
  then show ?thesis using timer_outcome [OF ok] by blast
next
  case step_lookup
  then show ?thesis using lookup_outcome [OF ok] by blast
next
  case step_put
  then show ?thesis using put_outcome [OF ok] by blast
qed

lemma reach_ok: "trans_reach tt ext \<Longrightarrow> tt_ok tt ext"
  by (induction rule: trans_reach.induct) (use hnew_ok trans_step_ok in blast)+

lemma reach_new:
  fixes rnd :: "nat \<Rightarrow> u32"
  assumes "trans_reach tt ext" "tt_heap tt a = None" "rnd k \<noteq> TCMI_TRANSACTION_INVAL_ID"
  shows "\<exists>tt' t. trans_reach tt' (ext(a := 1)) \<and> tt_heap tt' = (tt_heap tt)(a \<mapsto> t) \<and>
    t_state t = TCMI_TRANSACTION_INIT \<and> t_id t = rnd k \<and> t_resp_id t = rid \<and>
    sv_hashmsk (tt_vec tt') = sv_hashmsk (tt_vec tt)"
proof -
  have g: "tcmi_transaction_gen_id rnd k = Some (rnd k, k + 1)" using gen_id_first [of rnd k 0] assms(3) by simp
  obtain tt' t where n: "tcmi_transaction_new (Some a) rnd k tt rid 0 = Some (Some a, tt', k + 1)"
    "tt_heap tt' = (tt_heap tt)(a \<mapsto> t)" "t_state t = TCMI_TRANSACTION_INIT" "t_id t = rnd k" "t_resp_id t = rid"
    "sv_hashmsk (tt_vec tt') = sv_hashmsk (tt_vec tt)"
    using new_succeeds [OF reach_ok [OF assms(1)] assms(2) g, of rid 0] by auto
  have "trans_reach tt' (ext(a := 1))" by (rule reach_step [OF assms(1) step_new [OF assms(2) n(1)]])
  then show ?thesis using n(2-6) by blast
qed

lemma reach_start:
  assumes "trans_reach tt ext" "0 < ext a" "tt_heap tt a = Some t" "t_state t = TCMI_TRANSACTION_INIT"
  shows "\<exists>tt' t'. trans_reach tt' ext \<and> tt_heap tt' = (tt_heap tt)(a \<mapsto> t') \<and> t_state t' = TCMI_TRANSACTION_RUNNING \<and>
    t_resp_id t' = t_resp_id t"
proof -
  obtain t' where u: "tcmi_transaction_start 0 a 0 tt = Some (0, tt_store a t' tt)" "t_state t' = TCMI_TRANSACTION_RUNNING"
    "t_resp_id t' = t_resp_id t"
    using start_ok [OF reach_ok [OF assms(1)] assms(2) _ assms(3), of 0 0] assms(4) by auto
  have "trans_reach (tt_store a t' tt) ext" by (rule reach_step [OF assms(1) step_start [where ext = ext and a = a, OF assms(2) _ u(1)]]) simp
  then show ?thesis using u by fastforce
qed

lemma abort_unstarted:
  assumes ok: "tt_ok tt ext" and e: "ext a = 1" and t: "tt_heap tt a = Some t" "t_state t = TCMI_TRANSACTION_INIT"
  shows "\<exists>tt'. tcmi_transaction_abort a tt = Some (None, tt') \<and> tt_heap tt' a = None"
proof -
  note st = tt_okD(3) [OF ok t(1), THEN conjunct1, unfolded st_ok_def]
  have r: "t_ref_count t = 1" using tt_okD(4) [OF ok t(1)] st t(2) e by simp
  define u where "u = tcmi_transaction_set_expired (t\<lparr>t_armed := False, t_locked := True\<rparr>)"
  define t' where "t' = u\<lparr>t_state := TCMI_TRANSACTION_ABORTED, t_wakeups := t_wakeups u + 1, t_locked := False\<rparr>"
  have f: "t_slot t' = t_slot t" "t_ref_count t' = 1" using r by (simp_all add: t'_def u_def)
  have core: "tt_core (tt_store a t' tt) ((\<lambda>b. int (ext b) + timer_ref tt b)(a := 1))"
    by (rule store_core [OF tt_okD(1) [OF ok] t(1) f]) simp
  obtain tt' where p: "tcmi_transaction_put (Some a) (tt_store a t' tt) = Some tt'" "tt_heap tt' a = None"
    using put_core [OF core, of a t'] by auto
  have "tcmi_transaction_abort a tt = Some (None, tt')"
    using t st p(1) by (simp add: tcmi_transaction_abort_def trans_simps Let_def t'_def u_def)
  then show ?thesis using p(2) by blast
qed

lemma scan_hit:
  assumes "a \<in> set (trans_bucket tt i)" "tt_heap tt a = Some t" "t_id t = i"
  shows "\<exists>b u. trans_scan tt i = Some b \<and> tt_heap tt b = Some u \<and> t_id u = i"
  using for_each_until_found [of a "trans_bucket tt i"
      "\<lambda>a. case tt_heap tt a of Some t \<Rightarrow> t_id t = i | None \<Rightarrow> False" None] assms
  by (auto simp: trans_scan_def split: option.splits)

lemma live_in_bucket:
  assumes "tt_ok tt ext" "tt_heap tt a = Some t"
  shows "a \<in> set (trans_bucket tt (t_id t))"
  using tt_coreD(3) [OF tt_okD(1) [OF assms(1)] assms(2)] tt_okD(3) [OF assms]
  by (auto simp: trans_bucket_def)

lemma scan_miss:
  assumes "\<forall>a t. tt_heap tt a = Some t \<longrightarrow> t_id t \<noteq> i" "trans_bucket tt i \<noteq> []"
  shows "trans_scan tt i = Some (last (trans_bucket tt i))"
  using for_each_until_not_found [of "trans_bucket tt i"
      "\<lambda>a. case tt_heap tt a of Some t \<Rightarrow> t_id t = i | None \<Rightarrow> False" None] assms
  by (auto simp: trans_scan_def split: option.splits)

text \<open>A concrete run: an empty table of four buckets, then one new transaction.\<close>

lemma sample_reach:
  "\<exists>tt :: nat trans_table. trans_reach tt (\<lambda>_. 0) \<and> tt_heap tt = Map.empty \<and> sv_hashmsk (tt_vec tt) = 3"
proof -
  obtain v where "tcmi_slotvec_hnew (Some blank_vec) (\<lambda>_. True) 2 = Some v" "sv_hashmsk v = 3"
    by (auto simp: tcmi_slotvec_hnew_def tcmi_slotvec_new_def fold_slot_init)
  then show ?thesis by (intro exI [of _ "\<lparr>tt_vec = v, tt_heap = Map.empty\<rparr>"]) (auto intro: reach_init)
qed

lemma sample_reach_new:
  "\<exists>(tt :: nat trans_table) t. trans_reach tt ((\<lambda>_. 0)(7 := 1)) \<and> tt_heap tt = [7 \<mapsto> t] \<and>
    t_state t = TCMI_TRANSACTION_INIT \<and> t_id t = 5 \<and> t_resp_id t = 9 \<and> sv_hashmsk (tt_vec tt) = 3"
proof -
  obtain tt :: "nat trans_table" where "trans_reach tt (\<lambda>_. 0)" "tt_heap tt = Map.empty" "sv_hashmsk (tt_vec tt) = 3"
    using sample_reach by blast
  then show ?thesis using reach_new [of tt "\<lambda>_. 0" 7 "\<lambda>_. 5" 0 9] by auto
qed

lemma sample_reach_running:
  "\<exists>(tt :: nat trans_table) t. trans_reach tt ((\<lambda>_. 0)(7 := 1)) \<and> tt_heap tt = [7 \<mapsto> t] \<and>
    t_state t = TCMI_TRANSACTION_RUNNING \<and> t_resp_id t = 9"
proof -
  obtain tt :: "nat trans_table" and t where "trans_reach tt ((\<lambda>_. 0)(7 := 1))" "tt_heap tt = [7 \<mapsto> t]"
    "t_state t = TCMI_TRANSACTION_INIT" "t_resp_id t = 9" using sample_reach_new by blast
  then show ?thesis using reach_start [of tt "(\<lambda>_. 0)(7 := 1)" 7 t] by fastforce
qed

subsection \<open>Properties\<close>





text \<open>
  C17. A response completes the transaction it answers: for a running transaction a
  client holds, completion succeeds exactly when the response identifier is the
  expected one; the waiting owner then wakes up with the state COMPLETE and the
  response as the context, and with ABORTED and the old context otherwise.
\<close>
theorem trans_complete_delivers:
  assumes "trans_reach tt ext" "0 < ext a" "tt_heap tt a = Some t" "t_state t = TCMI_TRANSACTION_RUNNING"
  shows "\<exists>tt' t'. tcmi_transaction_complete a ctx rid tt = Some (if t_resp_id t = rid then 0 else - EINVAL, tt') \<and>
    tt_heap tt' a = Some t' \<and>
    tcmi_transaction_wait t' =
      Some (if t_resp_id t = rid then TCMI_TRANSACTION_COMPLETE else TCMI_TRANSACTION_ABORTED) \<and>
    t_context t' = (if t_resp_id t = rid then ctx else t_context t)"
  using complete_running_ok [OF reach_ok [OF assms(1)] assms(3,4), of ctx rid] assms(2)
  by (fastforce simp: tcmi_transaction_wait_def trans_simps)

theorem trans_complete_delivers_witness:
  "\<exists>(tt :: nat trans_table) tt' t'. tcmi_transaction_complete 7 (Some 42) 9 tt = Some (0, tt') \<and>
    tt_heap tt' 7 = Some t' \<and> tcmi_transaction_wait t' = Some TCMI_TRANSACTION_COMPLETE \<and> t_context t' = Some 42"
proof -
  obtain tt :: "nat trans_table" and t where r: "trans_reach tt ((\<lambda>_. 0)(7 := 1))" "tt_heap tt 7 = Some t"
    "t_state t = TCMI_TRANSACTION_RUNNING" "t_resp_id t = 9" using sample_reach_running by fastforce
  show ?thesis
    using trans_complete_delivers [OF r(1) _ r(2,3), of "Some 42" 9] unfolding r(4) by auto
qed

text \<open>
  C18. The outcome of a transaction is final: once it is complete or aborted, no step of
  any client and no timer changes its state or its context as long as it lives.
\<close>
theorem trans_outcome_stable:
  assumes "trans_reach tt ext" "trans_step (tt, ext) (tt', ext')"
    and "tt_heap tt a = Some t" "t_state t = TCMI_TRANSACTION_COMPLETE \<or> t_state t = TCMI_TRANSACTION_ABORTED"
    and "tt_heap tt' a = Some t'"
  shows "t_state t' = t_state t \<and> t_context t' = t_context t"
proof -
  have "outcome_kept tt tt'" using trans_step_ok [OF reach_ok [OF assms(1)] assms(2)] by (rule conjunct2)
  then show ?thesis using assms(3-5) unfolding outcome_kept_def trans_final_def by blast
qed

theorem trans_outcome_stable_witness:
  "\<exists>(tt :: nat trans_table) ext tt' ext' t t'. trans_step (tt, ext) (tt', ext') \<and> tt_heap tt 7 = Some t \<and>
    t_state t = TCMI_TRANSACTION_COMPLETE \<and> tt_heap tt' 7 = Some t' \<and> t_state t' = t_state t"
proof -
  define ext :: "nat \<Rightarrow> nat" where "ext = (\<lambda>_. 0)(7 := 1)"
  obtain tt :: "nat trans_table" and t where r: "trans_reach tt ext" "tt_heap tt 7 = Some t"
    "t_state t = TCMI_TRANSACTION_RUNNING" "t_resp_id t = 9" using sample_reach_running unfolding ext_def by fastforce
  have e: "0 < ext 7" by (simp add: ext_def)
  obtain tt1 t1 where c: "tcmi_transaction_complete 7 (Some 42) 9 tt = Some (0, tt1)" "tt_heap tt1 7 = Some t1"
    "t_state t1 = TCMI_TRANSACTION_COMPLETE"
    using complete_running_ok [OF reach_ok [OF r(1)] r(2,3), of "Some 42" 9] e r(4) by auto
  have r1: "trans_reach tt1 ext" by (rule reach_step [OF r(1) step_complete [where ext = ext and a = 7, OF e r(2) _ c(1)]]) (simp add: r(3))
  obtain t2 where a: "tcmi_transaction_abort 7 tt1 = Some (t_context t1, tt_store 7 t2 tt1)"
    using abort_finished_ok [OF reach_ok [OF r1] e c(2)] c(3) by auto
  have s: "trans_step (tt1, ext) (tt_store 7 t2 tt1, ext)"
    by (rule step_abort [where ext = ext and a = 7, OF e c(2) _ a]) (simp add: c(3))
  show ?thesis
    using trans_outcome_stable [OF r1 s c(2), of t2] s c by fastforce
qed

text \<open>
  C19. A live transaction is found under its identifier: the lookup returns a
  transaction with that identifier and takes a reference on it.
\<close>
theorem trans_lookup_finds:
  assumes "trans_reach tt ext" "tt_heap tt a = Some t"
  shows "\<exists>b u tt'. tcmi_transaction_lookup tt (t_id t) = Some (Some b, tt') \<and>
    tt_heap tt b = Some u \<and> t_id u = t_id t \<and> tt' = tt_store b (tcmi_transaction_get u) tt"
proof -
  note ok = reach_ok [OF assms(1)]
  obtain b u where sc: "trans_scan tt (t_id t) = Some b" and u: "tt_heap tt b = Some u" "t_id u = t_id t"
    using scan_hit [OF live_in_bucket [OF ok assms(2)] assms(2) refl] by blast
  show ?thesis using lookup_ok [OF ok, of "t_id t", unfolded sc] u by auto
qed

theorem trans_lookup_finds_witness:
  "\<exists>(tt :: nat trans_table) tt'. tcmi_transaction_lookup tt 5 = Some (Some 7, tt')"
proof -
  obtain tt :: "nat trans_table" and t where r: "trans_reach tt ((\<lambda>_. 0)(7 := 1))" "tt_heap tt = [7 \<mapsto> t]"
    "t_id t = 5" using sample_reach_new by blast
  then show ?thesis using trans_lookup_finds [OF r(1), of 7 t] by (auto split: if_splits)
qed

text \<open>
  C34. The lookup of an identifier no live transaction has does not fail when the
  bucket of that identifier holds other transactions: the loop over the bucket leaves
  its cursor on the last transaction visited, and the lookup returns this unrelated
  transaction with a reference taken.
\<close>
theorem trans_lookup_returns_stranger:
  assumes "trans_reach tt ext" "\<forall>a t. tt_heap tt a = Some t \<longrightarrow> t_id t \<noteq> i" "trans_bucket tt i \<noteq> []"
  shows "\<exists>t tt'. tcmi_transaction_lookup tt i = Some (Some (last (trans_bucket tt i)), tt') \<and>
    tt_heap tt (last (trans_bucket tt i)) = Some t \<and> t_id t \<noteq> i"
  using lookup_ok [OF reach_ok [OF assms(1)], of i, unfolded scan_miss [OF assms(2,3)]] assms(2) by auto

theorem trans_lookup_returns_stranger_witness:
  "\<exists>(tt :: nat trans_table) t tt'. tcmi_transaction_lookup tt 1 = Some (Some 7, tt') \<and>
     tt_heap tt 7 = Some t \<and> t_id t = 5"
proof -
  obtain tt :: "nat trans_table" and t where r: "trans_reach tt ((\<lambda>_. 0)(7 := 1))" "tt_heap tt = [7 \<mapsto> t]"
    "t_id t = 5" "sv_hashmsk (tt_vec tt) = 3" using sample_reach_new by blast
  note ok = reach_ok [OF r(1)]
  have b: "trans_bucket tt 1 = trans_bucket tt 5"
    by (simp add: trans_bucket_def hash_slot_def tcmi_transaction_hash_def r(4))
  have mem: "7 \<in> set (trans_bucket tt 1)"
    using live_in_bucket [OF ok, of 7 t] r(2,3) b by simp
  have only: "c = 7" if "c \<in> set (trans_bucket tt 1)" for c
    using tt_core_node [OF tt_okD(1) [OF ok] lookup_slot(2) [OF ok, of 1], of c] that r(2)
    by (auto simp: trans_bucket_def split: if_splits)
  have ne: "trans_bucket tt 1 \<noteq> []" using mem by (metis empty_iff list.set(1))
  have l: "last (trans_bucket tt 1) = 7" by (rule only [OF last_in_set [OF ne]])
  have "\<forall>a u. tt_heap tt a = Some u \<longrightarrow> t_id u \<noteq> 1" using r(2,3) by auto
  then obtain u tt' where "tcmi_transaction_lookup tt 1 = Some (Some 7, tt')" "tt_heap tt 7 = Some u"
    using trans_lookup_returns_stranger [OF r(1) _ ne] unfolding l by blast
  then show ?thesis using r(2,3) by auto
qed

text \<open>
  C35. Aborting a transaction that has never been started drops a timer reference that
  was never taken: with one client reference the transaction is freed under the
  client, whose own release then touches freed memory.
\<close>
theorem trans_abort_unstarted_frees:
  assumes "trans_reach tt ext" "ext a = 1" "tt_heap tt a = Some t" "t_state t = TCMI_TRANSACTION_INIT"
  shows "\<exists>tt'. tcmi_transaction_abort a tt = Some (None, tt') \<and> tt_heap tt' a = None \<and>
    tcmi_transaction_put (Some a) tt' = None"
  using abort_unstarted [OF reach_ok [OF assms(1)] assms(2-4)] by (auto simp: tcmi_transaction_put_def)

theorem trans_abort_unstarted_frees_witness:
  "\<exists>(tt :: nat trans_table) tt'. tcmi_transaction_abort 7 tt = Some (None, tt') \<and> tt_heap tt' 7 = None"
  using sample_reach_new trans_abort_unstarted_frees [of _ "(\<lambda>_. 0)(7 := 1)" 7] by fastforce

end
