(* ===== verification/Wire.thy ===== *)
theory Wire
  imports Clondike_Prelude
begin

text \<open>
  Little-endian representation of integers, as structures and fields go over the
  connection when their memory is sent. The encoders are in terms of bits, so that one
  round-trip lemma covers every width.
\<close>

definition le_bytes :: "nat \<Rightarrow> 'a :: len word \<Rightarrow> byte list" where
  "le_bytes n w = map (\<lambda>i. ucast (drop_bit (8 * i) w)) [0..<n]"

definition le_word :: "byte list \<Rightarrow> 'a :: len word" where
  "le_word bs = foldr (\<lambda>b w. ucast b OR push_bit 8 w) bs 0"

lemma length_le_bytes [simp]: "length (le_bytes n w) = n"
  by (simp add: le_bytes_def)

lemma bit_le_word:
  "bit (le_word bs :: 'a :: len word) k \<longleftrightarrow> k < LENGTH('a) \<and> k div 8 < length bs \<and> bit (bs ! (k div 8)) (k mod 8)"
proof (induction bs arbitrary: k)
  case Nil
  then show ?case by (simp add: le_word_def)
next
  case (Cons b bs)
  have step: "bit (le_word (b # bs) :: 'a word) k \<longleftrightarrow>
      k < LENGTH('a) \<and> (bit b k \<or> 8 \<le> k \<and> bit (le_word bs :: 'a word) (k - 8))"
    by (auto simp: le_word_def bit_or_iff bit_push_bit_iff bit_ucast_iff)
  show ?case
  proof (cases "k < 8")
    case True
    then show ?thesis using step by simp
  next
    case False
    then have k: "k div 8 = Suc ((k - 8) div 8)" "k mod 8 = (k - 8) mod 8"
      by (simp_all add: le_div_geq le_mod_geq)
    have "\<not> bit b k" using False bit_imp_le_length [of b k] by auto
    then show ?thesis using step False Cons.IH [of "k - 8"] k by auto
  qed
qed

lemma le_word_bytes [simp]:
  fixes w :: "'a :: len word"
  assumes "LENGTH('a) = 8 * n"
  shows "le_word (le_bytes n w) = w"
proof (rule bit_word_eqI)
  fix k assume "k < LENGTH('a)"
  moreover from this assms have "k div 8 < n" by auto
  ultimately show "bit (le_word (le_bytes n w) :: 'a word) k = bit w k"
    by (simp add: bit_le_word le_bytes_def bit_ucast_iff bit_drop_bit_eq)
qed

text \<open>Arrays of 32-bit numbers.\<close>

definition u32s_bytes :: "u32 list \<Rightarrow> byte list" where
  "u32s_bytes xs = concat (map (le_bytes 4) xs)"

fun bytes_u32s :: "nat \<Rightarrow> byte list \<Rightarrow> u32 list" where
  "bytes_u32s 0 bs = []"
| "bytes_u32s (Suc n) bs = le_word (take 4 bs) # bytes_u32s n (drop 4 bs)"

lemma length_u32s_bytes [simp]: "length (u32s_bytes xs) = 4 * length xs"
  by (induction xs) (simp_all add: u32s_bytes_def)

lemma bytes_u32s_bytes [simp]: "bytes_u32s (length xs) (u32s_bytes xs) = xs"
  by (induction xs) (simp_all add: u32s_bytes_def)

text \<open>Consecutive elements of given sizes in one buffer.\<close>

fun split_sizes :: "nat list \<Rightarrow> 'a list \<Rightarrow> 'a list list" where
  "split_sizes [] bs = []"
| "split_sizes (n # ns) bs = take n bs # split_sizes ns (drop n bs)"

lemma split_sizes_concat [simp]: "split_sizes (map length xss) (concat xss) = xss"
  by (induction xss) simp_all

text \<open>Transfer lengths: a C \<^verbatim>\<open>int\<close> that is not positive transfers nothing.\<close>

definition int_len :: "32 word \<Rightarrow> nat" where
  "int_len n = nat (sint n)"

lemma int_len_0 [simp]: "int_len 0 = 0"
  by (simp add: int_len_def)

lemma int_len_small [simp]: "n < 2 ^ 31 \<Longrightarrow> int_len (of_nat n) = n"
proof -
  assume a: "n < 2 ^ 31"
  then have "sint (of_nat n :: 32 word) = int n"
    by (simp add: signed_of_nat signed_take_bit_int_eq_self)
  then show ?thesis by (simp add: int_len_def)
qed

end
