(* ===== verification/Tcmi_Msg_Base.thy ===== *)
theory Tcmi_Msg_Base
  imports Tcmi_Transaction Wire
begin

text \<open>
  Messages of the migration infrastructure: the bit layout of a message identifier
  (\<^verbatim>\<open>tcmi_messages_id.h\<close>), the structures of the message classes, and the
  initialisation every constructor ends with (\<^verbatim>\<open>tcmi_msg.c\<close>, \<^verbatim>\<open>tcmi_procmsg.c\<close>).

  A class is a constructor of \<open>tcmi_body\<close> (\<open>tcmi_proc_body\<close> for process messages): the
  constructor stands for the table of operations the C structure points to, its
  argument for the fields the class adds.
\<close>

subsection \<open>Message identifiers\<close>

abbreviation (input) TCMI_MSG_INDEX_BITS :: nat where "TCMI_MSG_INDEX_BITS \<equiv> 16"
abbreviation (input) TCMI_MSG_GROUP_BITS :: nat where "TCMI_MSG_GROUP_BITS \<equiv> 14"
abbreviation (input) TCMI_MSG_FLG_BITS :: nat where "TCMI_MSG_FLG_BITS \<equiv> 2"
abbreviation (input) TCMI_MSG_TYPE_BITS :: nat where "TCMI_MSG_TYPE_BITS \<equiv> TCMI_MSG_GROUP_BITS + TCMI_MSG_INDEX_BITS"

definition TCMI_MSG_INDEX :: "u32 \<Rightarrow> u32" where
  "TCMI_MSG_INDEX msg_id = msg_id AND (push_bit TCMI_MSG_INDEX_BITS 1 - 1)"

definition TCMI_MSG_GROUP :: "u32 \<Rightarrow> u32" where
  "TCMI_MSG_GROUP msg_id = drop_bit TCMI_MSG_INDEX_BITS msg_id AND (push_bit TCMI_MSG_GROUP_BITS 1 - 1)"

definition TCMI_MSG_TYPE :: "u32 \<Rightarrow> u32" where
  "TCMI_MSG_TYPE msg_id = msg_id AND (push_bit TCMI_MSG_TYPE_BITS 1 - 1)"

definition TCMI_MSG_FLG :: "u32 \<Rightarrow> u32" where
  "TCMI_MSG_FLG msg_id = drop_bit TCMI_MSG_TYPE_BITS msg_id AND (push_bit TCMI_MSG_FLG_BITS 1 - 1)"

definition TCMI_MSG_SET_GRP :: "u32 \<Rightarrow> u32" where
  "TCMI_MSG_SET_GRP grp = push_bit TCMI_MSG_INDEX_BITS grp"

abbreviation (input) TCMI_MSG_REGFLGS :: u32 where "TCMI_MSG_REGFLGS \<equiv> 0"
abbreviation (input) TCMI_MSG_ERRFLGS :: u32 where "TCMI_MSG_ERRFLGS \<equiv> 1"

definition TCMI_MSG_FLG_SET_ERR :: "u32 \<Rightarrow> u32" where
  "TCMI_MSG_FLG_SET_ERR i = i OR push_bit TCMI_MSG_TYPE_BITS TCMI_MSG_ERRFLGS"

abbreviation (input) TCMI_MSG_GROUP_MIG :: u32 where "TCMI_MSG_GROUP_MIG \<equiv> 0"
abbreviation (input) TCMI_MSG_GROUP_PROC :: u32 where "TCMI_MSG_GROUP_PROC \<equiv> 1"
abbreviation (input) TCMI_MSG_GROUP_LAST :: u32 where "TCMI_MSG_GROUP_LAST \<equiv> 2"
abbreviation (input) TCMI_MSG_GROUP_ANY :: u32 where "TCMI_MSG_GROUP_ANY \<equiv> 0xffffffff"

text \<open>The enumerations: the first value of a group is the group number shifted.\<close>

abbreviation (input) TCMI_SKEL_MSG_ID :: u32 where "TCMI_SKEL_MSG_ID \<equiv> 0"
abbreviation (input) TCMI_SKELRESP_MSG_ID :: u32 where "TCMI_SKELRESP_MSG_ID \<equiv> 1"
abbreviation (input) TCMI_AUTHENTICATE_MSG_ID :: u32 where "TCMI_AUTHENTICATE_MSG_ID \<equiv> 2"
abbreviation (input) TCMI_AUTHENTICATE_RESP_MSG_ID :: u32 where "TCMI_AUTHENTICATE_RESP_MSG_ID \<equiv> 3"
abbreviation (input) TCMI_DISCONNECT_MSG_ID :: u32 where "TCMI_DISCONNECT_MSG_ID \<equiv> 4"
abbreviation (input) TCMI_P_EMIGRATE_MSG_ID :: u32 where "TCMI_P_EMIGRATE_MSG_ID \<equiv> 5"
abbreviation (input) TCMI_SIGNAL_MSG_ID :: u32 where "TCMI_SIGNAL_MSG_ID \<equiv> 6"
abbreviation (input) TCMI_GENERIC_USER_MSG_ID :: u32 where "TCMI_GENERIC_USER_MSG_ID \<equiv> 7"
abbreviation (input) TCMI_LAST_MSG_ID :: u32 where "TCMI_LAST_MSG_ID \<equiv> 8"

abbreviation (input) TCMI_SKEL_PROCMSG_ID :: u32 where "TCMI_SKEL_PROCMSG_ID \<equiv> 0x10000"
abbreviation (input) TCMI_SKELRESP_PROCMSG_ID :: u32 where "TCMI_SKELRESP_PROCMSG_ID \<equiv> 0x10001"
abbreviation (input) TCMI_EXIT_PROCMSG_ID :: u32 where "TCMI_EXIT_PROCMSG_ID \<equiv> 0x10002"
abbreviation (input) TCMI_VFORK_DONE_PROCMSG_ID :: u32 where "TCMI_VFORK_DONE_PROCMSG_ID \<equiv> 0x10003"
abbreviation (input) TCMI_GUEST_STARTED_PROCMSG_ID :: u32 where "TCMI_GUEST_STARTED_PROCMSG_ID \<equiv> 0x10004"
abbreviation (input) TCMI_PPM_P_MIGR_BACK_GUESTREQ_PROCMSG_ID :: u32 where
  "TCMI_PPM_P_MIGR_BACK_GUESTREQ_PROCMSG_ID \<equiv> 0x10005"
abbreviation (input) TCMI_PPM_P_MIGR_BACK_SHADOWREQ_PROCMSG_ID :: u32 where
  "TCMI_PPM_P_MIGR_BACK_SHADOWREQ_PROCMSG_ID \<equiv> 0x10006"
abbreviation (input) TCMI_RPC_PROCMSG_ID :: u32 where "TCMI_RPC_PROCMSG_ID \<equiv> 0x10007"
abbreviation (input) TCMI_RPCRESP_PROCMSG_ID :: u32 where "TCMI_RPCRESP_PROCMSG_ID \<equiv> 0x10008"
abbreviation (input) TCMI_LAST_PROCMSG_ID :: u32 where "TCMI_LAST_PROCMSG_ID \<equiv> 0x10009"

subsection \<open>Structures\<close>

text \<open>
  Pointers to buffers are \<open>None\<close> when NULL; a C string carries its terminating zero. The
  operating system's \<^verbatim>\<open>siginfo_t\<close> (128 bytes) and \<^verbatim>\<open>struct fs_mount_params\<close> are opaque
  blocks of bytes.
\<close>

record tcmi_authenticate_msg =
  au_pen_id :: u32
  au_pen_arch :: u32
  au_auth_data :: "byte list option"
  au_size :: u32

record tcmi_authenticate_resp_msg =
  ar_ccn_id :: u32
  ar_ccn_arch :: u32
  ar_mount_params :: "byte list"
  ar_result_code :: byte

record tcmi_p_emigrate_msg =
  em_reply_pid :: i32
  em_size :: i32
  em_exec_name_size :: i32
  em_euid :: u16
  em_egid :: u16
  em_fsuid :: u16
  em_fsgid :: u16
  em_exec_name :: "byte list option"
  em_ckpt_name :: "byte list option"

record tcmi_signal_msg =
  sg_pid :: i32
  sg_info :: "byte list"

record tcmi_generic_user_msg =
  gu_node_id :: u32
  gu_user_data :: "byte list option"
  gu_size :: u32

record tcmi_guestreq =
  gr_size :: i32
  gr_ckpt_name :: "byte list option"

record tcmi_rpc_procmsg =
  rpc_rpcnum :: u16
  rpc_nmemb :: u16
  rpc_elem_size :: "u32 list"
  rpc_elem_base :: "byte list list"
  rpc_free_data :: bool

datatype elem_free = TCMI_RPCRESP_PROCMSG_DONTFREE | TCMI_RPCRESP_PROCMSG_KFREE | TCMI_RPCRESP_PROCMSG_VFREE

record tcmi_rpcresp_procmsg =
  rr_rpcnum :: u16
  rr_nmemb :: u16
  rr_rtn_code :: u64
  rr_elem_free :: "elem_free list option"
  rr_elem_size :: "u32 list"
  rr_elem_base :: "byte list list"

datatype tcmi_proc_body =
  Skel_procmsg | Skelresp_procmsg | Exit_procmsg i32 | Vfork_done_procmsg | Guest_started_procmsg i32
  | Guestreq_procmsg tcmi_guestreq | Shadowreq_procmsg | Rpc_procmsg tcmi_rpc_procmsg
  | Rpcresp_procmsg tcmi_rpcresp_procmsg | Err_procmsg i32

record tcmi_procmsg =
  pm_dst_pid :: i32
  pm_enforce_migmode :: byte
  pm_body :: tcmi_proc_body

datatype tcmi_body =
  Skel_msg | Skelresp_msg | Authenticate_msg tcmi_authenticate_msg | Authenticate_resp_msg tcmi_authenticate_resp_msg
  | Disconnect_msg | P_emigrate_msg tcmi_p_emigrate_msg | Signal_msg tcmi_signal_msg
  | Generic_user_msg tcmi_generic_user_msg | Err_msg i32 | Procmsg tcmi_procmsg

record tcmi_msg =
  m_id :: u32
  m_req :: u32
  m_resp :: u32
  m_transaction :: "nat option"
  m_ref_count :: int
  m_body :: tcmi_body

subsection \<open>Initialisation\<close>

text \<open>
  \<open>self\<close> is the freshly allocated structure: its class fields may be set already, the
  fields of the base class are all assigned here.
\<close>

definition tcmi_msg_init_shared :: "u32 \<Rightarrow> tcmi_body \<Rightarrow> int \<times> tcmi_msg" where
  "tcmi_msg_init_shared msg_id self =
     (0, \<lparr>m_id = msg_id, m_req = TCMI_TRANSACTION_INVAL_ID, m_resp = TCMI_TRANSACTION_INVAL_ID,
          m_transaction = None, m_ref_count = 1, m_body = self\<rparr>)"

definition tcmi_msg_init_rx :: "u32 \<Rightarrow> tcmi_body \<Rightarrow> int \<times> tcmi_msg" where
  "tcmi_msg_init_rx msg_id self = tcmi_msg_init_shared msg_id self"

text \<open>
  What creating a transaction needs from the kernel: the address the allocator returns,
  the random numbers with the position reached, and the tick rate.
\<close>

record trans_env =
  te_mem :: "nat option"
  te_rnd :: "nat \<Rightarrow> u32"
  te_k :: nat
  te_hz :: u64

type_synonym 'c transactions = "'c trans_table option"

definition tcmi_msg_init_tx ::
  "trans_env \<Rightarrow> u32 \<Rightarrow> tcmi_body \<Rightarrow> 'c transactions \<Rightarrow> u32 \<Rightarrow> u64 \<Rightarrow> u32 \<Rightarrow> (int \<times> tcmi_msg \<times> 'c transactions) option" where
  "tcmi_msg_init_tx env msg_id self transactions resp_msg_id timeout resp_trans_id = do {
     let msg = (snd (tcmi_msg_init_shared msg_id self))\<lparr>m_resp := resp_trans_id\<rparr>;
     (case transactions of
        None \<Rightarrow> Some (0, msg, None)
      | Some tt \<Rightarrow> do {
          (trans, tt, _) \<leftarrow> tcmi_transaction_new (te_mem env) (te_rnd env) (te_k env) tt (TCMI_MSG_TYPE resp_msg_id) timeout;
          (case trans of
             None \<Rightarrow> Some (- 1, msg, Some tt)
           | Some a \<Rightarrow> do {
               t \<leftarrow> tt_heap tt a;
               Some (0, msg\<lparr>m_transaction := Some a, m_req := t_id t\<rparr>, Some tt)
             })
        })
   }"

definition tcmi_procmsg_init_rx :: "u32 \<Rightarrow> tcmi_procmsg \<Rightarrow> int \<times> tcmi_msg" where
  "tcmi_procmsg_init_rx msg_id self = tcmi_msg_init_rx msg_id (Procmsg self)"

definition tcmi_procmsg_init_tx ::
  "trans_env \<Rightarrow> u32 \<Rightarrow> tcmi_procmsg \<Rightarrow> i32 \<Rightarrow> byte \<Rightarrow> 'c transactions \<Rightarrow> u32 \<Rightarrow> u64 \<Rightarrow> u32 \<Rightarrow>
   (int \<times> tcmi_msg \<times> 'c transactions) option" where
  "tcmi_procmsg_init_tx env msg_id self dst_pid enforce_migmode transactions resp_msg_id timeout resp_trans_id =
     tcmi_msg_init_tx env msg_id (Procmsg (self\<lparr>pm_dst_pid := dst_pid, pm_enforce_migmode := enforce_migmode\<rparr>))
       transactions resp_msg_id timeout resp_trans_id"

definition tcmi_msg_get :: "tcmi_msg \<Rightarrow> tcmi_msg" where
  "tcmi_msg_get self = self\<lparr>m_ref_count := m_ref_count self + 1\<rparr>"

definition tcmi_msg_errid :: "tcmi_msg \<Rightarrow> u32" where
  "tcmi_msg_errid self = TCMI_MSG_FLG_SET_ERR (m_id self)"

end
