(* ===== verification/Kkc.thy ===== *)
theory Kkc
  imports Clondike_Prelude "HOL-Library.Monad_Syntax"
begin

text \<open>
  The kernel-to-kernel communication layer (\<^verbatim>\<open>src/kkc\<close>): sockets, the TCP
  architecture, the transfer loop, and the addresses \<^verbatim>\<open>arch:ip:port\<close>.

  The BSD socket of the kernel is a table of functions, \<open>kernel_sock\<close>, over a state of
  unknown type; a KKC socket carries this table and the state. Two observers stand for
  what a stream socket is about: the bytes handed over to the peer so far and the
  bytes that wait to be received. \<open>kernel_ok\<close> states the documented behaviour of the
  stream operations in terms of the observers.
\<close>

subsection \<open>Sockets\<close>

abbreviation (input) ECONNRESET :: int where "ECONNRESET \<equiv> 104"

datatype kkc_sock_flags_t = KKC_SOCK_BLOCK | KKC_SOCK_NONBLOCK

record sockaddr_in =
  sin_addr :: "byte list"
  sin_port :: u16

record 's kernel_sock =
  k_sendmsg :: "'s \<Rightarrow> byte list \<Rightarrow> int \<times> 's"
  k_recvmsg :: "'s \<Rightarrow> nat \<Rightarrow> bool \<Rightarrow> int \<times> byte list \<times> 's"
  k_connect :: "'s \<Rightarrow> sockaddr_in \<Rightarrow> int \<times> 's"
  k_bind :: "'s \<Rightarrow> sockaddr_in \<Rightarrow> int \<times> 's"
  k_listen :: "'s \<Rightarrow> int \<Rightarrow> int \<times> 's"
  k_accept :: "'s \<Rightarrow> 's \<Rightarrow> bool \<Rightarrow> int \<times> 's \<times> 's"
  k_shutdown :: "'s \<Rightarrow> int \<times> 's"
  k_getname :: "'s \<Rightarrow> bool \<Rightarrow> int \<times> sockaddr_in"
  k_sent :: "'s \<Rightarrow> byte list"
  k_avail :: "'s \<Rightarrow> byte list"

definition kernel_ok :: "'s kernel_sock \<Rightarrow> bool" where
  "kernel_ok K \<longleftrightarrow>
     (\<forall>s bs r s'. k_sendmsg K s bs = (r, s') \<longrightarrow> k_avail K s' = k_avail K s \<and>
        (if r < 0 then k_sent K s' = k_sent K s
         else r \<le> int (length bs) \<and> (bs \<noteq> [] \<longrightarrow> 0 < r) \<and> k_sent K s' = k_sent K s @ take (nat r) bs)) \<and>
     (\<forall>s n nb r out s'. k_recvmsg K s n nb = (r, out, s') \<longrightarrow> k_sent K s' = k_sent K s \<and>
        (if r < 0 then out = [] \<and> k_avail K s' = k_avail K s
         else r = int (length out) \<and> length out \<le> n \<and> k_avail K s = out @ k_avail K s'))"

record 's kkc_sock =
  ks_kern :: "'s kernel_sock"
  ks_state :: 's
  ks_ref_count :: int
  ks_send_sem :: bool
  ks_recv_sem :: bool

definition kkc_sock_init :: "'a option \<Rightarrow> 's kkc_sock \<Rightarrow> int \<times> 's kkc_sock" where
  "kkc_sock_init arch self =
     (case arch of
        None \<Rightarrow> (- EINVAL, self)
      | Some _ \<Rightarrow> (0, self\<lparr>ks_ref_count := 1, ks_send_sem := True, ks_recv_sem := True\<rparr>))"

definition kkc_sock_get :: "'s kkc_sock \<Rightarrow> 's kkc_sock" where
  "kkc_sock_get self = self\<lparr>ks_ref_count := ks_ref_count self + 1\<rparr>"

subsection \<open>Transfer\<close>

definition kkc_sock_tcp_send :: "'s kkc_sock \<Rightarrow> byte list \<Rightarrow> int \<times> 's kkc_sock" where
  "kkc_sock_tcp_send self buf =
     (let (result, st) = k_sendmsg (ks_kern self) (ks_state self) buf
      in (result, self\<lparr>ks_state := st\<rparr>))"

definition kkc_sock_tcp_recv ::
  "'s kkc_sock \<Rightarrow> nat \<Rightarrow> kkc_sock_flags_t \<Rightarrow> int \<times> byte list \<times> 's kkc_sock" where
  "kkc_sock_tcp_recv self buflen flags =
     (let (result, out, st) = k_recvmsg (ks_kern self) (ks_state self) buflen (flags = KKC_SOCK_NONBLOCK)
      in (if result = 0 \<and> buflen > 0 then - ECONNRESET else result, out, self\<lparr>ks_state := st\<rparr>))"

definition kkc_sock_tcp_shutdown :: "'s kkc_sock \<Rightarrow> int \<times> 's kkc_sock" where
  "kkc_sock_tcp_shutdown self =
     (let (err, st) = k_shutdown (ks_kern self) (ks_state self) in (err, self\<lparr>ks_state := st\<rparr>))"

text \<open>
  The loop that transfers a whole buffer with one of the two methods: \<open>buf\<close> is the
  position in the buffer, the state holds what the method changes. Whether it ends is a
  property of the method, so the loop is a partial function and not returning is
  \<open>None\<close>.
\<close>

partial_function (option) kkc_sock_send_recv ::
  "(int \<Rightarrow> int \<Rightarrow> 'a \<Rightarrow> int \<times> 'a) \<Rightarrow> int \<Rightarrow> int \<Rightarrow> int \<Rightarrow> int \<Rightarrow> 'a \<Rightarrow> (int \<times> 'a) option" where
  "kkc_sock_send_recv kkc_sock_method buf buflen error total_n s =
     (if 0 < buflen \<and> 0 \<le> error then
        (let error' = fst (kkc_sock_method buf buflen s);
             s' = snd (kkc_sock_method buf buflen s)
         in kkc_sock_send_recv kkc_sock_method (buf + error') (buflen - error') error' (total_n + error') s')
      else Some (if 0 \<le> error then total_n else error, s))"

definition kkc_sock_send :: "'s kkc_sock \<Rightarrow> byte list \<Rightarrow> (int \<times> 's kkc_sock) option" where
  "kkc_sock_send self data =
     kkc_sock_send_recv (\<lambda>off n s. kkc_sock_tcp_send s (take (nat n) (drop (nat off) data)))
       0 (int (length data)) 0 0 self"

definition recv_method ::
  "kkc_sock_flags_t \<Rightarrow> int \<Rightarrow> int \<Rightarrow> 's kkc_sock \<times> byte list \<Rightarrow> int \<times> 's kkc_sock \<times> byte list" where
  "recv_method flags off n sb =
     (let (r, out, s') = kkc_sock_tcp_recv (fst sb) (nat n) flags in (r, s', take (nat off) (snd sb) @ out))"

definition kkc_sock_recv ::
  "'s kkc_sock \<Rightarrow> nat \<Rightarrow> kkc_sock_flags_t \<Rightarrow> (int \<times> byte list \<times> 's kkc_sock) option" where
  "kkc_sock_recv self buflen flags =
     (case flags of
        KKC_SOCK_BLOCK \<Rightarrow> do {
          (r, s, out) \<leftarrow> kkc_sock_send_recv (recv_method flags) 0 (int buflen) 0 0 (self, []);
          Some (r, out, s)
        }
      | KKC_SOCK_NONBLOCK \<Rightarrow> Some (kkc_sock_tcp_recv self buflen flags))"

text \<open>Semaphores of the two directions; \<open>signalled\<close> is a pending signal, \<open>None\<close> a sleeping caller.\<close>

definition kkc_sock_snd_lock_interruptible :: "bool \<Rightarrow> 's kkc_sock \<Rightarrow> (int \<times> 's kkc_sock) option" where
  "kkc_sock_snd_lock_interruptible signalled self =
     (if ks_send_sem self then Some (0, self\<lparr>ks_send_sem := False\<rparr>)
      else if signalled then Some (- EINTR, self) else None)"

definition kkc_sock_snd_unlock :: "'s kkc_sock \<Rightarrow> 's kkc_sock" where
  "kkc_sock_snd_unlock self = self\<lparr>ks_send_sem := True\<rparr>"

definition kkc_sock_rcv_lock_interruptible :: "bool \<Rightarrow> 's kkc_sock \<Rightarrow> (int \<times> 's kkc_sock) option" where
  "kkc_sock_rcv_lock_interruptible signalled self =
     (if ks_recv_sem self then Some (0, self\<lparr>ks_recv_sem := False\<rparr>)
      else if signalled then Some (- EINTR, self) else None)"

definition kkc_sock_rcv_unlock :: "'s kkc_sock \<Rightarrow> 's kkc_sock" where
  "kkc_sock_rcv_unlock self = self\<lparr>ks_recv_sem := True\<rparr>"

subsection \<open>The transfer loop\<close>

definition sock_ok :: "'s kkc_sock \<Rightarrow> bool" where
  "sock_ok self \<longleftrightarrow> kernel_ok (ks_kern self)"

definition sock_sent :: "'s kkc_sock \<Rightarrow> byte list" where
  "sock_sent self = k_sent (ks_kern self) (ks_state self)"

definition sock_avail :: "'s kkc_sock \<Rightarrow> byte list" where
  "sock_avail self = k_avail (ks_kern self) (ks_state self)"

definition sock_frame :: "'s kkc_sock \<Rightarrow> 's kkc_sock \<Rightarrow> bool" where
  "sock_frame s s' \<longleftrightarrow> ks_kern s' = ks_kern s \<and> ks_ref_count s' = ks_ref_count s \<and>
     ks_send_sem s' = ks_send_sem s \<and> ks_recv_sem s' = ks_recv_sem s"

lemma sock_frame_refl [simp]: "sock_frame s s" by (simp add: sock_frame_def)

lemma sock_frame_trans [trans]: "sock_frame s s' \<Longrightarrow> sock_frame s' s'' \<Longrightarrow> sock_frame s s''"
  by (simp add: sock_frame_def)

lemma sock_frame_ok: "sock_frame s s' \<Longrightarrow> sock_ok s \<Longrightarrow> sock_ok s'"
  by (simp add: sock_frame_def sock_ok_def)

lemma tcp_send_ok:
  assumes "sock_ok s" "kkc_sock_tcp_send s bs = (r, s')"
  shows "sock_frame s s' \<and> sock_avail s' = sock_avail s \<and>
    (if r < 0 then sock_sent s' = sock_sent s
     else r \<le> int (length bs) \<and> (bs \<noteq> [] \<longrightarrow> 0 < r) \<and> sock_sent s' = sock_sent s @ take (nat r) bs)"
proof -
  obtain st where k: "k_sendmsg (ks_kern s) (ks_state s) bs = (r, st)" "s' = s\<lparr>ks_state := st\<rparr>"
    using assms(2) by (auto simp: kkc_sock_tcp_send_def split: prod.splits)
  show ?thesis
    using assms(1) [unfolded sock_ok_def kernel_ok_def, THEN conjunct1, rule_format, OF k(1)]
    by (simp add: k(2) sock_frame_def sock_sent_def sock_avail_def)
qed

lemma tcp_recv_ok:
  assumes "sock_ok s" "kkc_sock_tcp_recv s n flags = (r, out, s')"
  shows "sock_frame s s' \<and> sock_sent s' = sock_sent s \<and> sock_avail s = out @ sock_avail s' \<and> length out \<le> n \<and>
    (if r < 0 then out = [] else r = int (length out) \<and> (0 < n \<longrightarrow> 0 < r))"
proof -
  obtain q st where k: "k_recvmsg (ks_kern s) (ks_state s) n (flags = KKC_SOCK_NONBLOCK) = (q, out, st)"
      "s' = s\<lparr>ks_state := st\<rparr>" "r = (if q = 0 \<and> n > 0 then - ECONNRESET else q)"
    using assms(2) by (auto simp: kkc_sock_tcp_recv_def split: prod.splits)
  have f: "sock_frame s s'" "sock_sent s' = sock_sent s"
    "if q < 0 then out = [] \<and> sock_avail s' = sock_avail s
     else q = int (length out) \<and> length out \<le> n \<and> sock_avail s = out @ sock_avail s'"
    using assms(1) [unfolded sock_ok_def kernel_ok_def, THEN conjunct2, rule_format, OF k(1)]
    by (simp_all add: k(2) sock_frame_def sock_sent_def sock_avail_def)
  consider "q < 0" | "q = 0" | "0 < q" by linarith
  then show ?thesis by cases (use f k(3) in auto)
qed

text \<open>What the loop has achieved when it returns \<open>r\<close>, started at position \<open>off\<close>.\<close>

definition send_res :: "byte list \<Rightarrow> nat \<Rightarrow> 's kkc_sock \<Rightarrow> int \<Rightarrow> 's kkc_sock \<Rightarrow> bool" where
  "send_res data off s r s' \<longleftrightarrow> sock_frame s s' \<and> sock_avail s' = sock_avail s \<and>
    (if r < 0 then \<exists>m. sock_sent s' = sock_sent s @ take m (drop off data)
     else r = int (length data) \<and> sock_sent s' = sock_sent s @ drop off data)"

lemma send_res_step:
  assumes "sock_frame s s1" "sock_avail s1 = sock_avail s" "sock_sent s1 = sock_sent s @ take k (drop off data)"
    and "send_res data (off + k) s1 r s'"
  shows "send_res data off s r s'"
proof -
  have f: "sock_frame s s'" "sock_avail s' = sock_avail s"
    using assms sock_frame_trans by (auto simp: send_res_def)
  have j: "take k (drop off data) @ drop (off + k) data = drop off data"
    by (metis append_take_drop_id drop_drop add.commute)
  have t: "take k (drop off data) @ take m (drop (off + k) data) = take (k + m) (drop off data)" for m
    by (simp add: take_add add.commute)
  show ?thesis
  proof (cases "r < 0")
    case True
    then obtain m where "sock_sent s' = sock_sent s1 @ take m (drop (off + k) data)"
      using assms(4) by (auto simp: send_res_def)
    then have "sock_sent s' = sock_sent s @ take (k + m) (drop off data)" using assms(3) t by simp
    then show ?thesis using True f by (auto simp: send_res_def)
  next
    case False
    then show ?thesis using f assms(3,4) j by (simp add: send_res_def)
  qed
qed

abbreviation send_method :: "byte list \<Rightarrow> int \<Rightarrow> int \<Rightarrow> 's kkc_sock \<Rightarrow> int \<times> 's kkc_sock" where
  "send_method data \<equiv> \<lambda>off n s. kkc_sock_tcp_send s (take (nat n) (drop (nat off) data))"

lemma loop_error: "e < 0 \<Longrightarrow> kkc_sock_send_recv m off n e t s = Some (e, s)"
  by (subst kkc_sock_send_recv.simps) simp

lemma loop_done: "n \<le> 0 \<Longrightarrow> 0 \<le> e \<Longrightarrow> kkc_sock_send_recv m off n e t s = Some (t, s)"
  by (subst kkc_sock_send_recv.simps) simp

lemma loop_go: "0 < n \<Longrightarrow> 0 \<le> e \<Longrightarrow> m off n s = (e', s') \<Longrightarrow>
    kkc_sock_send_recv m off n e t s = kkc_sock_send_recv m (off + e') (n - e') e' (t + e') s'"
  by (subst kkc_sock_send_recv.simps) (simp add: Let_def)

lemma loop_flag: "0 \<le> e \<Longrightarrow> 0 \<le> e' \<Longrightarrow>
    kkc_sock_send_recv m off n e t s = kkc_sock_send_recv m off n e' t s"
  by (subst (1 2) kkc_sock_send_recv.simps) simp

lemma send_loop:
  assumes "sock_ok s" "off + n = length data"
  shows "\<exists>r s'. kkc_sock_send_recv (send_method data) (int off) (int n) 0 (int off) s = Some (r, s') \<and>
    send_res data off s r s'"
  using assms
proof (induction n arbitrary: off s rule: less_induct)
  case (less n)
  show ?case
  proof (cases "n = 0")
    case True
    then show ?thesis using less.prems by (simp add: loop_done send_res_def)
  next
    case False
    obtain e s1 where c: "kkc_sock_tcp_send s (drop off data) = (e, s1)" by fastforce
    note ok1 = tcp_send_ok [OF less.prems(1) c]
    have unf: "kkc_sock_send_recv (send_method data) (int off) (int n) 0 (int off) s =
        kkc_sock_send_recv (send_method data) (int off + e) (int n - e) e (int off + e) s1"
      using False c less.prems(2) by (intro loop_go) auto
    show ?thesis
    proof (cases "e < 0")
      case True
      moreover have "send_res data off s e s1"
        using ok1 True by (auto simp: send_res_def intro!: exI [of _ 0])
      ultimately show ?thesis using unf by (simp add: loop_error)
    next
      case False
      define k where "k = nat e"
      have k: "e = int k" "0 < k" "k \<le> n" "sock_sent s1 = sock_sent s @ take k (drop off data)"
        using ok1 False \<open>n \<noteq> 0\<close> less.prems(2) by (auto simp: k_def)
      have "sock_ok s1" using ok1 sock_frame_ok less.prems(1) by blast
      then obtain r s' where ih: "send_res data (off + k) s1 r s'"
        "kkc_sock_send_recv (send_method data) (int (off + k)) (int (n - k)) 0 (int (off + k)) s1 = Some (r, s')"
        using less.IH [of "n - k" s1 "off + k"] k less.prems by auto
      have "kkc_sock_send_recv (send_method data) (int off) (int n) 0 (int off) s = Some (r, s')"
        using unf ih(2) k loop_flag [of e 0 "send_method data" "int (off + k)" "int (n - k)" "int (off + k)" s1]
        by (simp add: of_nat_diff)
      then show ?thesis using send_res_step [OF _ _ k(4) ih(1)] ok1 by blast
    qed
  qed
qed

definition recv_res :: "nat \<Rightarrow> byte list \<Rightarrow> 's kkc_sock \<Rightarrow> int \<Rightarrow> 's kkc_sock \<Rightarrow> byte list \<Rightarrow> bool" where
  "recv_res n got s r s' out \<longleftrightarrow> sock_frame s s' \<and> sock_sent s' = sock_sent s \<and>
    (\<exists>new. out = got @ new \<and> sock_avail s = new @ sock_avail s' \<and>
      (if r < 0 then length new < n else r = int (length out) \<and> length new = n))"

lemma recv_res_step:
  assumes "sock_frame s s1" "sock_sent s1 = sock_sent s" "sock_avail s = out @ sock_avail s1" "length out \<le> n"
    and "recv_res (n - length out) (got @ out) s1 r s' fin"
  shows "recv_res n got s r s' fin"
proof -
  obtain new where n: "fin = (got @ out) @ new" "sock_avail s1 = new @ sock_avail s'"
      "if r < 0 then length new < n - length out else r = int (length fin) \<and> length new = n - length out"
      "sock_frame s1 s'" "sock_sent s' = sock_sent s1"
    using assms(5) unfolding recv_res_def by blast
  have "fin = got @ (out @ new)" "sock_avail s = (out @ new) @ sock_avail s'"
    "if r < 0 then length (out @ new) < n else r = int (length fin) \<and> length (out @ new) = n"
    using n(1-3) assms(3,4) by (auto split: if_splits)
  then show ?thesis
    unfolding recv_res_def using assms(1,2) n(4,5) sock_frame_trans by metis
qed

lemma recv_loop:
  assumes "sock_ok s"
  shows "\<exists>r s' out. kkc_sock_send_recv (recv_method flags) (int (length got)) (int n) 0 (int (length got)) (s, got) =
      Some (r, s', out) \<and> recv_res n got s r s' out"
  using assms
proof (induction n arbitrary: got s rule: less_induct)
  case (less n)
  show ?case
  proof (cases "n = 0")
    case True
    then show ?thesis by (simp add: loop_done recv_res_def)
  next
    case False
    obtain e out s1 where c: "kkc_sock_tcp_recv s n flags = (e, out, s1)" using prod_cases3 by blast
    note ok1 = tcp_recv_ok [OF less.prems c]
    have unf: "kkc_sock_send_recv (recv_method flags) (int (length got)) (int n) 0 (int (length got)) (s, got) =
        kkc_sock_send_recv (recv_method flags) (int (length got) + e) (int n - e) e (int (length got) + e) (s1, got @ out)"
      using False c by (intro loop_go) (auto simp: recv_method_def)
    show ?thesis
    proof (cases "e < 0")
      case True
      then show ?thesis using unf ok1 False by (auto simp: loop_error recv_res_def)
    next
      case e: False
      have k: "e = int (length out)" "0 < length out" "length out \<le> n" using ok1 e False by auto
      have "sock_ok s1" using ok1 sock_frame_ok less.prems by blast
      then obtain r s' fin where ih: "recv_res (n - length out) (got @ out) s1 r s' fin"
        "kkc_sock_send_recv (recv_method flags) (int (length (got @ out))) (int (n - length out)) 0
           (int (length (got @ out))) (s1, got @ out) = Some (r, s', fin)"
        using less.IH [of "n - length out" s1 "got @ out"] k by (meson diff_less order_less_le_trans)
      have "kkc_sock_send_recv (recv_method flags) (int (length got)) (int n) 0 (int (length got)) (s, got) = Some (r, s', fin)"
        using unf ih(2) k loop_flag [of e 0 "recv_method flags" "int (length (got @ out))" "int (n - length out)"
            "int (length (got @ out))" "(s1, got @ out)"]
        by (simp add: of_nat_diff)
      moreover have "recv_res n got s r s' fin"
        by (rule recv_res_step [OF _ _ _ k(3) ih(1)]) (use ok1 in auto)
      ultimately show ?thesis by blast
    qed
  qed
qed

lemma kkc_sock_send_ok:
  assumes "sock_ok s"
  shows "\<exists>r s'. kkc_sock_send s data = Some (r, s') \<and> sock_frame s s' \<and> sock_avail s' = sock_avail s \<and>
    (if r < 0 then \<exists>m. sock_sent s' = sock_sent s @ take m data
     else r = int (length data) \<and> sock_sent s' = sock_sent s @ data)"
proof -
  obtain r s' where "kkc_sock_send s data = Some (r, s')" "send_res data 0 s r s'"
    using send_loop [OF assms, of 0 "length data" data] by (auto simp: kkc_sock_send_def)
  then show ?thesis by (intro exI [of _ r] exI [of _ s']) (auto simp: send_res_def split: if_splits)
qed

lemma kkc_sock_recv_ok:
  assumes "sock_ok s"
  shows "\<exists>r out s'. kkc_sock_recv s n KKC_SOCK_BLOCK = Some (r, out, s') \<and> sock_frame s s' \<and>
    sock_sent s' = sock_sent s \<and> sock_avail s = out @ sock_avail s' \<and>
    (if r < 0 then length out < n else r = int n \<and> length out = n)"
proof -
  obtain r out s' where "kkc_sock_recv s n KKC_SOCK_BLOCK = Some (r, out, s')" "recv_res n [] s r s' out"
    using recv_loop [OF assms, where got = "[]" and n = n and flags = KKC_SOCK_BLOCK]
    by (auto simp: kkc_sock_recv_def)
  then show ?thesis
    by (intro exI [of _ r] exI [of _ out] exI [of _ s']) (auto simp: recv_res_def split: if_splits)
qed

subsection \<open>Programs over a stream\<close>

text \<open>
  The idiom of the callers: transfer one field and leave with the error code when the
  transfer fails, go on otherwise.
\<close>

definition send_field ::
  "('s \<Rightarrow> byte list \<Rightarrow> (int \<times> 's) option) \<Rightarrow> byte list \<Rightarrow> ('s \<Rightarrow> (int \<times> 's) option) \<Rightarrow> 's \<Rightarrow> (int \<times> 's) option" where
  "send_field snd_op data k sock = do {
     (err, sock) \<leftarrow> snd_op sock data;
     (if err < 0 then Some (err, sock) else k sock)
   }"

definition recv_field ::
  "('s \<Rightarrow> nat \<Rightarrow> (int \<times> byte list \<times> 's) option) \<Rightarrow> nat \<Rightarrow> 'a \<Rightarrow>
   (int \<Rightarrow> byte list \<Rightarrow> 's \<Rightarrow> (int \<times> 'a \<times> 's) option) \<Rightarrow> 's \<Rightarrow> (int \<times> 'a \<times> 's) option" where
  "recv_field rcv_op n self k sock = do {
     (err, out, sock) \<leftarrow> rcv_op sock n;
     (if err < 0 then Some (err, self, sock) else k err out sock)
   }"

text \<open>
  The contract of a reliable byte stream and what it means for a program to write given
  bytes or to read a value off given bytes.
\<close>

locale stream_link =
  fixes ok :: "'s \<Rightarrow> bool" and sent :: "'s \<Rightarrow> byte list" and avail :: "'s \<Rightarrow> byte list"
    and snd_op :: "'s \<Rightarrow> byte list \<Rightarrow> (int \<times> 's) option"
    and rcv_op :: "'s \<Rightarrow> nat \<Rightarrow> (int \<times> byte list \<times> 's) option"
  assumes send_law: "ok s \<Longrightarrow> \<exists>r s'. snd_op s data = Some (r, s') \<and> ok s' \<and> avail s' = avail s \<and>
      (if r < 0 then \<exists>m. sent s' = sent s @ take m data else sent s' = sent s @ data)"
    and recv_law: "ok s \<Longrightarrow> \<exists>r out s'. rcv_op s n = Some (r, out, s') \<and> ok s' \<and> sent s' = sent s \<and>
      avail s = out @ avail s' \<and> (if r < 0 then length out < n else length out = n)"
begin

definition writes :: "('s \<Rightarrow> (int \<times> 's) option) \<Rightarrow> byte list \<Rightarrow> bool" where
  "writes f data \<longleftrightarrow> (\<forall>s. ok s \<longrightarrow> (\<exists>r s'. f s = Some (r, s') \<and> ok s' \<and> avail s' = avail s \<and>
     (if r < 0 then \<exists>m. sent s' = sent s @ take m data else sent s' = sent s @ data)))"

definition reads :: "('s \<Rightarrow> (int \<times> 'a \<times> 's) option) \<Rightarrow> byte list \<Rightarrow> ('a \<Rightarrow> bool) \<Rightarrow> bool" where
  "reads f data P \<longleftrightarrow> (\<forall>s rest. ok s \<longrightarrow> avail s = data @ rest \<longrightarrow>
     (\<exists>r y s'. f s = Some (r, y, s') \<and> ok s' \<and> sent s' = sent s \<and> (r < 0 \<or> P y \<and> avail s' = rest)))"

lemma writes_done: "writes (\<lambda>s. Some (r, s)) []"
  by (simp add: writes_def)

lemma writes_field:
  assumes "writes k data'"
  shows "writes (send_field snd_op data k) (data @ data')"
  unfolding writes_def
proof (intro allI impI)
  fix s assume "ok s"
  then obtain r s1 where s1: "snd_op s data = Some (r, s1)" "ok s1" "avail s1 = avail s"
      "if r < 0 then \<exists>m. sent s1 = sent s @ take m data else sent s1 = sent s @ data"
    using send_law by blast
  show "\<exists>r s'. send_field snd_op data k s = Some (r, s') \<and> ok s' \<and> avail s' = avail s \<and>
     (if r < 0 then \<exists>m. sent s' = sent s @ take m (data @ data') else sent s' = sent s @ data @ data')"
  proof (cases "r < 0")
    case True
    then obtain m where "sent s1 = sent s @ take m data" using s1(4) by auto
    then have "\<exists>m. sent s1 = sent s @ take m (data @ data')"
      by (intro exI [of _ "min m (length data)"]) (simp add: min_def)
    then show ?thesis using True s1(1-3) by (simp add: send_field_def)
  next
    case False
    obtain r' s' where s': "k s1 = Some (r', s')" "ok s'" "avail s' = avail s1"
        "if r' < 0 then \<exists>m. sent s' = sent s1 @ take m data' else sent s' = sent s1 @ data'"
      using assms s1(2) unfolding writes_def by blast
    have "if r' < 0 then \<exists>m. sent s' = sent s @ take m (data @ data') else sent s' = sent s @ data @ data'"
    proof (cases "r' < 0")
      case True
      then obtain m where "sent s' = sent s1 @ take m data'" using s'(4) by auto
      then have "\<exists>m. sent s' = sent s @ take m (data @ data')"
        using False s1(4) by (intro exI [of _ "length data + m"]) simp
      then show ?thesis using True by simp
    qed (use s'(4) s1(4) False in simp)
    then show ?thesis using False s1 s' by (simp add: send_field_def)
  qed
qed

lemma writes_last: "writes (\<lambda>s. snd_op s data) data"
  using send_law unfolding writes_def by blast

lemma reads_done: "P x \<Longrightarrow> reads (\<lambda>s. Some (r, x, s)) [] P"
  by (simp add: reads_def)

lemma reads_field:
  assumes "length data = n" "\<And>err. 0 \<le> err \<Longrightarrow> reads (k err data) data' P"
  shows "reads (recv_field rcv_op n self k) (data @ data') P"
  unfolding reads_def
proof (intro allI impI)
  fix s rest assume a: "ok s" "avail s = (data @ data') @ rest"
  then obtain r out s1 where s1: "rcv_op s n = Some (r, out, s1)" "ok s1" "sent s1 = sent s"
      "avail s = out @ avail s1" "if r < 0 then length out < n else length out = n"
    using recv_law by blast
  show "\<exists>r y s'. recv_field rcv_op n self k s = Some (r, y, s') \<and> ok s' \<and> sent s' = sent s \<and>
     (r < 0 \<or> P y \<and> avail s' = rest)"
  proof (cases "r < 0")
    case True
    then show ?thesis using s1 by (auto simp: recv_field_def)
  next
    case False
    then have "out = data" "avail s1 = data' @ rest" using s1(4,5) a(2) assms(1) by auto
    then show ?thesis
      using assms(2) [of r] s1 False unfolding reads_def by (fastforce simp: recv_field_def)
  qed
qed

lemma reads_last:
  assumes "length data = n" "\<And>err. 0 \<le> err \<Longrightarrow> P (x err data)"
  shows "reads (recv_field rcv_op n self (\<lambda>err out s. Some (r err, x err out, s))) data P"
proof -
  have "reads (recv_field rcv_op n self (\<lambda>err out s. Some (r err, x err out, s))) (data @ []) P"
    by (rule reads_field [OF assms(1)]) (simp add: reads_done assms(2))
  then show ?thesis by simp
qed

lemma reads_map:
  assumes "reads f data (\<lambda>x. P (g x))"
  shows "reads (\<lambda>s. map_option (\<lambda>(err, x, s). (err, g x, s)) (f s)) data P"
  using assms unfolding reads_def by fastforce

end

abbreviation kkc_recv_block :: "'s kkc_sock \<Rightarrow> nat \<Rightarrow> (int \<times> byte list \<times> 's kkc_sock) option" where
  "kkc_recv_block s n \<equiv> kkc_sock_recv s n KKC_SOCK_BLOCK"

interpretation kkc: stream_link sock_ok sock_sent sock_avail kkc_sock_send kkc_recv_block
proof
  fix s :: "'s kkc_sock" and data n
  assume ok: "sock_ok s"
  show "\<exists>r s'. kkc_sock_send s data = Some (r, s') \<and> sock_ok s' \<and> sock_avail s' = sock_avail s \<and>
      (if r < 0 then \<exists>m. sock_sent s' = sock_sent s @ take m data else sock_sent s' = sock_sent s @ data)"
    using kkc_sock_send_ok [OF ok, of data] sock_frame_ok [OF _ ok] by metis
  show "\<exists>r out s'. kkc_recv_block s n = Some (r, out, s') \<and> sock_ok s' \<and> sock_sent s' = sock_sent s \<and>
      sock_avail s = out @ sock_avail s' \<and> (if r < 0 then length out < n else length out = n)"
    using kkc_sock_recv_ok [OF ok, of n] sock_frame_ok [OF _ ok] by metis
qed

subsection \<open>Whole transfers\<close>

text \<open>A kernel socket that moves at most three bytes per call, for the examples.\<close>

definition slow_kern :: "(byte list \<times> byte list) kernel_sock" where
  "slow_kern = \<lparr>k_sendmsg = (\<lambda>s bs. (int (min 3 (length bs)), (fst s @ take 3 bs, snd s))),
     k_recvmsg = (\<lambda>s n nb. (int (min (min n 3) (length (snd s))), take (min n 3) (snd s), (fst s, drop (min n 3) (snd s)))),
     k_connect = (\<lambda>s a. (0, s)), k_bind = (\<lambda>s a. (0, s)), k_listen = (\<lambda>s n. (0, s)),
     k_accept = (\<lambda>s t nb. (0, s, t)), k_shutdown = (\<lambda>s. (0, s)),
     k_getname = (\<lambda>s p. (0, \<lparr>sin_addr = [0, 0, 0, 0], sin_port = 0\<rparr>)), k_sent = fst, k_avail = snd\<rparr>"

definition slow_sock :: "byte list \<Rightarrow> (byte list \<times> byte list) kkc_sock" where
  "slow_sock inp = \<lparr>ks_kern = slow_kern, ks_state = ([], inp), ks_ref_count = 1, ks_send_sem = True, ks_recv_sem = True\<rparr>"

lemma slow_sock_ok [simp]: "sock_ok (slow_sock inp)" "sock_sent (slow_sock inp) = []" "sock_avail (slow_sock inp) = inp"
  by (auto simp: sock_ok_def sock_sent_def sock_avail_def kernel_ok_def slow_sock_def slow_kern_def min_def split: if_splits)

text \<open>A kernel that transfers whatever it is asked to at once.\<close>

definition eager_kern :: "(byte list \<times> byte list) kernel_sock" where
  "eager_kern = slow_kern\<lparr>k_sendmsg := (\<lambda>s bs. (int (length bs), (fst s @ bs, snd s))),
     k_recvmsg := (\<lambda>s n nb. (int (min n (length (snd s))), take n (snd s), (fst s, drop n (snd s))))\<rparr>"

definition eager_sock :: "byte list \<Rightarrow> byte list \<Rightarrow> (byte list \<times> byte list) kkc_sock" where
  "eager_sock out inp = \<lparr>ks_kern = eager_kern, ks_state = (out, inp), ks_ref_count = 1, ks_send_sem = True, ks_recv_sem = True\<rparr>"

lemma eager_sock_ok [simp]: "sock_ok (eager_sock out inp)" "sock_sent (eager_sock out inp) = out" "sock_avail (eager_sock out inp) = inp"
  "ks_send_sem (eager_sock out inp)" "ks_recv_sem (eager_sock out inp)"
  by (auto simp: sock_ok_def sock_sent_def sock_avail_def kernel_ok_def eager_sock_def eager_kern_def slow_kern_def min_def split: if_splits)

lemma eager_send:
  assumes "ks_kern s = eager_kern" "ks_state s = (out, inp)"
  shows "kkc_sock_send s data = Some (int (length data), s\<lparr>ks_state := (out @ data, inp)\<rparr>)"
proof (cases "data = []")
  case True
  then show ?thesis using assms by (cases s) (simp add: kkc_sock_send_def loop_done)
next
  case False
  have "kkc_sock_tcp_send s data = (int (length data), s\<lparr>ks_state := (out @ data, inp)\<rparr>)"
    using assms by (simp add: kkc_sock_tcp_send_def eager_kern_def)
  then show ?thesis using False by (simp add: kkc_sock_send_def loop_go loop_done)
qed

lemma eager_recv:
  assumes "ks_kern s = eager_kern" "ks_state s = (out, inp)" "0 < n" "n \<le> length inp"
  shows "kkc_recv_block s n = Some (int n, take n inp, s\<lparr>ks_state := (out, drop n inp)\<rparr>)"
proof -
  have "recv_method KKC_SOCK_BLOCK 0 (int n) (s, []) = (int n, s\<lparr>ks_state := (out, drop n inp)\<rparr>, take n inp)"
    using assms by (simp add: recv_method_def kkc_sock_tcp_recv_def eager_kern_def)
  then show ?thesis using assms(3) by (simp add: kkc_sock_recv_def loop_go loop_done)
qed

text \<open>
  C11. Sending always returns, however the kernel splits the buffer: with a
  non-negative result the result is the buffer's length and the whole buffer, in order
  and nothing else, has gone out; with an error a prefix of it has. Neither the other
  direction nor the reference count and semaphores of the socket change.
\<close>

theorem kkc_sock_send_whole:
  assumes "sock_ok s"
  shows "\<exists>r s'. kkc_sock_send s data = Some (r, s') \<and> sock_frame s s' \<and> sock_avail s' = sock_avail s \<and>
    (if r < 0 then \<exists>m. sock_sent s' = sock_sent s @ take m data
     else r = int (length data) \<and> sock_sent s' = sock_sent s @ data)"
  by (rule kkc_sock_send_ok [OF assms])

theorem kkc_sock_send_whole_witness:
  "sock_ok (slow_sock []) \<and> (\<exists>r s'. kkc_sock_send (slow_sock []) [1, 2, 3, 4, 5, 6, 7] = Some (r, s') \<and>
    (r < 0 \<or> r = 7 \<and> sock_sent s' = [1, 2, 3, 4, 5, 6, 7]))"
  using kkc_sock_send_whole [of "slow_sock []" "[1, 2, 3, 4, 5, 6, 7]"] by (auto split: if_splits)

text \<open>
  C12. Receiving in blocking mode always returns: with a non-negative result exactly the
  requested number of bytes has been taken off the front of the stream; with an error
  (a closed connection included) fewer have, and those are lost for the caller.
\<close>

theorem kkc_sock_recv_exact:
  assumes "sock_ok s"
  shows "\<exists>r out s'. kkc_sock_recv s n KKC_SOCK_BLOCK = Some (r, out, s') \<and> sock_frame s s' \<and>
    sock_sent s' = sock_sent s \<and> sock_avail s = out @ sock_avail s' \<and>
    (if r < 0 then length out < n else r = int n \<and> length out = n)"
  by (rule kkc_sock_recv_ok [OF assms])

theorem kkc_sock_recv_exact_witness:
  "sock_ok (slow_sock [1, 2, 3, 4, 5]) \<and> (\<exists>r out s'. kkc_sock_recv (slow_sock [1, 2, 3, 4, 5]) 4 KKC_SOCK_BLOCK = Some (r, out, s') \<and>
    (r < 0 \<or> out = [1, 2, 3, 4] \<and> sock_avail s' = [5]))"
proof -
  obtain r out s' where c: "kkc_sock_recv (slow_sock [1, 2, 3, 4, 5]) 4 KKC_SOCK_BLOCK = Some (r, out, s')"
      "[1, 2, 3, 4, 5] = out @ sock_avail s'" "if r < 0 then length out < 4 else r = int 4 \<and> length out = 4"
    using kkc_sock_recv_exact [of "slow_sock [1, 2, 3, 4, 5]" 4] by auto
  have "r < 0 \<or> out = [1, 2, 3, 4] \<and> sock_avail s' = [5]"
    using c(2,3) by (cases "r < 0") (auto simp: numeral_eq_Suc length_Suc_conv)
  then show ?thesis using c(1) by auto
qed

end
