(* ===== verification/Tcmi_Messages.thy ===== *)
theory Tcmi_Messages
  imports Tcmi_Msg_Base Kkc
begin

text \<open>
  The classes of migration messages (\<^verbatim>\<open>src/tcmi/comm/tcmi_*_msg.c\<close>): constructors for
  receiving and sending, and the transfer of the fields of each class.

  The kernel allocator is \<open>msg_mem\<close>: whether the structure can be allocated, with the
  uninitialised contents its fields then have, and for which sizes a buffer can. A
  receiver hands back the structure as it was before the failing transfer.
\<close>

record msg_mem =
  mm_ok :: bool
  mm_kmalloc :: "u64 \<Rightarrow> bool"
  mm_authenticate :: tcmi_authenticate_msg
  mm_authenticate_resp :: tcmi_authenticate_resp_msg
  mm_p_emigrate :: tcmi_p_emigrate_msg
  mm_signal :: tcmi_signal_msg
  mm_generic_user :: tcmi_generic_user_msg
  mm_proc :: tcmi_procmsg
  mm_guestreq :: tcmi_guestreq
  mm_rpc :: tcmi_rpc_procmsg
  mm_rpcresp :: tcmi_rpcresp_procmsg
  mm_word :: i32

abbreviation ksend :: "byte list \<Rightarrow> ('s kkc_sock \<Rightarrow> (int \<times> 's kkc_sock) option) \<Rightarrow> 's kkc_sock \<Rightarrow> (int \<times> 's kkc_sock) option" where
  "ksend \<equiv> send_field kkc_sock_send"

abbreviation krecv ::
  "nat \<Rightarrow> 'a \<Rightarrow> (int \<Rightarrow> byte list \<Rightarrow> 's kkc_sock \<Rightarrow> (int \<times> 'a \<times> 's kkc_sock) option) \<Rightarrow> 's kkc_sock \<Rightarrow>
   (int \<times> 'a \<times> 's kkc_sock) option" where
  "krecv \<equiv> recv_field kkc_recv_block"

text \<open>The first \<open>n\<close> bytes behind a pointer; reading past the buffer or through NULL is a fault.\<close>

definition buf_bytes :: "byte list option \<Rightarrow> nat \<Rightarrow> byte list option" where
  "buf_bytes p n =
     (case p of None \<Rightarrow> if n = 0 then Some [] else None
      | Some b \<Rightarrow> if n \<le> length b then Some (take n b) else None)"

definition send_buf ::
  "byte list option \<Rightarrow> nat \<Rightarrow> ('s kkc_sock \<Rightarrow> (int \<times> 's kkc_sock) option) \<Rightarrow> 's kkc_sock \<Rightarrow> (int \<times> 's kkc_sock) option" where
  "send_buf p n k sock = (case buf_bytes p n of None \<Rightarrow> None | Some data \<Rightarrow> ksend data k sock)"

text \<open>How the constructors end: the structure is released when the initialisation fails.\<close>

definition rx_result :: "int \<times> tcmi_msg \<Rightarrow> tcmi_msg option" where
  "rx_result r = (if fst r \<noteq> 0 then None else Some (snd r))"

definition tx_result ::
  "(int \<times> tcmi_msg \<times> 'c transactions) option \<Rightarrow> (tcmi_msg option \<times> 'c transactions) option" where
  "tx_result r = do { (err, msg, tr) \<leftarrow> r; Some (if err \<noteq> 0 then None else Some msg, tr) }"

subsection \<open>Test messages\<close>

definition tcmi_skel_msg_new_rx :: "msg_mem \<Rightarrow> u32 \<Rightarrow> tcmi_msg option" where
  "tcmi_skel_msg_new_rx mem msg_id =
     (if msg_id \<noteq> TCMI_SKEL_MSG_ID then None
      else if \<not> mm_ok mem then None
      else rx_result (tcmi_msg_init_rx TCMI_SKEL_MSG_ID Skel_msg))"

definition tcmi_skel_msg_new_tx ::
  "msg_mem \<Rightarrow> trans_env \<Rightarrow> 'c transactions \<Rightarrow> (tcmi_msg option \<times> 'c transactions) option" where
  "tcmi_skel_msg_new_tx mem env transactions =
     (if \<not> mm_ok mem then Some (None, transactions)
      else tx_result (tcmi_msg_init_tx env TCMI_SKEL_MSG_ID Skel_msg transactions TCMI_SKELRESP_MSG_ID
             (5 * te_hz env) TCMI_TRANSACTION_INVAL_ID))"

definition tcmi_skel_msg_recv :: "'s kkc_sock \<Rightarrow> (int \<times> unit \<times> 's kkc_sock) option" where
  "tcmi_skel_msg_recv sock = Some (0, (), sock)"

definition tcmi_skel_msg_send :: "'s kkc_sock \<Rightarrow> (int \<times> 's kkc_sock) option" where
  "tcmi_skel_msg_send sock = Some (0, sock)"

definition tcmi_skelresp_msg_new_rx :: "msg_mem \<Rightarrow> u32 \<Rightarrow> tcmi_msg option" where
  "tcmi_skelresp_msg_new_rx mem msg_id =
     (if msg_id \<noteq> TCMI_SKELRESP_MSG_ID then None
      else if \<not> mm_ok mem then None
      else rx_result (tcmi_msg_init_rx TCMI_SKELRESP_MSG_ID Skelresp_msg))"

definition tcmi_skelresp_msg_new_tx ::
  "msg_mem \<Rightarrow> trans_env \<Rightarrow> u32 \<Rightarrow> (tcmi_msg option \<times> 'c transactions) option" where
  "tcmi_skelresp_msg_new_tx mem env trans_id =
     (if \<not> mm_ok mem then Some (None, None)
      else tx_result (tcmi_msg_init_tx env TCMI_SKELRESP_MSG_ID Skelresp_msg None 0 0 trans_id))"

definition tcmi_skelresp_msg_recv :: "'s kkc_sock \<Rightarrow> (int \<times> unit \<times> 's kkc_sock) option" where
  "tcmi_skelresp_msg_recv sock = Some (0, (), sock)"

definition tcmi_skelresp_msg_send :: "'s kkc_sock \<Rightarrow> (int \<times> 's kkc_sock) option" where
  "tcmi_skelresp_msg_send sock = Some (0, sock)"

subsection \<open>Authentication\<close>

definition tcmi_authenticate_msg_new_rx :: "msg_mem \<Rightarrow> u32 \<Rightarrow> tcmi_msg option" where
  "tcmi_authenticate_msg_new_rx mem msg_id =
     (if msg_id \<noteq> TCMI_AUTHENTICATE_MSG_ID then None
      else if \<not> mm_ok mem then None
      else rx_result (tcmi_msg_init_rx TCMI_AUTHENTICATE_MSG_ID (Authenticate_msg (mm_authenticate mem))))"

definition tcmi_authenticate_msg_new_tx ::
  "msg_mem \<Rightarrow> trans_env \<Rightarrow> 'c transactions \<Rightarrow> u32 \<Rightarrow> u32 \<Rightarrow> byte list \<Rightarrow> i32 \<Rightarrow>
   (tcmi_msg option \<times> 'c transactions) option" where
  "tcmi_authenticate_msg_new_tx mem env transactions pen_id pen_arch auth_data size_n =
     (if \<not> mm_ok mem then Some (None, transactions)
      else if 0 < sint size_n \<and> \<not> mm_kmalloc mem (scast size_n) then Some (None, transactions)
      else tx_result (tcmi_msg_init_tx env TCMI_AUTHENTICATE_MSG_ID
             (Authenticate_msg \<lparr>au_pen_id = pen_id, au_pen_arch = pen_arch,
                au_auth_data = (if 0 < sint size_n then Some (take (nat (sint size_n)) auth_data) else None), au_size = size_n\<rparr>)
             transactions TCMI_AUTHENTICATE_RESP_MSG_ID (60 * te_hz env) TCMI_TRANSACTION_INVAL_ID))"

definition tcmi_authenticate_msg_recv ::
  "(u64 \<Rightarrow> bool) \<Rightarrow> tcmi_authenticate_msg \<Rightarrow> 's kkc_sock \<Rightarrow> (int \<times> tcmi_authenticate_msg \<times> 's kkc_sock) option" where
  "tcmi_authenticate_msg_recv kmalloc self =
     krecv 4 self (\<lambda>err out. let self = self\<lparr>au_pen_id := le_word out\<rparr> in
     krecv 4 self (\<lambda>err out. let self = self\<lparr>au_pen_arch := le_word out\<rparr> in
     krecv 4 self (\<lambda>err out sock. let self = self\<lparr>au_size := le_word out\<rparr> in
       if au_size self > 0 then
         (if \<not> kmalloc (ucast (au_size self)) then Some (err, self\<lparr>au_auth_data := None\<rparr>, sock)
          else krecv (int_len (au_size self)) self (\<lambda>err out sock. Some (0, self\<lparr>au_auth_data := Some out\<rparr>, sock)) sock)
       else Some (0, self\<lparr>au_auth_data := None\<rparr>, sock))))"

definition tcmi_authenticate_msg_send :: "tcmi_authenticate_msg \<Rightarrow> 's kkc_sock \<Rightarrow> (int \<times> 's kkc_sock) option" where
  "tcmi_authenticate_msg_send self =
     ksend (le_bytes 4 (au_pen_id self)) (ksend (le_bytes 4 (au_pen_arch self)) (ksend (le_bytes 4 (au_size self)) (
       if au_size self > 0 then send_buf (au_auth_data self) (int_len (au_size self)) (\<lambda>sock. Some (0, sock))
       else (\<lambda>sock. Some (0, sock)))))"

definition tcmi_authenticate_resp_msg_new_rx :: "msg_mem \<Rightarrow> u32 \<Rightarrow> tcmi_msg option" where
  "tcmi_authenticate_resp_msg_new_rx mem msg_id =
     (if msg_id \<noteq> TCMI_AUTHENTICATE_RESP_MSG_ID then None
      else if \<not> mm_ok mem then None
      else rx_result (tcmi_msg_init_rx TCMI_AUTHENTICATE_RESP_MSG_ID (Authenticate_resp_msg (mm_authenticate_resp mem))))"

definition tcmi_authenticate_resp_msg_new_tx ::
  "msg_mem \<Rightarrow> trans_env \<Rightarrow> u32 \<Rightarrow> u32 \<Rightarrow> u32 \<Rightarrow> byte \<Rightarrow> byte list \<Rightarrow> (tcmi_msg option \<times> 'c transactions) option" where
  "tcmi_authenticate_resp_msg_new_tx mem env trans_id ccn_id ccn_arch result_code mount_params =
     (if \<not> mm_ok mem then Some (None, None)
      else tx_result (tcmi_msg_init_tx env TCMI_AUTHENTICATE_RESP_MSG_ID
             (Authenticate_resp_msg \<lparr>ar_ccn_id = ccn_id, ar_ccn_arch = ccn_arch, ar_mount_params = mount_params,
                ar_result_code = result_code\<rparr>) None 0 0 trans_id))"

text \<open>\<^verbatim>\<open>struct fs_mount_params\<close>: three packed character arrays.\<close>

abbreviation (input) mount_params_size :: nat where "mount_params_size \<equiv> 80 + 128 + 64"

definition tcmi_authenticate_resp_msg_recv ::
  "tcmi_authenticate_resp_msg \<Rightarrow> 's kkc_sock \<Rightarrow> (int \<times> tcmi_authenticate_resp_msg \<times> 's kkc_sock) option" where
  "tcmi_authenticate_resp_msg_recv self =
     krecv 4 self (\<lambda>err out. let self = self\<lparr>ar_ccn_id := le_word out\<rparr> in
     krecv 4 self (\<lambda>err out. let self = self\<lparr>ar_ccn_arch := le_word out\<rparr> in
     krecv 1 self (\<lambda>err out. let self = self\<lparr>ar_result_code := le_word out\<rparr> in
     krecv mount_params_size self (\<lambda>err out sock. Some (0, self\<lparr>ar_mount_params := out\<rparr>, sock)))))"

definition tcmi_authenticate_resp_msg_send ::
  "tcmi_authenticate_resp_msg \<Rightarrow> 's kkc_sock \<Rightarrow> (int \<times> 's kkc_sock) option" where
  "tcmi_authenticate_resp_msg_send self =
     ksend (le_bytes 4 (ar_ccn_id self)) (ksend (le_bytes 4 (ar_ccn_arch self)) (ksend (le_bytes 1 (ar_result_code self)) (
       ksend (ar_mount_params self) (\<lambda>sock. Some (0, sock)))))"

subsection \<open>Disconnection\<close>

definition tcmi_disconnect_msg_new_rx :: "msg_mem \<Rightarrow> u32 \<Rightarrow> tcmi_msg option" where
  "tcmi_disconnect_msg_new_rx mem msg_id =
     (if msg_id \<noteq> TCMI_DISCONNECT_MSG_ID then None
      else if \<not> mm_ok mem then None
      else rx_result (tcmi_msg_init_rx TCMI_DISCONNECT_MSG_ID Disconnect_msg))"

definition tcmi_disconnect_msg_new_tx :: "msg_mem \<Rightarrow> trans_env \<Rightarrow> (tcmi_msg option \<times> 'c transactions) option" where
  "tcmi_disconnect_msg_new_tx mem env =
     (if \<not> mm_ok mem then Some (None, None)
      else tx_result (tcmi_msg_init_tx env TCMI_DISCONNECT_MSG_ID Disconnect_msg None 0 0 TCMI_TRANSACTION_INVAL_ID))"

definition tcmi_disconnect_msg_recv :: "'s kkc_sock \<Rightarrow> (int \<times> unit \<times> 's kkc_sock) option" where
  "tcmi_disconnect_msg_recv sock = Some (0, (), sock)"

definition tcmi_disconnect_msg_send :: "'s kkc_sock \<Rightarrow> (int \<times> 's kkc_sock) option" where
  "tcmi_disconnect_msg_send sock = Some (0, sock)"

subsection \<open>Emigration\<close>

definition tcmi_p_emigrate_msg_new_rx :: "msg_mem \<Rightarrow> u32 \<Rightarrow> tcmi_msg option" where
  "tcmi_p_emigrate_msg_new_rx mem msg_id =
     (if msg_id \<noteq> TCMI_P_EMIGRATE_MSG_ID then None
      else if \<not> mm_ok mem then None
      else rx_result (tcmi_msg_init_rx TCMI_P_EMIGRATE_MSG_ID (P_emigrate_msg (mm_p_emigrate mem))))"

text \<open>Names are C strings, given without the terminating zero.\<close>

definition str_size :: "byte list \<Rightarrow> i32" where
  "str_size name = of_nat (length name + 1)"

definition tcmi_p_emigrate_msg_new_tx ::
  "msg_mem \<Rightarrow> trans_env \<Rightarrow> 'c transactions \<Rightarrow> i32 \<Rightarrow> byte list \<Rightarrow> byte list \<Rightarrow> u16 \<Rightarrow> u16 \<Rightarrow> u16 \<Rightarrow> u16 \<Rightarrow>
   (tcmi_msg option \<times> 'c transactions) option" where
  "tcmi_p_emigrate_msg_new_tx mem env transactions reply_pid exec_name ckpt_name euid egid fsuid fsgid =
     (if \<not> mm_ok mem then Some (None, transactions)
      else if \<not> mm_kmalloc mem (scast (str_size ckpt_name)) then Some (None, transactions)
      else if \<not> mm_kmalloc mem (scast (str_size exec_name)) then Some (None, transactions)
      else tx_result (tcmi_msg_init_tx env TCMI_P_EMIGRATE_MSG_ID
             (P_emigrate_msg \<lparr>em_reply_pid = reply_pid, em_size = str_size ckpt_name,
                em_exec_name_size = str_size exec_name, em_euid = euid, em_egid = egid, em_fsuid = fsuid, em_fsgid = fsgid,
                em_exec_name = Some (exec_name @ [0]), em_ckpt_name = Some (ckpt_name @ [0])\<rparr>)
             transactions TCMI_GUEST_STARTED_PROCMSG_ID (10 * te_hz env) TCMI_TRANSACTION_INVAL_ID))"

text \<open>The packed structure \<^verbatim>\<open>pid_and_size\<close> as bytes, and read from bytes.\<close>

definition pid_and_size_bytes :: "tcmi_p_emigrate_msg \<Rightarrow> byte list" where
  "pid_and_size_bytes m = le_bytes 4 (em_reply_pid m) @ le_bytes 4 (em_size m) @ le_bytes 4 (em_exec_name_size m) @
     le_bytes 2 (em_euid m) @ le_bytes 2 (em_egid m) @ le_bytes 2 (em_fsuid m) @ le_bytes 2 (em_fsgid m)"

definition pid_and_size_of :: "byte list \<Rightarrow> tcmi_p_emigrate_msg \<Rightarrow> tcmi_p_emigrate_msg" where
  "pid_and_size_of b m = m\<lparr>em_reply_pid := le_word (take 4 b), em_size := le_word (take 4 (drop 4 b)),
     em_exec_name_size := le_word (take 4 (drop 8 b)), em_euid := le_word (take 2 (drop 12 b)),
     em_egid := le_word (take 2 (drop 14 b)), em_fsuid := le_word (take 2 (drop 16 b)),
     em_fsgid := le_word (take 2 (drop 18 b))\<rparr>"

definition tcmi_p_emigrate_msg_recv ::
  "(u64 \<Rightarrow> bool) \<Rightarrow> tcmi_p_emigrate_msg \<Rightarrow> 's kkc_sock \<Rightarrow> (int \<times> tcmi_p_emigrate_msg \<times> 's kkc_sock) option" where
  "tcmi_p_emigrate_msg_recv kmalloc self =
     krecv 20 self (\<lambda>err out sock. let self = pid_and_size_of out self in
       if \<not> kmalloc (scast (em_size self)) then Some (err, self\<lparr>em_ckpt_name := None\<rparr>, sock)
       else if \<not> kmalloc (scast (em_exec_name_size self)) then Some (err, self\<lparr>em_ckpt_name := Some [], em_exec_name := None\<rparr>, sock)
       else krecv (int_len (em_size self)) self (\<lambda>err out. let self = self\<lparr>em_ckpt_name := Some out\<rparr> in
            krecv (int_len (em_exec_name_size self)) self (\<lambda>err out sock. Some (0, self\<lparr>em_exec_name := Some out\<rparr>, sock))) sock)"

definition tcmi_p_emigrate_msg_send :: "tcmi_p_emigrate_msg \<Rightarrow> 's kkc_sock \<Rightarrow> (int \<times> 's kkc_sock) option" where
  "tcmi_p_emigrate_msg_send self =
     ksend (pid_and_size_bytes self) (send_buf (em_ckpt_name self) (int_len (em_size self)) (
       send_buf (em_exec_name self) (int_len (em_exec_name_size self)) (\<lambda>sock. Some (0, sock))))"

subsection \<open>Signals\<close>

definition tcmi_signal_msg_new_rx :: "msg_mem \<Rightarrow> u32 \<Rightarrow> tcmi_msg option" where
  "tcmi_signal_msg_new_rx mem msg_id =
     (if msg_id \<noteq> TCMI_SIGNAL_MSG_ID then None
      else if \<not> mm_ok mem then None
      else rx_result (tcmi_msg_init_rx TCMI_SIGNAL_MSG_ID (Signal_msg (mm_signal mem))))"

definition tcmi_signal_msg_new_tx ::
  "msg_mem \<Rightarrow> trans_env \<Rightarrow> 'c transactions \<Rightarrow> (tcmi_msg option \<times> 'c transactions) option" where
  "tcmi_signal_msg_new_tx mem env transactions =
     (if \<not> mm_ok mem then Some (None, transactions)
      else tx_result (tcmi_msg_init_tx env TCMI_SIGNAL_MSG_ID (Signal_msg (mm_signal mem)) transactions 0
             (5 * te_hz env) TCMI_TRANSACTION_INVAL_ID))"

definition tcmi_signal_msg_new ::
  "msg_mem \<Rightarrow> trans_env \<Rightarrow> i32 \<Rightarrow> byte list \<Rightarrow> (tcmi_msg option \<times> 'c transactions) option" where
  "tcmi_signal_msg_new mem env pid info = do {
     (self, tr) \<leftarrow> tcmi_signal_msg_new_tx mem env None;
     Some (map_option (\<lambda>m. m\<lparr>m_body := Signal_msg \<lparr>sg_pid = pid, sg_info = take 128 info\<rparr>\<rparr>) self, tr)
   }"

text \<open>
  Both directions ignore the result of the transfer: after a failed receive the
  structure holds the bytes that did arrive in front of its old contents.
\<close>

definition tcmi_signal_msg_recv ::
  "tcmi_signal_msg \<Rightarrow> 's kkc_sock \<Rightarrow> (int \<times> tcmi_signal_msg \<times> 's kkc_sock) option" where
  "tcmi_signal_msg_recv self sock = do {
     (err, out, sock) \<leftarrow> kkc_recv_block sock 132;
     let image = memcpy_at (le_bytes 4 (sg_pid self) @ sg_info self) 0 out;
     Some (0, \<lparr>sg_pid = le_word (take 4 image), sg_info = drop 4 image\<rparr>, sock)
   }"

definition tcmi_signal_msg_send :: "tcmi_signal_msg \<Rightarrow> 's kkc_sock \<Rightarrow> (int \<times> 's kkc_sock) option" where
  "tcmi_signal_msg_send self sock = do {
     (err, sock) \<leftarrow> kkc_sock_send sock (le_bytes 4 (sg_pid self) @ sg_info self);
     Some (0, sock)
   }"

subsection \<open>User messages\<close>

definition tcmi_generic_user_msg_new_rx :: "msg_mem \<Rightarrow> u32 \<Rightarrow> tcmi_msg option" where
  "tcmi_generic_user_msg_new_rx mem msg_id =
     (if msg_id \<noteq> TCMI_GENERIC_USER_MSG_ID then None
      else if \<not> mm_ok mem then None
      else rx_result (tcmi_msg_init_rx TCMI_GENERIC_USER_MSG_ID (Generic_user_msg (mm_generic_user mem))))"

definition tcmi_generic_user_msg_new_tx ::
  "msg_mem \<Rightarrow> trans_env \<Rightarrow> u32 \<Rightarrow> byte list \<Rightarrow> i32 \<Rightarrow> (tcmi_msg option \<times> 'c transactions) option" where
  "tcmi_generic_user_msg_new_tx mem env node_id user_data size_n =
     (if \<not> mm_ok mem then Some (None, None)
      else if 0 < sint size_n \<and> \<not> mm_kmalloc mem (scast size_n) then Some (None, None)
      else tx_result (tcmi_msg_init_tx env TCMI_GENERIC_USER_MSG_ID
             (Generic_user_msg \<lparr>gu_node_id = node_id,
                gu_user_data = (if 0 < sint size_n then Some (take (nat (sint size_n)) user_data) else None), gu_size = size_n\<rparr>)
             None 0 0 TCMI_TRANSACTION_INVAL_ID))"

definition tcmi_generic_user_msg_recv ::
  "(u64 \<Rightarrow> bool) \<Rightarrow> tcmi_generic_user_msg \<Rightarrow> 's kkc_sock \<Rightarrow> (int \<times> tcmi_generic_user_msg \<times> 's kkc_sock) option" where
  "tcmi_generic_user_msg_recv kmalloc self =
     krecv 4 self (\<lambda>err out. let self = self\<lparr>gu_node_id := le_word out\<rparr> in
     krecv 4 self (\<lambda>err out sock. let self = self\<lparr>gu_size := le_word out\<rparr> in
       if gu_size self > 0 then
         (if \<not> kmalloc (ucast (gu_size self)) then Some (err, self\<lparr>gu_user_data := None\<rparr>, sock)
          else krecv (int_len (gu_size self)) self (\<lambda>err out sock. Some (0, self\<lparr>gu_user_data := Some out\<rparr>, sock)) sock)
       else Some (0, self\<lparr>gu_user_data := None\<rparr>, sock)))"

definition tcmi_generic_user_msg_send :: "tcmi_generic_user_msg \<Rightarrow> 's kkc_sock \<Rightarrow> (int \<times> 's kkc_sock) option" where
  "tcmi_generic_user_msg_send self =
     ksend (le_bytes 4 (gu_node_id self)) (ksend (le_bytes 4 (gu_size self)) (
       if gu_size self > 0 then send_buf (gu_user_data self) (int_len (gu_size self)) (\<lambda>sock. Some (0, sock))
       else (\<lambda>sock. Some (0, sock))))"

subsection \<open>Error messages\<close>

definition tcmi_err_msg_new_rx :: "msg_mem \<Rightarrow> u32 \<Rightarrow> tcmi_msg option" where
  "tcmi_err_msg_new_rx mem msg_id =
     (if \<not> mm_ok mem then None
      else rx_result (tcmi_msg_init_rx (TCMI_MSG_FLG_SET_ERR msg_id) (Err_msg (mm_word mem))))"

definition tcmi_err_msg_new_tx ::
  "msg_mem \<Rightarrow> trans_env \<Rightarrow> u32 \<Rightarrow> u32 \<Rightarrow> i32 \<Rightarrow> (tcmi_msg option \<times> 'c transactions) option" where
  "tcmi_err_msg_new_tx mem env msg_id trans_id err_code =
     (if \<not> mm_ok mem then Some (None, None)
      else tx_result (tcmi_msg_init_tx env (TCMI_MSG_FLG_SET_ERR msg_id) (Err_msg err_code) None 0 0 trans_id))"

definition tcmi_err_msg_recv :: "i32 \<Rightarrow> 's kkc_sock \<Rightarrow> (int \<times> i32 \<times> 's kkc_sock) option" where
  "tcmi_err_msg_recv err_code = krecv 4 err_code (\<lambda>err out sock. Some (err, le_word out, sock))"

definition tcmi_err_msg_send :: "i32 \<Rightarrow> 's kkc_sock \<Rightarrow> (int \<times> 's kkc_sock) option" where
  "tcmi_err_msg_send err_code sock = kkc_sock_send sock (le_bytes 4 err_code)"

subsection \<open>Wire formats\<close>

text \<open>What each class puts on the connection.\<close>

definition opt_bytes :: "byte list option \<Rightarrow> byte list" where
  "opt_bytes p = (case p of None \<Rightarrow> [] | Some b \<Rightarrow> b)"

text \<open>A pointer and its length field agree.\<close>

definition buf_ok :: "byte list option \<Rightarrow> u32 \<Rightarrow> bool" where
  "buf_ok p n \<longleftrightarrow> (case p of None \<Rightarrow> n = 0 | Some b \<Rightarrow> 0 < length b \<and> length b < 2 ^ 31 \<and> n = of_nat (length b))"

lemma buf_ok_bytes: "buf_ok p n \<Longrightarrow> buf_bytes p (int_len n) = Some (opt_bytes p)"
  by (auto simp: buf_ok_def buf_bytes_def opt_bytes_def split: option.splits)

end
