(* ===== verification/Tcmi_Procmsgs.thy ===== *)
theory Tcmi_Procmsgs
  imports Tcmi_Messages
begin

text \<open>
  The classes of process messages (\<^verbatim>\<open>src/tcmi/comm/tcmi_*_procmsg.c\<close>), which travel
  between a guest and its shadow. The base class \<^verbatim>\<open>tcmi_procmsg\<close> transfers the
  destination process and the migration-mode flag and then dispatches to the class.
\<close>

abbreviation proc_rx :: "msg_mem \<Rightarrow> tcmi_proc_body \<Rightarrow> tcmi_procmsg" where
  "proc_rx mem b \<equiv> (mm_proc mem)\<lparr>pm_body := b\<rparr>"

subsection \<open>Messages without fields\<close>

definition tcmi_skel_procmsg_new_rx :: "msg_mem \<Rightarrow> u32 \<Rightarrow> tcmi_msg option" where
  "tcmi_skel_procmsg_new_rx mem msg_id =
     (if msg_id \<noteq> TCMI_SKEL_PROCMSG_ID then None
      else if \<not> mm_ok mem then None
      else rx_result (tcmi_procmsg_init_rx TCMI_SKEL_PROCMSG_ID (proc_rx mem Skel_procmsg)))"

definition tcmi_skel_procmsg_new_tx ::
  "msg_mem \<Rightarrow> trans_env \<Rightarrow> 'c transactions \<Rightarrow> i32 \<Rightarrow> (tcmi_msg option \<times> 'c transactions) option" where
  "tcmi_skel_procmsg_new_tx mem env transactions dst_pid =
     (if \<not> mm_ok mem then Some (None, transactions)
      else tx_result (tcmi_procmsg_init_tx env TCMI_SKEL_PROCMSG_ID (proc_rx mem Skel_procmsg) dst_pid 0
             transactions TCMI_SKELRESP_PROCMSG_ID (5 * te_hz env) TCMI_TRANSACTION_INVAL_ID))"

definition tcmi_skel_procmsg_recv :: "'s kkc_sock \<Rightarrow> (int \<times> unit \<times> 's kkc_sock) option" where
  "tcmi_skel_procmsg_recv sock = Some (0, (), sock)"

definition tcmi_skel_procmsg_send :: "'s kkc_sock \<Rightarrow> (int \<times> 's kkc_sock) option" where
  "tcmi_skel_procmsg_send sock = Some (0, sock)"

definition tcmi_skelresp_procmsg_new_rx :: "msg_mem \<Rightarrow> u32 \<Rightarrow> tcmi_msg option" where
  "tcmi_skelresp_procmsg_new_rx mem msg_id =
     (if msg_id \<noteq> TCMI_SKELRESP_PROCMSG_ID then None
      else if \<not> mm_ok mem then None
      else rx_result (tcmi_procmsg_init_rx TCMI_SKELRESP_PROCMSG_ID (proc_rx mem Skelresp_procmsg)))"

definition tcmi_skelresp_procmsg_new_tx ::
  "msg_mem \<Rightarrow> trans_env \<Rightarrow> u32 \<Rightarrow> i32 \<Rightarrow> (tcmi_msg option \<times> 'c transactions) option" where
  "tcmi_skelresp_procmsg_new_tx mem env trans_id dst_pid =
     (if \<not> mm_ok mem then Some (None, None)
      else tx_result (tcmi_procmsg_init_tx env TCMI_SKELRESP_PROCMSG_ID (proc_rx mem Skelresp_procmsg) dst_pid 0
             None 0 0 trans_id))"

definition tcmi_skelresp_procmsg_recv :: "'s kkc_sock \<Rightarrow> (int \<times> unit \<times> 's kkc_sock) option" where
  "tcmi_skelresp_procmsg_recv sock = Some (0, (), sock)"

definition tcmi_skelresp_procmsg_send :: "'s kkc_sock \<Rightarrow> (int \<times> 's kkc_sock) option" where
  "tcmi_skelresp_procmsg_send sock = Some (0, sock)"

definition tcmi_vfork_done_procmsg_new_rx :: "msg_mem \<Rightarrow> u32 \<Rightarrow> tcmi_msg option" where
  "tcmi_vfork_done_procmsg_new_rx mem msg_id =
     (if msg_id \<noteq> TCMI_VFORK_DONE_PROCMSG_ID then None
      else if \<not> mm_ok mem then None
      else rx_result (tcmi_procmsg_init_rx TCMI_VFORK_DONE_PROCMSG_ID (proc_rx mem Vfork_done_procmsg)))"

definition tcmi_vfork_done_procmsg_new_tx ::
  "msg_mem \<Rightarrow> trans_env \<Rightarrow> i32 \<Rightarrow> (tcmi_msg option \<times> 'c transactions) option" where
  "tcmi_vfork_done_procmsg_new_tx mem env dst_pid =
     (if \<not> mm_ok mem then Some (None, None)
      else tx_result (tcmi_procmsg_init_tx env TCMI_VFORK_DONE_PROCMSG_ID (proc_rx mem Vfork_done_procmsg) dst_pid 0
             None 0 0 TCMI_TRANSACTION_INVAL_ID))"

definition tcmi_vfork_done_procmsg_recv :: "'s kkc_sock \<Rightarrow> (int \<times> unit \<times> 's kkc_sock) option" where
  "tcmi_vfork_done_procmsg_recv sock = Some (0, (), sock)"

definition tcmi_vfork_done_procmsg_send :: "'s kkc_sock \<Rightarrow> (int \<times> 's kkc_sock) option" where
  "tcmi_vfork_done_procmsg_send sock = Some (0, sock)"

definition tcmi_ppm_p_migr_back_shadowreq_procmsg_new_rx :: "msg_mem \<Rightarrow> u32 \<Rightarrow> tcmi_msg option" where
  "tcmi_ppm_p_migr_back_shadowreq_procmsg_new_rx mem msg_id =
     (if msg_id \<noteq> TCMI_PPM_P_MIGR_BACK_SHADOWREQ_PROCMSG_ID then None
      else if \<not> mm_ok mem then None
      else rx_result (tcmi_procmsg_init_rx TCMI_PPM_P_MIGR_BACK_SHADOWREQ_PROCMSG_ID (proc_rx mem Shadowreq_procmsg)))"

definition tcmi_ppm_p_migr_back_shadowreq_procmsg_new_tx ::
  "msg_mem \<Rightarrow> trans_env \<Rightarrow> i32 \<Rightarrow> (tcmi_msg option \<times> 'c transactions) option" where
  "tcmi_ppm_p_migr_back_shadowreq_procmsg_new_tx mem env dst_pid =
     (if \<not> mm_ok mem then Some (None, None)
      else tx_result (tcmi_procmsg_init_tx env TCMI_PPM_P_MIGR_BACK_SHADOWREQ_PROCMSG_ID
             (proc_rx mem Shadowreq_procmsg) dst_pid 1 None 0 0 TCMI_TRANSACTION_INVAL_ID))"

definition tcmi_ppm_p_migr_back_shadowreq_procmsg_recv :: "'s kkc_sock \<Rightarrow> (int \<times> unit \<times> 's kkc_sock) option" where
  "tcmi_ppm_p_migr_back_shadowreq_procmsg_recv sock = Some (0, (), sock)"

definition tcmi_ppm_p_migr_back_shadowreq_procmsg_send :: "'s kkc_sock \<Rightarrow> (int \<times> 's kkc_sock) option" where
  "tcmi_ppm_p_migr_back_shadowreq_procmsg_send sock = Some (0, sock)"

subsection \<open>Messages with one number\<close>

definition tcmi_exit_procmsg_new_rx :: "msg_mem \<Rightarrow> u32 \<Rightarrow> tcmi_msg option" where
  "tcmi_exit_procmsg_new_rx mem msg_id =
     (if msg_id \<noteq> TCMI_EXIT_PROCMSG_ID then None
      else if \<not> mm_ok mem then None
      else rx_result (tcmi_procmsg_init_rx TCMI_EXIT_PROCMSG_ID (proc_rx mem (Exit_procmsg (mm_word mem)))))"

definition tcmi_exit_procmsg_new_tx ::
  "msg_mem \<Rightarrow> trans_env \<Rightarrow> i32 \<Rightarrow> i32 \<Rightarrow> (tcmi_msg option \<times> 'c transactions) option" where
  "tcmi_exit_procmsg_new_tx mem env dst_pid code =
     (if \<not> mm_ok mem then Some (None, None)
      else tx_result (tcmi_procmsg_init_tx env TCMI_EXIT_PROCMSG_ID (proc_rx mem (Exit_procmsg code)) dst_pid 0
             None 0 0 TCMI_TRANSACTION_INVAL_ID))"

definition tcmi_exit_procmsg_recv :: "i32 \<Rightarrow> 's kkc_sock \<Rightarrow> (int \<times> i32 \<times> 's kkc_sock) option" where
  "tcmi_exit_procmsg_recv code = krecv 4 code (\<lambda>err out sock. Some (err, le_word out, sock))"

definition tcmi_exit_procmsg_send :: "i32 \<Rightarrow> 's kkc_sock \<Rightarrow> (int \<times> 's kkc_sock) option" where
  "tcmi_exit_procmsg_send code sock = kkc_sock_send sock (le_bytes 4 code)"

definition tcmi_guest_started_procmsg_new_rx :: "msg_mem \<Rightarrow> u32 \<Rightarrow> tcmi_msg option" where
  "tcmi_guest_started_procmsg_new_rx mem msg_id =
     (if msg_id \<noteq> TCMI_GUEST_STARTED_PROCMSG_ID then None
      else if \<not> mm_ok mem then None
      else rx_result (tcmi_procmsg_init_rx TCMI_GUEST_STARTED_PROCMSG_ID (proc_rx mem (Guest_started_procmsg (mm_word mem)))))"

definition tcmi_guest_started_procmsg_new_tx ::
  "msg_mem \<Rightarrow> trans_env \<Rightarrow> u32 \<Rightarrow> i32 \<Rightarrow> i32 \<Rightarrow> (tcmi_msg option \<times> 'c transactions) option" where
  "tcmi_guest_started_procmsg_new_tx mem env trans_id dst_pid guest_pid =
     (if \<not> mm_ok mem then Some (None, None)
      else tx_result (tcmi_procmsg_init_tx env TCMI_GUEST_STARTED_PROCMSG_ID
             (proc_rx mem (Guest_started_procmsg guest_pid)) dst_pid 0 None 0 0 trans_id))"

definition tcmi_guest_started_procmsg_recv :: "i32 \<Rightarrow> 's kkc_sock \<Rightarrow> (int \<times> i32 \<times> 's kkc_sock) option" where
  "tcmi_guest_started_procmsg_recv guest_pid = krecv 4 guest_pid (\<lambda>err out sock. Some (err, le_word out, sock))"

definition tcmi_guest_started_procmsg_send :: "i32 \<Rightarrow> 's kkc_sock \<Rightarrow> (int \<times> 's kkc_sock) option" where
  "tcmi_guest_started_procmsg_send guest_pid sock = kkc_sock_send sock (le_bytes 4 guest_pid)"

definition tcmi_err_procmsg_new_rx :: "msg_mem \<Rightarrow> u32 \<Rightarrow> tcmi_msg option" where
  "tcmi_err_procmsg_new_rx mem msg_id =
     (if \<not> mm_ok mem then None
      else rx_result (tcmi_procmsg_init_rx (TCMI_MSG_FLG_SET_ERR msg_id) (proc_rx mem (Err_procmsg (mm_word mem)))))"

definition tcmi_err_procmsg_new_tx ::
  "msg_mem \<Rightarrow> trans_env \<Rightarrow> u32 \<Rightarrow> u32 \<Rightarrow> i32 \<Rightarrow> i32 \<Rightarrow> (tcmi_msg option \<times> 'c transactions) option" where
  "tcmi_err_procmsg_new_tx mem env msg_id trans_id err_code dst_pid =
     (if \<not> mm_ok mem then Some (None, None)
      else tx_result (tcmi_procmsg_init_tx env (TCMI_MSG_FLG_SET_ERR msg_id) (proc_rx mem (Err_procmsg err_code)) dst_pid 0
             None 0 0 trans_id))"

definition tcmi_err_procmsg_recv :: "i32 \<Rightarrow> 's kkc_sock \<Rightarrow> (int \<times> i32 \<times> 's kkc_sock) option" where
  "tcmi_err_procmsg_recv err_code = krecv 4 err_code (\<lambda>err out sock. Some (err, le_word out, sock))"

definition tcmi_err_procmsg_send :: "i32 \<Rightarrow> 's kkc_sock \<Rightarrow> (int \<times> 's kkc_sock) option" where
  "tcmi_err_procmsg_send err_code sock = kkc_sock_send sock (le_bytes 4 err_code)"

subsection \<open>Request of the guest to migrate back\<close>

definition tcmi_ppm_p_migr_back_guestreq_procmsg_new_rx :: "msg_mem \<Rightarrow> u32 \<Rightarrow> tcmi_msg option" where
  "tcmi_ppm_p_migr_back_guestreq_procmsg_new_rx mem msg_id =
     (if msg_id \<noteq> TCMI_PPM_P_MIGR_BACK_GUESTREQ_PROCMSG_ID then None
      else if \<not> mm_ok mem then None
      else rx_result (tcmi_procmsg_init_rx TCMI_PPM_P_MIGR_BACK_GUESTREQ_PROCMSG_ID
             (proc_rx mem (Guestreq_procmsg (mm_guestreq mem)))))"

definition tcmi_ppm_p_migr_back_guestreq_procmsg_new_tx ::
  "msg_mem \<Rightarrow> trans_env \<Rightarrow> i32 \<Rightarrow> byte list \<Rightarrow> (tcmi_msg option \<times> 'c transactions) option" where
  "tcmi_ppm_p_migr_back_guestreq_procmsg_new_tx mem env dst_pid ckpt_name =
     (if \<not> mm_ok mem then Some (None, None)
      else if \<not> mm_kmalloc mem (scast (str_size ckpt_name)) then Some (None, None)
      else tx_result (tcmi_procmsg_init_tx env TCMI_PPM_P_MIGR_BACK_GUESTREQ_PROCMSG_ID
             (proc_rx mem (Guestreq_procmsg \<lparr>gr_size = str_size ckpt_name, gr_ckpt_name = Some (ckpt_name @ [0])\<rparr>)) dst_pid 0
             None 0 0 TCMI_TRANSACTION_INVAL_ID))"

definition tcmi_ppm_p_migr_back_guestreq_procmsg_recv ::
  "(u64 \<Rightarrow> bool) \<Rightarrow> tcmi_guestreq \<Rightarrow> 's kkc_sock \<Rightarrow> (int \<times> tcmi_guestreq \<times> 's kkc_sock) option" where
  "tcmi_ppm_p_migr_back_guestreq_procmsg_recv kmalloc self =
     krecv 4 self (\<lambda>err out sock. let self = self\<lparr>gr_size := le_word out\<rparr> in
       if \<not> kmalloc (scast (gr_size self)) then Some (err, self\<lparr>gr_ckpt_name := None\<rparr>, sock)
       else krecv (int_len (gr_size self)) self (\<lambda>err out sock. Some (0, self\<lparr>gr_ckpt_name := Some out\<rparr>, sock)) sock)"

definition tcmi_ppm_p_migr_back_guestreq_procmsg_send ::
  "tcmi_guestreq \<Rightarrow> 's kkc_sock \<Rightarrow> (int \<times> 's kkc_sock) option" where
  "tcmi_ppm_p_migr_back_guestreq_procmsg_send self =
     ksend (le_bytes 4 (gr_size self)) (send_buf (gr_ckpt_name self) (int_len (gr_size self)) (\<lambda>sock. Some (0, sock)))"

subsection \<open>Remote procedure calls\<close>

abbreviation (input) TCMI_RPC_MAXPARAMS :: nat where "TCMI_RPC_MAXPARAMS \<equiv> 6"

definition tcmi_rpc_procmsg_new_rx :: "msg_mem \<Rightarrow> u32 \<Rightarrow> tcmi_msg option" where
  "tcmi_rpc_procmsg_new_rx mem msg_id =
     (if msg_id \<noteq> TCMI_RPC_PROCMSG_ID then None
      else if \<not> mm_ok mem then None
      else rx_result (tcmi_procmsg_init_rx TCMI_RPC_PROCMSG_ID
             (proc_rx mem (Rpc_procmsg ((mm_rpc mem)\<lparr>rpc_free_data := True\<rparr>)))))"

definition tcmi_rpc_procmsg_new_tx ::
  "msg_mem \<Rightarrow> trans_env \<Rightarrow> 'c transactions \<Rightarrow> i32 \<Rightarrow> (tcmi_msg option \<times> 'c transactions) option" where
  "tcmi_rpc_procmsg_new_tx mem env transactions dst_pid =
     (if \<not> mm_ok mem then Some (None, transactions)
      else tx_result (tcmi_procmsg_init_tx env TCMI_RPC_PROCMSG_ID
             (proc_rx mem (Rpc_procmsg ((mm_rpc mem)\<lparr>rpc_free_data := False\<rparr>))) dst_pid 0
             transactions TCMI_RPCRESP_PROCMSG_ID (10 * 60 * te_hz env) TCMI_TRANSACTION_INVAL_ID))"

text \<open>
  The receivers do not check the allocations: with \<open>kmalloc\<close> failing they write through
  NULL, which is \<open>None\<close> here. The total size is summed up in an \<^verbatim>\<open>int\<close>, modulo
  \<open>2 ^ 32\<close>; the elements are the consecutive pieces of the one buffer.
\<close>

definition tcmi_rpc_procmsg_recv ::
  "(u64 \<Rightarrow> bool) \<Rightarrow> tcmi_rpc_procmsg \<Rightarrow> 's kkc_sock \<Rightarrow> (int \<times> tcmi_rpc_procmsg \<times> 's kkc_sock) option" where
  "tcmi_rpc_procmsg_recv kmalloc self =
     krecv 4 self (\<lambda>err out sock.
       let self = self\<lparr>rpc_rpcnum := le_word (take 2 out), rpc_nmemb := le_word (drop 2 out)\<rparr>; n = unat (rpc_nmemb self) in
       if rpc_nmemb self > 0 then
         (if \<not> kmalloc (of_nat (n * 4 + n * 8)) then None
          else krecv (n * 4) self (\<lambda>err out sock.
            let self = self\<lparr>rpc_elem_size := bytes_u32s n out\<rparr>; data_size = sum_list (rpc_elem_size self) in
            if \<not> kmalloc (scast data_size) then None
            else krecv (int_len data_size) self (\<lambda>err out sock.
              Some (0, self\<lparr>rpc_elem_base := split_sizes (map unat (rpc_elem_size self)) out\<rparr>, sock)) sock) sock)
       else Some (0, self, sock))"

primrec send_elems ::
  "(byte list \<times> u32) list \<Rightarrow> 's kkc_sock \<Rightarrow> (int \<times> 's kkc_sock) option" where
  "send_elems [] sock = Some (0, sock)"
| "send_elems (e # es) sock = send_buf (Some (fst e)) (int_len (snd e)) (send_elems es) sock"

definition tcmi_rpc_procmsg_send :: "tcmi_rpc_procmsg \<Rightarrow> 's kkc_sock \<Rightarrow> (int \<times> 's kkc_sock) option" where
  "tcmi_rpc_procmsg_send self =
     ksend (le_bytes 2 (rpc_rpcnum self) @ le_bytes 2 (rpc_nmemb self)) (
       if rpc_nmemb self > 0 then
         ksend (u32s_bytes (take (unat (rpc_nmemb self)) (rpc_elem_size self))) (
           send_elems (take (unat (rpc_nmemb self)) (zip (rpc_elem_base self) (rpc_elem_size self))))
       else (\<lambda>sock. Some (0, sock)))"

definition tcmi_rpcresp_procmsg_new_rx :: "msg_mem \<Rightarrow> u32 \<Rightarrow> tcmi_msg option" where
  "tcmi_rpcresp_procmsg_new_rx mem msg_id =
     (if msg_id \<noteq> TCMI_RPCRESP_PROCMSG_ID then None
      else if \<not> mm_ok mem then None
      else rx_result (tcmi_procmsg_init_rx TCMI_RPCRESP_PROCMSG_ID
             (proc_rx mem (Rpcresp_procmsg ((mm_rpcresp mem)\<lparr>rr_elem_free := None\<rparr>)))))"

definition tcmi_rpcresp_procmsg_new_tx ::
  "msg_mem \<Rightarrow> trans_env \<Rightarrow> u32 \<Rightarrow> i32 \<Rightarrow> (tcmi_msg option \<times> 'c transactions) option" where
  "tcmi_rpcresp_procmsg_new_tx mem env trans_id dst_pid =
     (if \<not> mm_ok mem then Some (None, None)
      else tx_result (tcmi_procmsg_init_tx env TCMI_RPCRESP_PROCMSG_ID
             (proc_rx mem (Rpcresp_procmsg ((mm_rpcresp mem)\<lparr>rr_nmemb := 0, rr_elem_free := None\<rparr>))) dst_pid 0
             None 0 0 trans_id))"

text \<open>
  The variable arguments are pairs of a size and a pointer, up to the first size 0:
  \<open>m\<close> is the request answered, with its identifier and procedure number.
\<close>

definition rpc_args :: "(u64 \<times> byte list option) list \<Rightarrow> (u64 \<times> byte list option) list" where
  "rpc_args args = takeWhile (\<lambda>a. fst a \<noteq> 0) (take TCMI_RPC_MAXPARAMS args)"

definition tcmi_rpcresp_procmsg_create ::
  "msg_mem \<Rightarrow> trans_env \<Rightarrow> i32 \<Rightarrow> u32 \<Rightarrow> u16 \<Rightarrow> u64 \<Rightarrow> (u64 \<times> byte list option) list \<Rightarrow> (tcmi_msg option \<times> 'c transactions) option" where
  "tcmi_rpcresp_procmsg_create mem env remote_pid m_req_id m_rpcnum rtn_code args = do {
     (self, tr) \<leftarrow> tcmi_rpcresp_procmsg_new_tx mem env m_req_id remote_pid;
     (case self of
        None \<Rightarrow> Some (None, tr)
      | Some msg \<Rightarrow>
          (let as = rpc_args args; n = length as in
           if None \<in> set (map snd as) then Some (None, tr)
           else if 0 < n \<and> \<not> mm_kmalloc mem (of_nat (n * 4 + n * 8 + n)) then Some (None, tr)
           else
             (case m_body msg of
                Procmsg p \<Rightarrow>
                  (case pm_body p of
                     Rpcresp_procmsg r \<Rightarrow>
                       Some (Some (msg\<lparr>m_body := Procmsg (p\<lparr>pm_body := Rpcresp_procmsg (
                         if 0 < n then
                           r\<lparr>rr_nmemb := of_nat n, rr_rpcnum := m_rpcnum, rr_rtn_code := rtn_code,
                             rr_elem_free := Some (replicate n TCMI_RPCRESP_PROCMSG_DONTFREE),
                             rr_elem_size := map (ucast \<circ> fst) as, rr_elem_base := map (the \<circ> snd) as\<rparr>
                         else r\<lparr>rr_nmemb := 0, rr_rpcnum := m_rpcnum, rr_rtn_code := rtn_code\<rparr>)\<rparr>)\<rparr>), tr)
                   | _ \<Rightarrow> None)
              | _ \<Rightarrow> None)))
   }"

definition tcmi_rpcresp_procmsg_recv ::
  "(u64 \<Rightarrow> bool) \<Rightarrow> tcmi_rpcresp_procmsg \<Rightarrow> 's kkc_sock \<Rightarrow> (int \<times> tcmi_rpcresp_procmsg \<times> 's kkc_sock) option" where
  "tcmi_rpcresp_procmsg_recv kmalloc self =
     krecv 12 self (\<lambda>err out sock.
       let self = self\<lparr>rr_rpcnum := le_word (take 2 out), rr_nmemb := le_word (take 2 (drop 2 out)), rr_rtn_code := le_word (drop 4 out)\<rparr>;
           n = unat (rr_nmemb self) in
       if rr_nmemb self > 0 then
         (if \<not> kmalloc (of_nat (n * 4 + n * 8 + n)) then None
          else krecv (n * 4) self (\<lambda>err out sock.
            let self = self\<lparr>rr_elem_size := bytes_u32s n out\<rparr>; data_size = sum_list (rr_elem_size self) in
            if \<not> kmalloc (scast data_size) then None
            else krecv (int_len data_size) self (\<lambda>err out sock.
              Some (0, self\<lparr>rr_elem_base := split_sizes (map unat (rr_elem_size self)) out,
                rr_elem_free := Some (TCMI_RPCRESP_PROCMSG_KFREE # replicate (n - 1) TCMI_RPCRESP_PROCMSG_DONTFREE)\<rparr>, sock)) sock) sock)
       else Some (0, self, sock))"

definition tcmi_rpcresp_procmsg_send :: "tcmi_rpcresp_procmsg \<Rightarrow> 's kkc_sock \<Rightarrow> (int \<times> 's kkc_sock) option" where
  "tcmi_rpcresp_procmsg_send self =
     ksend (le_bytes 2 (rr_rpcnum self) @ le_bytes 2 (rr_nmemb self) @ le_bytes 8 (rr_rtn_code self)) (
       if rr_nmemb self > 0 then
         ksend (u32s_bytes (take (unat (rr_nmemb self)) (rr_elem_size self))) (
           send_elems (take (unat (rr_nmemb self)) (zip (rr_elem_base self) (rr_elem_size self))))
       else (\<lambda>sock. Some (0, sock)))"

text \<open>Which elements are released, and how, when the message goes away.\<close>

definition tcmi_rpcresp_procmsg_free :: "tcmi_rpcresp_procmsg \<Rightarrow> (nat \<times> elem_free) list" where
  "tcmi_rpcresp_procmsg_free self =
     (if rr_nmemb self = 0 then []
      else filter (\<lambda>p. snd p \<noteq> TCMI_RPCRESP_PROCMSG_DONTFREE)
             (zip [0..<unat (rr_nmemb self)] (case rr_elem_free self of None \<Rightarrow> [] | Some fs \<Rightarrow> fs)))"

definition tcmi_rpcresp_procmsg_free_on_put :: "nat \<Rightarrow> elem_free \<Rightarrow> tcmi_rpcresp_procmsg \<Rightarrow> tcmi_rpcresp_procmsg" where
  "tcmi_rpcresp_procmsg_free_on_put index action self =
     (if index < unat (rr_nmemb self) then self\<lparr>rr_elem_free := map_option (\<lambda>fs. fs[index := action]) (rr_elem_free self)\<rparr>
      else self)"

subsection \<open>Dispatch of the base class\<close>

abbreviation into :: "('a \<Rightarrow> 'b) \<Rightarrow> (int \<times> 'a \<times> 's) option \<Rightarrow> (int \<times> 'b \<times> 's) option" where
  "into f r \<equiv> map_option (\<lambda>(err, x, sock). (err, f x, sock)) r"

fun procmsg_ops_recv :: "(u64 \<Rightarrow> bool) \<Rightarrow> tcmi_proc_body \<Rightarrow> 's kkc_sock \<Rightarrow> (int \<times> tcmi_proc_body \<times> 's kkc_sock) option" where
  "procmsg_ops_recv km Skel_procmsg s = into (\<lambda>_. Skel_procmsg) (tcmi_skel_procmsg_recv s)"
| "procmsg_ops_recv km Skelresp_procmsg s = into (\<lambda>_. Skelresp_procmsg) (tcmi_skelresp_procmsg_recv s)"
| "procmsg_ops_recv km (Exit_procmsg c) s = into Exit_procmsg (tcmi_exit_procmsg_recv c s)"
| "procmsg_ops_recv km Vfork_done_procmsg s = into (\<lambda>_. Vfork_done_procmsg) (tcmi_vfork_done_procmsg_recv s)"
| "procmsg_ops_recv km (Guest_started_procmsg p) s = into Guest_started_procmsg (tcmi_guest_started_procmsg_recv p s)"
| "procmsg_ops_recv km (Guestreq_procmsg g) s = into Guestreq_procmsg (tcmi_ppm_p_migr_back_guestreq_procmsg_recv km g s)"
| "procmsg_ops_recv km Shadowreq_procmsg s = into (\<lambda>_. Shadowreq_procmsg) (tcmi_ppm_p_migr_back_shadowreq_procmsg_recv s)"
| "procmsg_ops_recv km (Rpc_procmsg r) s = into Rpc_procmsg (tcmi_rpc_procmsg_recv km r s)"
| "procmsg_ops_recv km (Rpcresp_procmsg r) s = into Rpcresp_procmsg (tcmi_rpcresp_procmsg_recv km r s)"
| "procmsg_ops_recv km (Err_procmsg e) s = into Err_procmsg (tcmi_err_procmsg_recv e s)"

fun procmsg_ops_send :: "tcmi_proc_body \<Rightarrow> 's kkc_sock \<Rightarrow> (int \<times> 's kkc_sock) option" where
  "procmsg_ops_send Skel_procmsg s = tcmi_skel_procmsg_send s"
| "procmsg_ops_send Skelresp_procmsg s = tcmi_skelresp_procmsg_send s"
| "procmsg_ops_send (Exit_procmsg c) s = tcmi_exit_procmsg_send c s"
| "procmsg_ops_send Vfork_done_procmsg s = tcmi_vfork_done_procmsg_send s"
| "procmsg_ops_send (Guest_started_procmsg p) s = tcmi_guest_started_procmsg_send p s"
| "procmsg_ops_send (Guestreq_procmsg g) s = tcmi_ppm_p_migr_back_guestreq_procmsg_send g s"
| "procmsg_ops_send Shadowreq_procmsg s = tcmi_ppm_p_migr_back_shadowreq_procmsg_send s"
| "procmsg_ops_send (Rpc_procmsg r) s = tcmi_rpc_procmsg_send r s"
| "procmsg_ops_send (Rpcresp_procmsg r) s = tcmi_rpcresp_procmsg_send r s"
| "procmsg_ops_send (Err_procmsg e) s = tcmi_err_procmsg_send e s"

definition tcmi_procmsg_recv ::
  "(u64 \<Rightarrow> bool) \<Rightarrow> tcmi_procmsg \<Rightarrow> 's kkc_sock \<Rightarrow> (int \<times> tcmi_procmsg \<times> 's kkc_sock) option" where
  "tcmi_procmsg_recv kmalloc self =
     krecv 4 self (\<lambda>err out. let self = self\<lparr>pm_dst_pid := le_word out\<rparr> in
     krecv 1 self (\<lambda>err out sock. let self = self\<lparr>pm_enforce_migmode := le_word out\<rparr> in
       into (\<lambda>b. self\<lparr>pm_body := b\<rparr>) (procmsg_ops_recv kmalloc (pm_body self) sock)))"

definition tcmi_procmsg_send :: "tcmi_procmsg \<Rightarrow> 's kkc_sock \<Rightarrow> (int \<times> 's kkc_sock) option" where
  "tcmi_procmsg_send self =
     ksend (le_bytes 4 (pm_dst_pid self)) (ksend (le_bytes 1 (pm_enforce_migmode self)) (procmsg_ops_send (pm_body self)))"

end
