(* ===== verification/Fifo_Channel.thy ===== *)
theory Fifo_Channel
  imports Main
begin

text \<open>
  The contract of a first-in first-out channel, as the buffers and queues of the
  program provide it: putting a list of items accepts a prefix of it and appends this
  prefix to the contents, getting takes items from the front. A bounded channel says
  in addition how many items are accepted. The clients' lemmas are proved once here:
  over any sequence of operations nothing is lost, duplicated or reordered.
\<close>

datatype 'e chan_op = Chan_Put "'e list" | Chan_Get nat

fun chan_run :: "('s \<Rightarrow> 'e list \<Rightarrow> 's \<times> nat) \<Rightarrow> ('s \<Rightarrow> nat \<Rightarrow> 's \<times> 'e list) \<Rightarrow>
    's \<Rightarrow> 'e chan_op list \<Rightarrow> 's \<times> 'e list \<times> 'e list" where
  "chan_run put get s [] = (s, [], [])"
| "chan_run put get s (Chan_Put bs # ops) =
     (let (s1, n) = put s bs; (s2, a, d) = chan_run put get s1 ops in (s2, take n bs @ a, d))"
| "chan_run put get s (Chan_Get k # ops) =
     (let (s1, out) = get s k; (s2, a, d) = chan_run put get s1 ops in (s2, a, out @ d))"

definition op_in_range :: "nat \<Rightarrow> 'e chan_op \<Rightarrow> bool" where
  "op_in_range lim op = (case op of Chan_Put bs \<Rightarrow> length bs < lim | Chan_Get k \<Rightarrow> k < lim)"

lemma op_in_range_mono: "op_in_range m op \<Longrightarrow> m \<le> n \<Longrightarrow> op_in_range n op"
  by (auto simp: op_in_range_def split: chan_op.splits)

lemma ops_bounded: "\<exists>lim. list_all (op_in_range lim) ops"
proof (induction ops)
  case (Cons op ops)
  then obtain lim where "list_all (op_in_range lim) ops" by blast
  moreover define m where "m = (case op of Chan_Put bs \<Rightarrow> length bs | Chan_Get k \<Rightarrow> k)"
  ultimately have "list_all (op_in_range (max lim (Suc m))) (op # ops)"
    by (auto simp: list_all_iff intro: op_in_range_mono) (auto simp: op_in_range_def split: chan_op.splits)
  then show ?case by blast
qed simp

locale fifo_channel =
  fixes inv :: "'s \<Rightarrow> bool" and contents :: "'s \<Rightarrow> 'e list"
    and put :: "'s \<Rightarrow> 'e list \<Rightarrow> 's \<times> nat" and get :: "'s \<Rightarrow> nat \<Rightarrow> 's \<times> 'e list" and lim :: nat
  assumes put_law: "\<lbrakk>inv s; length bs < lim; put s bs = (s', n)\<rbrakk> \<Longrightarrow>
      inv s' \<and> contents s' = contents s @ take n bs"
    and get_law: "\<lbrakk>inv s; k < lim; get s k = (s', out)\<rbrakk> \<Longrightarrow>
      inv s' \<and> out = take k (contents s) \<and> contents s' = drop k (contents s)"
begin

lemma chan_fifo:
  "\<lbrakk>inv s; list_all (op_in_range lim) ops; chan_run put get s ops = (s', acc, del)\<rbrakk> \<Longrightarrow>
   inv s' \<and> contents s @ acc = del @ contents s'"
proof (induction ops arbitrary: s s' acc del)
  case Nil
  then show ?case by simp
next
  case (Cons op ops)
  show ?case
  proof (cases op)
    case (Chan_Put bs)
    obtain s1 n where p: "put s bs = (s1, n)" by fastforce
    obtain a d where r: "chan_run put get s1 ops = (s', a, d)" "acc = take n bs @ a" "del = d"
      using Cons.prems(3) Chan_Put p by (auto split: prod.splits)
    have l: "inv s1" "contents s1 = contents s @ take n bs"
      using put_law [OF Cons.prems(1) _ p] Cons.prems(2) Chan_Put by (auto simp: op_in_range_def)
    show ?thesis using Cons.IH [OF l(1) _ r(1)] Cons.prems(2) l r by simp
  next
    case (Chan_Get k)
    obtain s1 out where p: "get s k = (s1, out)" by fastforce
    obtain a d where r: "chan_run put get s1 ops = (s', a, d)" "acc = a" "del = out @ d"
      using Cons.prems(3) Chan_Get p by (auto split: prod.splits)
    have l: "inv s1" "out @ contents s1 = contents s"
      using get_law [OF Cons.prems(1) _ p] Cons.prems(2) Chan_Get by (auto simp: op_in_range_def)
    have "contents s1 @ a = d @ contents s'" using Cons.IH [OF l(1) _ r(1)] Cons.prems(2) by simp
    then show ?thesis using Cons.IH [OF l(1) _ r(1)] Cons.prems(2) r
      by (simp add: l(2) [symmetric])
  qed
qed

end

locale bounded_channel = fifo_channel +
  fixes room :: "'s \<Rightarrow> nat"
  assumes put_room: "\<lbrakk>inv s; length bs < lim; put s bs = (s', n)\<rbrakk> \<Longrightarrow>
      n = min (length bs) (room s) \<and> room s' = room s - n"
    and get_room: "\<lbrakk>inv s; k < lim; get s k = (s', out)\<rbrakk> \<Longrightarrow> room s' = room s + length out"
begin

lemma put_then_get:
  "\<lbrakk>inv s; contents s = []; length bs < lim; length bs \<le> room s\<rbrakk> \<Longrightarrow>
   snd (get (fst (put s bs)) (length bs)) = bs"
proof -
  assume a: "inv s" "contents s = []" "length bs < lim" "length bs \<le> room s"
  obtain s1 n where p: "put s bs = (s1, n)" by fastforce
  obtain s2 out where g: "get s1 (length bs) = (s2, out)" by fastforce
  show ?thesis using put_law [OF a(1,3) p] put_room [OF a(1,3) p] get_law [OF _ a(3) g] a p g by simp
qed

end

end
