(* ===== verification/Tcmi_Queue.thy ===== *)
theory Tcmi_Queue
  imports Clondike_Prelude Fifo_Channel "HOL-Library.Monad_Syntax"
begin

text \<open>
  The SMP-safe queue of the TCMI library (\<^verbatim>\<open>src/tcmi/lib/tcmi_queue.h\<close>): a locked
  doubly linked list with a reference counter, used for received messages, method
  requests and transactions. \<open>q_elems\<close> is the list from head to tail; taking a held
  lock is \<open>None\<close>. A queue that has been freed is \<open>None\<close> in \<open>tcmi_queue_put\<close>.
\<close>

datatype tcmi_queue_type_t = TCMI_QUEUE_STATIC | TCMI_QUEUE_DYNAMIC

record 'e tcmi_queue =
  q_locked :: bool
  q_elems :: "'e list"
  q_ref_count :: int
  q_type :: tcmi_queue_type_t
  q_wakeups :: nat

definition tcmi_queue_init :: "'e tcmi_queue \<Rightarrow> 'e tcmi_queue" where
  "tcmi_queue_init self = self\<lparr>q_ref_count := 1, q_locked := False, q_elems := [],
     q_type := TCMI_QUEUE_STATIC, q_wakeups := 0\<rparr>"

definition tcmi_queue_new :: "'e tcmi_queue option \<Rightarrow> 'e tcmi_queue option" where
  "tcmi_queue_new mem =
     (case mem of None \<Rightarrow> None | Some q \<Rightarrow> Some ((tcmi_queue_init q)\<lparr>q_type := TCMI_QUEUE_DYNAMIC\<rparr>))"

definition tcmi_queue_get :: "'e tcmi_queue option \<Rightarrow> 'e tcmi_queue option" where
  "tcmi_queue_get self =
     (case self of None \<Rightarrow> None | Some q \<Rightarrow> Some (q\<lparr>q_ref_count := q_ref_count q + 1\<rparr>))"

definition tcmi_queue_put :: "'e tcmi_queue option \<Rightarrow> 'e tcmi_queue option" where
  "tcmi_queue_put self =
     (case self of
        None \<Rightarrow> None
      | Some q \<Rightarrow>
          (let q = q\<lparr>q_ref_count := q_ref_count q - 1\<rparr> in
           if q_ref_count q = 0 then
             (case q_type q of TCMI_QUEUE_STATIC \<Rightarrow> Some q | TCMI_QUEUE_DYNAMIC \<Rightarrow> None)
           else Some q))"

definition tcmi_queue_lock :: "'e tcmi_queue \<Rightarrow> 'e tcmi_queue option" where
  "tcmi_queue_lock self = (if q_locked self then None else Some (self\<lparr>q_locked := True\<rparr>))"

definition tcmi_queue_unlock :: "'e tcmi_queue \<Rightarrow> 'e tcmi_queue" where
  "tcmi_queue_unlock self = self\<lparr>q_locked := False\<rparr>"

definition tcmi_queue_empty :: "'e tcmi_queue \<Rightarrow> bool" where
  "tcmi_queue_empty self \<longleftrightarrow> q_elems self = []"

definition tcmi_queue_add_nolock :: "'e \<Rightarrow> 'e tcmi_queue \<Rightarrow> 'e tcmi_queue" where
  "tcmi_queue_add_nolock element self =
     self\<lparr>q_elems := q_elems self @ [element], q_wakeups := q_wakeups self + 1\<rparr>"

definition tcmi_queue_add :: "'e \<Rightarrow> 'e tcmi_queue \<Rightarrow> 'e tcmi_queue option" where
  "tcmi_queue_add element self = do {
     self \<leftarrow> tcmi_queue_lock self;
     let self = tcmi_queue_add_nolock element self;
     Some (tcmi_queue_unlock self)
   }"

definition tcmi_queue_remove_nolock :: "'e tcmi_queue \<Rightarrow> 'e option \<times> 'e tcmi_queue" where
  "tcmi_queue_remove_nolock self =
     (if tcmi_queue_empty self then (None, self)
      else (Some (hd (q_elems self)), self\<lparr>q_elems := tl (q_elems self)\<rparr>))"

definition tcmi_queue_remove :: "'e tcmi_queue \<Rightarrow> ('e option \<times> 'e tcmi_queue) option" where
  "tcmi_queue_remove self = do {
     self \<leftarrow> tcmi_queue_lock self;
     let (element, self) = tcmi_queue_remove_nolock self;
     Some (element, tcmi_queue_unlock self)
   }"

text \<open>
  The two waiting operations: \<open>signalled\<close> tells whether a signal is pending when the
  queue is empty; \<open>None\<close> is the caller asleep. With a time limit, \<open>left\<close> is the time
  left when the sleep ends, 0 when it has expired.
\<close>

definition tcmi_queue_wait_on_empty_interruptible :: "bool \<Rightarrow> 'e tcmi_queue \<Rightarrow> int option" where
  "tcmi_queue_wait_on_empty_interruptible signalled self =
     (if \<not> tcmi_queue_empty self then Some 0
      else if signalled then Some (- ERESTARTSYS) else None)"

definition tcmi_queue_wait_on_empty_interruptible_timout ::
  "bool \<Rightarrow> int \<Rightarrow> 'e tcmi_queue \<Rightarrow> int \<Rightarrow> int" where
  "tcmi_queue_wait_on_empty_interruptible_timout signalled left self timeout =
     (if \<not> tcmi_queue_empty self then timeout
      else if signalled then - ERESTARTSYS else left)"

subsection \<open>The queue as a channel\<close>

text \<open>
  Adding a list of elements and removing up to \<open>k\<close> elements, one locked operation after
  the other, the way producers and the consuming thread use the queue.
\<close>

fun queue_put :: "'e tcmi_queue \<Rightarrow> 'e list \<Rightarrow> 'e tcmi_queue \<times> nat" where
  "queue_put q [] = (q, 0)"
| "queue_put q (e # es) =
     (case tcmi_queue_add e q of
        None \<Rightarrow> (q, 0)
      | Some q \<Rightarrow> (let (q, n) = queue_put q es in (q, n + 1)))"

fun queue_take :: "'e tcmi_queue \<Rightarrow> nat \<Rightarrow> 'e tcmi_queue \<times> 'e list" where
  "queue_take q 0 = (q, [])"
| "queue_take q (Suc k) =
     (case tcmi_queue_remove q of
        Some (Some e, q) \<Rightarrow> (let (q, es) = queue_take q k in (q, e # es))
      | Some (None, q) \<Rightarrow> (q, [])
      | None \<Rightarrow> (q, []))"

lemma queue_add_eq:
  "\<not> q_locked q \<Longrightarrow> tcmi_queue_add e q =
     Some (q\<lparr>q_elems := q_elems q @ [e], q_wakeups := q_wakeups q + 1\<rparr>)"
  by (simp add: tcmi_queue_add_def tcmi_queue_lock_def tcmi_queue_unlock_def tcmi_queue_add_nolock_def)

lemma queue_remove_eq:
  "\<not> q_locked q \<Longrightarrow> tcmi_queue_remove q =
     Some (case q_elems q of [] \<Rightarrow> (None, q) | e # es \<Rightarrow> (Some e, q\<lparr>q_elems := es\<rparr>))"
  by (cases "q_elems q")
     (simp_all add: tcmi_queue_remove_def tcmi_queue_lock_def tcmi_queue_unlock_def
       tcmi_queue_remove_nolock_def tcmi_queue_empty_def)

lemma queue_put_ok:
  "\<not> q_locked q \<Longrightarrow> queue_put q es = (q', n) \<Longrightarrow>
   \<not> q_locked q' \<and> n = length es \<and> q_elems q' = q_elems q @ es"
proof (induction es arbitrary: q q' n)
  case (Cons e es)
  obtain q1 n1 where p: "queue_put (q\<lparr>q_elems := q_elems q @ [e], q_wakeups := q_wakeups q + 1\<rparr>) es = (q1, n1)"
    by fastforce
  show ?case using Cons.IH [OF _ p] Cons.prems p by (simp add: queue_add_eq)
qed simp

lemma queue_take_ok:
  "\<not> q_locked q \<Longrightarrow> queue_take q k = (q', es) \<Longrightarrow>
   \<not> q_locked q' \<and> es = take k (q_elems q) \<and> q_elems q' = drop k (q_elems q)"
proof (induction k arbitrary: q q' es)
  case (Suc k)
  show ?case
  proof (cases "q_elems q")
    case (Cons e r)
    obtain q1 es1 where t: "queue_take (q\<lparr>q_elems := r\<rparr>) k = (q1, es1)" by fastforce
    show ?thesis using Suc.IH [OF _ t] Suc.prems Cons t by (simp add: queue_remove_eq)
  qed (use Suc.prems in \<open>simp add: queue_remove_eq\<close>)
qed simp

interpretation tq: fifo_channel "\<lambda>q. \<not> q_locked q" q_elems queue_put queue_take lim
proof
  fix s s' :: "'a tcmi_queue" and bs n
  assume "\<not> q_locked s" "queue_put s bs = (s', n)"
  from queue_put_ok [OF this] show "\<not> q_locked s' \<and> q_elems s' = q_elems s @ take n bs" by simp
qed (rule queue_take_ok)

fun queue_refs :: "bool list \<Rightarrow> 'e tcmi_queue option \<Rightarrow> 'e tcmi_queue option" where
  "queue_refs [] q = q"
| "queue_refs (True # ops) q = queue_refs ops (tcmi_queue_get q)"
| "queue_refs (False # ops) q = queue_refs ops (tcmi_queue_put q)"

lemma queue_refs_ok:
  assumes "q_type q = TCMI_QUEUE_DYNAMIC" "0 < q_ref_count q"
    and "\<forall>k \<le> length ops. int (count_list (take k ops) False) < q_ref_count q + int (count_list (take k ops) True)"
  shows "\<exists>q'. queue_refs ops (Some q) = Some q' \<and> q_type q' = TCMI_QUEUE_DYNAMIC \<and>
    q_ref_count q' = q_ref_count q + int (count_list ops True) - int (count_list ops False)"
  using assms
proof (induction ops arbitrary: q)
  case (Cons op ops)
  define q1 where "q1 = q\<lparr>q_ref_count := q_ref_count q + (if op then 1 else - 1)\<rparr>"
  have bound: "int (count_list (take k ops) False) < q_ref_count q1 + int (count_list (take k ops) True)"
    if "k \<le> length ops" for k
    using Cons.prems(3) [rule_format, of "Suc k"] that by (cases op) (auto simp: q1_def)
  have pos: "0 < q_ref_count q1" using bound [of 0] by simp
  have "queue_refs (op # ops) (Some q) = queue_refs ops (Some q1)"
    using pos by (cases op) (auto simp: q1_def tcmi_queue_get_def tcmi_queue_put_def)
  then show ?case
    using Cons.IH [of q1] Cons.prems(1) pos bound by (cases op) (auto simp: q1_def)
qed simp

subsection \<open>Properties\<close>

text \<open>
  The queue delivers in the order of addition: after any sequence of locked
  additions and removals on a new queue, the added elements are the removed ones
  followed by those still queued.
\<close>
theorem tcmi_queue_fifo:
  assumes "tcmi_queue_new mem = Some q"
    and "chan_run queue_put queue_take q ops = (q', added, removed)"
  shows "added = removed @ q_elems q'"
proof -
  have q: "\<not> q_locked q" "q_elems q = []"
    using assms(1) by (auto simp: tcmi_queue_new_def tcmi_queue_init_def split: option.splits)
  obtain lim where "list_all (op_in_range lim) ops" using ops_bounded by blast
  then show ?thesis using tq.chan_fifo [OF q(1) _ assms(2)] q(2) by auto
qed

definition garbage_queue :: "nat tcmi_queue" where
  "garbage_queue = \<lparr>q_locked = True, q_elems = [5], q_ref_count = 0, q_type = TCMI_QUEUE_STATIC, q_wakeups = 0\<rparr>"

theorem tcmi_queue_fifo_witness:
  "\<exists>q q'. tcmi_queue_new (Some garbage_queue) = Some q \<and>
    chan_run queue_put queue_take q [Chan_Put [1, 2], Chan_Get 1, Chan_Put [3], Chan_Get 1] = (q', [1, 2, 3], [1, 2]) \<and>
    q_elems q' = [3]"
proof -
  define q where "q = (tcmi_queue_init garbage_queue)\<lparr>q_type := TCMI_QUEUE_DYNAMIC\<rparr>"
  have q: "tcmi_queue_new (Some garbage_queue) = Some q" by (simp add: tcmi_queue_new_def q_def)
  have "snd (chan_run queue_put queue_take q [Chan_Put [1, 2], Chan_Get 1, Chan_Put [3], Chan_Get 1])
      = ([1, 2, 3], [1, 2])"
    unfolding q_def by code_simp
  then obtain q' where r: "chan_run queue_put queue_take q
      [Chan_Put [1, 2], Chan_Get 1, Chan_Put [3], Chan_Get 1] = (q', [1, 2, 3], [1, 2])"
    by (metis prod.collapse)
  show ?thesis using tcmi_queue_fifo [OF q r] q r by auto
qed

text \<open>
  Reference counting of a dynamic queue: after a sequence of gets and puts in
  which no prefix has released the last reference, the queue is alive and its counter
  is one plus the gets minus the puts; the put that brings the counter to zero frees
  the queue, and only that one.
\<close>
theorem tcmi_queue_refcount:
  assumes "tcmi_queue_new mem = Some q"
    and "\<forall>k \<le> length ops. count_list (take k ops) False \<le> count_list (take k ops) True"
  shows "\<exists>q'. queue_refs ops (Some q) = Some q' \<and>
      q_ref_count q' = 1 + int (count_list ops True) - int (count_list ops False) \<and>
      (tcmi_queue_put (Some q') = None \<longleftrightarrow> count_list ops True = count_list ops False)"
proof -
  have q: "q_ref_count q = 1" "q_type q = TCMI_QUEUE_DYNAMIC"
    using assms(1) by (auto simp: tcmi_queue_new_def tcmi_queue_init_def split: option.splits)
  have "\<forall>k \<le> length ops. int (count_list (take k ops) False) < q_ref_count q + int (count_list (take k ops) True)"
    using assms(2) q(1) by force
  then obtain q' where q': "queue_refs ops (Some q) = Some q'" "q_type q' = TCMI_QUEUE_DYNAMIC"
      "q_ref_count q' = 1 + int (count_list ops True) - int (count_list ops False)"
    using queue_refs_ok [of q ops] q by auto
  then show ?thesis by (auto simp: tcmi_queue_put_def Let_def)
qed

theorem tcmi_queue_refcount_witness:
  "\<exists>q q'. tcmi_queue_new (Some garbage_queue) = Some q \<and>
     queue_refs [True, True, False, False] (Some q) = Some q' \<and> tcmi_queue_put (Some q') = None"
proof -
  obtain q where q: "tcmi_queue_new (Some garbage_queue) = Some q" by (simp add: tcmi_queue_new_def)
  have "\<forall>k \<le> length [True, True, False, False].
      count_list (take k [True, True, False, False]) False \<le> count_list (take k [True, True, False, False]) True"
    by (auto simp: le_Suc_eq)
  from tcmi_queue_refcount [OF q this] q show ?thesis by fastforce
qed

end
