(* ===== verification/Tcmi_Msg.thy ===== *)
theory Tcmi_Msg
  imports Tcmi_Procmsgs Tcmi_Queue
begin

text \<open>
  The base class of messages (\<^verbatim>\<open>tcmi_msg.c\<close>, \<^verbatim>\<open>tcmi_msg.h\<close>) and the factory
  (\<^verbatim>\<open>tcmi_msg_factory.c\<close>, \<^verbatim>\<open>tcmi_messages_dsc.h\<close>): sending with or without waiting for
  the response, receiving, delivery to the request queue or to the waiting transaction,
  and building the right class for an identifier read from the connection.

  Messages that have been handed over live in a heap of addresses: the queue and the
  context of a transaction hold such addresses.
\<close>

subsection \<open>Dispatch\<close>

fun msg_ops_recv :: "(u64 \<Rightarrow> bool) \<Rightarrow> tcmi_body \<Rightarrow> 's kkc_sock \<Rightarrow> (int \<times> tcmi_body \<times> 's kkc_sock) option" where
  "msg_ops_recv km Skel_msg s = into (\<lambda>_. Skel_msg) (tcmi_skel_msg_recv s)"
| "msg_ops_recv km Skelresp_msg s = into (\<lambda>_. Skelresp_msg) (tcmi_skelresp_msg_recv s)"
| "msg_ops_recv km (Authenticate_msg a) s = into Authenticate_msg (tcmi_authenticate_msg_recv km a s)"
| "msg_ops_recv km (Authenticate_resp_msg a) s = into Authenticate_resp_msg (tcmi_authenticate_resp_msg_recv a s)"
| "msg_ops_recv km Disconnect_msg s = into (\<lambda>_. Disconnect_msg) (tcmi_disconnect_msg_recv s)"
| "msg_ops_recv km (P_emigrate_msg e) s = into P_emigrate_msg (tcmi_p_emigrate_msg_recv km e s)"
| "msg_ops_recv km (Signal_msg g) s = into Signal_msg (tcmi_signal_msg_recv g s)"
| "msg_ops_recv km (Generic_user_msg u) s = into Generic_user_msg (tcmi_generic_user_msg_recv km u s)"
| "msg_ops_recv km (Err_msg e) s = into Err_msg (tcmi_err_msg_recv e s)"
| "msg_ops_recv km (Procmsg p) s = into Procmsg (tcmi_procmsg_recv km p s)"

fun msg_ops_send :: "tcmi_body \<Rightarrow> 's kkc_sock \<Rightarrow> (int \<times> 's kkc_sock) option" where
  "msg_ops_send Skel_msg s = tcmi_skel_msg_send s"
| "msg_ops_send Skelresp_msg s = tcmi_skelresp_msg_send s"
| "msg_ops_send (Authenticate_msg a) s = tcmi_authenticate_msg_send a s"
| "msg_ops_send (Authenticate_resp_msg a) s = tcmi_authenticate_resp_msg_send a s"
| "msg_ops_send Disconnect_msg s = tcmi_disconnect_msg_send s"
| "msg_ops_send (P_emigrate_msg e) s = tcmi_p_emigrate_msg_send e s"
| "msg_ops_send (Signal_msg g) s = tcmi_signal_msg_send g s"
| "msg_ops_send (Generic_user_msg u) s = tcmi_generic_user_msg_send u s"
| "msg_ops_send (Err_msg e) s = tcmi_err_msg_send e s"
| "msg_ops_send (Procmsg p) s = tcmi_procmsg_send p s"

subsection \<open>Transfer\<close>

text \<open>\<open>signalled\<close> tells whether a signal interrupts the wait for the semaphore of the socket.\<close>

definition tcmi_msg_send ::
  "bool \<Rightarrow> u64 \<Rightarrow> tcmi_msg \<Rightarrow> u32 \<Rightarrow> 'c trans_table \<Rightarrow> 's kkc_sock \<Rightarrow> (int \<times> 'c trans_table \<times> 's kkc_sock) option" where
  "tcmi_msg_send signalled jiffies self flags tt sock = do {
     (err, tt) \<leftarrow> (case m_transaction self of None \<Rightarrow> Some (0, tt) | Some ta \<Rightarrow> tcmi_transaction_start jiffies ta flags tt);
     (if err \<noteq> 0 then Some (err, tt, sock)
      else do {
        (err, sock) \<leftarrow> kkc_sock_snd_lock_interruptible signalled sock;
        (if err \<noteq> 0 then Some (err, tt, sock)
         else do {
           (err, sock) \<leftarrow> ksend (le_bytes 4 (m_id self)) (ksend (le_bytes 4 (m_req self) @ le_bytes 4 (m_resp self)) (\<lambda>sock. do {
             (err, sock) \<leftarrow> msg_ops_send (m_body self) sock;
             Some (min err 0, sock)
           })) sock;
           Some (err, tt, kkc_sock_snd_unlock sock)
         })
      })
   }"

definition tcmi_msg_send_anonymous ::
  "bool \<Rightarrow> u64 \<Rightarrow> tcmi_msg \<Rightarrow> 'c trans_table \<Rightarrow> 's kkc_sock \<Rightarrow> (int \<times> 'c trans_table \<times> 's kkc_sock) option" where
  "tcmi_msg_send_anonymous signalled jiffies self tt sock = tcmi_msg_send signalled jiffies self TCMI_TRANS_FLAGS_ANONYMOUS tt sock"

text \<open>
  \<open>meanwhile\<close> is what the other threads do to the transactions while the sender waits;
  \<open>woken\<close> tells whether it is a signal that ends the wait.
\<close>

definition tcmi_msg_send_and_receive ::
  "bool \<Rightarrow> u64 \<Rightarrow> ('c trans_table \<Rightarrow> 'c trans_table) \<Rightarrow> bool \<Rightarrow> tcmi_msg \<Rightarrow> 'c trans_table \<Rightarrow> 's kkc_sock \<Rightarrow>
   (int \<times> 'c option \<times> 'c trans_table \<times> 's kkc_sock) option" where
  "tcmi_msg_send_and_receive signalled jiffies meanwhile woken self tt sock = do {
     (err, tt, sock) \<leftarrow> tcmi_msg_send signalled jiffies self 0 tt sock;
     (case m_transaction self of
        None \<Rightarrow> Some (err, None, tt, sock)
      | Some ta \<Rightarrow>
          (if err < 0 then Some (err, None, tt, sock)
           else do {
             let tt = meanwhile tt;
             t \<leftarrow> tt_heap tt ta;
             ret \<leftarrow> tcmi_transaction_wait_interruptible woken t;
             (case ret of
                Inr TCMI_TRANSACTION_ABORTED \<Rightarrow> Some (err, None, tt, sock)
              | Inr TCMI_TRANSACTION_COMPLETE \<Rightarrow> Some (err, t_context t, tt, sock)
              | Inr _ \<Rightarrow> None
              | Inl sig \<Rightarrow> do {
                  (resp, tt) \<leftarrow> tcmi_transaction_abort ta tt;
                  Some (sig, resp, tt, sock)
                })
           }))
   }"

definition tcmi_msg_recv ::
  "(u64 \<Rightarrow> bool) \<Rightarrow> bool \<Rightarrow> tcmi_msg \<Rightarrow> 's kkc_sock \<Rightarrow> (int \<times> tcmi_msg \<times> 's kkc_sock) option" where
  "tcmi_msg_recv kmalloc signalled self sock = do {
     (err, sock) \<leftarrow> kkc_sock_rcv_lock_interruptible signalled sock;
     (if err \<noteq> 0 then Some (err, self, sock)
      else do {
        (err, self, sock) \<leftarrow> krecv 8 self (\<lambda>err out sock.
          let self = self\<lparr>m_req := le_word (take 4 out), m_resp := le_word (drop 4 out)\<rparr>
          in into (\<lambda>b. self\<lparr>m_body := b\<rparr>) (msg_ops_recv kmalloc (m_body self) sock)) sock;
        Some (err, self, kkc_sock_rcv_unlock sock)
      })
   }"

subsection \<open>Delivery and release\<close>

type_synonym msg_heap = "nat \<rightharpoonup> tcmi_msg"

definition tcmi_msg_put :: "nat option \<Rightarrow> msg_heap \<Rightarrow> 'c trans_table \<Rightarrow> (msg_heap \<times> 'c trans_table) option" where
  "tcmi_msg_put self msgs tt =
     (case self of
        None \<Rightarrow> Some (msgs, tt)
      | Some a \<Rightarrow> do {
          m \<leftarrow> msgs a;
          (if m_ref_count m - 1 = 0 then do {
             tt \<leftarrow> tcmi_transaction_put (m_transaction m) tt;
             Some (msgs(a := None), tt)
           }
           else Some (msgs(a \<mapsto> m\<lparr>m_ref_count := m_ref_count m - 1\<rparr>), tt))
        })"

definition tcmi_msg_deliver ::
  "nat \<Rightarrow> msg_heap \<Rightarrow> nat tcmi_queue \<Rightarrow> nat trans_table \<Rightarrow> (int \<times> msg_heap \<times> nat tcmi_queue \<times> nat trans_table) option" where
  "tcmi_msg_deliver self msgs requests tt = do {
     m \<leftarrow> msgs self;
     (if m_resp m = TCMI_TRANSACTION_INVAL_ID then do {
        requests \<leftarrow> tcmi_queue_add self requests;
        Some (0, msgs, requests, tt)
      }
      else do {
        (tran, tt) \<leftarrow> tcmi_transaction_lookup tt (m_resp m);
        (case tran of
           None \<Rightarrow> Some (- 1, msgs, requests, tt)
         | Some t \<Rightarrow> do {
             let msgs = msgs(self \<mapsto> m\<lparr>m_transaction := Some t\<rparr>);
             (err, tt) \<leftarrow> tcmi_transaction_complete t (Some self) (TCMI_MSG_TYPE (m_id m)) tt;
             (if err \<noteq> 0 then Some (- EINVAL, msgs, requests, tt)
              else do {
                tr \<leftarrow> tt_heap tt t;
                (if tcmi_transaction_is_anon tr then do {
                   requests \<leftarrow> tcmi_queue_add self requests;
                   Some (0, msgs, requests, tt)
                 }
                 else Some (0, msgs, requests, tt))
              })
           })
      })
   }"

subsection \<open>Factory\<close>

record tcmi_msg_dsc =
  dsc_msg_id :: u32
  dsc_new_rx :: "(msg_mem \<Rightarrow> u32 \<Rightarrow> tcmi_msg option) option"
  dsc_new_rx_err :: "(msg_mem \<Rightarrow> u32 \<Rightarrow> tcmi_msg option) option"

definition TCMI_MSG_DSC ::
  "u32 \<Rightarrow> (msg_mem \<Rightarrow> u32 \<Rightarrow> tcmi_msg option) \<Rightarrow> (msg_mem \<Rightarrow> u32 \<Rightarrow> tcmi_msg option) option \<Rightarrow> tcmi_msg_dsc" where
  "TCMI_MSG_DSC i new_rx_m new_rx_err_m = \<lparr>dsc_msg_id = i, dsc_new_rx = Some new_rx_m, dsc_new_rx_err = new_rx_err_m\<rparr>"

definition mig_messages :: "tcmi_msg_dsc list" where
  "mig_messages =
     [TCMI_MSG_DSC TCMI_SKEL_MSG_ID tcmi_skel_msg_new_rx None,
      TCMI_MSG_DSC TCMI_SKELRESP_MSG_ID tcmi_skelresp_msg_new_rx (Some tcmi_err_msg_new_rx),
      TCMI_MSG_DSC TCMI_AUTHENTICATE_MSG_ID tcmi_authenticate_msg_new_rx None,
      TCMI_MSG_DSC TCMI_AUTHENTICATE_RESP_MSG_ID tcmi_authenticate_resp_msg_new_rx (Some tcmi_err_msg_new_rx),
      TCMI_MSG_DSC TCMI_DISCONNECT_MSG_ID tcmi_disconnect_msg_new_rx None,
      TCMI_MSG_DSC TCMI_P_EMIGRATE_MSG_ID tcmi_p_emigrate_msg_new_rx None,
      TCMI_MSG_DSC TCMI_SIGNAL_MSG_ID tcmi_signal_msg_new_rx None,
      TCMI_MSG_DSC TCMI_GENERIC_USER_MSG_ID tcmi_generic_user_msg_new_rx None]"

definition proc_messages :: "tcmi_msg_dsc list" where
  "proc_messages =
     [TCMI_MSG_DSC TCMI_SKEL_PROCMSG_ID tcmi_skel_procmsg_new_rx None,
      TCMI_MSG_DSC TCMI_SKELRESP_PROCMSG_ID tcmi_skelresp_procmsg_new_rx (Some tcmi_err_procmsg_new_rx),
      TCMI_MSG_DSC TCMI_EXIT_PROCMSG_ID tcmi_exit_procmsg_new_rx None,
      TCMI_MSG_DSC TCMI_VFORK_DONE_PROCMSG_ID tcmi_vfork_done_procmsg_new_rx None,
      TCMI_MSG_DSC TCMI_GUEST_STARTED_PROCMSG_ID tcmi_guest_started_procmsg_new_rx (Some tcmi_err_procmsg_new_rx),
      TCMI_MSG_DSC TCMI_PPM_P_MIGR_BACK_GUESTREQ_PROCMSG_ID tcmi_ppm_p_migr_back_guestreq_procmsg_new_rx
        (Some tcmi_err_procmsg_new_rx),
      TCMI_MSG_DSC TCMI_PPM_P_MIGR_BACK_SHADOWREQ_PROCMSG_ID tcmi_ppm_p_migr_back_shadowreq_procmsg_new_rx
        (Some tcmi_err_procmsg_new_rx),
      TCMI_MSG_DSC TCMI_RPC_PROCMSG_ID tcmi_rpc_procmsg_new_rx None,
      TCMI_MSG_DSC TCMI_RPCRESP_PROCMSG_ID tcmi_rpcresp_procmsg_new_rx (Some tcmi_err_procmsg_new_rx)]"

definition msg_groups :: "(tcmi_msg_dsc list \<times> u32) list" where
  "msg_groups = [(mig_messages, TCMI_MSG_INDEX TCMI_LAST_MSG_ID), (proc_messages, TCMI_MSG_INDEX TCMI_LAST_PROCMSG_ID)]"

definition tcmi_msg_new_rx :: "msg_mem \<Rightarrow> u32 \<Rightarrow> tcmi_msg_dsc \<Rightarrow> tcmi_msg option" where
  "tcmi_msg_new_rx mem msg_id dsc =
     (if TCMI_MSG_TYPE msg_id \<noteq> TCMI_MSG_TYPE (dsc_msg_id dsc) then None
      else if TCMI_MSG_FLG msg_id = TCMI_MSG_REGFLGS then
        (case dsc_new_rx dsc of None \<Rightarrow> None | Some new_rx \<Rightarrow> new_rx mem msg_id)
      else if TCMI_MSG_FLG msg_id = TCMI_MSG_ERRFLGS then
        (case dsc_new_rx_err dsc of None \<Rightarrow> None | Some new_rx_err \<Rightarrow> new_rx_err mem msg_id)
      else None)"

definition tcmi_msg_factory :: "msg_mem \<Rightarrow> u32 \<Rightarrow> u32 \<Rightarrow> tcmi_msg option" where
  "tcmi_msg_factory mem msg_id msg_group =
     (let group_id = TCMI_MSG_GROUP msg_id; index = TCMI_MSG_INDEX msg_id
      in if group_id \<noteq> msg_group \<and> msg_group \<noteq> TCMI_MSG_GROUP_ANY then None
         else if \<not> (group_id < TCMI_MSG_GROUP_LAST \<and> index < snd (msg_groups ! unat group_id)) then None
         else tcmi_msg_new_rx mem msg_id (fst (msg_groups ! unat group_id) ! unat index))"

end
