(* ===== verification/Tcmi_Wire.thy ===== *)
theory Tcmi_Wire
  imports Tcmi_Msg
begin

text \<open>
  The bytes a message is on the connection, and that every class reads back what it
  writes: \<open>msg_wire\<close> is the abstract format, \<open>msg_send_ok\<close> shows that sending produces it,
  \<open>factory_builds\<close> and \<open>msg_recv_ok\<close> that the receiving side rebuilds the message from it.
\<close>

subsection \<open>Wire formats\<close>

text \<open>What a message of each class puts on the connection.\<close>

definition rpc_payload :: "u16 \<Rightarrow> u32 list \<Rightarrow> byte list list \<Rightarrow> byte list" where
  "rpc_payload n sizes base = (if n > 0 then u32s_bytes sizes @ concat base else [])"

fun proc_wire :: "tcmi_proc_body \<Rightarrow> byte list" where
  "proc_wire (Exit_procmsg c) = le_bytes 4 c"
| "proc_wire (Guest_started_procmsg p) = le_bytes 4 p"
| "proc_wire (Guestreq_procmsg g) = le_bytes 4 (gr_size g) @ opt_bytes (gr_ckpt_name g)"
| "proc_wire (Rpc_procmsg r) = le_bytes 2 (rpc_rpcnum r) @ le_bytes 2 (rpc_nmemb r) @
     rpc_payload (rpc_nmemb r) (rpc_elem_size r) (rpc_elem_base r)"
| "proc_wire (Rpcresp_procmsg r) = le_bytes 2 (rr_rpcnum r) @ le_bytes 2 (rr_nmemb r) @ le_bytes 8 (rr_rtn_code r) @
     rpc_payload (rr_nmemb r) (rr_elem_size r) (rr_elem_base r)"
| "proc_wire (Err_procmsg e) = le_bytes 4 e"
| "proc_wire _ = []"

fun body_wire :: "tcmi_body \<Rightarrow> byte list" where
  "body_wire (Authenticate_msg a) = le_bytes 4 (au_pen_id a) @ le_bytes 4 (au_pen_arch a) @ le_bytes 4 (au_size a) @
     opt_bytes (au_auth_data a)"
| "body_wire (Authenticate_resp_msg a) = le_bytes 4 (ar_ccn_id a) @ le_bytes 4 (ar_ccn_arch a) @
     le_bytes 1 (ar_result_code a) @ ar_mount_params a"
| "body_wire (P_emigrate_msg e) = pid_and_size_bytes e @ opt_bytes (em_ckpt_name e) @ opt_bytes (em_exec_name e)"
| "body_wire (Signal_msg g) = le_bytes 4 (sg_pid g) @ sg_info g"
| "body_wire (Generic_user_msg u) = le_bytes 4 (gu_node_id u) @ le_bytes 4 (gu_size u) @ opt_bytes (gu_user_data u)"
| "body_wire (Err_msg e) = le_bytes 4 e"
| "body_wire (Procmsg p) = le_bytes 4 (pm_dst_pid p) @ le_bytes 1 (pm_enforce_migmode p) @ proc_wire (pm_body p)"
| "body_wire _ = []"

definition msg_wire :: "tcmi_msg \<Rightarrow> byte list" where
  "msg_wire m = le_bytes 4 (m_id m) @ le_bytes 4 (m_req m) @ le_bytes 4 (m_resp m) @ body_wire (m_body m)"

text \<open>Well-formed bodies: length fields and array sizes agree with the buffers.\<close>

definition elems_ok :: "u16 \<Rightarrow> u32 list \<Rightarrow> byte list list \<Rightarrow> bool" where
  "elems_ok n sizes base \<longleftrightarrow> n > 0 \<longrightarrow> length sizes = unat n \<and> sizes = map (of_nat \<circ> length) base \<and>
     length (concat base) < 2 ^ 31"

fun proc_ok :: "tcmi_proc_body \<Rightarrow> bool" where
  "proc_ok (Guestreq_procmsg g) \<longleftrightarrow> gr_ckpt_name g \<noteq> None \<and> buf_ok (gr_ckpt_name g) (gr_size g)"
| "proc_ok (Rpc_procmsg r) \<longleftrightarrow> elems_ok (rpc_nmemb r) (rpc_elem_size r) (rpc_elem_base r)"
| "proc_ok (Rpcresp_procmsg r) \<longleftrightarrow> elems_ok (rr_nmemb r) (rr_elem_size r) (rr_elem_base r)"
| "proc_ok _ \<longleftrightarrow> True"

fun body_ok :: "tcmi_body \<Rightarrow> bool" where
  "body_ok (Authenticate_msg a) \<longleftrightarrow> buf_ok (au_auth_data a) (au_size a)"
| "body_ok (Authenticate_resp_msg a) \<longleftrightarrow> length (ar_mount_params a) = mount_params_size"
| "body_ok (P_emigrate_msg e) \<longleftrightarrow> em_ckpt_name e \<noteq> None \<and> em_exec_name e \<noteq> None \<and>
     buf_ok (em_ckpt_name e) (em_size e) \<and> buf_ok (em_exec_name e) (em_exec_name_size e)"
| "body_ok (Signal_msg g) \<longleftrightarrow> length (sg_info g) = 128"
| "body_ok (Generic_user_msg u) \<longleftrightarrow> buf_ok (gu_user_data u) (gu_size u)"
| "body_ok (Procmsg p) \<longleftrightarrow> proc_ok (pm_body p)"
| "body_ok _ \<longleftrightarrow> True"

subsection \<open>Sending\<close>

lemma kkc_writes_append:
  "kkc.writes f data \<Longrightarrow> data = data' \<Longrightarrow> kkc.writes f data'"
  by simp

lemma send_buf_writes:
  assumes "buf_bytes p n = Some data" "kkc.writes k data'"
  shows "kkc.writes (send_buf p n k) (data @ data')"
proof -
  have "send_buf p n k = ksend data k" by (rule ext) (simp add: send_buf_def assms(1))
  then show ?thesis using kkc.writes_field [OF assms(2)] by simp
qed

lemma kkc_writes_0: "kkc.writes (\<lambda>sock. Some (0, sock)) []"
  by (rule kkc.writes_done)

lemma send_elems_writes:
  "\<forall>b \<in> set base. length b < 2 ^ 31 \<Longrightarrow> kkc.writes (send_elems (zip base (map (of_nat \<circ> length) base))) (concat base)"
proof (induction base)
  case Nil
  have "send_elems [] = (\<lambda>sock. Some (0, sock))" by (rule ext) simp
  then show ?case using kkc_writes_0 by simp
next
  case (Cons b base)
  have eq: "send_elems (zip (b # base) (map (of_nat \<circ> length) (b # base))) =
      send_buf (Some b) (length b) (send_elems (zip base (map (of_nat \<circ> length) base)))"
    using Cons.prems by (intro ext) simp
  have bb: "buf_bytes (Some b) (length b) = Some b" by (simp add: buf_bytes_def)
  show ?case
    unfolding eq concat.simps by (rule send_buf_writes [OF bb Cons.IH]) (use Cons.prems in simp)
qed

lemma concat_lengths: "length (concat base) < k \<Longrightarrow> b \<in> set base \<Longrightarrow> length b < (k :: nat)"
  by (induction base) auto

lemma elems_writes:
  assumes "elems_ok n sizes base" "n > 0"
  shows "kkc.writes (ksend (u32s_bytes (take (unat n) sizes)) (send_elems (take (unat n) (zip base sizes)))) (rpc_payload n sizes base)"
proof -
  have s: "length sizes = unat n" "sizes = map (of_nat \<circ> length) base" "length (concat base) < 2 ^ 31"
    using assms by (auto simp: elems_ok_def)
  then have "take (unat n) sizes = sizes" "take (unat n) (zip base sizes) = zip base sizes" by simp_all
  moreover have "\<forall>b \<in> set base. length b < 2 ^ 31" using concat_lengths [OF s(3)] by blast
  ultimately show ?thesis
    using kkc.writes_field [OF send_elems_writes, of base "u32s_bytes sizes"] assms(2) s(2) by (simp add: rpc_payload_def)
qed

lemma buf_writes: "buf_ok p n \<Longrightarrow> kkc.writes (send_buf p (int_len n) (\<lambda>sock. Some (0, sock))) (opt_bytes p)"
  using send_buf_writes [OF buf_ok_bytes kkc_writes_0] by simp

lemmas field_writes = kkc.writes_field [THEN kkc_writes_append] kkc_writes_0

lemma buf_ok_pos: "buf_ok p n \<Longrightarrow> n > 0 \<longleftrightarrow> p \<noteq> None"
proof (cases p)
  case (Some b)
  assume "buf_ok p n"
  then have "unat n = length b" "0 < length b" using Some by (auto simp: buf_ok_def unat_of_nat)
  then show ?thesis using Some by (simp add: word_less_nat_alt)
qed (simp add: buf_ok_def)

lemma opt_buf_writes:
  "buf_ok p n \<Longrightarrow> kkc.writes (if n > 0 then send_buf p (int_len n) (\<lambda>sock. Some (0, sock)) else (\<lambda>sock. Some (0, sock))) (opt_bytes p)"
  using buf_writes [of p n] buf_ok_pos [of p n] kkc_writes_0 by (auto simp: opt_bytes_def)

lemma procmsg_ops_send_fun:
  "procmsg_ops_send Skel_procmsg = (\<lambda>sock. Some (0, sock))"
  "procmsg_ops_send Skelresp_procmsg = (\<lambda>sock. Some (0, sock))"
  "procmsg_ops_send Vfork_done_procmsg = (\<lambda>sock. Some (0, sock))"
  "procmsg_ops_send Shadowreq_procmsg = (\<lambda>sock. Some (0, sock))"
  "procmsg_ops_send (Exit_procmsg c) = (\<lambda>sock. kkc_sock_send sock (le_bytes 4 c))"
  "procmsg_ops_send (Guest_started_procmsg c) = (\<lambda>sock. kkc_sock_send sock (le_bytes 4 c))"
  "procmsg_ops_send (Err_procmsg c) = (\<lambda>sock. kkc_sock_send sock (le_bytes 4 c))"
  by (simp_all add: fun_eq_iff tcmi_skel_procmsg_send_def tcmi_skelresp_procmsg_send_def tcmi_vfork_done_procmsg_send_def
    tcmi_ppm_p_migr_back_shadowreq_procmsg_send_def tcmi_exit_procmsg_send_def tcmi_guest_started_procmsg_send_def
    tcmi_err_procmsg_send_def)

lemma proc_send_writes: "proc_ok b \<Longrightarrow> kkc.writes (procmsg_ops_send b) (proc_wire b)"
proof (cases b)
  case (Guestreq_procmsg g)
  assume ok: "proc_ok b"
  have e: "procmsg_ops_send (Guestreq_procmsg g) = tcmi_ppm_p_migr_back_guestreq_procmsg_send g" by (rule ext) simp
  show ?thesis
    unfolding Guestreq_procmsg e proc_wire.simps tcmi_ppm_p_migr_back_guestreq_procmsg_send_def
    by (rule kkc.writes_field, rule buf_writes) (use ok Guestreq_procmsg in simp)
next
  case (Rpc_procmsg r)
  assume ok: "proc_ok b"
  have e: "procmsg_ops_send (Rpc_procmsg r) = tcmi_rpc_procmsg_send r" by (rule ext) simp
  show ?thesis
    unfolding Rpc_procmsg e proc_wire.simps tcmi_rpc_procmsg_send_def append_assoc [symmetric]
    by (rule kkc.writes_field) (use ok Rpc_procmsg elems_writes in \<open>auto simp: rpc_payload_def kkc_writes_0\<close>)
next
  case (Rpcresp_procmsg r)
  assume ok: "proc_ok b"
  have e: "procmsg_ops_send (Rpcresp_procmsg r) = tcmi_rpcresp_procmsg_send r" by (rule ext) simp
  have w: "proc_wire (Rpcresp_procmsg r) = (le_bytes 2 (rr_rpcnum r) @ le_bytes 2 (rr_nmemb r) @ le_bytes 8 (rr_rtn_code r)) @
     rpc_payload (rr_nmemb r) (rr_elem_size r) (rr_elem_base r)" by simp
  show ?thesis
    unfolding Rpcresp_procmsg e w tcmi_rpcresp_procmsg_send_def
    by (rule kkc.writes_field) (use ok Rpcresp_procmsg elems_writes in \<open>auto simp: rpc_payload_def kkc_writes_0\<close>)
qed (simp_all add: kkc_writes_0 kkc.writes_last procmsg_ops_send_fun)

definition is_signal :: "tcmi_body \<Rightarrow> bool" where
  "is_signal b \<longleftrightarrow> (case b of Signal_msg _ \<Rightarrow> True | _ \<Rightarrow> False)"

lemma msg_ops_send_fun:
  "msg_ops_send Skel_msg = (\<lambda>sock. Some (0, sock))"
  "msg_ops_send Skelresp_msg = (\<lambda>sock. Some (0, sock))"
  "msg_ops_send Disconnect_msg = (\<lambda>sock. Some (0, sock))"
  "msg_ops_send (Err_msg c) = (\<lambda>sock. kkc_sock_send sock (le_bytes 4 c))"
  "msg_ops_send (Authenticate_msg a) = tcmi_authenticate_msg_send a"
  "msg_ops_send (Authenticate_resp_msg ar) = tcmi_authenticate_resp_msg_send ar"
  "msg_ops_send (P_emigrate_msg e) = tcmi_p_emigrate_msg_send e"
  "msg_ops_send (Generic_user_msg u) = tcmi_generic_user_msg_send u"
  "msg_ops_send (Procmsg p) = tcmi_procmsg_send p"
  by (simp_all add: fun_eq_iff tcmi_skel_msg_send_def tcmi_skelresp_msg_send_def tcmi_disconnect_msg_send_def
      tcmi_err_msg_send_def)

lemma body_send_writes: "body_ok b \<Longrightarrow> \<not> is_signal b \<Longrightarrow> kkc.writes (msg_ops_send b) (body_wire b)"
proof (cases b)
  case (Authenticate_msg a)
  assume "body_ok b"
  then show ?thesis
    unfolding Authenticate_msg msg_ops_send_fun body_wire.simps tcmi_authenticate_msg_send_def
    by (intro kkc.writes_field opt_buf_writes) simp
next
  case (Authenticate_resp_msg a)
  show ?thesis
    unfolding Authenticate_resp_msg msg_ops_send_fun body_wire.simps tcmi_authenticate_resp_msg_send_def
    by (intro kkc.writes_field kkc.writes_field [OF kkc_writes_0, simplified])
next
  case (P_emigrate_msg e)
  assume "body_ok b"
  then show ?thesis
    unfolding P_emigrate_msg msg_ops_send_fun body_wire.simps tcmi_p_emigrate_msg_send_def
    by (intro kkc.writes_field send_buf_writes buf_ok_bytes buf_writes) simp_all
next
  case (Generic_user_msg u)
  assume "body_ok b"
  then show ?thesis
    unfolding Generic_user_msg msg_ops_send_fun body_wire.simps tcmi_generic_user_msg_send_def
    by (intro kkc.writes_field opt_buf_writes) simp
next
  case (Procmsg p)
  assume "body_ok b"
  then show ?thesis
    unfolding Procmsg msg_ops_send_fun body_wire.simps tcmi_procmsg_send_def
    by (intro kkc.writes_field proc_send_writes) simp
qed (simp_all add: msg_ops_send_fun kkc_writes_0 kkc.writes_last is_signal_def)

lemma writes_min:
  assumes "kkc.writes f data"
  shows "kkc.writes (\<lambda>sock. do { (err, sock) \<leftarrow> f sock; Some (min err 0, sock) }) data"
  unfolding kkc.writes_def
proof (intro allI impI)
  fix s :: "'a kkc_sock" assume "sock_ok s"
  then obtain r s' where "f s = Some (r, s')" "sock_ok s'" "sock_avail s' = sock_avail s"
      "if r < 0 then \<exists>m. sock_sent s' = sock_sent s @ take m data else sock_sent s' = sock_sent s @ data"
    using assms unfolding kkc.writes_def by blast
  then show "\<exists>r s'. do { (err, sock) \<leftarrow> f s; Some (min err 0, sock) } = Some (r, s') \<and> sock_ok s' \<and>
      sock_avail s' = sock_avail s \<and>
      (if r < 0 then \<exists>m. sock_sent s' = sock_sent s @ take m data else sock_sent s' = sock_sent s @ data)"
    by (intro exI [of _ "min r 0"] exI [of _ s']) (auto split: if_splits)
qed

lemma sock_sem_simps [simp]:
  "sock_ok (s\<lparr>ks_send_sem := b\<rparr>) = sock_ok s" "sock_ok (s\<lparr>ks_recv_sem := b\<rparr>) = sock_ok s"
  "sock_sent (s\<lparr>ks_send_sem := b\<rparr>) = sock_sent s" "sock_sent (s\<lparr>ks_recv_sem := b\<rparr>) = sock_sent s"
  "sock_avail (s\<lparr>ks_send_sem := b\<rparr>) = sock_avail s" "sock_avail (s\<lparr>ks_recv_sem := b\<rparr>) = sock_avail s"
  by (simp_all add: sock_ok_def sock_sent_def sock_avail_def)

text \<open>What sending a message does, from the started transaction on.\<close>

lemma msg_send_ok:
  fixes s :: "'s kkc_sock"
  assumes "body_ok (m_body m)" "\<not> is_signal (m_body m)" "sock_ok s" "ks_send_sem s"
    and "(case m_transaction m of None \<Rightarrow> Some (0, tt) | Some ta \<Rightarrow> tcmi_transaction_start jiffies ta flags tt) = Some (0, tt')"
  shows "\<exists>r s'. tcmi_msg_send sg jiffies m flags tt s = Some (r, tt', s') \<and> sock_ok s' \<and> ks_send_sem s' \<and>
    sock_avail s' = sock_avail s \<and>
    (if r < 0 then \<exists>k. sock_sent s' = sock_sent s @ take k (msg_wire m) else sock_sent s' = sock_sent s @ msg_wire m)"
proof -
  define f where "f = (\<lambda>sock :: 's kkc_sock. do { (err, sock) \<leftarrow> msg_ops_send (m_body m) sock; Some (min err 0, sock) })"
  have "kkc.writes f (body_wire (m_body m))" unfolding f_def by (rule writes_min [OF body_send_writes [OF assms(1,2)]])
  then have "kkc.writes (ksend (le_bytes 4 (m_id m)) (ksend (le_bytes 4 (m_req m) @ le_bytes 4 (m_resp m)) f)) (msg_wire m)"
    unfolding msg_wire_def by (metis kkc.writes_field append_assoc)
  then obtain r s' where w: "ksend (le_bytes 4 (m_id m)) (ksend (le_bytes 4 (m_req m) @ le_bytes 4 (m_resp m)) f) (s\<lparr>ks_send_sem := False\<rparr>) = Some (r, s')"
      "sock_ok s'" "sock_avail s' = sock_avail s"
      "if r < 0 then \<exists>k. sock_sent s' = sock_sent s @ take k (msg_wire m) else sock_sent s' = sock_sent s @ msg_wire m"
    using assms(3) unfolding kkc.writes_def by (metis sock_sem_simps(1,3,5))
  have "tcmi_msg_send sg jiffies m flags tt s = Some (r, tt', kkc_sock_snd_unlock s')"
    using assms(4) w(1) unfolding tcmi_msg_send_def assms(5) f_def
    by (simp add: kkc_sock_snd_lock_interruptible_def)
  then show ?thesis
    using w(2-4) by (intro exI [of _ r] exI [of _ "kkc_sock_snd_unlock s'"]) (simp add: kkc_sock_snd_unlock_def)
qed

subsection \<open>Receiving\<close>

text \<open>
  The identifier of each class (error messages have none of their own), and when a
  received body is the sent one: how the receiver releases the elements of a call is its
  own business, and without elements the arrays are not set.
\<close>

fun proc_tag :: "tcmi_proc_body \<Rightarrow> u32 option" where
  "proc_tag Skel_procmsg = Some TCMI_SKEL_PROCMSG_ID"
| "proc_tag Skelresp_procmsg = Some TCMI_SKELRESP_PROCMSG_ID"
| "proc_tag (Exit_procmsg _) = Some TCMI_EXIT_PROCMSG_ID"
| "proc_tag Vfork_done_procmsg = Some TCMI_VFORK_DONE_PROCMSG_ID"
| "proc_tag (Guest_started_procmsg _) = Some TCMI_GUEST_STARTED_PROCMSG_ID"
| "proc_tag (Guestreq_procmsg _) = Some TCMI_PPM_P_MIGR_BACK_GUESTREQ_PROCMSG_ID"
| "proc_tag Shadowreq_procmsg = Some TCMI_PPM_P_MIGR_BACK_SHADOWREQ_PROCMSG_ID"
| "proc_tag (Rpc_procmsg _) = Some TCMI_RPC_PROCMSG_ID"
| "proc_tag (Rpcresp_procmsg _) = Some TCMI_RPCRESP_PROCMSG_ID"
| "proc_tag (Err_procmsg _) = None"

fun body_tag :: "tcmi_body \<Rightarrow> u32 option" where
  "body_tag Skel_msg = Some TCMI_SKEL_MSG_ID"
| "body_tag Skelresp_msg = Some TCMI_SKELRESP_MSG_ID"
| "body_tag (Authenticate_msg _) = Some TCMI_AUTHENTICATE_MSG_ID"
| "body_tag (Authenticate_resp_msg _) = Some TCMI_AUTHENTICATE_RESP_MSG_ID"
| "body_tag Disconnect_msg = Some TCMI_DISCONNECT_MSG_ID"
| "body_tag (P_emigrate_msg _) = Some TCMI_P_EMIGRATE_MSG_ID"
| "body_tag (Signal_msg _) = Some TCMI_SIGNAL_MSG_ID"
| "body_tag (Generic_user_msg _) = Some TCMI_GENERIC_USER_MSG_ID"
| "body_tag (Err_msg _) = None"
| "body_tag (Procmsg p) = proc_tag (pm_body p)"

fun proc_same :: "tcmi_proc_body \<Rightarrow> tcmi_proc_body \<Rightarrow> bool" where
  "proc_same (Rpc_procmsg r) (Rpc_procmsg r') \<longleftrightarrow> rpc_rpcnum r' = rpc_rpcnum r \<and> rpc_nmemb r' = rpc_nmemb r \<and>
     (rpc_nmemb r > 0 \<longrightarrow> rpc_elem_size r' = rpc_elem_size r \<and> rpc_elem_base r' = rpc_elem_base r)"
| "proc_same (Rpcresp_procmsg r) (Rpcresp_procmsg r') \<longleftrightarrow> rr_rpcnum r' = rr_rpcnum r \<and> rr_nmemb r' = rr_nmemb r \<and>
     rr_rtn_code r' = rr_rtn_code r \<and>
     (rr_nmemb r > 0 \<longrightarrow> rr_elem_size r' = rr_elem_size r \<and> rr_elem_base r' = rr_elem_base r)"
| "proc_same b b' \<longleftrightarrow> b' = b"

fun body_same :: "tcmi_body \<Rightarrow> tcmi_body \<Rightarrow> bool" where
  "body_same (Procmsg p) (Procmsg p') \<longleftrightarrow> pm_dst_pid p' = pm_dst_pid p \<and> pm_enforce_migmode p' = pm_enforce_migmode p \<and>
     proc_same (pm_body p) (pm_body p')"
| "body_same b b' \<longleftrightarrow> b' = b"

lemma elems_ok_sum:
  assumes "elems_ok n sizes base" "n > 0"
  shows "int_len (sum_list sizes) = length (concat base)" "map unat sizes = map length base"
proof -
  have s: "sizes = map (of_nat \<circ> length) base" "length (concat base) < 2 ^ 31"
    using assms by (auto simp: elems_ok_def)
  have "sum_list (map (of_nat \<circ> length) base) = (of_nat (length (concat base)) :: u32)"
    by (induction base) simp_all
  then show "int_len (sum_list sizes) = length (concat base)" using s by simp
  have "unat (of_nat (length b) :: u32) = length b" if "b \<in> set base" for b
    using concat_lengths [OF s(2) that] by (simp add: unat_of_nat)
  then show "map unat sizes = map length base" unfolding s(1) by simp
qed

lemma take_le_bytes [simp]: "take 2 (le_bytes 2 w @ xs) = le_bytes 2 w" "drop 2 (le_bytes 2 w @ xs) = xs"
  "take 4 (le_bytes 4 w @ xs) = le_bytes 4 w" "drop 4 (le_bytes 4 w @ xs) = xs"
  by simp_all

text \<open>The arrays of a call: the sizes, then the elements in one piece.\<close>

lemma payload_reads:
  assumes "elems_ok n sizes base" "n > 0" "\<forall>k. km k" "P (fin sizes base)"
  shows "kkc.reads (krecv (unat n * 4) self (\<lambda>err out sock.
      if \<not> km (scast (sum_list (bytes_u32s (unat n) out))) then None
      else krecv (int_len (sum_list (bytes_u32s (unat n) out))) (mid out) (\<lambda>err out' sock.
        Some (0, fin (bytes_u32s (unat n) out) (split_sizes (map unat (bytes_u32s (unat n) out)) out'), sock)) sock))
    (u32s_bytes sizes @ concat base) P"
proof (rule kkc.reads_field)
  have l: "length sizes = unat n" using assms(1,2) unfolding elems_ok_def by blast
  then show "length (u32s_bytes sizes) = unat n * 4" by simp
  have b: "bytes_u32s (unat n) (u32s_bytes sizes) = sizes" using l bytes_u32s_bytes by metis
  note e = elems_ok_sum [OF assms(1,2)]
  show "kkc.reads (\<lambda>sock. if \<not> km (scast (sum_list (bytes_u32s (unat n) (u32s_bytes sizes)))) then None
      else krecv (int_len (sum_list (bytes_u32s (unat n) (u32s_bytes sizes)))) (mid (u32s_bytes sizes)) (\<lambda>err out' sock.
        Some (0, fin (bytes_u32s (unat n) (u32s_bytes sizes)) (split_sizes (map unat (bytes_u32s (unat n) (u32s_bytes sizes))) out'), sock)) sock)
    (concat base) P" for err
    using assms(3,4) e unfolding b by (auto intro!: kkc.reads_last)
qed

lemma rpc_reads:
  assumes "elems_ok (rpc_nmemb r) (rpc_elem_size r) (rpc_elem_base r)" "\<forall>n. km n"
  shows "kkc.reads (tcmi_rpc_procmsg_recv km g) (proc_wire (Rpc_procmsg r)) (\<lambda>x. proc_same (Rpc_procmsg r) (Rpc_procmsg x))"
proof -
  let ?h = "le_bytes 2 (rpc_rpcnum r) @ le_bytes 2 (rpc_nmemb r)"
  let ?g = "g\<lparr>rpc_rpcnum := rpc_rpcnum r, rpc_nmemb := rpc_nmemb r\<rparr>"
  have w: "proc_wire (Rpc_procmsg r) = ?h @ rpc_payload (rpc_nmemb r) (rpc_elem_size r) (rpc_elem_base r)" by simp
  show ?thesis
    unfolding w tcmi_rpc_procmsg_recv_def
  proof (rule kkc.reads_field, goal_cases)
    case (2 err)
    show ?case
    proof (cases "rpc_nmemb r > 0")
      case True
      then show ?thesis
        using payload_reads [OF assms(1) True assms(2), where self = ?g and
            mid = "\<lambda>out. ?g\<lparr>rpc_elem_size := bytes_u32s (unat (rpc_nmemb r)) out\<rparr>" and
            fin = "\<lambda>sz b. ?g\<lparr>rpc_elem_size := sz, rpc_elem_base := b\<rparr>" and
            P = "\<lambda>x. proc_same (Rpc_procmsg r) (Rpc_procmsg x)"]
        by (simp add: Let_def assms(2) rpc_payload_def)
    qed (simp add: Let_def rpc_payload_def kkc.reads_done)
  qed simp
qed

lemma rpcresp_reads:
  assumes "elems_ok (rr_nmemb r) (rr_elem_size r) (rr_elem_base r)" "\<forall>n. km n"
  shows "kkc.reads (tcmi_rpcresp_procmsg_recv km g) (proc_wire (Rpcresp_procmsg r)) (\<lambda>x. proc_same (Rpcresp_procmsg r) (Rpcresp_procmsg x))"
proof -
  let ?h = "le_bytes 2 (rr_rpcnum r) @ le_bytes 2 (rr_nmemb r) @ le_bytes 8 (rr_rtn_code r)"
  let ?n = "unat (rr_nmemb r)"
  let ?g = "g\<lparr>rr_rpcnum := rr_rpcnum r, rr_nmemb := rr_nmemb r, rr_rtn_code := rr_rtn_code r\<rparr>"
  let ?fr = "Some (TCMI_RPCRESP_PROCMSG_KFREE # replicate (?n - 1) TCMI_RPCRESP_PROCMSG_DONTFREE)"
  have w: "proc_wire (Rpcresp_procmsg r) = ?h @ rpc_payload (rr_nmemb r) (rr_elem_size r) (rr_elem_base r)" by simp
  show ?thesis
    unfolding w tcmi_rpcresp_procmsg_recv_def
  proof (rule kkc.reads_field, goal_cases)
    case (2 err)
    show ?case
    proof (cases "rr_nmemb r > 0")
      case True
      then show ?thesis
        using payload_reads [OF assms(1) True assms(2), where self = ?g and
            mid = "\<lambda>out. ?g\<lparr>rr_elem_size := bytes_u32s ?n out\<rparr>" and
            fin = "\<lambda>sz b. ?g\<lparr>rr_elem_size := sz, rr_elem_base := b, rr_elem_free := ?fr\<rparr>" and
            P = "\<lambda>x. proc_same (Rpcresp_procmsg r) (Rpcresp_procmsg x)"]
        by (simp add: Let_def assms(2) rpc_payload_def)
    qed (simp add: Let_def rpc_payload_def kkc.reads_done)
  qed simp
qed

text \<open>A length field followed by the buffer it describes.\<close>

lemma buf_reads:
  assumes "buf_ok p n" "p \<noteq> None" "P (f (Some (opt_bytes p)))"
  shows "kkc.reads (krecv (int_len n) self (\<lambda>err out sock. Some (0, f (Some out), sock))) (opt_bytes p) P"
  by (rule kkc.reads_last) (use assms in \<open>auto simp: buf_ok_def opt_bytes_def\<close>)

lemma opt_buf_reads:
  assumes "buf_ok p n" "\<forall>n. km n" "P (f p)"
  shows "kkc.reads (\<lambda>sock. if n > 0 then (if \<not> km (ucast n) then x sock
       else krecv (int_len n) self (\<lambda>err out sock. Some (0, f (Some out), sock)) sock)
     else Some (0, f None, sock)) (opt_bytes p) P"
proof (cases p)
  case None
  then show ?thesis using assms by (simp add: buf_ok_def opt_bytes_def kkc.reads_done)
next
  case (Some b)
  then have "n > 0" using buf_ok_pos [OF assms(1)] by simp
  then show ?thesis using buf_reads [OF assms(1), where P = P and f = f] Some assms(2,3) by (simp add: opt_bytes_def)
qed

lemma guestreq_reads:
  assumes "gr_ckpt_name g \<noteq> None" "buf_ok (gr_ckpt_name g) (gr_size g)" "\<forall>n. km n"
  shows "kkc.reads (tcmi_ppm_p_migr_back_guestreq_procmsg_recv km g0) (proc_wire (Guestreq_procmsg g)) (\<lambda>x. x = g)"
proof -
  have "(gr_ckpt_name g) = Some (opt_bytes (gr_ckpt_name g))" using assms(1) by (auto simp: opt_bytes_def)
  then show ?thesis
    unfolding tcmi_ppm_p_migr_back_guestreq_procmsg_recv_def proc_wire.simps using assms
    by (intro kkc.reads_field) (auto simp: Let_def intro!: buf_reads [where f = "\<lambda>p. g0\<lparr>gr_size := gr_size g, gr_ckpt_name := p\<rparr>"])
qed

lemma word_reads: "kkc.reads (krecv 4 c0 (\<lambda>err out sock. Some (err, le_word out, sock))) (le_bytes 4 c) (\<lambda>x. x = (c :: 32 word))"
  by (rule kkc.reads_last) simp_all

lemma procmsg_ops_recv_fun:
  "procmsg_ops_recv km Skel_procmsg = (\<lambda>s. Some (0, Skel_procmsg, s))"
  "procmsg_ops_recv km Skelresp_procmsg = (\<lambda>s. Some (0, Skelresp_procmsg, s))"
  "procmsg_ops_recv km Vfork_done_procmsg = (\<lambda>s. Some (0, Vfork_done_procmsg, s))"
  "procmsg_ops_recv km Shadowreq_procmsg = (\<lambda>s. Some (0, Shadowreq_procmsg, s))"
  "procmsg_ops_recv km (Exit_procmsg c) = (\<lambda>s. into Exit_procmsg (krecv 4 c (\<lambda>err out sock. Some (err, le_word out, sock)) s))"
  "procmsg_ops_recv km (Guest_started_procmsg c) = (\<lambda>s. into Guest_started_procmsg (krecv 4 c (\<lambda>err out sock. Some (err, le_word out, sock)) s))"
  "procmsg_ops_recv km (Err_procmsg c) = (\<lambda>s. into Err_procmsg (krecv 4 c (\<lambda>err out sock. Some (err, le_word out, sock)) s))"
  "procmsg_ops_recv km (Guestreq_procmsg g) = (\<lambda>s. into Guestreq_procmsg (tcmi_ppm_p_migr_back_guestreq_procmsg_recv km g s))"
  "procmsg_ops_recv km (Rpc_procmsg r) = (\<lambda>s. into Rpc_procmsg (tcmi_rpc_procmsg_recv km r s))"
  "procmsg_ops_recv km (Rpcresp_procmsg rr) = (\<lambda>s. into Rpcresp_procmsg (tcmi_rpcresp_procmsg_recv km rr s))"
  by (simp_all add: fun_eq_iff tcmi_skel_procmsg_recv_def tcmi_skelresp_procmsg_recv_def tcmi_vfork_done_procmsg_recv_def
    tcmi_ppm_p_migr_back_shadowreq_procmsg_recv_def tcmi_exit_procmsg_recv_def tcmi_guest_started_procmsg_recv_def
    tcmi_err_procmsg_recv_def)

lemma reads_mono: "kkc.reads f data P \<Longrightarrow> (\<And>x. P x \<Longrightarrow> Q x) \<Longrightarrow> kkc.reads f data Q"
  unfolding kkc.reads_def by meson

text \<open>A class reads back what it writes, into any structure of the same class.\<close>

lemma proc_reads:
  assumes "proc_ok b" "\<forall>n. km n" "proc_tag g = proc_tag b"
  shows "kkc.reads (procmsg_ops_recv km g) (proc_wire b) (proc_same b)"
proof (cases b)
  case (Exit_procmsg c)
  then obtain c' where "g = Exit_procmsg c'" using assms(3) by (cases g) auto
  then show ?thesis
    unfolding Exit_procmsg by (simp add: procmsg_ops_recv_fun) (rule kkc.reads_map, rule reads_mono [OF word_reads], simp)
next
  case (Guest_started_procmsg c)
  then obtain c' where "g = Guest_started_procmsg c'" using assms(3) by (cases g) auto
  then show ?thesis
    unfolding Guest_started_procmsg by (simp add: procmsg_ops_recv_fun) (rule kkc.reads_map, rule reads_mono [OF word_reads], simp)
next
  case (Err_procmsg c)
  then obtain c' where "g = Err_procmsg c'" using assms(3) by (cases g) auto
  then show ?thesis
    unfolding Err_procmsg by (simp add: procmsg_ops_recv_fun) (rule kkc.reads_map, rule reads_mono [OF word_reads], simp)
next
  case (Guestreq_procmsg r)
  then obtain g' where "g = Guestreq_procmsg g'" using assms(3) by (cases g) auto
  then show ?thesis
    using assms(1,2) unfolding Guestreq_procmsg
    by (simp add: procmsg_ops_recv_fun del: proc_wire.simps)
      (rule kkc.reads_map, rule reads_mono [OF guestreq_reads], simp_all)
next
  case (Rpc_procmsg r)
  then obtain g' where "g = Rpc_procmsg g'" using assms(3) by (cases g) auto
  then show ?thesis
    using assms(1,2) unfolding Rpc_procmsg
    by (simp add: procmsg_ops_recv_fun del: proc_wire.simps proc_same.simps) (rule kkc.reads_map, rule rpc_reads, simp_all)
next
  case (Rpcresp_procmsg r)
  then obtain g' where "g = Rpcresp_procmsg g'" using assms(3) by (cases g) auto
  then show ?thesis
    using assms(1,2) unfolding Rpcresp_procmsg
    by (simp add: procmsg_ops_recv_fun del: proc_wire.simps proc_same.simps) (rule kkc.reads_map, rule rpcresp_reads, simp_all)
next
  case Skel_procmsg
  then have "g = b" using assms(3) by (cases g) auto
  then show ?thesis by (simp add: Skel_procmsg procmsg_ops_recv_fun kkc.reads_done)
next
  case Skelresp_procmsg
  then have "g = b" using assms(3) by (cases g) auto
  then show ?thesis by (simp add: Skelresp_procmsg procmsg_ops_recv_fun kkc.reads_done)
next
  case Vfork_done_procmsg
  then have "g = b" using assms(3) by (cases g) auto
  then show ?thesis by (simp add: Vfork_done_procmsg procmsg_ops_recv_fun kkc.reads_done)
next
  case Shadowreq_procmsg
  then have "g = b" using assms(3) by (cases g) auto
  then show ?thesis by (simp add: Shadowreq_procmsg procmsg_ops_recv_fun kkc.reads_done)
qed

lemma procmsg_reads:
  assumes "proc_ok (pm_body p)" "\<forall>n. km n" "proc_tag (pm_body g) = proc_tag (pm_body p)"
  shows "kkc.reads (tcmi_procmsg_recv km g) (body_wire (Procmsg p)) (\<lambda>x. body_same (Procmsg p) (Procmsg x))"
  unfolding tcmi_procmsg_recv_def body_wire.simps Let_def
proof (rule kkc.reads_field, simp, rule kkc.reads_field, simp, rule kkc.reads_map, goal_cases)
  case (1 err err')
  show ?case using assms by (simp add: proc_reads)
qed

lemma authenticate_reads:
  assumes "buf_ok (au_auth_data a) (au_size a)" "\<forall>n. km n"
  shows "kkc.reads (tcmi_authenticate_msg_recv km g) (body_wire (Authenticate_msg a)) (\<lambda>x. x = a)"
  unfolding tcmi_authenticate_msg_recv_def body_wire.simps Let_def
proof (rule kkc.reads_field, simp, rule kkc.reads_field, simp, rule kkc.reads_field, simp, goal_cases)
  case (1 e e1 e2)
  show ?case
    using opt_buf_reads [OF assms, where P = "\<lambda>x. x = a" and self = "g\<lparr>au_pen_id := au_pen_id a, au_pen_arch := au_pen_arch a, au_size := au_size a\<rparr>"
        and f = "\<lambda>p. g\<lparr>au_pen_id := au_pen_id a, au_pen_arch := au_pen_arch a, au_size := au_size a, au_auth_data := p\<rparr>"]
    by (simp add: assms(2) cong: if_cong)
qed

lemma authenticate_resp_reads:
  assumes "length (ar_mount_params a) = mount_params_size"
  shows "kkc.reads (tcmi_authenticate_resp_msg_recv g) (body_wire (Authenticate_resp_msg a)) (\<lambda>x. x = a)"
  unfolding tcmi_authenticate_resp_msg_recv_def body_wire.simps Let_def
  by (rule kkc.reads_field, simp, rule kkc.reads_field, simp, rule kkc.reads_field, simp, rule kkc.reads_last)
    (use assms in simp_all)

lemma generic_user_reads:
  assumes "buf_ok (gu_user_data u) (gu_size u)" "\<forall>n. km n"
  shows "kkc.reads (tcmi_generic_user_msg_recv km g) (body_wire (Generic_user_msg u)) (\<lambda>x. x = u)"
  unfolding tcmi_generic_user_msg_recv_def body_wire.simps Let_def
proof (rule kkc.reads_field, simp, rule kkc.reads_field, simp, goal_cases)
  case (1 e e1)
  show ?case
    using opt_buf_reads [OF assms, where P = "\<lambda>x. x = u" and self = "g\<lparr>gu_node_id := gu_node_id u, gu_size := gu_size u\<rparr>"
        and f = "\<lambda>p. g\<lparr>gu_node_id := gu_node_id u, gu_size := gu_size u, gu_user_data := p\<rparr>"]
    by (simp add: assms(2) cong: if_cong)
qed

lemma pid_and_size_of_bytes:
  "pid_and_size_of (pid_and_size_bytes e) g = g\<lparr>em_reply_pid := em_reply_pid e, em_size := em_size e,
     em_exec_name_size := em_exec_name_size e, em_euid := em_euid e, em_egid := em_egid e, em_fsuid := em_fsuid e,
     em_fsgid := em_fsgid e\<rparr>"
  by (simp add: pid_and_size_of_def pid_and_size_bytes_def)

lemma p_emigrate_reads:
  assumes "body_ok (P_emigrate_msg e)" "\<forall>n. km n"
  shows "kkc.reads (tcmi_p_emigrate_msg_recv km g) (body_wire (P_emigrate_msg e)) (\<lambda>x. x = e)"
proof -
  obtain c x where n: "em_ckpt_name e = Some c" "em_exec_name e = Some x" using assms(1) by auto
  have l: "int_len (em_size e) = length c" "int_len (em_exec_name_size e) = length x"
    using assms(1) n by (auto simp: buf_ok_def)
  show ?thesis
    unfolding tcmi_p_emigrate_msg_recv_def body_wire.simps Let_def n opt_bytes_def option.case
    by (rule kkc.reads_field, simp add: pid_and_size_bytes_def, simp add: assms(2) pid_and_size_of_bytes l,
        rule kkc.reads_field, simp, rule kkc.reads_last) (simp_all add: n l)
qed

definition is_proc :: "tcmi_body \<Rightarrow> bool" where
  "is_proc b \<longleftrightarrow> (case b of Procmsg _ \<Rightarrow> True | _ \<Rightarrow> False)"

definition same_class :: "tcmi_body \<Rightarrow> tcmi_body \<Rightarrow> bool" where
  "same_class g b \<longleftrightarrow> is_proc g = is_proc b \<and> body_tag g = body_tag b"

lemma proc_tag_group: "proc_tag b = Some i \<Longrightarrow> i \<ge> 0x10000"
  by (cases b) auto

lemma msg_ops_recv_fun:
  "msg_ops_recv km Skel_msg = (\<lambda>s. Some (0, Skel_msg, s))"
  "msg_ops_recv km Skelresp_msg = (\<lambda>s. Some (0, Skelresp_msg, s))"
  "msg_ops_recv km Disconnect_msg = (\<lambda>s. Some (0, Disconnect_msg, s))"
  "msg_ops_recv km (Err_msg c) = (\<lambda>s. into Err_msg (krecv 4 c (\<lambda>err out sock. Some (err, le_word out, sock)) s))"
  "msg_ops_recv km (Authenticate_msg a) = (\<lambda>s. into Authenticate_msg (tcmi_authenticate_msg_recv km a s))"
  "msg_ops_recv km (Authenticate_resp_msg ar) = (\<lambda>s. into Authenticate_resp_msg (tcmi_authenticate_resp_msg_recv ar s))"
  "msg_ops_recv km (P_emigrate_msg e) = (\<lambda>s. into P_emigrate_msg (tcmi_p_emigrate_msg_recv km e s))"
  "msg_ops_recv km (Generic_user_msg u) = (\<lambda>s. into Generic_user_msg (tcmi_generic_user_msg_recv km u s))"
  "msg_ops_recv km (Procmsg p) = (\<lambda>s. into Procmsg (tcmi_procmsg_recv km p s))"
  by (simp_all add: fun_eq_iff tcmi_skel_msg_recv_def tcmi_skelresp_msg_recv_def tcmi_disconnect_msg_recv_def tcmi_err_msg_recv_def)

lemma same_class_cases:
  assumes "same_class g b"
  shows "case b of Procmsg p \<Rightarrow> \<exists>p'. g = Procmsg p' \<and> proc_tag (pm_body p') = proc_tag (pm_body p)
    | Authenticate_msg a \<Rightarrow> \<exists>a'. g = Authenticate_msg a' | Authenticate_resp_msg a \<Rightarrow> \<exists>a'. g = Authenticate_resp_msg a'
    | P_emigrate_msg e \<Rightarrow> \<exists>e'. g = P_emigrate_msg e' | Generic_user_msg u \<Rightarrow> \<exists>u'. g = Generic_user_msg u'
    | Err_msg c \<Rightarrow> \<exists>c'. g = Err_msg c' | Signal_msg x \<Rightarrow> \<exists>x'. g = Signal_msg x' | _ \<Rightarrow> g = b"
  using assms unfolding same_class_def is_proc_def by (cases b; cases g) simp_all

lemma body_reads:
  assumes "body_ok b" "\<not> is_signal b" "\<forall>n. km n" "same_class g b"
  shows "kkc.reads (msg_ops_recv km g) (body_wire b) (body_same b)"
proof (cases b)
  case (Authenticate_msg a)
  then obtain a' where "g = Authenticate_msg a'" using same_class_cases [OF assms(4)] by auto
  then show ?thesis unfolding Authenticate_msg msg_ops_recv_fun
    by (simp only: msg_ops_recv_fun) (rule kkc.reads_map, rule reads_mono [OF authenticate_reads], use assms Authenticate_msg in simp_all)
next
  case (Authenticate_resp_msg a)
  then obtain a' where "g = Authenticate_resp_msg a'" using same_class_cases [OF assms(4)] by auto
  then show ?thesis unfolding Authenticate_resp_msg
    by (simp only: msg_ops_recv_fun) (rule kkc.reads_map, rule reads_mono [OF authenticate_resp_reads], use assms Authenticate_resp_msg in simp_all)
next
  case (P_emigrate_msg a)
  then obtain a' where "g = P_emigrate_msg a'" using same_class_cases [OF assms(4)] by auto
  then show ?thesis unfolding P_emigrate_msg
    by (simp only: msg_ops_recv_fun) (rule kkc.reads_map, rule reads_mono [OF p_emigrate_reads], use assms P_emigrate_msg in simp_all)
next
  case (Generic_user_msg a)
  then obtain a' where "g = Generic_user_msg a'" using same_class_cases [OF assms(4)] by auto
  then show ?thesis unfolding Generic_user_msg
    by (simp only: msg_ops_recv_fun) (rule kkc.reads_map, rule reads_mono [OF generic_user_reads], use assms Generic_user_msg in simp_all)
next
  case (Err_msg c)
  then obtain c' where "g = Err_msg c'" using same_class_cases [OF assms(4)] by auto
  then show ?thesis unfolding Err_msg
    by (simp only: msg_ops_recv_fun body_wire.simps) (rule kkc.reads_map, rule reads_mono [OF word_reads], simp)
next
  case (Procmsg p)
  then obtain p' where "g = Procmsg p'" "proc_tag (pm_body p') = proc_tag (pm_body p)" using same_class_cases [OF assms(4)] by auto
  then show ?thesis using assms(1,3) Procmsg unfolding Procmsg
    by (simp only: msg_ops_recv_fun) (rule kkc.reads_map, rule procmsg_reads, simp_all)
qed (use same_class_cases [OF assms(4)] assms(2) in \<open>simp_all add: msg_ops_recv_fun kkc.reads_done is_signal_def\<close>)

subsection \<open>The factory builds the class of the identifier\<close>

abbreviation (input) err_ids :: "u32 set" where
  "err_ids \<equiv> TCMI_MSG_FLG_SET_ERR ` {TCMI_SKELRESP_MSG_ID, TCMI_AUTHENTICATE_RESP_MSG_ID}"

abbreviation (input) err_proc_ids :: "u32 set" where
  "err_proc_ids \<equiv> TCMI_MSG_FLG_SET_ERR ` {TCMI_SKELRESP_PROCMSG_ID, TCMI_GUEST_STARTED_PROCMSG_ID,
     TCMI_PPM_P_MIGR_BACK_GUESTREQ_PROCMSG_ID, TCMI_PPM_P_MIGR_BACK_SHADOWREQ_PROCMSG_ID, TCMI_RPCRESP_PROCMSG_ID}"

text \<open>The identifier a message of a class carries; error messages answer a response class.\<close>

definition id_fits :: "tcmi_msg \<Rightarrow> bool" where
  "id_fits m \<longleftrightarrow> (case body_tag (m_body m) of Some i \<Rightarrow> m_id m = i
     | None \<Rightarrow> m_id m \<in> (if is_proc (m_body m) then err_proc_ids else err_ids))"

lemma id_fields:
  "TCMI_MSG_GROUP 0 = 0" "TCMI_MSG_GROUP 1 = 0" "TCMI_MSG_GROUP 2 = 0" "TCMI_MSG_GROUP 3 = 0" "TCMI_MSG_GROUP 4 = 0"
  "TCMI_MSG_GROUP 5 = 0" "TCMI_MSG_GROUP 6 = 0" "TCMI_MSG_GROUP 7 = 0"
  "TCMI_MSG_INDEX 0 = 0" "TCMI_MSG_INDEX 1 = 1" "TCMI_MSG_INDEX 2 = 2" "TCMI_MSG_INDEX 3 = 3" "TCMI_MSG_INDEX 4 = 4"
  "TCMI_MSG_INDEX 5 = 5" "TCMI_MSG_INDEX 6 = 6" "TCMI_MSG_INDEX 7 = 7" "TCMI_MSG_INDEX 8 = 8" "TCMI_MSG_INDEX 0x10009 = 9"
  "TCMI_MSG_GROUP 0x10000 = 1" "TCMI_MSG_GROUP 0x10001 = 1" "TCMI_MSG_GROUP 0x10002 = 1" "TCMI_MSG_GROUP 0x10003 = 1"
  "TCMI_MSG_GROUP 0x10004 = 1" "TCMI_MSG_GROUP 0x10005 = 1" "TCMI_MSG_GROUP 0x10006 = 1" "TCMI_MSG_GROUP 0x10007 = 1"
  "TCMI_MSG_GROUP 0x10008 = 1"
  "TCMI_MSG_INDEX 0x10000 = 0" "TCMI_MSG_INDEX 0x10001 = 1" "TCMI_MSG_INDEX 0x10002 = 2" "TCMI_MSG_INDEX 0x10003 = 3"
  "TCMI_MSG_INDEX 0x10004 = 4" "TCMI_MSG_INDEX 0x10005 = 5" "TCMI_MSG_INDEX 0x10006 = 6" "TCMI_MSG_INDEX 0x10007 = 7"
  "TCMI_MSG_INDEX 0x10008 = 8"
  by (simp_all add: TCMI_MSG_GROUP_def TCMI_MSG_INDEX_def)

lemma id_flags:
  "TCMI_MSG_FLG 0 = 0" "TCMI_MSG_FLG 1 = 0" "TCMI_MSG_FLG 2 = 0" "TCMI_MSG_FLG 3 = 0" "TCMI_MSG_FLG 4 = 0"
  "TCMI_MSG_FLG 5 = 0" "TCMI_MSG_FLG 6 = 0" "TCMI_MSG_FLG 7 = 0"
  "TCMI_MSG_FLG 0x10000 = 0" "TCMI_MSG_FLG 0x10001 = 0" "TCMI_MSG_FLG 0x10002 = 0" "TCMI_MSG_FLG 0x10003 = 0"
  "TCMI_MSG_FLG 0x10004 = 0" "TCMI_MSG_FLG 0x10005 = 0" "TCMI_MSG_FLG 0x10006 = 0" "TCMI_MSG_FLG 0x10007 = 0"
  "TCMI_MSG_FLG 0x10008 = 0"
  by (simp_all add: TCMI_MSG_FLG_def)

lemma set_err_fields:
  assumes "i < 2 ^ 30"
  shows "TCMI_MSG_GROUP (TCMI_MSG_FLG_SET_ERR i) = TCMI_MSG_GROUP i" "TCMI_MSG_INDEX (TCMI_MSG_FLG_SET_ERR i) = TCMI_MSG_INDEX i"
    "TCMI_MSG_TYPE (TCMI_MSG_FLG_SET_ERR i) = TCMI_MSG_TYPE i" "TCMI_MSG_FLG (TCMI_MSG_FLG_SET_ERR i) = TCMI_MSG_ERRFLGS"
    "TCMI_MSG_FLG_SET_ERR (TCMI_MSG_FLG_SET_ERR i) = TCMI_MSG_FLG_SET_ERR i"
proof -
  have mask: "push_bit n 1 - 1 = (mask n :: u32)" for n by (simp add: mask_eq_exp_minus_1)
  have "i AND mask 30 = i" by (rule less_mask_eq) (use assms in simp)
  then have hi: "\<not> bit i k" if "30 \<le> k" for k using that by (metis bit_and_iff bit_mask_iff leD)
  define e :: u32 where "e = push_bit (TCMI_MSG_GROUP_BITS + TCMI_MSG_INDEX_BITS) TCMI_MSG_ERRFLGS"
  have be: "bit e k \<longleftrightarrow> k = 30" for k by (auto simp: e_def bit_push_bit_iff bit_1_iff simp del: push_bit_of_1)
  show "TCMI_MSG_GROUP (TCMI_MSG_FLG_SET_ERR i) = TCMI_MSG_GROUP i" "TCMI_MSG_INDEX (TCMI_MSG_FLG_SET_ERR i) = TCMI_MSG_INDEX i"
    "TCMI_MSG_TYPE (TCMI_MSG_FLG_SET_ERR i) = TCMI_MSG_TYPE i" "TCMI_MSG_FLG (TCMI_MSG_FLG_SET_ERR i) = TCMI_MSG_ERRFLGS"
    "TCMI_MSG_FLG_SET_ERR (TCMI_MSG_FLG_SET_ERR i) = TCMI_MSG_FLG_SET_ERR i"
    unfolding TCMI_MSG_GROUP_def TCMI_MSG_INDEX_def TCMI_MSG_TYPE_def TCMI_MSG_FLG_def TCMI_MSG_FLG_SET_ERR_def mask
    unfolding e_def [symmetric]
    by (auto intro!: bit_word_eqI simp: bit_and_iff bit_or_iff bit_drop_bit_eq bit_mask_iff bit_1_iff be hi)
qed

lemmas factory_simps = tcmi_msg_factory_def tcmi_msg_new_rx_def msg_groups_def mig_messages_def proc_messages_def TCMI_MSG_DSC_def
  rx_result_def tcmi_msg_init_rx_def tcmi_msg_init_shared_def tcmi_procmsg_init_rx_def

lemmas new_rx_simps = tcmi_skel_msg_new_rx_def tcmi_skelresp_msg_new_rx_def tcmi_authenticate_msg_new_rx_def
  tcmi_authenticate_resp_msg_new_rx_def tcmi_disconnect_msg_new_rx_def tcmi_p_emigrate_msg_new_rx_def
  tcmi_signal_msg_new_rx_def tcmi_generic_user_msg_new_rx_def tcmi_err_msg_new_rx_def tcmi_skel_procmsg_new_rx_def
  tcmi_skelresp_procmsg_new_rx_def tcmi_exit_procmsg_new_rx_def tcmi_vfork_done_procmsg_new_rx_def
  tcmi_guest_started_procmsg_new_rx_def tcmi_ppm_p_migr_back_guestreq_procmsg_new_rx_def
  tcmi_ppm_p_migr_back_shadowreq_procmsg_new_rx_def tcmi_rpc_procmsg_new_rx_def tcmi_rpcresp_procmsg_new_rx_def
  tcmi_err_procmsg_new_rx_def

text \<open>A structure fresh from the factory.\<close>

definition rx_fresh :: "u32 \<Rightarrow> tcmi_msg \<Rightarrow> bool" where
  "rx_fresh i g \<longleftrightarrow> m_id g = i \<and> m_transaction g = None \<and> m_ref_count g = 1 \<and> m_req g = 0 \<and> m_resp g = 0"

lemma factory_mig:
  assumes "mm_ok mem" "grp \<in> {TCMI_MSG_GROUP_MIG, TCMI_MSG_GROUP_ANY}" "body_tag b = Some i" "\<not> is_proc b"
  shows "\<exists>g. tcmi_msg_factory mem i grp = Some g \<and> rx_fresh i g \<and> same_class (m_body g) b"
  using assms by (cases b) (auto simp: factory_simps new_rx_simps id_fields id_flags rx_fresh_def same_class_def is_proc_def)

lemma factory_proc:
  assumes "mm_ok mem" "grp \<in> {TCMI_MSG_GROUP_PROC, TCMI_MSG_GROUP_ANY}" "proc_tag (pm_body p) = Some i"
  shows "\<exists>g. tcmi_msg_factory mem i grp = Some g \<and> rx_fresh i g \<and> same_class (m_body g) (Procmsg p)"
  using assms
  by (cases "pm_body p") (auto simp: factory_simps new_rx_simps id_fields id_flags rx_fresh_def same_class_def is_proc_def)

lemma factory_err:
  assumes "mm_ok mem" "grp \<in> {TCMI_MSG_GROUP_MIG, TCMI_MSG_GROUP_ANY}" "i \<in> err_ids"
  shows "\<exists>g. tcmi_msg_factory mem i grp = Some g \<and> rx_fresh i g \<and> same_class (m_body g) (Err_msg c)"
  using assms
  by (auto simp: factory_simps new_rx_simps id_fields set_err_fields rx_fresh_def same_class_def is_proc_def)

lemma factory_err_proc:
  assumes "mm_ok mem" "grp \<in> {TCMI_MSG_GROUP_PROC, TCMI_MSG_GROUP_ANY}" "i \<in> err_proc_ids" "proc_tag (pm_body p) = None"
  shows "\<exists>g. tcmi_msg_factory mem i grp = Some g \<and> rx_fresh i g \<and> same_class (m_body g) (Procmsg p)"
  using assms
  by (auto simp: factory_simps new_rx_simps id_fields set_err_fields rx_fresh_def same_class_def is_proc_def)

text \<open>Each body has a group, the one of the connection it travels on.\<close>

definition body_group :: "tcmi_body \<Rightarrow> u32" where
  "body_group b = (if is_proc b then TCMI_MSG_GROUP_PROC else TCMI_MSG_GROUP_MIG)"

lemma factory_builds:
  assumes "id_fits m" "mm_ok mem" "grp \<in> {body_group (m_body m), TCMI_MSG_GROUP_ANY}"
  shows "\<exists>g. tcmi_msg_factory mem (m_id m) grp = Some g \<and> rx_fresh (m_id m) g \<and> same_class (m_body g) (m_body m)"
proof (cases "body_tag (m_body m)")
  case (Some i)
  then have i: "m_id m = i" using assms(1) by (simp add: id_fits_def)
  show ?thesis
  proof (cases "is_proc (m_body m)")
    case True
    then obtain p where p: "m_body m = Procmsg p" by (cases "m_body m") (auto simp: is_proc_def)
    then show ?thesis using factory_proc [OF assms(2), of grp p i] Some i assms(3) True by (simp add: body_group_def)
  next
    case False
    then show ?thesis using factory_mig [OF assms(2) _ Some False] i assms(3) by (simp add: body_group_def)
  qed
next
  case None
  show ?thesis
  proof (cases "is_proc (m_body m)")
    case True
    then obtain p where p: "m_body m = Procmsg p" by (cases "m_body m") (auto simp: is_proc_def)
    have "m_id m \<in> err_proc_ids" using assms(1) None True by (simp only: id_fits_def option.case if_True)
    then show ?thesis using factory_err_proc [OF assms(2), of grp "m_id m" p] None assms(3) True p by (simp only: body_group_def if_True body_tag.simps)
  next
    case False
    then obtain c where c: "m_body m = Err_msg c" using None by (cases "m_body m") (auto simp: is_proc_def)
    have "m_id m \<in> err_ids" using assms(1) None False by (simp only: id_fits_def option.case if_False)
    then show ?thesis using factory_err [OF assms(2), of grp "m_id m" c] assms(3) False c by (simp only: body_group_def if_False)
  qed
qed

text \<open>Receiving the rest of a message whose identifier has been read.\<close>

definition msg_same :: "tcmi_msg \<Rightarrow> tcmi_msg \<Rightarrow> bool" where
  "msg_same m x \<longleftrightarrow> m_id x = m_id m \<and> m_req x = m_req m \<and> m_resp x = m_resp m \<and> m_transaction x = None \<and> m_ref_count x = 1 \<and>
     body_same (m_body m) (m_body x)"

lemma msg_recv_ok:
  fixes s :: "'s kkc_sock"
  assumes "body_ok (m_body m)" "\<not> is_signal (m_body m)" "\<forall>n. km n" "rx_fresh (m_id m) g" "same_class (m_body g) (m_body m)"
    and "sock_ok s" "ks_recv_sem s" "sock_avail s = le_bytes 4 (m_req m) @ le_bytes 4 (m_resp m) @ body_wire (m_body m) @ rest"
  shows "\<exists>r x s'. tcmi_msg_recv km sg g s = Some (r, x, s') \<and> sock_ok s' \<and> ks_recv_sem s' \<and> sock_sent s' = sock_sent s \<and>
    (r < 0 \<or> msg_same m x \<and> sock_avail s' = rest)"
proof -
  define f where "f = krecv 8 g (\<lambda>err out (sock :: 's kkc_sock).
      let self = g\<lparr>m_req := le_word (take 4 out), m_resp := le_word (drop 4 out)\<rparr>
      in into (\<lambda>b. self\<lparr>m_body := b\<rparr>) (msg_ops_recv km (m_body self) sock))"
  have "kkc.reads f ((le_bytes 4 (m_req m) @ le_bytes 4 (m_resp m)) @ body_wire (m_body m)) (msg_same m)"
    unfolding f_def
  proof (rule kkc.reads_field, simp, goal_cases)
    case (1 err)
    have "kkc.reads (msg_ops_recv km (m_body g)) (body_wire (m_body m))
        (\<lambda>b. msg_same m (g\<lparr>m_req := m_req m, m_resp := m_resp m, m_body := b\<rparr>))"
      by (rule reads_mono [OF body_reads [OF assms(1,2,3,5)]]) (use assms(4) in \<open>simp add: msg_same_def rx_fresh_def\<close>)
    then show ?case
      using kkc.reads_map [where P = "msg_same m" and g = "\<lambda>b. g\<lparr>m_req := m_req m, m_resp := m_resp m, m_body := b\<rparr>"]
      by (simp add: Let_def)
  qed
  then obtain r x s' where w: "f (s\<lparr>ks_recv_sem := False\<rparr>) = Some (r, x, s')" "sock_ok s'" "sock_sent s' = sock_sent s"
      "r < 0 \<or> msg_same m x \<and> sock_avail s' = rest"
    using assms(6,8) unfolding kkc.reads_def by (metis append_assoc sock_sem_simps(2,4,6))
  have "tcmi_msg_recv km sg g s = Some (r, x, kkc_sock_rcv_unlock s')"
    using assms(7) w(1) unfolding tcmi_msg_recv_def f_def by (simp add: kkc_sock_rcv_lock_interruptible_def)
  then show ?thesis
    using w(2-4) by (intro exI [of _ r] exI [of _ x] exI [of _ "kkc_sock_rcv_unlock s'"]) (simp add: kkc_sock_rcv_unlock_def)
qed

subsection \<open>The factory builds nothing else\<close>

lemma id_split: "i = TCMI_MSG_TYPE i OR push_bit TCMI_MSG_TYPE_BITS (TCMI_MSG_FLG i)"
proof -
  have mask: "push_bit n 1 - 1 = (mask n :: u32)" for n by (simp add: mask_eq_exp_minus_1)
  show ?thesis
    unfolding TCMI_MSG_TYPE_def TCMI_MSG_FLG_def mask
    by (auto intro!: bit_word_eqI simp: bit_and_iff bit_or_iff bit_drop_bit_eq bit_mask_iff bit_push_bit_iff)
qed

lemma id_of_flags:
  "TCMI_MSG_TYPE i = t \<Longrightarrow> TCMI_MSG_FLG i = TCMI_MSG_REGFLGS \<Longrightarrow> i = t"
  "TCMI_MSG_TYPE i = t \<Longrightarrow> TCMI_MSG_FLG i = TCMI_MSG_ERRFLGS \<Longrightarrow> i = TCMI_MSG_FLG_SET_ERR t"
  using id_split [of i] by (simp_all add: TCMI_MSG_FLG_SET_ERR_def)

lemma id_types:
  "TCMI_MSG_TYPE 0 = 0" "TCMI_MSG_TYPE 1 = 1" "TCMI_MSG_TYPE 2 = 2" "TCMI_MSG_TYPE 3 = 3" "TCMI_MSG_TYPE 4 = 4"
  "TCMI_MSG_TYPE 5 = 5" "TCMI_MSG_TYPE 6 = 6" "TCMI_MSG_TYPE 7 = 7"
  "TCMI_MSG_TYPE 0x10000 = 0x10000" "TCMI_MSG_TYPE 0x10001 = 0x10001" "TCMI_MSG_TYPE 0x10002 = 0x10002"
  "TCMI_MSG_TYPE 0x10003 = 0x10003" "TCMI_MSG_TYPE 0x10004 = 0x10004" "TCMI_MSG_TYPE 0x10005 = 0x10005"
  "TCMI_MSG_TYPE 0x10006 = 0x10006" "TCMI_MSG_TYPE 0x10007 = 0x10007" "TCMI_MSG_TYPE 0x10008 = 0x10008"
  by (simp_all add: TCMI_MSG_TYPE_def)

text \<open>One descriptor: what its constructors build for an identifier of its type.\<close>

lemma new_rx_split:
  assumes "tcmi_msg_new_rx mem i dsc = Some g" "TCMI_MSG_TYPE (dsc_msg_id dsc) = dsc_msg_id dsc"
  shows "i = dsc_msg_id dsc \<and> (\<exists>f. dsc_new_rx dsc = Some f \<and> f mem i = Some g) \<or>
    i = TCMI_MSG_FLG_SET_ERR (dsc_msg_id dsc) \<and> (\<exists>f. dsc_new_rx_err dsc = Some f \<and> f mem i = Some g)"
  using assms id_of_flags [of i] unfolding tcmi_msg_new_rx_def by (auto split: if_splits option.splits)

lemma new_rx_mig:
  assumes "tcmi_msg_new_rx mem i dsc = Some g" "dsc \<in> set mig_messages"
  shows "rx_fresh i g \<and> id_fits g \<and> \<not> is_proc (m_body g)"
proof -
  have "TCMI_MSG_TYPE (dsc_msg_id dsc) = dsc_msg_id dsc" using assms(2) by (auto simp: mig_messages_def TCMI_MSG_DSC_def id_types)
  note s = new_rx_split [OF assms(1) this]
  show ?thesis
    using assms(2) s unfolding mig_messages_def TCMI_MSG_DSC_def
    by (auto simp: new_rx_simps factory_simps rx_fresh_def id_fits_def is_proc_def set_err_fields split: if_splits)
qed

lemma new_rx_proc:
  assumes "tcmi_msg_new_rx mem i dsc = Some g" "dsc \<in> set proc_messages"
  shows "rx_fresh i g \<and> id_fits g \<and> is_proc (m_body g)"
proof -
  have "TCMI_MSG_TYPE (dsc_msg_id dsc) = dsc_msg_id dsc" using assms(2) by (auto simp: proc_messages_def TCMI_MSG_DSC_def id_types)
  note s = new_rx_split [OF assms(1) this]
  show ?thesis
    using assms(2) s unfolding proc_messages_def TCMI_MSG_DSC_def
    by (auto simp: new_rx_simps factory_simps rx_fresh_def id_fits_def is_proc_def set_err_fields split: if_splits)
qed

lemma factory_sound:
  assumes "tcmi_msg_factory mem i grp = Some g"
  shows "rx_fresh i g \<and> id_fits g \<and> grp \<in> {body_group (m_body g), TCMI_MSG_GROUP_ANY}"
proof -
  define G where "G = TCMI_MSG_GROUP i"
  define x where "x = TCMI_MSG_INDEX i"
  have f: "G = grp \<or> grp = TCMI_MSG_GROUP_ANY" "G < 2" "x < snd (msg_groups ! unat G)"
    "tcmi_msg_new_rx mem i (fst (msg_groups ! unat G) ! unat x) = Some g"
    using assms unfolding tcmi_msg_factory_def Let_def G_def x_def by (auto split: if_splits)
  have "unat G < 2" using f(2) by (simp add: word_less_nat_alt)
  then consider "unat G = 0" | "unat G = 1" by linarith
  then show ?thesis
  proof cases
    case 1
    then have "unat x < length mig_messages" using f(3) by (simp add: msg_groups_def id_fields word_less_nat_alt mig_messages_def)
    then show ?thesis
      using new_rx_mig [of mem i "mig_messages ! unat x" g] f(1,4) 1 by (auto simp: msg_groups_def body_group_def)
  next
    case 2
    then have "unat x < length proc_messages" "G = 1"
      using f(3) by (simp_all add: msg_groups_def id_fields word_less_nat_alt proc_messages_def word_unat_eq_iff)
    then show ?thesis
      using new_rx_proc [of mem i "proc_messages ! unat x" g] f(1,4) 2 by (auto simp: msg_groups_def body_group_def)
  qed
qed

end
