(* ===== verification/Kkc_Connect.thy ===== *)
theory Kkc_Connect
  imports Kkc
begin

text \<open>
  Establishing KKC connections (\<^verbatim>\<open>src/kkc/kkc.c\<close>, \<^verbatim>\<open>kkc_arch.h\<close> and the rest of
  \<^verbatim>\<open>kkc_sock_tcp.c\<close>): the textual addresses \<^verbatim>\<open>tcp:ip:port\<close>, the architecture
  reference each socket holds, connecting, listening, accepting and the printed socket
  names.

  The kernel services are the fields of \<open>net\<close>: whether a module reference can be taken,
  the symbol table, whether memory is there, the socket constructor and the two text
  conversions. The socket options set at creation change no state of the model.
\<close>

subsection \<open>Architectures\<close>

datatype kkc_arch = KKC_ARCH_TCP

record 's net =
  n_try_module_get :: bool
  n_symbol_get :: "string \<Rightarrow> kkc_arch option"
  n_kmalloc :: bool
  n_sock_create :: "('s kernel_sock \<times> 's) option"
  n_in_aton :: "string \<Rightarrow> byte list"
  n_strtoul :: "string \<Rightarrow> nat"

abbreviation (input) KKC_MAX_ARCH_LENGTH :: nat where "KKC_MAX_ARCH_LENGTH \<equiv> 20"

abbreviation (input) KKC_SOCK_MAX_ADDR_LENGTH :: nat where "KKC_SOCK_MAX_ADDR_LENGTH \<equiv> 100"

text \<open>The number of references to the module of an architecture is passed along.\<close>

definition kkc_arch_get :: "'s net \<Rightarrow> kkc_arch \<Rightarrow> int \<Rightarrow> kkc_arch option \<times> int" where
  "kkc_arch_get net self refs = (if n_try_module_get net then (Some self, refs + 1) else (None, refs))"

definition kkc_arch_get_by_name :: "'s net \<Rightarrow> string \<Rightarrow> int \<Rightarrow> kkc_arch option \<times> int" where
  "kkc_arch_get_by_name net arch_name refs =
     (case n_symbol_get net (take (10 + KKC_MAX_ARCH_LENGTH - 1) (''kkc_arch_'' @ arch_name)) of
        None \<Rightarrow> (None, refs)
      | Some arch \<Rightarrow> (Some arch, refs + 1))"

definition kkc_arch_put :: "int \<Rightarrow> int" where
  "kkc_arch_put refs = refs - 1"

subsection \<open>TCP sockets\<close>

definition kkc_sock_tcp_new :: "'s net \<Rightarrow> int \<Rightarrow> 's kkc_sock option \<times> int" where
  "kkc_sock_tcp_new net refs =
     (if \<not> n_kmalloc net then (None, refs)
      else
        (let (arch, refs) = kkc_arch_get net KKC_ARCH_TCP refs
         in case arch of
              None \<Rightarrow> (None, refs)
            | Some _ \<Rightarrow>
                (case n_sock_create net of
                   None \<Rightarrow> (None, refs)
                 | Some (kern, st) \<Rightarrow>
                     (Some (snd (kkc_sock_init arch
                        \<lparr>ks_kern = kern, ks_state = st, ks_ref_count = 0, ks_send_sem = False, ks_recv_sem = False\<rparr>)), refs))))"

definition kkc_arch_obj_new :: "'s net \<Rightarrow> kkc_arch \<Rightarrow> int \<Rightarrow> 's kkc_sock option \<times> int" where
  "kkc_arch_obj_new net self refs = (case self of KKC_ARCH_TCP \<Rightarrow> kkc_sock_tcp_new net refs)"

text \<open>The last reference shuts the connection down and releases the architecture.\<close>

definition kkc_sock_put :: "'s kkc_sock \<Rightarrow> int \<Rightarrow> 's kkc_sock option \<times> int" where
  "kkc_sock_put self refs =
     (if ks_ref_count self - 1 = 0 then (None, kkc_arch_put refs)
      else (Some (self\<lparr>ks_ref_count := ks_ref_count self - 1\<rparr>), refs))"

definition strchr :: "string \<Rightarrow> char \<Rightarrow> nat option" where
  "strchr s c = (if c \<in> set s then Some (length (takeWhile (\<lambda>x. x \<noteq> c) s)) else None)"

definition kkc_sock_tcp_extract_addr :: "'s net \<Rightarrow> string \<Rightarrow> int + sockaddr_in" where
  "kkc_sock_tcp_extract_addr net addr =
     (case strchr addr (CHR '':'') of
        None \<Rightarrow> Inl (- EINVAL)
      | Some colon_pos \<Rightarrow>
          (if colon_pos > 15 then Inl (- EINVAL)
           else Inr \<lparr>sin_addr = n_in_aton net (take colon_pos addr),
                     sin_port = of_nat (n_strtoul net (drop (colon_pos + 1) addr))\<rparr>))"

definition kkc_sock_tcp_connect :: "'s net \<Rightarrow> string \<Rightarrow> 's kkc_sock \<Rightarrow> int \<times> 's kkc_sock" where
  "kkc_sock_tcp_connect net addr self =
     (case kkc_sock_tcp_extract_addr net addr of
        Inl err \<Rightarrow> (err, self)
      | Inr sin \<Rightarrow>
          (let (err, st) = k_connect (ks_kern self) (ks_state self) sin; self = self\<lparr>ks_state := st\<rparr>
           in if err < 0 then (err, self) else (0, self)))"

definition kkc_sock_tcp_listen :: "'s net \<Rightarrow> string \<Rightarrow> 's kkc_sock \<Rightarrow> int \<times> 's kkc_sock" where
  "kkc_sock_tcp_listen net addr self =
     (case kkc_sock_tcp_extract_addr net addr of
        Inl err \<Rightarrow> (err, self)
      | Inr sin \<Rightarrow>
          (let (err, st) = k_bind (ks_kern self) (ks_state self) sin; self = self\<lparr>ks_state := st\<rparr>
           in if err < 0 then (err, self)
              else
                (let (err, st) = k_listen (ks_kern self) (ks_state self) 32; self = self\<lparr>ks_state := st\<rparr>
                 in if err < 0 then (err, self) else (0, self))))"

text \<open>What the caller's pointer designates after the call.\<close>

datatype 's sock_ptr = SockNull | SockLive "'s kkc_sock" | SockFreed

definition kkc_sock_tcp_accept ::
  "'s net \<Rightarrow> kkc_sock_flags_t \<Rightarrow> 's kkc_sock \<Rightarrow> int \<Rightarrow> int \<times> 's kkc_sock \<times> 's sock_ptr \<times> int" where
  "kkc_sock_tcp_accept net flags self refs =
     (case kkc_sock_tcp_new net refs of
        (None, refs) \<Rightarrow> (- ENOMEM, self, SockNull, refs)
      | (Some new_sock, refs) \<Rightarrow>
          (let (err, st, new_st) =
             k_accept (ks_kern self) (ks_state self) (ks_state new_sock) (flags = KKC_SOCK_NONBLOCK);
             self = self\<lparr>ks_state := st\<rparr>; new_sock = new_sock\<lparr>ks_state := new_st\<rparr>
           in if err < 0 then
                (case kkc_sock_put new_sock refs of
                   (None, refs) \<Rightarrow> (err, self, SockFreed, refs)
                 | (Some s, refs) \<Rightarrow> (err, self, SockLive s, refs))
              else (0, self, SockLive new_sock, refs)))"

subsection \<open>Printed names\<close>

fun print_u :: "nat \<Rightarrow> string" where
  "print_u n = (if n < 10 then [char_of (48 + n)] else print_u (n div 10) @ [char_of (48 + n mod 10)])"

definition print_ip :: "byte list \<Rightarrow> string" where
  "print_ip paddr = print_u (unat (paddr ! 0)) @ ''.'' @ print_u (unat (paddr ! 1)) @ ''.'' @
     print_u (unat (paddr ! 2)) @ ''.'' @ print_u (unat (paddr ! 3))"

definition print_addr :: "sockaddr_in \<Rightarrow> string" where
  "print_addr a = print_ip (sin_addr a) @ '':'' @ print_u (unat (sin_port a))"

definition kkc_sock_tcp_getname :: "nat \<Rightarrow> bool \<Rightarrow> 's kkc_sock \<Rightarrow> int \<times> string" where
  "kkc_sock_tcp_getname size_n local_n self =
     (let (err, address) = k_getname (ks_kern self) (ks_state self) local_n
      in if err < 0 then (err, []) else (0, take (size_n - 1) (print_addr address)))"

definition kkc_sock_tcp_is_address_equal_to :: "string option \<Rightarrow> nat \<Rightarrow> bool \<Rightarrow> 's kkc_sock \<Rightarrow> bool" where
  "kkc_sock_tcp_is_address_equal_to addr addr_length local_n self =
     (case addr of
        None \<Rightarrow> False
      | Some addr \<Rightarrow>
          (let (err, address) = k_getname (ks_kern self) (ks_state self) local_n
           in if err < 0 then False
              else
                (let name = take (KKC_SOCK_MAX_ADDR_LENGTH - 1) (''tcp:'' @ print_addr address);
                     n = min addr_length (length name)
                 in take n addr = take n name)))"

definition kkc_sock_getsockname :: "nat \<Rightarrow> 's kkc_sock \<Rightarrow> int \<times> string" where
  "kkc_sock_getsockname size_n self = kkc_sock_tcp_getname size_n False self"

definition kkc_sock_getpeername :: "nat \<Rightarrow> 's kkc_sock \<Rightarrow> int \<times> string" where
  "kkc_sock_getpeername size_n self = kkc_sock_tcp_getname size_n True self"

subsection \<open>Establishing a connection\<close>

definition kkc_get_architecture :: "'s net \<Rightarrow> string \<Rightarrow> int \<Rightarrow> (int + kkc_arch \<times> string) \<times> int" where
  "kkc_get_architecture net where_n refs =
     (case strchr where_n (CHR '':'') of
        None \<Rightarrow> (Inl (- EINVAL), refs)
      | Some colon_pos \<Rightarrow>
          (if colon_pos > KKC_MAX_ARCH_LENGTH - 1 then (Inl (- EINVAL), refs)
           else
             (let arch_name = take colon_pos where_n;
                  addr = take (KKC_SOCK_MAX_ADDR_LENGTH - 1) (drop (colon_pos + 1) where_n)
              in case kkc_arch_get_by_name net arch_name refs of
                   (None, refs) \<Rightarrow> (Inl (- EINVAL), refs)
                 | (Some arch, refs) \<Rightarrow> (Inr (arch, addr), refs))))"

definition kkc_establish ::
  "'s net \<Rightarrow> string \<Rightarrow> (string \<Rightarrow> 's kkc_sock \<Rightarrow> int \<times> 's kkc_sock) \<Rightarrow> int \<Rightarrow> int \<times> 's kkc_sock option \<times> int" where
  "kkc_establish net where_n kkc_sock_method refs =
     (case kkc_get_architecture net where_n refs of
        (Inl _, refs) \<Rightarrow> (- ENOMEM, None, refs)
      | (Inr (arch, addr), refs) \<Rightarrow>
          (case kkc_arch_obj_new net arch refs of
             (None, refs) \<Rightarrow> (- ENOMEM, None, kkc_arch_put refs)
           | (Some sock, refs) \<Rightarrow>
               (let (err, sock) = kkc_sock_method addr sock
                in if err \<noteq> 0 then (- ENOMEM, None, kkc_arch_put (snd (kkc_sock_put sock refs)))
                   else (0, Some sock, kkc_arch_put refs))))"

definition kkc_connect :: "'s net \<Rightarrow> string \<Rightarrow> int \<Rightarrow> int \<times> 's kkc_sock option \<times> int" where
  "kkc_connect net where_n refs = kkc_establish net where_n (kkc_sock_tcp_connect net) refs"

definition kkc_listen :: "'s net \<Rightarrow> string \<Rightarrow> int \<Rightarrow> int \<times> 's kkc_sock option \<times> int" where
  "kkc_listen net where_n refs = kkc_establish net where_n (kkc_sock_tcp_listen net) refs"

declare print_u.simps [simp del]

subsection \<open>Names and addresses\<close>

lemma print_u_induct [case_names digit step]:
  fixes n :: nat
  assumes "\<And>n. n < 10 \<Longrightarrow> P n" "\<And>n. \<not> n < 10 \<Longrightarrow> P (n div 10) \<Longrightarrow> P n"
  shows "P n"
  using assms by (induction n rule: print_u.induct) blast

lemma print_u_digits: "c \<in> set (print_u n) \<Longrightarrow> 48 \<le> (of_char c :: nat) \<and> of_char c < (58 :: nat)"
proof (induction n rule: print_u_induct)
  case (digit n)
  then show ?case by (subst (asm) print_u.simps) simp
next
  case (step n)
  have "48 + n mod 10 < (58 :: nat)" by simp
  then show ?case using step by (subst (asm) (2) print_u.simps) auto
qed

lemma print_u_no_colon [simp]: "CHR '':'' \<notin> set (print_u n)"
  using print_u_digits [of "CHR '':''" n] by auto

lemma length_print_u: "n < 10 ^ Suc k \<Longrightarrow> length (print_u n) \<le> Suc k"
proof (induction k arbitrary: n)
  case 0
  then show ?case by (simp add: print_u.simps)
next
  case (Suc k)
  then have "n div 10 < 10 ^ Suc k" by (simp add: less_mult_imp_div_less)
  then show ?case using Suc.IH [of "n div 10"] by (subst print_u.simps) simp
qed

lemma length_print_byte: "length (print_u (unat (b :: byte))) \<le> 3"
  using unsigned_less [of b, where ?'a = nat] length_print_u [of "unat b" 2] by simp

lemma print_ip_no_colon [simp]: "CHR '':'' \<notin> set (print_ip ip)"
  by (simp add: print_ip_def)

lemma length_print_ip: "length (print_ip ip) \<le> 15"
  using length_print_byte [of "ip ! 0"] length_print_byte [of "ip ! 1"] length_print_byte [of "ip ! 2"]
    length_print_byte [of "ip ! 3"] by (simp add: print_ip_def)

lemma length_print_addr: "length (print_addr a) \<le> 21"
proof -
  have "length (print_u (unat (sin_port a))) \<le> Suc 4"
    using unsigned_less [of "sin_port a", where ?'a = nat] by (intro length_print_u) simp
  then show ?thesis using length_print_ip [of "sin_addr a"] by (simp add: print_addr_def)
qed

lemma strchr_append [simp]: "c \<notin> set xs \<Longrightarrow> strchr (xs @ c # ys) c = Some (length xs)"
proof -
  assume "c \<notin> set xs"
  then have "takeWhile (\<lambda>x. x \<noteq> c) (xs @ c # ys) = xs" by (induction xs) auto
  then show ?thesis by (simp add: strchr_def)
qed

text \<open>
  The documented behaviour of the two conversions: dotted quads and decimal numbers
  that fit a long are read back.
\<close>

definition conversions_ok :: "'s net \<Rightarrow> bool" where
  "conversions_ok net \<longleftrightarrow>
     (\<forall>ip. length ip = 4 \<longrightarrow> n_in_aton net (print_ip ip) = ip) \<and>
     (\<forall>n. n < 2 ^ 64 \<longrightarrow> n_strtoul net (print_u n) = n)"

lemma extract_print_addr:
  assumes "conversions_ok net" "length (sin_addr a) = 4"
  shows "kkc_sock_tcp_extract_addr net (print_addr a) = Inr a"
proof -
  have "unat (sin_port a) < 2 ^ 64"
    using unsigned_less [of "sin_port a", where ?'a = nat] by simp
  then show ?thesis
    using assms length_print_ip [of "sin_addr a"]
    by (simp add: kkc_sock_tcp_extract_addr_def print_addr_def conversions_ok_def)
qed

text \<open>Two conversions with this behaviour: decimal digits up to the first other character.\<close>

definition is_digit :: "char \<Rightarrow> bool" where
  "is_digit c \<longleftrightarrow> 48 \<le> (of_char c :: nat) \<and> of_char c < (58 :: nat)"

definition scan_u :: "string \<Rightarrow> nat" where
  "scan_u s = foldl (\<lambda>n c. 10 * n + (of_char c - 48)) 0 (takeWhile is_digit s)"

primrec scan_quad :: "nat \<Rightarrow> string \<Rightarrow> byte list" where
  "scan_quad 0 s = []"
| "scan_quad (Suc k) s = of_nat (scan_u s) # scan_quad k (drop 1 (dropWhile is_digit s))"

lemma print_u_all_digits: "c \<in> set (print_u n) \<Longrightarrow> is_digit c"
  using print_u_digits by (simp add: is_digit_def)

lemma not_is_digit_dot [simp]: "\<not> is_digit (CHR ''.'')" by (simp add: is_digit_def)

lemma fold_print_u: "foldl (\<lambda>n c. 10 * n + (of_char c - 48)) 0 (print_u n) = n"
proof (induction n rule: print_u_induct)
  case (digit n)
  then show ?case by (subst print_u.simps) simp
next
  case (step n)
  then show ?case by (subst print_u.simps) simp
qed

lemma takeWhile_print_u [simp]: "takeWhile is_digit (print_u n) = print_u n"
  by (simp add: takeWhile_eq_all_conv print_u_all_digits)

lemma scan_print_u [simp]: "scan_u (print_u n) = n"
  "scan_u (print_u n @ CHR ''.'' # rest) = n"
  by (simp_all add: scan_u_def takeWhile_append print_u_all_digits fold_print_u)

lemma dropWhile_print_u [simp]: "dropWhile is_digit (print_u n @ CHR ''.'' # rest) = CHR ''.'' # rest"
  by (simp add: dropWhile_append print_u_all_digits)

lemma scan_quad_print_ip: "length ip = 4 \<Longrightarrow> scan_quad 4 (print_ip ip) = ip"
  by (auto simp: print_ip_def numeral_eq_Suc length_Suc_conv)

text \<open>A kernel in which a TCP socket can be made out of \<open>K\<close> and \<open>st\<close>.\<close>

definition net_up :: "'s net \<Rightarrow> 's kernel_sock \<Rightarrow> 's \<Rightarrow> bool" where
  "net_up net K st \<longleftrightarrow> n_try_module_get net \<and> n_kmalloc net \<and> n_sock_create net = Some (K, st) \<and>
     n_symbol_get net ''kkc_arch_tcp'' = Some KKC_ARCH_TCP"

abbreviation fresh_sock :: "'s kernel_sock \<Rightarrow> 's \<Rightarrow> 's kkc_sock" where
  "fresh_sock K st \<equiv> \<lparr>ks_kern = K, ks_state = st, ks_ref_count = 1, ks_send_sem = True, ks_recv_sem = True\<rparr>"

lemma tcp_new_up: "net_up net K st \<Longrightarrow> kkc_sock_tcp_new net refs = (Some (fresh_sock K st), refs + 1)"
  by (simp add: net_up_def kkc_sock_tcp_new_def kkc_arch_get_def kkc_sock_init_def)

lemma get_architecture_tcp:
  assumes "net_up net K st" "length addr < KKC_SOCK_MAX_ADDR_LENGTH"
  shows "kkc_get_architecture net (''tcp:'' @ addr) refs = (Inr (KKC_ARCH_TCP, addr), refs + 1)"
proof -
  have "strchr (''tcp'' @ CHR '':'' # addr) (CHR '':'') = Some 3" by (subst strchr_append) simp_all
  then show ?thesis
    using assms by (simp add: kkc_get_architecture_def kkc_arch_get_by_name_def net_up_def)
qed

text \<open>
  C27. Connecting to a printed address reaches that address: for every IPv4 address
  and port, \<open>kkc_connect\<close> on \<^verbatim>\<open>tcp:\<close> followed by the name \<open>getname\<close> prints for it calls the
  kernel's connect with exactly this address, hands out the connected socket with one
  architecture reference, and gives every reference back when the connection fails.
\<close>

theorem kkc_connect_reaches_address:
  assumes "conversions_ok net" "length (sin_addr a) = 4" "net_up net K st"
    and "k_connect K st a = (e, st')"
  shows "kkc_connect net (''tcp:'' @ print_addr a) refs =
    (if e < 0 then (- ENOMEM, None, refs) else (0, Some (fresh_sock K st'), refs + 1))"
proof -
  have "length (print_addr a) < KKC_SOCK_MAX_ADDR_LENGTH" using length_print_addr [of a] by simp
  note arch = get_architecture_tcp [OF assms(3) this]
  have "kkc_sock_tcp_connect net (print_addr a) (fresh_sock K st) =
      (if e < 0 then e else 0, fresh_sock K st')"
    using assms(4) by (simp add: kkc_sock_tcp_connect_def extract_print_addr [OF assms(1,2)])
  then show ?thesis
    unfolding kkc_connect_def kkc_establish_def arch
    by (simp add: kkc_arch_obj_new_def tcp_new_up [OF assms(3)]
        kkc_sock_put_def kkc_arch_put_def)
qed

text \<open>A kernel whose sockets remember the address they are connected to.\<close>

definition demo_kern :: "sockaddr_in kernel_sock" where
  "demo_kern = \<lparr>k_sendmsg = (\<lambda>s bs. (int (length bs), s)), k_recvmsg = (\<lambda>s n nb. (0, [], s)),
     k_connect = (\<lambda>s a. (0, a)), k_bind = (\<lambda>s a. (0, a)), k_listen = (\<lambda>s n. (0, s)),
     k_accept = (\<lambda>s t nb. (- EAGAIN, s, t)), k_shutdown = (\<lambda>s. (0, s)), k_getname = (\<lambda>s p. (0, s)),
     k_sent = (\<lambda>s. []), k_avail = (\<lambda>s. [])\<rparr>"

definition demo_any :: sockaddr_in where
  "demo_any = \<lparr>sin_addr = [0, 0, 0, 0], sin_port = 0\<rparr>"

definition demo_net :: "sockaddr_in net" where
  "demo_net = \<lparr>n_try_module_get = True, n_symbol_get = (\<lambda>s. if s = ''kkc_arch_tcp'' then Some KKC_ARCH_TCP else None),
     n_kmalloc = True, n_sock_create = Some (demo_kern, demo_any), n_in_aton = scan_quad 4, n_strtoul = scan_u\<rparr>"

lemma demo_net_ok: "conversions_ok demo_net" "net_up demo_net demo_kern demo_any"
  by (simp_all add: conversions_ok_def net_up_def demo_net_def scan_quad_print_ip)

theorem kkc_connect_reaches_address_witness:
  "kkc_connect demo_net (''tcp:'' @ print_addr \<lparr>sin_addr = [10, 0, 0, 1], sin_port = 54321\<rparr>) 1 =
    (0, Some (fresh_sock demo_kern \<lparr>sin_addr = [10, 0, 0, 1], sin_port = 54321\<rparr>), 2)"
  using kkc_connect_reaches_address [OF demo_net_ok(1) _ demo_net_ok(2),
      of "\<lparr>sin_addr = [10, 0, 0, 1], sin_port = 54321\<rparr>" 0 _ 1]
  by (simp add: demo_kern_def)

text \<open>
  References of an architecture over \<open>kkc_establish\<close>, for every kernel, address and
  method that leaves the reference count of the socket alone: a socket handed out owns
  one reference, and a failed call owns none, except that a failing socket constructor
  has leaked the one it took.
\<close>

theorem kkc_establish_references:
  assumes "\<And>addr s. ks_ref_count (snd (meth addr s)) = ks_ref_count s"
    and "kkc_establish net addr meth refs = (err, sock, refs')"
  shows "(err = 0 \<longleftrightarrow> sock \<noteq> None) \<and> (sock = None \<longrightarrow> err = - ENOMEM) \<and>
    refs' = refs + (if sock \<noteq> None \<or>
      n_kmalloc net \<and> n_try_module_get net \<and> n_sock_create net = None \<and> isl (fst (kkc_get_architecture net addr 0)) = False
      then 1 else 0)"
proof -
  have arch: "kkc_get_architecture net addr refs =
      (fst (kkc_get_architecture net addr 0), refs + (if isl (fst (kkc_get_architecture net addr 0)) then 0 else 1))"
    by (auto simp: kkc_get_architecture_def kkc_arch_get_by_name_def Let_def split: option.splits)
  have new: "kkc_sock_tcp_new net r =
      (case n_sock_create net of
         None \<Rightarrow> (None, if n_kmalloc net \<and> n_try_module_get net then r + 1 else r)
       | Some (K, st) \<Rightarrow> if n_kmalloc net \<and> n_try_module_get net then (Some (fresh_sock K st), r + 1) else (None, r))" for r
    by (auto simp: kkc_sock_tcp_new_def kkc_arch_get_def kkc_sock_init_def split: option.splits)
  have keep: "meth adr (fresh_sock K st) = (e, s) \<Longrightarrow> ks_ref_count s = 1" for adr K st e s
    using assms(1) [of adr "fresh_sock K st"] by simp
  show ?thesis
    using assms(2)
    unfolding kkc_establish_def arch
    by (auto dest!: keep simp: kkc_arch_obj_new_def new kkc_sock_put_def kkc_arch_put_def Let_def
        split: sum.splits prod.splits option.splits if_splits kkc_arch.splits)
qed

theorem kkc_establish_references_witness:
  "\<exists>sock. kkc_establish demo_net ''tcp:10.0.0.1:80'' (kkc_sock_tcp_connect demo_net) 1 = (0, Some sock, 2)"
proof -
  have c: "ks_ref_count (snd (kkc_sock_tcp_connect demo_net addr s)) = ks_ref_count s" for addr s
    by (simp add: kkc_sock_tcp_connect_def Let_def split: sum.splits prod.splits)
  have arch: "kkc_get_architecture demo_net ''tcp:10.0.0.1:80'' 1 = (Inr (KKC_ARCH_TCP, ''10.0.0.1:80''), 2)"
    using get_architecture_tcp [OF demo_net_ok(2), of "''10.0.0.1:80''" 1] by simp
  have "fst (kkc_establish demo_net ''tcp:10.0.0.1:80'' (kkc_sock_tcp_connect demo_net) 1) = 0"
    unfolding kkc_establish_def
    by (simp add: arch kkc_arch_obj_new_def tcp_new_up [OF demo_net_ok(2)] kkc_sock_tcp_connect_def
        kkc_sock_tcp_extract_addr_def strchr_def demo_kern_def)
  moreover obtain err sock refs where e:
    "kkc_establish demo_net ''tcp:10.0.0.1:80'' (kkc_sock_tcp_connect demo_net) 1 = (err, sock, refs)"
    by (metis prod_cases3)
  ultimately show ?thesis using kkc_establish_references [OF c e] by auto
qed

text \<open>
  C40. A socket matches longer port numbers: the comparison stops at the end of the
  socket's own name, so a socket connected to port 80 counts as connected to port 8000
  of the same host.
\<close>

theorem kkc_address_prefix_matches:
  assumes "k_getname (ks_kern self) (ks_state self) local_n = (0, a)"
  shows "kkc_sock_tcp_is_address_equal_to (Some (''tcp:'' @ print_addr a @ sfx))
    (length (''tcp:'' @ print_addr a @ sfx)) local_n self"
proof -
  have "length (''tcp:'' @ print_addr a) \<le> KKC_SOCK_MAX_ADDR_LENGTH - 1"
    using length_print_addr [of a] by simp
  then show ?thesis
    unfolding kkc_sock_tcp_is_address_equal_to_def by (simp add: assms Let_def)
qed

theorem kkc_address_prefix_matches_witness:
  "kkc_sock_tcp_is_address_equal_to (Some (''tcp:'' @ print_addr demo_any @ ''00''))
    (length (''tcp:'' @ print_addr demo_any @ ''00'')) True (fresh_sock demo_kern demo_any)"
  by (rule kkc_address_prefix_matches) (simp add: demo_kern_def)

text \<open>
  A failed accept leaves the caller with a pointer to the socket it has just
  destroyed: the code resets its own copy of the pointer instead of the caller's.
\<close>

theorem kkc_accept_failure_dangles:
  assumes "net_up net K st" "k_accept (ks_kern self) (ks_state self) st nb = (e, st1, st2)" "e < 0"
    "nb = (flags = KKC_SOCK_NONBLOCK)"
  shows "kkc_sock_tcp_accept net flags self refs = (e, self\<lparr>ks_state := st1\<rparr>, SockFreed, refs)"
  using assms by (simp add: kkc_sock_tcp_accept_def tcp_new_up [OF assms(1)] kkc_sock_put_def kkc_arch_put_def)

theorem kkc_accept_failure_dangles_witness:
  "kkc_sock_tcp_accept demo_net KKC_SOCK_NONBLOCK (fresh_sock demo_kern demo_any) 1 =
    (- EAGAIN, fresh_sock demo_kern demo_any, SockFreed, 1)"
  using kkc_accept_failure_dangles [OF demo_net_ok(2), of "fresh_sock demo_kern demo_any" True "- EAGAIN"
      demo_any demo_any KKC_SOCK_NONBLOCK 1]
  by (simp add: demo_kern_def)

end
