(* ===== verification/Tcmi_Comm.thy ===== *)
theory Tcmi_Comm
  imports Tcmi_Wire Kkc_Connect
begin

text \<open>
  The communication component (\<^verbatim>\<open>src/tcmi/comm/tcmi_comm.c\<close>): a thread that receives
  messages from a socket and hands each one to its client.

  What the kernel decides in the \<open>k\<close>-th round is \<open>comm_kernel\<close>: whether the thread is asked
  to stop, what the allocator returns, whether a signal interrupts it. Messages live at
  addresses; an address that holds a message nobody refers to is a leak. The client, which
  owns the queues and transactions, is the method \<open>deliver\<close> together with \<open>msg_put\<close>, the
  release of a message in its state.
\<close>

record msg_state =
  ms_msgs :: msg_heap

record comm_kernel =
  ck_stop :: "nat \<Rightarrow> bool"
  ck_mem :: "nat \<Rightarrow> msg_mem"
  ck_addr :: "nat \<Rightarrow> nat"
  ck_signal :: "nat \<Rightarrow> bool"

type_synonym 'n deliver_method_t = "nat \<Rightarrow> 'n msg_state_scheme \<Rightarrow> (int \<times> 'n msg_state_scheme) option"

type_synonym 'n msg_put_t = "nat \<Rightarrow> 'n msg_state_scheme \<Rightarrow> 'n msg_state_scheme option"

record ('s, 'n) tcmi_comm =
  co_ref_count :: int
  co_sock :: "'s kkc_sock"
  co_deliver :: "'n deliver_method_t"
  co_msg_group :: u32
  co_thread :: bool

text \<open>\<open>thread_ok\<close>: whether the thread could be created.\<close>

definition tcmi_comm_new ::
  "bool \<Rightarrow> bool \<Rightarrow> 's kkc_sock option \<Rightarrow> 'n deliver_method_t option \<Rightarrow> u32 \<Rightarrow> int \<Rightarrow>
   ('s, 'n) tcmi_comm option \<times> 's kkc_sock option \<times> int" where
  "tcmi_comm_new mem thread_ok sock deliver msg_group refs =
     (case (sock, deliver) of
        (Some sock, Some deliver) \<Rightarrow>
          (if \<not> mem then (None, Some sock, refs)
           else
             (let sock = kkc_sock_get sock in
              if \<not> thread_ok then (let (sock, refs) = kkc_sock_put sock refs in (None, sock, refs))
              else (Some \<lparr>co_ref_count = 1, co_sock = sock, co_deliver = deliver, co_msg_group = msg_group, co_thread = True\<rparr>,
                    Some sock, refs)))
      | _ \<Rightarrow> (None, sock, refs))"

definition tcmi_comm_get :: "('s, 'n) tcmi_comm \<Rightarrow> ('s, 'n) tcmi_comm" where
  "tcmi_comm_get self = self\<lparr>co_ref_count := co_ref_count self + 1\<rparr>"

definition tcmi_comm_put :: "('s, 'n) tcmi_comm option \<Rightarrow> int \<Rightarrow> ('s, 'n) tcmi_comm option \<times> int" where
  "tcmi_comm_put self refs =
     (case self of
        None \<Rightarrow> (None, refs)
      | Some comm \<Rightarrow>
          (if co_ref_count comm - 1 = 0 then (None, snd (kkc_sock_put (co_sock comm) refs))
           else (Some (comm\<lparr>co_ref_count := co_ref_count comm - 1\<rparr>), refs)))"

text \<open>
  One round of the loop: the flag tells whether the thread leaves the loop, the number
  is the value of \<^verbatim>\<open>err\<close>.
\<close>

definition comm_round ::
  "comm_kernel \<Rightarrow> 'n deliver_method_t \<Rightarrow> 'n msg_put_t \<Rightarrow> u32 \<Rightarrow> nat \<Rightarrow> 's kkc_sock \<Rightarrow>
   'n msg_state_scheme \<Rightarrow>
   (bool \<times> int \<times> 's kkc_sock \<times> 'n msg_state_scheme) option" where
  "comm_round K deliver msg_put msg_group k sock st = do {
     (err, out, sock) \<leftarrow> kkc_recv_block sock 4;
     (if err < 0 then Some (True, err, sock, st)
      else
        (case tcmi_msg_factory (ck_mem K k) (le_word out) msg_group of
           None \<Rightarrow> Some (True, err, sock, st)
         | Some m \<Rightarrow> do {
             let a = ck_addr K k;
             (err, m, sock) \<leftarrow> tcmi_msg_recv (mm_kmalloc (ck_mem K k)) (ck_signal K k) m sock;
             let st = st\<lparr>ms_msgs := (ms_msgs st)(a \<mapsto> m)\<rparr>;
             (if err < 0 then Some (True, err, sock, st)
              else do {
                (r, st) \<leftarrow> deliver a st;
                (if r < 0 then do { st \<leftarrow> msg_put a st; Some (False, err, sock, st) }
                 else Some (False, err, sock, st))
              })
           }))
   }"

partial_function (option) tcmi_comm_thread ::
  "comm_kernel \<Rightarrow> 'n deliver_method_t \<Rightarrow> 'n msg_put_t \<Rightarrow> u32 \<Rightarrow> nat \<Rightarrow> int \<Rightarrow> 's kkc_sock \<Rightarrow>
   'n msg_state_scheme \<Rightarrow>
   (int \<times> 's kkc_sock \<times> 'n msg_state_scheme) option" where
  "tcmi_comm_thread K deliver msg_put msg_group k err sock st =
     (if ck_stop K k then Some (err, sock, st)
      else Option.bind (comm_round K deliver msg_put msg_group k sock st) (\<lambda>(leave, err, sock, st).
        if leave then Some (err, sock, st)
        else tcmi_comm_thread K deliver msg_put msg_group (k + 1) err sock st))"

subsection \<open>The contract of a client\<close>

text \<open>
  A client promises for the messages it accepts that delivery succeeds, keeps every stored
  message and appends the address of the message to what it has received.
\<close>

text \<open>Messages that a connection of group \<open>grp\<close> carries; signal messages are apart, as their
  transfer reports no errors.\<close>

definition travels :: "u32 \<Rightarrow> tcmi_msg \<Rightarrow> bool" where
  "travels grp m \<longleftrightarrow> body_ok (m_body m) \<and> \<not> is_signal (m_body m) \<and> id_fits m \<and>
     grp \<in> {body_group (m_body m), TCMI_MSG_GROUP_ANY}"

definition mem_ok :: "msg_mem \<Rightarrow> bool" where
  "mem_ok mem \<longleftrightarrow> mm_ok mem \<and> (\<forall>n. mm_kmalloc mem n)"

text \<open>
  The first \<open>n\<close> messages of \<open>ms\<close> have been received in order, at the addresses of the rounds
  from \<open>k\<close> on; nothing else has been touched.
\<close>

definition in_order ::
  "('n msg_state_scheme \<Rightarrow> nat list) \<Rightarrow> (nat \<Rightarrow> nat) \<Rightarrow> tcmi_msg list \<Rightarrow> nat \<Rightarrow> nat \<Rightarrow>
   'n msg_state_scheme \<Rightarrow> 'n msg_state_scheme \<Rightarrow> bool" where
  "in_order received addr ms k n st st' \<longleftrightarrow> n \<le> length ms \<and> received st' = received st @ map addr [k..<k + n] \<and>
     (\<forall>i < n. \<exists>x. ms_msgs st' (addr (k + i)) = Some x \<and> msg_same (ms ! i) x) \<and>
     (\<forall>a. a \<notin> addr ` {k..} \<longrightarrow> ms_msgs st' a = ms_msgs st a)"

lemma in_order_0: "received st' = received st \<Longrightarrow> \<forall>a. a \<noteq> addr k \<longrightarrow> ms_msgs st' a = ms_msgs st a \<Longrightarrow> in_order received addr ms k 0 st st'"
  by (auto simp: in_order_def)

lemma in_order_step:
  assumes io: "in_order received addr ms (k + 1) n st1 st'" and "inj addr"
    and st1: "received st1 = received st @ [addr k]" "\<forall>a. a \<noteq> addr k \<longrightarrow> ms_msgs st1 a = ms_msgs st a"
      "\<exists>x. ms_msgs st1 (addr k) = Some x \<and> msg_same m x"
  shows "in_order received addr (m # ms) k (n + 1) st st'"
proof -
  have "addr k \<notin> addr ` {k + 1..}" using assms(2) by (auto simp: inj_eq)
  then have k: "ms_msgs st' (addr k) = ms_msgs st1 (addr k)" using io by (simp add: in_order_def)
  have "[k..<k + (n + 1)] = k # [k + 1..<k + 1 + n]" using upt_conv_Cons [of k "k + (n + 1)"] by (simp add: add.commute)
  then have "received st' = received st @ map addr [k..<k + (n + 1)]" using io st1(1) by (simp add: in_order_def)
  moreover have "ms_msgs st' a = ms_msgs st a" if "a \<notin> addr ` {k..}" for a
  proof -
    have "a \<notin> addr ` {k + 1..}" "a \<noteq> addr k" using that by auto
    then show ?thesis using io st1(2) by (simp add: in_order_def)
  qed
  ultimately show ?thesis using io st1(3) k by (auto simp: in_order_def less_Suc_eq_0_disj)
qed

locale comm_client =
  fixes deliver :: "'n deliver_method_t"
    and inv :: "'n msg_state_scheme \<Rightarrow> bool"
    and accepts :: "tcmi_msg \<Rightarrow> bool"
    and received :: "'n msg_state_scheme \<Rightarrow> nat list"
  assumes deliver_accepts: "\<lbrakk>inv st; ms_msgs st a = Some m; accepts m\<rbrakk> \<Longrightarrow>
      \<exists>st'. deliver a st = Some (0, st') \<and> inv st' \<and> received st' = received st @ [a] \<and> ms_msgs st' = ms_msgs st"
    and store_msg: "inv st \<Longrightarrow> inv (st\<lparr>ms_msgs := h\<rparr>) \<and> received (st\<lparr>ms_msgs := h\<rparr>) = received st"
    and accepts_same: "\<lbrakk>accepts m; msg_same m x\<rbrakk> \<Longrightarrow> accepts x"
begin

lemma round_delivers:
  fixes s :: "'s kkc_sock"
  assumes ok: "sock_ok s" "ks_recv_sem s" and av: "sock_avail s = msg_wire m @ rest"
    and m: "travels grp m" "accepts m" and mem: "mem_ok (ck_mem K k)" and inv: "inv st"
  shows "\<exists>leave r s' st'. comm_round K deliver put grp k s st = Some (leave, r, s', st') \<and> sock_ok s' \<and> ks_recv_sem s' \<and>
    inv st' \<and> (\<forall>a. a \<noteq> ck_addr K k \<longrightarrow> ms_msgs st' a = ms_msgs st a) \<and>
    (if leave then r < 0 \<and> received st' = received st
     else sock_avail s' = rest \<and> received st' = received st @ [ck_addr K k] \<and> (\<exists>x. ms_msgs st' (ck_addr K k) = Some x \<and> msg_same m x))"
proof -
  obtain r out s1 where s1: "kkc_recv_block s 4 = Some (r, out, s1)" "sock_ok s1" "ks_recv_sem s1"
      "sock_avail s = out @ sock_avail s1" "if r < 0 then length out < 4 else length out = 4"
    using kkc_sock_recv_ok [OF ok(1), of 4] sock_frame_ok [OF _ ok(1)] ok(2) unfolding sock_frame_def by (metis (no_types, lifting))
  show ?thesis
  proof (cases "r < 0")
    case True
    then show ?thesis using s1(1-3) inv by (intro exI [of _ True]) (simp add: comm_round_def)
  next
    case False
    then have out: "out = le_bytes 4 (m_id m)"
        "sock_avail s1 = le_bytes 4 (m_req m) @ le_bytes 4 (m_resp m) @ body_wire (m_body m) @ rest"
      using s1(4,5) av append_eq_append_conv [of out "le_bytes 4 (m_id m)"] by (auto simp: msg_wire_def)
    obtain g where g: "tcmi_msg_factory (ck_mem K k) (m_id m) grp = Some g" "rx_fresh (m_id m) g" "same_class (m_body g) (m_body m)"
      using factory_builds [of m "ck_mem K k" grp] m(1) mem unfolding travels_def mem_ok_def by blast
    obtain e x s2 where x: "tcmi_msg_recv (mm_kmalloc (ck_mem K k)) (ck_signal K k) g s1 = Some (e, x, s2)" "sock_ok s2"
        "ks_recv_sem s2" "e < 0 \<or> msg_same m x \<and> sock_avail s2 = rest"
      using msg_recv_ok [OF _ _ _ g(2,3) s1(2,3) out(2), of "mm_kmalloc (ck_mem K k)" "ck_signal K k"] m(1) mem
      unfolding travels_def mem_ok_def by blast
    let ?st = "st\<lparr>ms_msgs := (ms_msgs st)(ck_addr K k \<mapsto> x)\<rparr>"
    have st: "inv ?st" "received ?st = received st" using store_msg [OF inv] by auto
    have rd: "comm_round K deliver put grp k s st =
        (if e < 0 then Some (True, e, s2, ?st)
         else Option.bind (deliver (ck_addr K k) ?st) (\<lambda>(r, st).
           if r < 0 then Option.bind (put (ck_addr K k) st) (\<lambda>st. Some (False, e, s2, st)) else Some (False, e, s2, st)))"
      using False s1(1) g(1) x(1) out(1) by (simp add: comm_round_def Let_def)
    show ?thesis
    proof (cases "e < 0")
      case True
      then show ?thesis using rd st x(2,3) by (intro exI [of _ True]) simp
    next
      case False
      then have same: "msg_same m x" "sock_avail s2 = rest" using x(4) by auto
      obtain st' where "deliver (ck_addr K k) ?st = Some (0, st')" "inv st'" "received st' = received ?st @ [ck_addr K k]"
          "ms_msgs st' = ms_msgs ?st"
        using deliver_accepts [OF st(1), of "ck_addr K k" x] accepts_same [OF m(2) same(1)] by auto
      then show ?thesis using rd False st same x(2,3) by (intro exI [of _ False]) simp
    qed
  qed
qed

lemma thread_delivers:
  fixes s :: "'s kkc_sock"
  assumes "sock_ok s" "ks_recv_sem s" "sock_avail s = concat (map msg_wire ms)"
    and "\<forall>m \<in> set ms. travels grp m \<and> accepts m" "\<forall>k. mem_ok (ck_mem K k)" "inj (ck_addr K)" "inv st"
  shows "\<exists>n r s' st'. tcmi_comm_thread K deliver put grp k err s st = Some (r, s', st') \<and>
    in_order received (ck_addr K) ms k n st st' \<and> (n = length ms \<or> r < 0 \<or> ck_stop K (k + n))"
  using assms(1-4,7)
proof (induction ms arbitrary: k err s st)
  case Nil
  obtain r s1 where r: "kkc_recv_block s 4 = Some (r, [], s1)" "r < 0"
    using kkc_sock_recv_ok [OF Nil.prems(1), of 4] Nil.prems(3) by (auto split: if_splits)
  have "in_order received (ck_addr K) [] k 0 st st" by (simp add: in_order_0)
  then show ?case using r by (cases "ck_stop K k") (fastforce simp: tcmi_comm_thread.simps comm_round_def)+
next
  case (Cons m ms)
  show ?case
  proof (cases "ck_stop K k")
    case True
    moreover have "in_order received (ck_addr K) (m # ms) k 0 st st" by (simp add: in_order_0)
    ultimately show ?thesis by (fastforce simp: tcmi_comm_thread.simps)
  next
    case False
    obtain leave r s1 st1 where rd: "comm_round K deliver put grp k s st = Some (leave, r, s1, st1)" "sock_ok s1" "ks_recv_sem s1"
        "inv st1" "\<forall>a. a \<noteq> ck_addr K k \<longrightarrow> ms_msgs st1 a = ms_msgs st a"
        "if leave then r < 0 \<and> received st1 = received st
         else sock_avail s1 = concat (map msg_wire ms) \<and> received st1 = received st @ [ck_addr K k] \<and>
           (\<exists>x. ms_msgs st1 (ck_addr K k) = Some x \<and> msg_same m x)"
      using round_delivers [OF Cons.prems(1,2), of m "concat (map msg_wire ms)" grp K k st put] Cons.prems(3-5) assms(5) by auto
    have th: "tcmi_comm_thread K deliver put grp k err s st =
        (if leave then Some (r, s1, st1) else tcmi_comm_thread K deliver put grp (k + 1) r s1 st1)"
      using False rd(1) by (simp add: tcmi_comm_thread.simps)
    show ?thesis
    proof (cases leave)
      case True
      then show ?thesis using th rd(5,6) in_order_0 [of received st1 st "ck_addr K" k] by auto
    next
      case False
      have rest: "\<forall>m \<in> set ms. travels grp m \<and> accepts m" using Cons.prems(4) by simp
      have "sock_avail s1 = concat (map msg_wire ms)" using False rd(6) by simp
      from Cons.IH [OF rd(2,3) this rest rd(4), of "k + 1" r] obtain n r' s' st'
        where IH: "tcmi_comm_thread K deliver put grp (k + 1) r s1 st1 = Some (r', s', st')"
          "in_order received (ck_addr K) ms (k + 1) n st1 st'" "n = length ms \<or> r' < 0 \<or> ck_stop K (k + 1 + n)" by blast
      have "in_order received (ck_addr K) (m # ms) k (n + 1) st st'"
        using in_order_step [OF IH(2) assms(6)] False rd(5,6) by auto
      moreover have "n + 1 = length (m # ms) \<or> r' < 0 \<or> ck_stop K (k + (n + 1))" using IH(3) by (auto simp: ac_simps)
      ultimately show ?thesis using th False IH(1) by auto
    qed
  qed
qed

end

end
