(* ===== verification/Tcmi_Strings.thy ===== *)
theory Tcmi_Strings
  imports Wire "HOL-Library.Monad_Syntax"
begin

text \<open>
  Copies of argument and environment vectors (\<^verbatim>\<open>tcmi_task_copy_strings\<close> of
  \<^verbatim>\<open>src/tcmi/task/tcmi_task.c\<close>): one allocated block holds the array of pointers, its NULL,
  and behind it the characters of all strings.

  A block is its address and its bytes. A source vector is the list of its strings, each
  without the terminating zero; its number of elements and its size are counted in unsigned
  32-bit integers.
\<close>

record mem_block =
  mb_addr :: u64
  mb_bytes :: "byte list"

definition mb_write :: "nat \<Rightarrow> byte list \<Rightarrow> mem_block \<Rightarrow> mem_block option" where
  "mb_write off bs b =
     (if off + length bs \<le> length (mb_bytes b) then Some (b\<lparr>mb_bytes := memcpy_at (mb_bytes b) off bs\<rparr>) else None)"

text \<open>The two loops: the first computes the sizes, the second copies.\<close>

fun strings_size :: "byte list list \<Rightarrow> u32 \<Rightarrow> u32 \<Rightarrow> u32 \<times> u32" where
  "strings_size [] src_len src_size = (src_len, src_size)"
| "strings_size (s # src) src_len src_size = strings_size src (src_len + 1) (src_size + of_nat (length s) + 1)"

fun strings_copy :: "byte list list \<Rightarrow> nat \<Rightarrow> nat \<Rightarrow> mem_block \<Rightarrow> mem_block option" where
  "strings_copy [] new_src src_data b = mb_write new_src (le_bytes 8 (0 :: u64)) b"
| "strings_copy (s # src) new_src src_data b = do {
     b \<leftarrow> mb_write src_data (s @ [0]) b;
     b \<leftarrow> mb_write new_src (le_bytes 8 (mb_addr b + of_nat src_data)) b;
     strings_copy src (new_src + 8) (src_data + length s + 1) b
   }"

text \<open>\<open>None\<close> is a write outside the block, \<open>Some None\<close> the error \<^verbatim>\<open>-EINVAL\<close>.\<close>

definition tcmi_task_copy_strings :: "(u64 \<Rightarrow> mem_block option) \<Rightarrow> byte list list \<Rightarrow> mem_block option option" where
  "tcmi_task_copy_strings kmalloc src =
     (let (src_len, src_size) = strings_size src 0 0;
          src_len = src_len + 1
      in case kmalloc (8 * ucast src_len + ucast src_size) of
           None \<Rightarrow> Some None
         | Some b \<Rightarrow> map_option Some (strings_copy src 0 (8 * unat src_len) b))"

subsection \<open>What execve reads\<close>

definition c_string :: "byte list \<Rightarrow> byte list" where
  "c_string bs = takeWhile (\<lambda>c. c \<noteq> 0) bs"

definition vector_ptr :: "mem_block \<Rightarrow> nat \<Rightarrow> u64" where
  "vector_ptr b i = le_word (take 8 (drop (8 * i) (mb_bytes b)))"

text \<open>The strings of the vector that starts at entry \<open>i\<close>, at most \<open>n\<close> of them.\<close>

fun vector_strings :: "nat \<Rightarrow> mem_block \<Rightarrow> nat \<Rightarrow> byte list list" where
  "vector_strings 0 b i = []"
| "vector_strings (Suc n) b i =
     (if vector_ptr b i = 0 then []
      else c_string (drop (unat (vector_ptr b i - mb_addr b)) (mb_bytes b)) # vector_strings n b (i + 1))"

definition strings_total :: "byte list list \<Rightarrow> nat" where
  "strings_total src = 8 * (length src + 1) + sum_list (map (\<lambda>s. length s + 1) src)"

lemma strings_size_eq:
  "strings_size src a b = (a + of_nat (length src), b + of_nat (sum_list (map (\<lambda>s. length s + 1) src)))"
  by (induction src arbitrary: a b) (simp_all add: algebra_simps)

text \<open>
  What one round of the copy leaves behind: a write at an offset outside an interval keeps
  the interval.
\<close>

lemma mb_write_ok:
  assumes "off + length bs \<le> length (mb_bytes b)"
  shows "\<exists>b'. mb_write off bs b = Some b' \<and> mb_addr b' = mb_addr b \<and> length (mb_bytes b') = length (mb_bytes b) \<and>
    take (length bs) (drop off (mb_bytes b')) = bs \<and>
    (\<forall>k n. k + n \<le> off \<or> off + length bs \<le> k \<longrightarrow> take n (drop k (mb_bytes b')) = take n (drop k (mb_bytes b)))"
proof -
  let ?m = "memcpy_at (mb_bytes b) off bs"
  have "take n (drop k ?m) = take n (drop k (mb_bytes b))" if "k + n \<le> off \<or> off + length bs \<le> k" for k n
    by (rule nth_equalityI) (use that assms in \<open>auto simp: memcpy_at_nth\<close>)
  moreover have "take (length bs) (drop off ?m) = bs"
    using assms by (simp add: memcpy_at_def)
  ultimately show ?thesis using assms by (simp add: mb_write_def)
qed

definition str_off :: "byte list list \<Rightarrow> nat \<Rightarrow> nat" where
  "str_off src i = sum_list (map (\<lambda>s. length s + 1) (take i src))"

lemma str_off_simps [simp]: "str_off src 0 = 0" "str_off (s # src) (Suc i) = length s + 1 + str_off src i"
  by (simp_all add: str_off_def)

definition copied :: "byte list list \<Rightarrow> nat \<Rightarrow> nat \<Rightarrow> mem_block \<Rightarrow> bool" where
  "copied src new_src src_data b \<longleftrightarrow>
     take 8 (drop (new_src + 8 * length src) (mb_bytes b)) = le_bytes 8 (0 :: u64) \<and>
     (\<forall>i < length src.
        take 8 (drop (new_src + 8 * i) (mb_bytes b)) = le_bytes 8 (mb_addr b + of_nat (src_data + str_off src i)) \<and>
        take (length (src ! i) + 1) (drop (src_data + str_off src i) (mb_bytes b)) = src ! i @ [0])"

lemma strings_copy_ok:
  assumes "new_src + 8 * (length src + 1) \<le> src_data" "src_data + str_off src (length src) \<le> length (mb_bytes b)"
  shows "\<exists>b'. strings_copy src new_src src_data b = Some b' \<and> mb_addr b' = mb_addr b \<and>
     length (mb_bytes b') = length (mb_bytes b) \<and> copied src new_src src_data b' \<and>
     (\<forall>k n. k + n \<le> new_src \<or> new_src + 8 * (length src + 1) \<le> k \<and> k + n \<le> src_data \<longrightarrow>
        take n (drop k (mb_bytes b')) = take n (drop k (mb_bytes b)))"
  using assms
proof (induction src arbitrary: new_src src_data b)
  case Nil
  then show ?case
    using mb_write_ok [of new_src "le_bytes 8 (0 :: u64)" b] by (auto simp: copied_def)
next
  case (Cons s src)
  obtain b1 where b1: "mb_write src_data (s @ [0]) b = Some b1" "mb_addr b1 = mb_addr b" "length (mb_bytes b1) = length (mb_bytes b)"
      "take (length s + 1) (drop src_data (mb_bytes b1)) = s @ [0]"
      "\<forall>k n. k + n \<le> src_data \<or> src_data + (length s + 1) \<le> k \<longrightarrow> take n (drop k (mb_bytes b1)) = take n (drop k (mb_bytes b))"
    using mb_write_ok [of src_data "s @ [0]" b] Cons.prems by auto
  obtain b2 where b2: "mb_write new_src (le_bytes 8 (mb_addr b + of_nat src_data)) b1 = Some b2" "mb_addr b2 = mb_addr b"
      "length (mb_bytes b2) = length (mb_bytes b)"
      "take 8 (drop new_src (mb_bytes b2)) = le_bytes 8 (mb_addr b + of_nat src_data)"
      "\<forall>k n. k + n \<le> new_src \<or> new_src + 8 \<le> k \<longrightarrow> take n (drop k (mb_bytes b2)) = take n (drop k (mb_bytes b1))"
    using mb_write_ok [of new_src "le_bytes 8 (mb_addr b + of_nat src_data)" b1] Cons.prems b1(2,3) by auto
  obtain b' where b': "strings_copy src (new_src + 8) (src_data + length s + 1) b2 = Some b'" "mb_addr b' = mb_addr b2"
      "length (mb_bytes b') = length (mb_bytes b2)" "copied src (new_src + 8) (src_data + length s + 1) b'"
      "\<forall>k n. k + n \<le> new_src + 8 \<or> new_src + 8 + 8 * (length src + 1) \<le> k \<and> k + n \<le> src_data + length s + 1 \<longrightarrow>
        take n (drop k (mb_bytes b')) = take n (drop k (mb_bytes b2))"
    using Cons.IH [of "new_src + 8" "src_data + length s + 1" b2] Cons.prems b2(3) by auto
  have "take (length s + 1) (drop src_data (mb_bytes b')) = s @ [0]"
    using b'(5) b2(5) b1(4) Cons.prems by auto
  moreover have "take 8 (drop new_src (mb_bytes b')) = le_bytes 8 (mb_addr b + of_nat src_data)"
    using b'(5) b2(4) by auto
  ultimately have "copied (s # src) new_src src_data b'"
    using b'(2,4) b2(2) by (auto simp: copied_def less_Suc_eq_0_disj algebra_simps)
  moreover have "take n (drop k (mb_bytes b')) = take n (drop k (mb_bytes b))"
    if "k + n \<le> new_src \<or> new_src + 8 * (length (s # src) + 1) \<le> k \<and> k + n \<le> src_data" for k n
    using that b1(5) b2(5) b'(5) Cons.prems by auto
  ultimately show ?case using b1(1,2) b2(1-3) b'(1-3) by auto
qed

lemma c_string_take:
  assumes "take (length s + 1) bs = s @ [0]" "0 \<notin> set s"
  shows "c_string bs = s"
proof -
  have "bs = s @ 0 # drop (length s + 1) bs" using assms(1) append_take_drop_id [of "length s + 1" bs] by simp
  then show ?thesis using assms(2) takeWhile_append2 [of s "\<lambda>c. c \<noteq> 0"] unfolding c_string_def by (metis (mono_tags, lifting) append.right_neutral takeWhile.simps(2))
qed

lemma unat_of_nat_small: "n < 2 ^ LENGTH('a) \<Longrightarrow> unat (of_nat n :: 'a :: len word) = n"
  by (simp add: unsigned_of_nat take_bit_nat_eq_self)

lemma unat_offset:
  fixes a :: u64
  assumes "a \<noteq> 0" "unat a + n < 2 ^ 64"
  shows "a + of_nat n \<noteq> 0" "unat (a + of_nat n - a) = n"
proof -
  have n: "unat (of_nat n :: u64) = n" using assms(2) by (simp add: unsigned_of_nat take_bit_nat_eq_self)
  then have "unat (a + of_nat n) = unat a + n" using assms(2) by (simp add: unat_add_small)
  then show "a + of_nat n \<noteq> 0" using assms(1) by (metis add_is_0 unat_ne_0_iff unsigned_0)
  show "unat (a + of_nat n - a) = n" using n by simp
qed

lemma vector_strings_copied:
  assumes c: "copied src 0 src_data b" and "\<forall>s \<in> set src. 0 \<notin> set s"
    and a: "mb_addr b \<noteq> 0" "unat (mb_addr b) + src_data + str_off src (length src) < 2 ^ 64"
  shows "n + i = length src + 1 \<Longrightarrow> vector_strings n b i = drop i src"
proof (induction n arbitrary: i)
  case 0
  then show ?case by simp
next
  case (Suc n)
  show ?case
  proof (cases "i = length src")
    case True
    have "vector_ptr b i = 0" using c True by (simp add: copied_def vector_ptr_def)
    then show ?thesis using True by simp
  next
    case False
    then have i: "i < length src" using Suc.prems by simp
    have "str_off src i \<le> str_off src (length src)"
      unfolding str_off_def using append_take_drop_id [of i src] by (metis le_add1 map_append sum_list_append take_all_iff le_refl)
    note o = unat_offset [OF a(1), of "src_data + str_off src i"]
    have p: "vector_ptr b i = mb_addr b + of_nat (src_data + str_off src i)"
      using c i by (simp add: copied_def vector_ptr_def)
    have "c_string (drop (src_data + str_off src i) (mb_bytes b)) = src ! i"
      by (rule c_string_take) (use c i assms(2) in \<open>auto simp: copied_def\<close>)
    then show ?thesis
      using Suc i o p a(2) \<open>str_off src i \<le> _\<close> by (simp add: Cons_nth_drop_Suc)
  qed
qed

definition demo_kmalloc :: "u64 \<Rightarrow> mem_block option" where
  "demo_kmalloc n = (if n < 4096 then Some \<lparr>mb_addr = 4096, mb_bytes = replicate (unat n) 7\<rparr> else None)"

subsection \<open>Properties\<close>

text \<open>
  C21. A copied argument or environment vector reads back as the original: when the block can
  be allocated and its size is below 4 GiB, no write leaves the block, and following the
  pointers of the copy up to its NULL gives exactly the strings of the source.
\<close>

theorem copy_strings_roundtrip:
  assumes kmalloc: "\<And>n b. kmalloc n = Some b \<Longrightarrow>
      length (mb_bytes b) = unat n \<and> mb_addr b \<noteq> 0 \<and> unat (mb_addr b) + unat n < 2 ^ 64"
    and mem: "kmalloc (of_nat (strings_total src)) = Some b0"
    and src: "\<forall>s \<in> set src. 0 \<notin> set s" "strings_total src < 2 ^ 32"
  shows "\<exists>b. tcmi_task_copy_strings kmalloc src = Some (Some b) \<and> vector_strings (length src + 1) b 0 = src"
proof -
  let ?n = "length src + 1"
  have sz: "8 * ?n + str_off src (length src) < 2 ^ 32" using src(2) by (simp add: strings_total_def str_off_def)
  have u: "unat (of_nat ?n :: u32) = ?n" "unat (of_nat (str_off src (length src)) :: u32) = str_off src (length src)"
    using sz by (intro unat_of_nat_small; simp)+
  have c: "ucast (of_nat ?n :: u32) = (of_nat ?n :: u64)"
      "ucast (of_nat (str_off src (length src)) :: u32) = (of_nat (str_off src (length src)) :: u64)"
    using u by (metis of_nat_unat_ucast)+
  have tot: "8 * ucast (of_nat ?n :: u32) + ucast (of_nat (str_off src (length src)) :: u32) = (of_nat (strings_total src) :: u64)"
    unfolding c by (simp add: strings_total_def str_off_def algebra_simps)
  have t: "unat (of_nat (strings_total src) :: u64) = strings_total src" "strings_total src = 8 * ?n + str_off src (length src)"
    by (rule unat_of_nat_small) (use src(2) in \<open>simp_all add: strings_total_def str_off_def\<close>)
  have len: "length (mb_bytes b0) = 8 * ?n + str_off src (length src)" "unat (mb_addr b0) + (8 * ?n + str_off src (length src)) < 2 ^ 64"
    using kmalloc [OF mem, unfolded t(1)] unfolding t(2) by auto
  obtain b where b: "strings_copy src 0 (8 * ?n) b0 = Some b" "mb_addr b = mb_addr b0" "copied src 0 (8 * ?n) b"
    using strings_copy_ok [of 0 src "8 * ?n" b0] len(1) by auto
  have "tcmi_task_copy_strings kmalloc src = Some (Some b)"
    using b(1) u(1) tot mem by (simp add: tcmi_task_copy_strings_def strings_size_eq str_off_def add.commute)
  moreover have "vector_strings ?n b 0 = src"
    using vector_strings_copied [OF b(3) src(1), of ?n 0] kmalloc [OF mem] b(2) len by simp
  ultimately show ?thesis by blast
qed

theorem copy_strings_roundtrip_witness:
  "\<exists>b. tcmi_task_copy_strings demo_kmalloc [[97, 98], [99]] = Some (Some b) \<and> vector_strings 3 b 0 = [[97, 98], [99]]"
proof -
  have "strings_total [[97, 98], [99]] = 29" by (simp add: strings_total_def)
  moreover have "length (mb_bytes b) = unat n \<and> mb_addr b \<noteq> 0 \<and> unat (mb_addr b) + unat n < 2 ^ 64" if "demo_kmalloc n = Some b" for n b
    using that by (auto simp: demo_kmalloc_def word_less_nat_alt split: if_splits)
  moreover have "demo_kmalloc 29 = Some \<lparr>mb_addr = 4096, mb_bytes = replicate 29 7\<rparr>" by (simp add: demo_kmalloc_def)
  ultimately show ?thesis
    using copy_strings_roundtrip [of demo_kmalloc "[[97, 98], [99]]"] by (simp add: numeral_3_eq_3)
qed

end
