(* ===== verification/Tcmi_Task.thy ===== *)
theory Tcmi_Task
  imports Tcmi_Comm Tcmi_Strings
begin

text \<open>
  Tasks under control of TCMI (\<^verbatim>\<open>src/tcmi/task/tcmi_task.c\<close>, \<^verbatim>\<open>tcmi_task.h\<close>,
  \<^verbatim>\<open>tcmi_method_wrapper.h\<close> and the process part of \<^verbatim>\<open>tcmi_taskhelper.h\<close>): the queue of methods a
  task has to run in migration mode, the queue of its messages, the attachment of tasks to
  the processes of the kernel.

  A node is one machine: its messages, method wrappers, tasks, migration managers and
  connections live at addresses, its processes are known by PID. Following a dangling
  address is a fault (\<open>None\<close>), as is sleeping forever.
\<close>

subsection \<open>Data\<close>

datatype tcmi_task_method_status_t =
  TCMI_TASK_KEEP_PUMPING | TCMI_TASK_MOVE_ME | TCMI_TASK_EXECVE_FAILED_KILL_ME | TCMI_TASK_KILL_ME
  | TCMI_TASK_LET_ME_GO | TCMI_TASK_REMOVE_AND_LET_ME_GO

datatype tcmi_method_t =
  Process_msg | Send_message | Emigrate_ppm_p | Migrateback_ppm_p | Emigrate_ppm_v | Migrateback_ppm_v
  | Emigrate_npm | Migrateback_npm | Exit | Execve

text \<open>What the data of a wrapper may be: an integer, or some other copied bytes.\<close>

datatype method_data = Int_data int | Raw_data "byte list"

record tcmi_method_wrapper =
  w_method :: tcmi_method_t
  w_data :: "method_data option"
  w_ref_count :: int

record tcmi_task =
  tk_local_pid :: i32
  tk_remote_pid :: i32
  tk_migman :: "nat option"
  tk_sock :: nat
  tk_method_queue :: "nat tcmi_queue"
  tk_msg_queue :: "nat tcmi_queue"
  tk_transactions :: "nat trans_table"
  tk_exit_code :: int
  tk_ref_count :: int
  tk_ckpt_pathname :: "byte list option"
  tk_argv :: "mem_block option"
  tk_envp :: "mem_block option"
  tk_execve_count :: nat
  tk_picked_up_flag :: int
  tk_peer_lost :: bool

datatype tcmi_migman_state_t =
  TCMI_MIGMAN_INIT | TCMI_MIGMAN_CONNECTED | TCMI_MIGMAN_SHUTTING_DOWN | TCMI_MIGMAN_SHUT_DOWN

record tcmi_migman =
  mg_tasks :: "nat tcmi_slotvec"
  mg_ccn_id :: u32
  mg_pen_id :: u32
  mg_peer_arch_type :: u32
  mg_mount_params :: "byte list"
  mg_manager_slot :: nat
  mg_ref_count :: int
  mg_msg_queue :: "nat tcmi_queue"
  mg_transactions :: "nat trans_table"
  mg_sock :: nat
  mg_state :: tcmi_migman_state_t
  mg_id :: u32

datatype tcmi_task_type = unresolved | shadow | shadow_detached | guest

text \<open>The part of a kernel process the modules work with; signals in the order they are dequeued.\<close>

record task_struct =
  ts_mig_mode_handler :: bool
  ts_tcmi_task :: "nat option"
  ts_task_type :: tcmi_task_type
  ts_signals :: "nat list"

record 's node = msg_state +
  nd_wrappers :: "nat \<rightharpoonup> tcmi_method_wrapper"
  nd_tasks :: "nat \<rightharpoonup> tcmi_task"
  nd_procs :: "i32 \<rightharpoonup> task_struct"
  nd_migmans :: "nat \<rightharpoonup> tcmi_migman"
  nd_man_slots :: "nat tcmi_slotvec"
  nd_socks :: "nat \<rightharpoonup> 's kkc_sock"
  nd_arch_refs :: int

definition SIGKILL :: nat where "SIGKILL = 9"
definition SIGUNUSED :: nat where "SIGUNUSED = 31"

definition task_upd :: "nat \<Rightarrow> (tcmi_task \<Rightarrow> tcmi_task) \<Rightarrow> 's node \<Rightarrow> 's node" where
  "task_upd a f n = n\<lparr>nd_tasks := (nd_tasks n)(a := map_option f (nd_tasks n a))\<rparr>"

definition force_sig :: "nat \<Rightarrow> i32 \<Rightarrow> 's node \<Rightarrow> 's node" where
  "force_sig sig pid n = n\<lparr>nd_procs := (nd_procs n)(pid := map_option (\<lambda>p. p\<lparr>ts_signals := ts_signals p @ [sig]\<rparr>) (nd_procs n pid))\<rparr>"

subsection \<open>Method wrappers\<close>

text \<open>\<open>mem\<close> is the address the allocator gives to the wrapper, \<open>vm\<close> whether its data gets memory.\<close>

definition tcmi_method_wrapper_new ::
  "nat option \<Rightarrow> bool \<Rightarrow> tcmi_method_t \<Rightarrow> method_data option \<Rightarrow> 's node \<Rightarrow> nat option \<times> 's node" where
  "tcmi_method_wrapper_new mem vm method data n =
     (case mem of
        None \<Rightarrow> (None, n)
      | Some a \<Rightarrow>
          (if data \<noteq> None \<and> \<not> vm then (None, n)
           else (Some a, n\<lparr>nd_wrappers := (nd_wrappers n)(a \<mapsto> \<lparr>w_method = method, w_data = data, w_ref_count = 1\<rparr>)\<rparr>)))"

definition tcmi_method_wrapper_get :: "nat option \<Rightarrow> 's node \<Rightarrow> 's node option" where
  "tcmi_method_wrapper_get self n =
     (case self of
        None \<Rightarrow> Some n
      | Some a \<Rightarrow> do { w \<leftarrow> nd_wrappers n a; Some (n\<lparr>nd_wrappers := (nd_wrappers n)(a \<mapsto> w\<lparr>w_ref_count := w_ref_count w + 1\<rparr>)\<rparr>) })"

definition tcmi_method_wrapper_put :: "nat option \<Rightarrow> 's node \<Rightarrow> 's node option" where
  "tcmi_method_wrapper_put self n =
     (case self of
        None \<Rightarrow> Some n
      | Some a \<Rightarrow> do {
          w \<leftarrow> nd_wrappers n a;
          Some (n\<lparr>nd_wrappers := (nd_wrappers n)(a :=
            (if w_ref_count w - 1 = 0 then None else Some (w\<lparr>w_ref_count := w_ref_count w - 1\<rparr>)))\<rparr>)
        })"

definition tcmi_method_wrapper_call ::
  "(tcmi_method_t \<Rightarrow> nat \<Rightarrow> nat \<Rightarrow> 's node \<Rightarrow> (tcmi_task_method_status_t \<times> 's node) option) \<Rightarrow> nat option \<Rightarrow> nat \<Rightarrow> 's node \<Rightarrow>
   (tcmi_task_method_status_t \<times> 's node) option" where
  "tcmi_method_wrapper_call methods self obj n =
     (case self of
        None \<Rightarrow> Some (TCMI_TASK_KEEP_PUMPING, n)
      | Some a \<Rightarrow> do { w \<leftarrow> nd_wrappers n a; methods (w_method w) obj a n })"

subsection \<open>The method queue\<close>

definition tcmi_task_add_wrapper :: "nat \<Rightarrow> nat \<Rightarrow> 's node \<Rightarrow> 's node option" where
  "tcmi_task_add_wrapper self wr n = do {
     t \<leftarrow> nd_tasks n self;
     q \<leftarrow> tcmi_queue_add wr (tk_method_queue t);
     Some (task_upd self (\<lambda>t. t\<lparr>tk_method_queue := q\<rparr>) n)
   }"

definition tcmi_task_submit_method ::
  "nat option \<Rightarrow> bool \<Rightarrow> nat \<Rightarrow> tcmi_method_t \<Rightarrow> method_data option \<Rightarrow> 's node \<Rightarrow> 's node option" where
  "tcmi_task_submit_method mem vm self method data n =
     (case tcmi_method_wrapper_new mem vm method data n of
        (None, n) \<Rightarrow> Some n
      | (Some wr, n) \<Rightarrow> tcmi_task_add_wrapper self wr n)"

fun flush_methods :: "nat list \<Rightarrow> 's node \<Rightarrow> 's node option" where
  "flush_methods [] n = Some n"
| "flush_methods (w # ws) n = do { n \<leftarrow> tcmi_method_wrapper_put (Some w) n; flush_methods ws n }"

definition tcmi_task_flush_and_submit_method ::
  "nat option \<Rightarrow> bool \<Rightarrow> nat \<Rightarrow> tcmi_method_t \<Rightarrow> method_data option \<Rightarrow> 's node \<Rightarrow> 's node option" where
  "tcmi_task_flush_and_submit_method mem vm self method data n =
     (case tcmi_method_wrapper_new mem vm method data n of
        (None, n) \<Rightarrow> Some n
      | (Some wr, n) \<Rightarrow> do {
          t \<leftarrow> nd_tasks n self;
          q \<leftarrow> tcmi_queue_lock (tk_method_queue t);
          n \<leftarrow> flush_methods (q_elems q) n;
          let q = tcmi_queue_add_nolock wr (q\<lparr>q_elems := []\<rparr>);
          Some (task_upd self (\<lambda>t. t\<lparr>tk_method_queue := tcmi_queue_unlock q\<rparr>) n)
        })"

text \<open>
  The method pump. \<open>methods\<close> runs a method of the task, \<open>do_signals\<close> handles the pending
  signals; the loop may run forever, since a method may submit itself again.
\<close>

partial_function (option) task_pump ::
  "(tcmi_method_t \<Rightarrow> nat \<Rightarrow> nat \<Rightarrow> 's node \<Rightarrow> (tcmi_task_method_status_t \<times> 's node) option) \<Rightarrow>
   (nat \<Rightarrow> 's node \<Rightarrow> (tcmi_task_method_status_t \<times> 's node) option) \<Rightarrow> nat \<Rightarrow> tcmi_task_method_status_t \<Rightarrow> 's node \<Rightarrow>
   (tcmi_task_method_status_t \<times> 's node) option" where
  "task_pump methods do_signals self res n =
     Option.bind (nd_tasks n self) (\<lambda>t.
       if tcmi_queue_empty (tk_method_queue t) \<or> res \<noteq> TCMI_TASK_KEEP_PUMPING then Some (res, n)
       else Option.bind (do_signals self n) (\<lambda>(res, n).
         if res \<noteq> TCMI_TASK_KEEP_PUMPING then Some (res, n)
         else Option.bind (nd_tasks n self) (\<lambda>t.
           Option.bind (tcmi_queue_remove (tk_method_queue t)) (\<lambda>(w, q).
           Option.bind (tcmi_method_wrapper_call methods w self (task_upd self (\<lambda>t. t\<lparr>tk_method_queue := q\<rparr>) n)) (\<lambda>(res, n).
           Option.bind (if res \<noteq> TCMI_TASK_EXECVE_FAILED_KILL_ME then tcmi_method_wrapper_put w n else Some n) (\<lambda>n.
             task_pump methods do_signals self res n))))))"

definition tcmi_task_process_methods ::
  "(tcmi_method_t \<Rightarrow> nat \<Rightarrow> nat \<Rightarrow> 's node \<Rightarrow> (tcmi_task_method_status_t \<times> 's node) option) \<Rightarrow>
   (nat \<Rightarrow> 's node \<Rightarrow> (tcmi_task_method_status_t \<times> 's node) option) \<Rightarrow> nat \<Rightarrow> 's node \<Rightarrow>
   (tcmi_task_method_status_t \<times> 's node) option" where
  "tcmi_task_process_methods methods do_signals self n = task_pump methods do_signals self TCMI_TASK_KEEP_PUMPING n"

subsection \<open>Messages of a task\<close>

definition task_msg_put :: "nat \<Rightarrow> nat option \<Rightarrow> 's node \<Rightarrow> 's node option" where
  "task_msg_put self m n = do {
     t \<leftarrow> nd_tasks n self;
     (msgs, tt) \<leftarrow> tcmi_msg_put m (ms_msgs n) (tk_transactions t);
     Some (task_upd self (\<lambda>t. t\<lparr>tk_transactions := tt\<rparr>) (n\<lparr>ms_msgs := msgs\<rparr>))
   }"

text \<open>\<open>signalled\<close> tells whether a signal ends the wait; \<open>process_msg\<close> is the method of the subclass, if any.\<close>

definition tcmi_task_process_msg ::
  "(nat \<Rightarrow> nat \<Rightarrow> 's node \<Rightarrow> (tcmi_task_method_status_t \<times> 's node) option) option \<Rightarrow> bool \<Rightarrow> nat \<Rightarrow> nat \<Rightarrow> 's node \<Rightarrow>
   (tcmi_task_method_status_t \<times> 's node) option" where
  "tcmi_task_process_msg process_msg signalled self wr n = do {
     w \<leftarrow> nd_wrappers n wr;
     t \<leftarrow> nd_tasks n self;
     let wait_for_messages = (case w_data w of Some (Int_data i) \<Rightarrow> i \<noteq> 0 | _ \<Rightarrow> True);
     (if \<not> wait_for_messages \<and> tcmi_queue_empty (tk_msg_queue t) then Some (TCMI_TASK_KEEP_PUMPING, n)
      else do {
        err \<leftarrow> tcmi_queue_wait_on_empty_interruptible signalled (tk_msg_queue t);
        (res, n) \<leftarrow>
          (if err < 0 then Some (TCMI_TASK_KEEP_PUMPING, n)
           else do {
             (m, q) \<leftarrow> tcmi_queue_remove (tk_msg_queue t);
             let n = task_upd self (\<lambda>t. t\<lparr>tk_msg_queue := q\<rparr>) n;
             (case m of
                None \<Rightarrow> Some (TCMI_TASK_KEEP_PUMPING, n)
              | Some a \<Rightarrow> do {
                  (res, n) \<leftarrow> (case process_msg of None \<Rightarrow> Some (TCMI_TASK_KEEP_PUMPING, n) | Some f \<Rightarrow> f self a n);
                  n \<leftarrow> task_msg_put self (Some a) n;
                  Some (res, n)
                })
           });
        (if res = TCMI_TASK_KEEP_PUMPING then do {
           n \<leftarrow> tcmi_method_wrapper_get (Some wr) n;
           n \<leftarrow> tcmi_task_add_wrapper self wr n;
           Some (res, n)
         }
         else Some (res, n))
      })
   }"

definition tcmi_task_send_anonymous_msg :: "bool \<Rightarrow> u64 \<Rightarrow> nat \<Rightarrow> nat \<Rightarrow> 's node \<Rightarrow> (int \<times> 's node) option" where
  "tcmi_task_send_anonymous_msg signalled jiffies self m n = do {
     t \<leftarrow> nd_tasks n self;
     msg \<leftarrow> ms_msgs n m;
     s \<leftarrow> nd_socks n (tk_sock t);
     (err, tt, s) \<leftarrow> tcmi_msg_send_anonymous signalled jiffies msg (tk_transactions t) s;
     Some (err, task_upd self (\<lambda>t. t\<lparr>tk_transactions := tt\<rparr>) (n\<lparr>nd_socks := (nd_socks n)(tk_sock t \<mapsto> s)\<rparr>))
   }"

text \<open>
  The bytes of a message structure that a wrapper copies: the identifier and the request
  number come first. The method reads the copy as if it were a pointer to the message.
\<close>

definition msg_struct_bytes :: "tcmi_msg \<Rightarrow> byte list" where
  "msg_struct_bytes m = le_bytes 4 (m_id m) @ le_bytes 4 (m_req m) @ le_bytes 4 (m_resp m)"

definition data_as_pointer :: "method_data option \<Rightarrow> nat option" where
  "data_as_pointer d = (case d of Some (Raw_data bs) \<Rightarrow> Some (unat (le_word (take 8 bs) :: u64)) | _ \<Rightarrow> None)"

definition tcmi_task_send_message ::
  "nat option \<Rightarrow> bool \<Rightarrow> bool \<Rightarrow> u64 \<Rightarrow> nat \<Rightarrow> nat \<Rightarrow> 's node \<Rightarrow> (tcmi_task_method_status_t \<times> 's node) option" where
  "tcmi_task_send_message mem vm signalled jiffies self wr n = do {
     w \<leftarrow> nd_wrappers n wr;
     resp \<leftarrow> data_as_pointer (w_data w);
     (send_res, n) \<leftarrow> tcmi_task_send_anonymous_msg signalled jiffies self resp n;
     n \<leftarrow> (if send_res = - ERESTARTSYS then do {
         m \<leftarrow> ms_msgs n resp;
         let n = n\<lparr>ms_msgs := (ms_msgs n)(resp \<mapsto> tcmi_msg_get m)\<rparr>;
         tcmi_task_submit_method mem vm self Send_message (Some (Raw_data (msg_struct_bytes (tcmi_msg_get m)))) n
       }
       else Some n);
     n \<leftarrow> task_msg_put self (Some resp) n;
     Some (TCMI_TASK_KEEP_PUMPING, n)
   }"

subsection \<open>Execution of a checkpoint image\<close>

definition tcmi_task_release_execve_context :: "tcmi_task \<Rightarrow> tcmi_task" where
  "tcmi_task_release_execve_context self = self\<lparr>tk_ckpt_pathname := None, tk_argv := None, tk_envp := None\<rparr>"

definition tcmi_task_prepare_execve ::
  "(u64 \<Rightarrow> mem_block option) \<Rightarrow> (u64 \<Rightarrow> bool) \<Rightarrow> byte list \<Rightarrow> byte list list \<Rightarrow> byte list list \<Rightarrow> tcmi_task \<Rightarrow> (int \<times> tcmi_task) option" where
  "tcmi_task_prepare_execve kmalloc kmalloc_name file argv envp self =
     (let self = tcmi_task_release_execve_context self
      in if \<not> kmalloc_name (of_nat (length file) + 1) then Some (- ENOEXEC, self)
         else do {
           a \<leftarrow> tcmi_task_copy_strings kmalloc argv;
           (case a of
              None \<Rightarrow> Some (- ENOEXEC, self)
            | Some a \<Rightarrow> do {
                e \<leftarrow> tcmi_task_copy_strings kmalloc envp;
                (case e of
                   None \<Rightarrow> Some (- ENOEXEC, self)
                 | Some e \<Rightarrow> Some (0, self\<lparr>tk_ckpt_pathname := Some file, tk_argv := Some a, tk_envp := Some e\<rparr>))
              })
         })"

definition tcmi_taskhelper_restart ::
  "(u64 \<Rightarrow> mem_block option) \<Rightarrow> (u64 \<Rightarrow> bool) \<Rightarrow> nat option \<Rightarrow> nat \<Rightarrow> byte list \<Rightarrow> 's node \<Rightarrow> (int \<times> 's node) option" where
  "tcmi_taskhelper_restart kmalloc kmalloc_name mem t_task ckpt_name n = do {
     t \<leftarrow> nd_tasks n t_task;
     (err, t) \<leftarrow> tcmi_task_prepare_execve kmalloc kmalloc_name ckpt_name [] [] t;
     let n = task_upd t_task (\<lambda>_. t) n;
     (if err < 0 then Some (- EINVAL, n)
      else do { n \<leftarrow> tcmi_task_flush_and_submit_method mem True t_task Execve None n; Some (0, n) })
   }"

text \<open>\<open>execve\<close> is the result of the system call, \<open>None\<close> when it succeeds and does not return.\<close>

definition tcmi_task_execve ::
  "(nat \<Rightarrow> 's node \<Rightarrow> (int \<times> 's node) option) option \<Rightarrow>
   (byte list option \<Rightarrow> mem_block option \<Rightarrow> mem_block option \<Rightarrow> int option) \<Rightarrow>
   nat \<Rightarrow> nat \<Rightarrow> 's node \<Rightarrow> (tcmi_task_method_status_t \<times> 's node) option" where
  "tcmi_task_execve ops_execve execve self wr n = do {
     n \<leftarrow> tcmi_method_wrapper_put (Some wr) n;
     (err, n) \<leftarrow> (case ops_execve of None \<Rightarrow> Some (0, n) | Some f \<Rightarrow> f self n);
     (if err < 0 then Some (TCMI_TASK_EXECVE_FAILED_KILL_ME, n)
      else do {
        t \<leftarrow> nd_tasks n self;
        err \<leftarrow> execve (tk_ckpt_pathname t) (tk_argv t) (tk_envp t);
        Some (TCMI_TASK_EXECVE_FAILED_KILL_ME, n)
      })
   }"

definition tcmi_task_exit ::
  "(nat \<Rightarrow> int \<Rightarrow> 's node \<Rightarrow> (tcmi_task_method_status_t \<times> 's node) option) option \<Rightarrow> nat \<Rightarrow> nat \<Rightarrow> 's node \<Rightarrow>
   (tcmi_task_method_status_t \<times> 's node) option" where
  "tcmi_task_exit ops_exit self wr n = do {
     w \<leftarrow> nd_wrappers n wr;
     let code = (case w_data w of Some (Int_data c) \<Rightarrow> c | _ \<Rightarrow> 0);
     (case ops_exit of None \<Rightarrow> Some (TCMI_TASK_REMOVE_AND_LET_ME_GO, n) | Some f \<Rightarrow> f self code n)
   }"

end
