(* ===== verification/Tcmi_Migman.thy ===== *)
theory Tcmi_Migman
  imports Tcmi_Task
begin

text \<open>
  Migration managers (\<^verbatim>\<open>src/tcmi/manager/tcmi_migman.c\<close>, \<^verbatim>\<open>tcmi_migman.h\<close>), the life cycle of tasks,
  which refer to their manager, and the binding of tasks to processes
  (\<^verbatim>\<open>src/tcmi/task/tcmi_taskhelper.h\<close>).

  Entries of the control file system are not part of the state; whether they can be created
  is a parameter. The kernel threads of a manager are stopped synchronously and leave no
  state behind.
\<close>

definition migman_upd :: "nat \<Rightarrow> (tcmi_migman \<Rightarrow> tcmi_migman) \<Rightarrow> 's node \<Rightarrow> 's node" where
  "migman_upd a f n = n\<lparr>nd_migmans := (nd_migmans n)(a := map_option f (nd_migmans n a))\<rparr>"

definition node_sock_get :: "nat \<Rightarrow> 's node \<Rightarrow> 's node option" where
  "node_sock_get a n = do { s \<leftarrow> nd_socks n a; Some (n\<lparr>nd_socks := (nd_socks n)(a \<mapsto> kkc_sock_get s)\<rparr>) }"

definition node_sock_put :: "nat \<Rightarrow> 's node \<Rightarrow> 's node option" where
  "node_sock_put a n = do {
     s \<leftarrow> nd_socks n a;
     let (s, refs) = kkc_sock_put s (nd_arch_refs n);
     Some (n\<lparr>nd_socks := (nd_socks n)(a := s), nd_arch_refs := refs\<rparr>)
   }"

subsection \<open>State and references of a manager\<close>

definition tcmi_migman_get :: "nat option \<Rightarrow> 's node \<Rightarrow> 's node option" where
  "tcmi_migman_get self n =
     (case self of
        None \<Rightarrow> Some n
      | Some g \<Rightarrow> do { m \<leftarrow> nd_migmans n g; Some (migman_upd g (\<lambda>m. m\<lparr>mg_ref_count := mg_ref_count m + 1\<rparr>) n) })"

definition tcmi_migman_change_state ::
  "tcmi_migman_state_t \<Rightarrow> tcmi_migman_state_t \<Rightarrow> tcmi_migman \<Rightarrow> bool \<times> tcmi_migman" where
  "tcmi_migman_change_state old_state state self =
     (mg_state self = old_state, if mg_state self = old_state then self\<lparr>mg_state := state\<rparr> else self)"

definition tcmi_migman_set_state :: "tcmi_migman_state_t \<Rightarrow> tcmi_migman \<Rightarrow> tcmi_migman_state_t \<times> tcmi_migman" where
  "tcmi_migman_set_state state self = (mg_state self, self\<lparr>mg_state := state\<rparr>)"

definition tcmi_slot_node_unhashed :: "nat \<Rightarrow> nat tcmi_slotvec \<Rightarrow> bool" where
  "tcmi_slot_node_unhashed a sv \<longleftrightarrow> list_all (\<lambda>s. a \<notin> set (slot_nodes s)) (sv_slots sv)"

definition tcmi_migman_unhash :: "nat \<Rightarrow> 's node \<Rightarrow> 's node option" where
  "tcmi_migman_unhash self n = do {
     m \<leftarrow> nd_migmans n self;
     (if tcmi_slot_node_unhashed self (nd_man_slots n) then Some n
      else do {
        sv \<leftarrow> tcmi_slot_lock (nd_man_slots n);
        let (object, sv) = tcmi_slot_remove_first (Some self) (mg_manager_slot m) sv;
        Some (n\<lparr>nd_man_slots := tcmi_slot_unlock sv\<rparr>)
      })
   }"

text \<open>Releases the two references to the connection: of the receiving component and of the socket entry.\<close>

definition tcmi_migman_free :: "(nat \<Rightarrow> 's node \<Rightarrow> 's node option) option \<Rightarrow> nat \<Rightarrow> 's node \<Rightarrow> 's node option" where
  "tcmi_migman_free ops_free self n = do {
     m \<leftarrow> nd_migmans n self;
     n \<leftarrow> node_sock_put (mg_sock m) n;
     n \<leftarrow> node_sock_put (mg_sock m) n;
     n \<leftarrow> tcmi_migman_unhash self n;
     (case ops_free of None \<Rightarrow> Some n | Some f \<Rightarrow> f self n)
   }"

definition tcmi_migman_put ::
  "(nat \<Rightarrow> 's node \<Rightarrow> 's node option) option \<Rightarrow> nat option \<Rightarrow> 's node \<Rightarrow> (int \<times> 's node) option" where
  "tcmi_migman_put ops_free self n =
     (case self of
        None \<Rightarrow> Some (0, n)
      | Some g \<Rightarrow> do {
          m \<leftarrow> nd_migmans n g;
          let n = migman_upd g (\<lambda>m. m\<lparr>mg_ref_count := mg_ref_count m - 1\<rparr>) n;
          (if mg_ref_count m - 1 = 0 then do {
             n \<leftarrow> tcmi_migman_free ops_free g n;
             Some (1, n\<lparr>nd_migmans := (nd_migmans n)(g := None)\<rparr>)
           }
           else Some (0, n))
        })"

subsection \<open>Tasks of a manager\<close>

definition tcmi_task_hash :: "i32 \<Rightarrow> u32 \<Rightarrow> u32" where
  "tcmi_task_hash local_pid hashmask = local_pid AND hashmask"

definition tcmi_migman_add_task :: "nat \<Rightarrow> nat \<Rightarrow> i32 \<Rightarrow> 's node \<Rightarrow> (int \<times> 's node) option" where
  "tcmi_migman_add_task self task local_pid n = do {
     m \<leftarrow> nd_migmans n self;
     (slot, sv) \<leftarrow> tcmi_slotvec_insert_at (mg_tasks m) (tcmi_task_hash local_pid (sv_hashmsk (mg_tasks m))) task;
     (if slot = None then Some (- EINVAL, n)
      else Some (0, migman_upd self (\<lambda>m. m\<lparr>mg_tasks := sv\<rparr>) n))
   }"

definition tcmi_migman_remove_task :: "nat \<Rightarrow> nat \<Rightarrow> i32 \<Rightarrow> 's node \<Rightarrow> (int \<times> 's node) option" where
  "tcmi_migman_remove_task self task local_pid n = do {
     m \<leftarrow> nd_migmans n self;
     (case tcmi_slotvec_at (mg_tasks m) (tcmi_task_hash local_pid (sv_hashmsk (mg_tasks m))) of
        None \<Rightarrow> Some (- EINVAL, n)
      | Some slot \<Rightarrow> do {
          sv \<leftarrow> tcmi_slot_remove (Some slot) task (mg_tasks m);
          Some (0, migman_upd self (\<lambda>m. m\<lparr>mg_tasks := sv\<rparr>) n)
        })
   }"

text \<open>
  What the environment decides when a task is initialised: the memory for the transaction
  vector and whether the three control file entries can be created.
\<close>

record init_env =
  ie_vec :: "nat tcmi_slotvec option"
  ie_slots_ok :: "u32 \<Rightarrow> bool"
  ie_d_task :: bool
  ie_s_migman :: bool
  ie_f_remote_pid :: bool

abbreviation (input) TRANSACTION_ORDER :: nat where "TRANSACTION_ORDER \<equiv> 8"

text \<open>\<open>mem\<close> is the memory of the task before its initialisation, \<open>a\<close> its address.\<close>

definition tcmi_task_init ::
  "(nat \<Rightarrow> 's node \<Rightarrow> 's node option) option \<Rightarrow> init_env \<Rightarrow> tcmi_task \<Rightarrow> nat \<Rightarrow> i32 \<Rightarrow> nat option \<Rightarrow> nat \<Rightarrow> bool \<Rightarrow> 's node \<Rightarrow>
   (int \<times> 's node) option" where
  "tcmi_task_init ops_free env mem a local_pid migman sock ops n = do {
     n \<leftarrow> tcmi_migman_get migman n;
     n \<leftarrow> node_sock_get sock n;
     let release = (\<lambda>err n. do { n \<leftarrow> node_sock_put sock n; (_, n) \<leftarrow> tcmi_migman_put ops_free migman n; Some (err, n) });
     (if \<not> ops then release (- EINVAL) n
      else
        (case tcmi_slotvec_hnew (ie_vec env) (ie_slots_ok env) TRANSACTION_ORDER of
           None \<Rightarrow> release (- ENOMEM) n
         | Some vec \<Rightarrow>
             (if \<not> (ie_d_task env \<and> ie_s_migman env \<and> ie_f_remote_pid env) then release (- EINVAL) n
              else do {
                (err, n) \<leftarrow> (case migman of None \<Rightarrow> Some (0, n) | Some g \<Rightarrow> tcmi_migman_add_task g a local_pid n);
                (if err \<noteq> 0 then release (- EINVAL) n
                 else Some (0, n\<lparr>nd_tasks := (nd_tasks n)(a \<mapsto> mem\<lparr>
                   tk_local_pid := local_pid, tk_remote_pid := 0, tk_migman := migman, tk_sock := sock,
                   tk_method_queue := tcmi_queue_init (tk_method_queue mem), tk_msg_queue := tcmi_queue_init (tk_msg_queue mem),
                   tk_transactions := \<lparr>tt_vec = vec, tt_heap = Map.empty\<rparr>, tk_exit_code := 0, tk_ref_count := 1,
                   tk_ckpt_pathname := None, tk_argv := None, tk_envp := None, tk_execve_count := 0, tk_picked_up_flag := 0,
                   tk_peer_lost := False\<rparr>)\<rparr>))
              })))
   }"

definition tcmi_task_get :: "nat option \<Rightarrow> 's node \<Rightarrow> 's node option" where
  "tcmi_task_get self n =
     (case self of
        None \<Rightarrow> Some n
      | Some a \<Rightarrow> do { t \<leftarrow> nd_tasks n a; Some (task_upd a (\<lambda>t. t\<lparr>tk_ref_count := tk_ref_count t + 1\<rparr>) n) })"

text \<open>
  The queued messages are released after the transaction vector: when that is gone, the
  release of a message that still has a transaction touches freed memory.
\<close>

fun drain_messages :: "bool \<Rightarrow> nat \<Rightarrow> nat list \<Rightarrow> 's node \<Rightarrow> 's node option" where
  "drain_messages vec_alive self [] n = Some n"
| "drain_messages vec_alive self (a # as) n = do {
     m \<leftarrow> ms_msgs n a;
     (if \<not> vec_alive \<and> m_ref_count m - 1 = 0 \<and> m_transaction m \<noteq> None then None
      else do { n \<leftarrow> task_msg_put self (Some a) n; drain_messages vec_alive self as n })
   }"

definition tcmi_task_put ::
  "(nat \<Rightarrow> 's node \<Rightarrow> 's node option) option \<Rightarrow> nat option \<Rightarrow> 's node \<Rightarrow> 's node option" where
  "tcmi_task_put ops_free self n =
     (case self of
        None \<Rightarrow> Some n
      | Some a \<Rightarrow> do {
          t \<leftarrow> nd_tasks n a;
          let n = task_upd a (\<lambda>t. t\<lparr>tk_ref_count := tk_ref_count t - 1\<rparr>) n;
          (if tk_ref_count t - 1 \<noteq> 0 then Some n
           else do {
             n \<leftarrow> node_sock_put (tk_sock t) n;
             let vec_alive = (tcmi_slotvec_put (tt_vec (tk_transactions t)) \<noteq> None);
             n \<leftarrow> drain_messages vec_alive a (q_elems (tk_msg_queue t)) n;
             n \<leftarrow> flush_methods (q_elems (tk_method_queue t)) n;
             g \<leftarrow> tk_migman t;
             (_, n) \<leftarrow> tcmi_migman_remove_task g a (tk_local_pid t) n;
             (_, n) \<leftarrow> tcmi_migman_put ops_free (Some g) n;
             Some (n\<lparr>nd_tasks := (nd_tasks n)(a := None)\<rparr>)
           })
        })"

subsection \<open>Tasks and processes\<close>

definition tcmi_taskhelper_find_by_pid :: "i32 \<Rightarrow> 's node \<Rightarrow> (nat option \<times> 's node) option" where
  "tcmi_taskhelper_find_by_pid pid n =
     (case nd_procs n pid of
        None \<Rightarrow> Some (None, n)
      | Some p \<Rightarrow>
          (if \<not> (ts_mig_mode_handler p \<and> ts_tcmi_task p \<noteq> None) then Some (None, n)
           else do { n \<leftarrow> tcmi_task_get (ts_tcmi_task p) n; Some (ts_tcmi_task p, n) }))"

definition tcmi_taskhelper_enter_mig_mode :: "nat \<Rightarrow> 's node \<Rightarrow> 's node option" where
  "tcmi_taskhelper_enter_mig_mode t_task n = do {
     t \<leftarrow> nd_tasks n t_task;
     (case nd_procs n (tk_local_pid t) of None \<Rightarrow> Some n | Some _ \<Rightarrow> Some (force_sig SIGUNUSED (tk_local_pid t) n))
   }"

definition tcmi_taskhelper_notify_by_pid ::
  "(nat \<Rightarrow> 's node \<Rightarrow> 's node option) option \<Rightarrow> nat option \<Rightarrow> bool \<Rightarrow> i32 \<Rightarrow> tcmi_method_t \<Rightarrow> method_data option \<Rightarrow> int \<Rightarrow> 's node \<Rightarrow>
   (int \<times> 's node) option" where
  "tcmi_taskhelper_notify_by_pid ops_free mem vm pid method data priority n = do {
     (t_task, n) \<leftarrow> tcmi_taskhelper_find_by_pid pid n;
     (case t_task of
        None \<Rightarrow> Some (- EINVAL, n)
      | Some t \<Rightarrow> do {
          n \<leftarrow> (if priority > 0 then tcmi_task_flush_and_submit_method mem vm t method data n
                else tcmi_task_submit_method mem vm t method data n);
          n \<leftarrow> tcmi_taskhelper_enter_mig_mode t n;
          n \<leftarrow> tcmi_task_put ops_free (Some t) n;
          Some (0, n)
        })
   }"

text \<open>\<open>handler\<close> is whether the caller passes a handler, \<open>task_type\<close> what the task says it is.\<close>

definition tcmi_taskhelper_attach_exclusive ::
  "tcmi_task_type \<Rightarrow> i32 \<Rightarrow> nat \<Rightarrow> bool \<Rightarrow> 's node \<Rightarrow> (int \<times> 's node) option" where
  "tcmi_taskhelper_attach_exclusive task_type l_task t_task handler n = do {
     p \<leftarrow> nd_procs n l_task;
     (if ts_mig_mode_handler p \<or> ts_tcmi_task p \<noteq> None then Some (- EINVAL, n)
      else do {
        n \<leftarrow> tcmi_task_get (Some t_task) n;
        Some (0, n\<lparr>nd_procs := (nd_procs n)(l_task \<mapsto> p\<lparr>ts_mig_mode_handler := handler, ts_tcmi_task := Some t_task, ts_task_type := task_type\<rparr>)\<rparr>)
      })
   }"

definition tcmi_taskhelper_attach :: "tcmi_task_type \<Rightarrow> nat \<Rightarrow> bool \<Rightarrow> 's node \<Rightarrow> (int \<times> 's node) option" where
  "tcmi_taskhelper_attach task_type t_task handler n = do {
     t \<leftarrow> nd_tasks n t_task;
     (case nd_procs n (tk_local_pid t) of
        None \<Rightarrow> Some (- ESRCH, n)
      | Some p \<Rightarrow>
          (if ts_mig_mode_handler p \<or> ts_tcmi_task p \<noteq> None then Some (- EINVAL, n)
           else do {
             n \<leftarrow> tcmi_task_get (Some t_task) n;
             Some (0, n\<lparr>nd_procs := (nd_procs n)(tk_local_pid t \<mapsto>
               p\<lparr>ts_mig_mode_handler := handler, ts_tcmi_task := Some t_task, ts_task_type := task_type\<rparr>)\<rparr>)
           }))
   }"

text \<open>The task found in the process, to be released by the caller.\<close>

definition tcmi_taskhelper_detach_nolock :: "task_struct \<Rightarrow> nat option \<times> task_struct" where
  "tcmi_taskhelper_detach_nolock l_task =
     (ts_tcmi_task l_task,
      l_task\<lparr>ts_tcmi_task := None, ts_mig_mode_handler := False,
        ts_task_type := (if ts_task_type l_task = shadow then shadow_detached else ts_task_type l_task)\<rparr>)"

definition tcmi_taskhelper_detach_by_pid :: "i32 \<Rightarrow> 's node \<Rightarrow> nat option \<times> 's node" where
  "tcmi_taskhelper_detach_by_pid pid n =
     (case nd_procs n pid of
        None \<Rightarrow> (None, n)
      | Some p \<Rightarrow> (let (t, p) = tcmi_taskhelper_detach_nolock p in (t, n\<lparr>nd_procs := (nd_procs n)(pid \<mapsto> p)\<rparr>)))"

definition tcmi_taskhelper_detach :: "i32 \<Rightarrow> 's node \<Rightarrow> (nat option \<times> 's node) option" where
  "tcmi_taskhelper_detach current n = do {
     p \<leftarrow> nd_procs n current;
     let (t, p) = tcmi_taskhelper_detach_nolock p;
     Some (t, n\<lparr>nd_procs := (nd_procs n)(current \<mapsto> p)\<rparr>)
   }"

definition tcmi_task_pick_up :: "tcmi_task \<Rightarrow> tcmi_task" where
  "tcmi_task_pick_up self = self\<lparr>tk_picked_up_flag := 1\<rparr>"

definition tcmi_task_picked_up :: "tcmi_task \<Rightarrow> bool" where
  "tcmi_task_picked_up self \<longleftrightarrow> tk_picked_up_flag self > 0"

definition tcmi_taskhelper_sanity_check :: "i32 \<Rightarrow> 's node \<Rightarrow> (nat option \<times> 's node) option" where
  "tcmi_taskhelper_sanity_check current n = do {
     p \<leftarrow> nd_procs n current;
     (case ts_tcmi_task p of
        None \<Rightarrow> Some (None, n)
      | Some a \<Rightarrow> do {
          t \<leftarrow> nd_tasks n a;
          Some (Some a, if \<not> tcmi_task_picked_up t then task_upd a tcmi_task_pick_up n else n)
        })
   }"

text \<open>\<open>left\<close> is what the wait for the completion returns: the remaining time, zero when it ran out.\<close>

definition tcmi_taskhelper_wait_for_pick_up_timeout ::
  "(nat \<Rightarrow> 's node \<Rightarrow> 's node option) option \<Rightarrow> u64 \<Rightarrow> nat \<Rightarrow> 's node \<Rightarrow> (int \<times> 's node) option" where
  "tcmi_taskhelper_wait_for_pick_up_timeout ops_free left t_task n = do {
     t \<leftarrow> nd_tasks n t_task;
     (if left \<noteq> 0 then Some (0, n)
      else
        (case nd_procs n (tk_local_pid t) of
           None \<Rightarrow> Some (- ESRCH, n)
         | Some p \<Rightarrow>
             (if ts_tcmi_task p \<noteq> Some t_task then None
              else if \<not> tcmi_task_picked_up t then do {
                n \<leftarrow> tcmi_task_put ops_free (Some t_task)
                   (n\<lparr>nd_procs := (nd_procs n)(tk_local_pid t \<mapsto> p\<lparr>ts_mig_mode_handler := False, ts_tcmi_task := None\<rparr>)\<rparr>);
                Some (- EINVAL, n)
              }
              else Some (0, n))))
   }"

definition tcmi_task_signal_peer_lost :: "nat \<Rightarrow> 's node \<Rightarrow> 's node option" where
  "tcmi_task_signal_peer_lost self n = do {
     t \<leftarrow> nd_tasks n self;
     p \<leftarrow> nd_procs n (tk_local_pid t);
     Some (force_sig SIGKILL (tk_local_pid t) (task_upd self (\<lambda>t. t\<lparr>tk_peer_lost := True\<rparr>) n))
   }"

definition tcmi_task_check_peer_lost :: "nat \<Rightarrow> int \<Rightarrow> 's node \<Rightarrow> (int \<times> 's node) option" where
  "tcmi_task_check_peer_lost self err n =
     (if err = - EPIPE then do { n \<leftarrow> tcmi_task_signal_peer_lost self n; Some (err, n) } else Some (err, n))"

definition tcmi_task_do_signal ::
  "(nat \<Rightarrow> nat \<Rightarrow> 's node \<Rightarrow> (tcmi_task_method_status_t \<times> 's node) option) option \<Rightarrow> nat \<Rightarrow> nat \<Rightarrow> 's node \<Rightarrow>
   (tcmi_task_method_status_t \<times> 's node) option" where
  "tcmi_task_do_signal ops_do_signal self signr n = do {
     t \<leftarrow> nd_tasks n self;
     (if tk_peer_lost t \<and> signr = SIGKILL then Some (TCMI_TASK_KILL_ME, n)
      else (case ops_do_signal of None \<Rightarrow> Some (TCMI_TASK_KEEP_PUMPING, n) | Some f \<Rightarrow> f self signr n))
   }"

partial_function (option) dequeue_signals ::
  "(nat \<Rightarrow> nat \<Rightarrow> 's node \<Rightarrow> (tcmi_task_method_status_t \<times> 's node) option) option \<Rightarrow> i32 \<Rightarrow> nat \<Rightarrow> 's node \<Rightarrow>
   (tcmi_task_method_status_t \<times> 's node) option" where
  "dequeue_signals ops_do_signal current t_task n =
     Option.bind (nd_procs n current) (\<lambda>p.
       case ts_signals p of
         [] \<Rightarrow> Some (TCMI_TASK_KEEP_PUMPING, n)
       | signr # sigs \<Rightarrow>
           (let n = n\<lparr>nd_procs := (nd_procs n)(current \<mapsto> p\<lparr>ts_signals := sigs\<rparr>)\<rparr> in
            if signr = SIGUNUSED then dequeue_signals ops_do_signal current t_task n
            else Option.bind (tcmi_task_do_signal ops_do_signal t_task signr n) (\<lambda>(res, n).
              if res = TCMI_TASK_KEEP_PUMPING then dequeue_signals ops_do_signal current t_task n else Some (res, n))))"

definition tcmi_taskhelper_do_signals ::
  "(nat \<Rightarrow> nat \<Rightarrow> 's node \<Rightarrow> (tcmi_task_method_status_t \<times> 's node) option) option \<Rightarrow> i32 \<Rightarrow> nat \<Rightarrow> 's node \<Rightarrow>
   (tcmi_task_method_status_t \<times> 's node) option" where
  "tcmi_taskhelper_do_signals ops_do_signal current t_task n = dequeue_signals ops_do_signal current t_task n"

subsection \<open>Delivery of messages\<close>

definition tcmi_task_migman_id :: "tcmi_task \<Rightarrow> 's node \<Rightarrow> u32 option" where
  "tcmi_task_migman_id self n = (case tk_migman self of None \<Rightarrow> Some (- 1) | Some g \<Rightarrow> map_option mg_id (nd_migmans n g))"

definition msg_procmsg :: "tcmi_msg \<Rightarrow> tcmi_procmsg option" where
  "msg_procmsg m = (case m_body m of Procmsg p \<Rightarrow> Some p | _ \<Rightarrow> None)"

definition tcmi_task_deliver_msg :: "nat option \<Rightarrow> bool \<Rightarrow> nat \<Rightarrow> nat \<Rightarrow> 's node \<Rightarrow> (int \<times> 's node) option" where
  "tcmi_task_deliver_msg mem vm self m n = do {
     t \<leftarrow> nd_tasks n self;
     (res, msgs, q, tt) \<leftarrow> tcmi_msg_deliver m (ms_msgs n) (tk_msg_queue t) (tk_transactions t);
     let n = task_upd self (\<lambda>t. t\<lparr>tk_msg_queue := q, tk_transactions := tt\<rparr>) (n\<lparr>ms_msgs := msgs\<rparr>);
     (if res \<noteq> 0 then Some (res, n)
      else do {
        msg \<leftarrow> ms_msgs n m;
        (if TCMI_MSG_GROUP (m_id msg) \<noteq> TCMI_MSG_GROUP_PROC then Some (0, n)
         else do {
           p \<leftarrow> msg_procmsg msg;
           (if pm_enforce_migmode p = 0 then Some (0, n)
            else do {
              n \<leftarrow> (if tcmi_queue_empty (tk_method_queue t)
                   then tcmi_task_submit_method mem vm self Process_msg (Some (Int_data 0)) n else Some n);
              n \<leftarrow> tcmi_taskhelper_enter_mig_mode self n;
              Some (0, n)
            })
         })
      })
   }"

definition tcmi_migman_deliver_msg ::
  "(nat \<Rightarrow> 's node \<Rightarrow> 's node option) option \<Rightarrow> nat option \<Rightarrow> bool \<Rightarrow> nat \<Rightarrow> nat \<Rightarrow> 's node \<Rightarrow> (int \<times> 's node) option" where
  "tcmi_migman_deliver_msg ops_free mem vm self m n = do {
     msg \<leftarrow> ms_msgs n m;
     g \<leftarrow> nd_migmans n self;
     (if TCMI_MSG_GROUP (m_id msg) = TCMI_MSG_GROUP_PROC then do {
        p \<leftarrow> msg_procmsg msg;
        (task, n) \<leftarrow> tcmi_taskhelper_find_by_pid (pm_dst_pid p) n;
        (case task of
           None \<Rightarrow> Some (- EINVAL, n)
         | Some t \<Rightarrow> do {
             tk \<leftarrow> nd_tasks n t;
             i \<leftarrow> tcmi_task_migman_id tk n;
             (if i \<noteq> mg_id g then do { n \<leftarrow> tcmi_task_put ops_free (Some t) n; Some (- EINVAL, n) }
              else do {
                (err, n) \<leftarrow> tcmi_task_deliver_msg mem vm t m n;
                n \<leftarrow> tcmi_task_put ops_free (Some t) n;
                Some (err, n)
              })
           })
      }
      else do {
        (err, msgs, q, tt) \<leftarrow> tcmi_msg_deliver m (ms_msgs n) (mg_msg_queue g) (mg_transactions g);
        Some (err, migman_upd self (\<lambda>g. g\<lparr>mg_msg_queue := q, mg_transactions := tt\<rparr>) (n\<lparr>ms_msgs := msgs\<rparr>))
      })
   }"

definition migman_msg_put :: "nat \<Rightarrow> nat option \<Rightarrow> 's node \<Rightarrow> 's node option" where
  "migman_msg_put self m n = do {
     g \<leftarrow> nd_migmans n self;
     (msgs, tt) \<leftarrow> tcmi_msg_put m (ms_msgs n) (mg_transactions g);
     Some (migman_upd self (\<lambda>g. g\<lparr>mg_transactions := tt\<rparr>) (n\<lparr>ms_msgs := msgs\<rparr>))
   }"

subsection \<open>Shutdown\<close>

definition tcmi_migman_notify_peer_disconnect :: "msg_mem \<Rightarrow> trans_env \<Rightarrow> bool \<Rightarrow> u64 \<Rightarrow> nat \<Rightarrow> 's node \<Rightarrow> 's node option" where
  "tcmi_migman_notify_peer_disconnect mem env signalled jiffies self n = do {
     g \<leftarrow> nd_migmans n self;
     (msg, _ :: nat transactions) \<leftarrow> tcmi_disconnect_msg_new_tx mem env;
     (case msg of
        None \<Rightarrow> Some n
      | Some msg \<Rightarrow> do {
          s \<leftarrow> nd_socks n (mg_sock g);
          (err, tt, s) \<leftarrow> tcmi_msg_send_anonymous signalled jiffies msg (mg_transactions g) s;
          Some (migman_upd self (\<lambda>g. g\<lparr>mg_transactions := tt\<rparr>) (n\<lparr>nd_socks := (nd_socks n)(mg_sock g \<mapsto> s)\<rparr>))
        })
   }"

text \<open>The methods of the subclass and what the environment decides during a shutdown.\<close>

record 's stop_env =
  se_free :: "(nat \<Rightarrow> 's node \<Rightarrow> 's node option) option"
  se_stop :: "(nat \<Rightarrow> bool \<Rightarrow> 's node \<Rightarrow> 's node option) option"
  se_mem :: msg_mem
  se_trans :: trans_env
  se_signalled :: bool
  se_jiffies :: u64

definition tcmi_migman_stop_perform :: "'s stop_env \<Rightarrow> nat \<Rightarrow> bool \<Rightarrow> 's node \<Rightarrow> (int \<times> 's node) option" where
  "tcmi_migman_stop_perform E self remote_requested n = do {
     g \<leftarrow> nd_migmans n self;
     let (changed, g) = tcmi_migman_change_state TCMI_MIGMAN_CONNECTED TCMI_MIGMAN_SHUTTING_DOWN g;
     let n = migman_upd self (\<lambda>_. g) n;
     (if \<not> changed then Some (0, n)
      else do {
        n \<leftarrow> (case se_stop E of None \<Rightarrow> Some n | Some f \<Rightarrow> f self remote_requested n);
        n \<leftarrow> (if remote_requested then Some n
             else tcmi_migman_notify_peer_disconnect (se_mem E) (se_trans E) (se_signalled E) (se_jiffies E) self n);
        tcmi_migman_put (se_free E) (Some self) n
      })
   }"

definition tcmi_migman_stop :: "'s stop_env \<Rightarrow> nat \<Rightarrow> 's node \<Rightarrow> 's node option" where
  "tcmi_migman_stop E self n = map_option snd (tcmi_migman_stop_perform E self False n)"

fun signal_all :: "nat list \<Rightarrow> 's node \<Rightarrow> 's node option" where
  "signal_all [] n = Some n"
| "signal_all (t # ts) n = do { n \<leftarrow> tcmi_task_signal_peer_lost t n; signal_all ts n }"

definition kill_all_tasks :: "nat \<Rightarrow> 's node \<Rightarrow> 's node option" where
  "kill_all_tasks self n = do {
     g \<leftarrow> nd_migmans n self;
     sv \<leftarrow> tcmi_slotvec_lock (mg_tasks g);
     signal_all (concat (map (nodes_at sv) (sv_used sv))) n
   }"

definition tcmi_migman_kill :: "'s stop_env \<Rightarrow> nat \<Rightarrow> 's node \<Rightarrow> (int \<times> 's node) option" where
  "tcmi_migman_kill E self n = do {
     n \<leftarrow> kill_all_tasks self n;
     g \<leftarrow> nd_migmans n self;
     let (changed, g) = tcmi_migman_change_state TCMI_MIGMAN_CONNECTED TCMI_MIGMAN_SHUTTING_DOWN g;
     let n = migman_upd self (\<lambda>_. g) n;
     (if changed then tcmi_migman_put (se_free E) (Some self) n else Some (0, n))
   }"

text \<open>
  The message processing thread. In round \<open>k\<close> the environment decides whether the thread
  is asked to stop and whether a signal ends its wait. When the manager has been freed the
  thread has been sent a signal and leaves the loop.
\<close>

partial_function (option) tcmi_migman_msg_thread ::
  "(nat \<Rightarrow> bool) \<Rightarrow> (nat \<Rightarrow> bool) \<Rightarrow> 's stop_env \<Rightarrow> (nat \<Rightarrow> nat \<Rightarrow> 's node \<Rightarrow> 's node option) \<Rightarrow> nat \<Rightarrow> nat \<Rightarrow> 's node \<Rightarrow> 's node option" where
  "tcmi_migman_msg_thread stop signalled E process_msg self k n =
     (if stop k then Some n
      else Option.bind (nd_migmans n self) (\<lambda>g.
        Option.bind (tcmi_queue_wait_on_empty_interruptible (signalled k) (mg_msg_queue g)) (\<lambda>err.
        if err < 0 then Some n
        else Option.bind (tcmi_queue_remove (mg_msg_queue g)) (\<lambda>(m, q).
          let n = migman_upd self (\<lambda>g. g\<lparr>mg_msg_queue := q\<rparr>) n in
          case m of
            None \<Rightarrow> tcmi_migman_msg_thread stop signalled E process_msg self (k + 1) n
          | Some a \<Rightarrow> Option.bind (ms_msgs n a) (\<lambda>msg.
              if m_id msg = TCMI_DISCONNECT_MSG_ID then
                Option.bind (tcmi_migman_stop_perform E self True n) (\<lambda>(freed, n).
                  if freed \<noteq> 0 then Some n else tcmi_migman_msg_thread stop signalled E process_msg self (k + 1) n)
              else Option.bind (process_msg self a n) (\<lambda>n. tcmi_migman_msg_thread stop signalled E process_msg self (k + 1) n))))))"

subsection \<open>Migration mode\<close>

text \<open>
  The handler a process runs in migration mode. The flag tells whether the process exits, with
  the exit code of its task.
\<close>

partial_function (option) keep_moving ::
  "(nat \<Rightarrow> 's node \<Rightarrow> (tcmi_task_method_status_t \<times> 's node) option) \<Rightarrow> nat \<Rightarrow> 's node \<Rightarrow> (tcmi_task_method_status_t \<times> 's node) option" where
  "keep_moving process_methods t n = Option.bind (process_methods t n) (\<lambda>(res, n).
     if res = TCMI_TASK_MOVE_ME then keep_moving process_methods t n else Some (res, n))"

definition tcmi_migcom_mig_mode_handler ::
  "(nat \<Rightarrow> 's node \<Rightarrow> 's node option) option \<Rightarrow> (nat \<Rightarrow> 's node \<Rightarrow> (tcmi_task_method_status_t \<times> 's node) option) \<Rightarrow> i32 \<Rightarrow> 's node \<Rightarrow>
   (int option \<times> 's node) option" where
  "tcmi_migcom_mig_mode_handler ops_free process_methods current n = do {
     (task, n) \<leftarrow> tcmi_taskhelper_sanity_check current n;
     (case task of
        None \<Rightarrow> Some (None, n)
      | Some t \<Rightarrow> do {
          (res, n) \<leftarrow> keep_moving process_methods t n;
          (case res of
             TCMI_TASK_KILL_ME \<Rightarrow> do {
               (tmp, n) \<leftarrow> tcmi_taskhelper_detach current n;
               a \<leftarrow> tmp;
               tk \<leftarrow> nd_tasks n a;
               n \<leftarrow> tcmi_task_put ops_free (Some a) n;
               Some (Some (tk_exit_code tk), n)
             }
           | TCMI_TASK_REMOVE_AND_LET_ME_GO \<Rightarrow> do {
               (tmp, n) \<leftarrow> tcmi_taskhelper_detach current n;
               n \<leftarrow> tcmi_task_put ops_free tmp n;
               Some (None, n)
             }
           | _ \<Rightarrow> Some (None, n))
        })
   }"

end
