(* ===== verification/Tcmi_Ccnpen.thy ===== *)
theory Tcmi_Ccnpen
  imports Tcmi_Migman
begin

text \<open>
  The two kinds of migration managers (\<^verbatim>\<open>src/tcmi/manager/tcmi_ccnmigman.c\<close>,
  \<^verbatim>\<open>tcmi_penmigman.c\<close>) and of tasks (\<^verbatim>\<open>src/tcmi/task/tcmi_shadowtask.c\<close>, \<^verbatim>\<open>tcmi_guesttask.c\<close>): how they
  are created, what they do with the messages that arrive, and how a process moves from the
  core node (CCN) to an execution node (PEN) and back.

  Answers of the user-space director and the creation of the process that becomes the guest
  are parameters.
\<close>

subsection \<open>Creation of a manager\<close>

text \<open>
  What the environment decides: memory for the two slot vectors, for the receiving
  component and its thread, the entries of the control file system, the thread that
  processes messages, and the random identifier.
\<close>

record migman_env =
  me_mem :: bool
  me_trans_vec :: "nat tcmi_slotvec option"
  me_trans_ok :: "u32 \<Rightarrow> bool"
  me_tasks_vec :: "nat tcmi_slotvec option"
  me_tasks_ok :: "u32 \<Rightarrow> bool"
  me_comm_mem :: bool
  me_comm_thread :: bool
  me_dirs :: bool
  me_symlink :: bool
  me_files :: bool
  me_sock :: bool
  me_thread :: bool
  me_rnd :: u32

abbreviation (input) TASK_ORDER :: nat where "TASK_ORDER \<equiv> 9"
abbreviation (input) ARCH_UNKNOWN :: u32 where "ARCH_UNKNOWN \<equiv> 0"

definition tcmi_migman_init ::
  "migman_env \<Rightarrow> (nat \<Rightarrow> 's node \<Rightarrow> (int \<times> 's node) option) \<Rightarrow> tcmi_migman \<Rightarrow> nat \<Rightarrow> nat \<Rightarrow> u32 \<Rightarrow> u32 \<Rightarrow> u32 \<Rightarrow> nat \<Rightarrow> bool \<Rightarrow> 's node \<Rightarrow> (int \<times> 's node) option" where
  "tcmi_migman_init E deliver mem a sock ccn_id pen_id peer_arch_type manager_slot ops n =
     (if \<not> ops then Some (- EINVAL, n)
      else
        (case tcmi_slotvec_hnew (me_trans_vec E) (me_trans_ok E) TRANSACTION_ORDER of
           None \<Rightarrow> Some (- EINVAL, n)
         | Some transactions \<Rightarrow>
             (case tcmi_slotvec_hnew (me_tasks_vec E) (me_tasks_ok E) TASK_ORDER of
                None \<Rightarrow> Some (- EINVAL, n)
              | Some tasks \<Rightarrow> do {
                  s \<leftarrow> nd_socks n sock;
                  let (comm, s, refs) = tcmi_comm_new (me_comm_mem E) (me_comm_thread E) (Some s) (Some deliver) TCMI_MSG_GROUP_ANY (nd_arch_refs n);
                  let n = n\<lparr>nd_socks := (nd_socks n)(sock := s), nd_arch_refs := refs\<rparr>;
                  (if Option.is_none comm then Some (- EINVAL, n)
                   else if \<not> (me_dirs E \<and> me_symlink E \<and> me_files E \<and> me_sock E) then do {
                     n \<leftarrow> node_sock_put sock n;
                     Some (- EINVAL, n)
                   }
                   else do {
                     n \<leftarrow> node_sock_get sock n;
                     (if \<not> me_thread E then do {
                        n \<leftarrow> node_sock_put sock n;
                        n \<leftarrow> node_sock_put sock n;
                        Some (- EINVAL, n)
                      }
                      else Some (0, n\<lparr>nd_migmans := (nd_migmans n)(a \<mapsto> mem\<lparr>
                        mg_tasks := tasks, mg_ccn_id := ccn_id, mg_pen_id := pen_id, mg_peer_arch_type := peer_arch_type,
                        mg_manager_slot := manager_slot, mg_ref_count := 1, mg_msg_queue := tcmi_queue_init (mg_msg_queue mem),
                        mg_transactions := \<lparr>tt_vec = transactions, tt_heap = Map.empty\<rparr>, mg_sock := sock,
                        mg_state := TCMI_MIGMAN_INIT, mg_id := me_rnd E\<rparr>)\<rparr>))
                   })
                })))"

definition tcmi_ccnmigman_new ::
  "migman_env \<Rightarrow> (nat \<Rightarrow> 's node \<Rightarrow> (int \<times> 's node) option) \<Rightarrow> tcmi_migman \<Rightarrow> nat \<Rightarrow> nat \<Rightarrow> u32 \<Rightarrow> nat \<Rightarrow> 's node \<Rightarrow>
   (nat option \<times> 's node) option" where
  "tcmi_ccnmigman_new E deliver mem a sock ccn_id manager_slot n =
     (if \<not> me_mem E then Some (None, n)
      else do {
        (err, n) \<leftarrow> tcmi_migman_init E deliver mem a sock ccn_id 0 ARCH_UNKNOWN manager_slot True n;
        Some (if err < 0 then None else Some a, n)
      })"

definition tcmi_penmigman_new ::
  "migman_env \<Rightarrow> (nat \<Rightarrow> 's node \<Rightarrow> (int \<times> 's node) option) \<Rightarrow> tcmi_migman \<Rightarrow> nat \<Rightarrow> nat \<Rightarrow> u32 \<Rightarrow> nat \<Rightarrow> 's node \<Rightarrow>
   (nat option \<times> 's node) option" where
  "tcmi_penmigman_new E deliver mem a sock pen_id manager_slot n =
     (if \<not> me_mem E then Some (None, n)
      else do {
        (err, n) \<leftarrow> tcmi_migman_init E deliver mem a sock 0 pen_id ARCH_UNKNOWN manager_slot True n;
        Some (if err < 0 then None else Some a, n)
      })"

subsection \<open>Messages of a manager\<close>

text \<open>
  \<open>connected slot size data\<close> is the answer of the director to a new node: an error number and
  whether it accepts; \<open>arch\<close> is the architecture of this machine, \<open>mount\<close> its mount parameters.
\<close>

record msg_env =
  ve_mem :: msg_mem
  ve_trans :: trans_env
  ve_signalled :: bool
  ve_jiffies :: u64
  ve_connected :: "nat \<Rightarrow> u32 \<Rightarrow> byte list option \<Rightarrow> int \<times> bool"
  ve_arch :: u32
  ve_mount :: "byte list"

text \<open>Sending a message of one's own over the connection of the manager and releasing it.\<close>

definition migman_send :: "msg_env \<Rightarrow> nat \<Rightarrow> tcmi_msg \<Rightarrow> 's node \<Rightarrow> 's node option" where
  "migman_send V self msg n = do {
     g \<leftarrow> nd_migmans n self;
     s \<leftarrow> nd_socks n (mg_sock g);
     (err, tt, s) \<leftarrow> tcmi_msg_send_anonymous (ve_signalled V) (ve_jiffies V) msg (mg_transactions g) s;
     Some (migman_upd self (\<lambda>g. g\<lparr>mg_transactions := tt\<rparr>) (n\<lparr>nd_socks := (nd_socks n)(mg_sock g \<mapsto> s)\<rparr>))
   }"

definition ccn_authenticate :: "msg_env \<Rightarrow> nat \<Rightarrow> tcmi_msg \<Rightarrow> tcmi_authenticate_msg \<Rightarrow> 's node \<Rightarrow> 's node option" where
  "ccn_authenticate V self m auth_msg n = do {
     g \<leftarrow> nd_migmans n self;
     let (err, accepted) = ve_connected V (mg_manager_slot g) (au_size auth_msg) (au_auth_data auth_msg);
     (if err = 0 \<and> \<not> accepted then Some n
      else do {
        let n = migman_upd self (\<lambda>g. g\<lparr>mg_pen_id := au_pen_id auth_msg, mg_peer_arch_type := au_pen_arch auth_msg\<rparr>) n;
        (resp, _ :: nat transactions) \<leftarrow>
          tcmi_authenticate_resp_msg_new_tx (ve_mem V) (ve_trans V) (m_req m) (mg_ccn_id g) (ve_arch V) 0 (ve_mount V);
        (case resp of
           None \<Rightarrow> Some n
         | Some resp \<Rightarrow> do {
             n \<leftarrow> migman_send V self resp n;
             Some (migman_upd self (\<lambda>g. snd (tcmi_migman_set_state TCMI_MIGMAN_CONNECTED g)) n)
           })
      })
   }"

definition tcmi_ccnmigman_process_msg :: "msg_env \<Rightarrow> nat \<Rightarrow> nat \<Rightarrow> 's node \<Rightarrow> 's node option" where
  "tcmi_ccnmigman_process_msg V self m n = do {
     msg \<leftarrow> ms_msgs n m;
     n \<leftarrow> (if m_id msg = TCMI_AUTHENTICATE_MSG_ID
          then (case m_body msg of Authenticate_msg auth_msg \<Rightarrow> ccn_authenticate V self msg auth_msg n | _ \<Rightarrow> None)
          else Some n);
     migman_msg_put self (Some m) n
   }"

text \<open>
  \<open>immigrate\<close> creates the guest for an emigration request; \<open>si_signo\<close> is the number in the
  information that comes with a signal.
\<close>

definition tcmi_penmigman_send_signal :: "(byte list \<Rightarrow> nat) \<Rightarrow> i32 \<Rightarrow> byte list \<Rightarrow> 's node \<Rightarrow> 's node" where
  "tcmi_penmigman_send_signal si_signo pid info n =
     (case nd_procs n pid of None \<Rightarrow> n | Some _ \<Rightarrow> force_sig (si_signo info) pid n)"

definition tcmi_penmigman_process_msg ::
  "msg_env \<Rightarrow> (byte list \<Rightarrow> nat) \<Rightarrow> (nat \<Rightarrow> nat \<Rightarrow> 's node \<Rightarrow> (int \<times> 's node) option) \<Rightarrow> nat \<Rightarrow> nat option \<Rightarrow> 's node \<Rightarrow> 's node option" where
  "tcmi_penmigman_process_msg V si_signo immigrate self m n =
     (case m of
        None \<Rightarrow> Some n
      | Some a \<Rightarrow> do {
          msg \<leftarrow> ms_msgs n a;
          n \<leftarrow> (if m_id msg = TCMI_AUTHENTICATE_RESP_MSG_ID then
                 (case m_body msg of
                    Authenticate_resp_msg auth_msg \<Rightarrow>
                      Some (if ar_result_code auth_msg = 0
                        then migman_upd self (\<lambda>g. snd (tcmi_migman_set_state TCMI_MIGMAN_CONNECTED (g\<lparr>
                            mg_peer_arch_type := ar_ccn_arch auth_msg, mg_ccn_id := ar_ccn_id auth_msg, mg_mount_params := ar_mount_params auth_msg\<rparr>))) n
                        else n)
                  | _ \<Rightarrow> None)
               else if m_id msg = TCMI_SIGNAL_MSG_ID then
                 (case m_body msg of Signal_msg g \<Rightarrow> Some (tcmi_penmigman_send_signal si_signo (sg_pid g) (sg_info g) n) | _ \<Rightarrow> None)
               else if m_id msg = TCMI_P_EMIGRATE_MSG_ID then
                 (case m_body msg of
                    P_emigrate_msg e \<Rightarrow> do {
                      (err, n) \<leftarrow> immigrate a self n;
                      (if err < 0 then do {
                         (resp, _ :: nat transactions) \<leftarrow>
                           tcmi_err_procmsg_new_tx (ve_mem V) (ve_trans V) TCMI_GUEST_STARTED_PROCMSG_ID (m_req msg) (- 22) (em_reply_pid e);
                         (case resp of None \<Rightarrow> Some n | Some resp \<Rightarrow> migman_send V self resp n)
                       }
                       else Some n)
                    }
                  | _ \<Rightarrow> None)
               else Some n);
          migman_msg_put self (Some a) n
        })"

text \<open>
  \<open>meanwhile\<close> and \<open>arrived\<close> are what the receiving thread does to the transactions and to
  the stored messages during the wait for the answer.
\<close>

definition tcmi_penmigman_auth_ccn ::
  "msg_env \<Rightarrow> (byte list \<Rightarrow> nat) \<Rightarrow> (nat \<Rightarrow> nat \<Rightarrow> 's node \<Rightarrow> (int \<times> 's node) option) \<Rightarrow> (nat trans_table \<Rightarrow> nat trans_table) \<Rightarrow>
   (msg_heap \<Rightarrow> msg_heap) \<Rightarrow> bool \<Rightarrow> nat \<Rightarrow> i32 \<Rightarrow> byte list \<Rightarrow> 's node \<Rightarrow> (int \<times> 's node) option" where
  "tcmi_penmigman_auth_ccn V si_signo immigrate meanwhile arrived woken self auth_data_length auth_data n = do {
     g \<leftarrow> nd_migmans n self;
     (req, tr) \<leftarrow> tcmi_authenticate_msg_new_tx (ve_mem V) (ve_trans V) (Some (mg_transactions g)) (mg_pen_id g) (ve_arch V)
        auth_data auth_data_length;
     tt \<leftarrow> tr;
     let n = migman_upd self (\<lambda>g. g\<lparr>mg_transactions := tt\<rparr>) n;
     n \<leftarrow> (case req of
         None \<Rightarrow> Some n
       | Some req \<Rightarrow> do {
           s \<leftarrow> nd_socks n (mg_sock g);
           (err, resp, tt, s) \<leftarrow> tcmi_msg_send_and_receive (ve_signalled V) (ve_jiffies V) meanwhile woken req tt s;
           let n = migman_upd self (\<lambda>g. g\<lparr>mg_transactions := tt\<rparr>)
             (n\<lparr>nd_socks := (nd_socks n)(mg_sock g \<mapsto> s), ms_msgs := arrived (ms_msgs n)\<rparr>);
           n \<leftarrow> (if err < 0 then Some n else tcmi_penmigman_process_msg V si_signo immigrate self resp n);
           g \<leftarrow> nd_migmans n self;
           tt \<leftarrow> tcmi_transaction_put (m_transaction req) (mg_transactions g);
           Some (migman_upd self (\<lambda>g. g\<lparr>mg_transactions := tt\<rparr>) n)
         });
     g \<leftarrow> nd_migmans n self;
     Some (if mg_state g = TCMI_MIGMAN_CONNECTED then 0 else - EINVAL, n)
   }"

definition tcmi_ccnmigman_auth_pen :: "tcmi_migman \<Rightarrow> int" where
  "tcmi_ccnmigman_auth_pen self = (if mg_state self = TCMI_MIGMAN_CONNECTED then 0 else - EINVAL)"

subsection \<open>Shutdown of an execution node\<close>

definition tcmi_migcom_migrate_home_ppm_p ::
  "(nat \<Rightarrow> 's node \<Rightarrow> 's node option) option \<Rightarrow> nat option \<Rightarrow> i32 \<Rightarrow> 's node \<Rightarrow> (int \<times> 's node) option" where
  "tcmi_migcom_migrate_home_ppm_p ops_free mem pid n = tcmi_taskhelper_notify_by_pid ops_free mem True pid Migrateback_ppm_p None 1 n"

text \<open>\<open>mem t\<close> is the memory for the wrapper submitted to the task at \<open>t\<close>.\<close>

fun migrate_home_each ::
  "(nat \<Rightarrow> 's node \<Rightarrow> 's node option) option \<Rightarrow> (nat \<Rightarrow> nat option) \<Rightarrow> nat list \<Rightarrow> 's node \<Rightarrow> 's node option" where
  "migrate_home_each ops_free mem [] n = Some n"
| "migrate_home_each ops_free mem (t # ts) n = do {
     tk \<leftarrow> nd_tasks n t;
     (_, n) \<leftarrow> tcmi_migcom_migrate_home_ppm_p ops_free (mem t) (tk_local_pid tk) n;
     migrate_home_each ops_free mem ts n
   }"

definition tcmi_penmigman_migrate_all_home ::
  "(nat \<Rightarrow> 's node \<Rightarrow> 's node option) option \<Rightarrow> (nat \<Rightarrow> nat option) \<Rightarrow> nat \<Rightarrow> 's node \<Rightarrow> 's node option" where
  "tcmi_penmigman_migrate_all_home ops_free mem self n = do {
     g \<leftarrow> nd_migmans n self;
     sv \<leftarrow> tcmi_slotvec_lock (mg_tasks g);
     migrate_home_each ops_free mem (concat (map (nodes_at sv) (sv_used sv))) n
   }"

text \<open>What the managers do on a stop request and when they are freed, apart from telling the director.\<close>

definition tcmi_penmigman_stop ::
  "(nat \<Rightarrow> 's node \<Rightarrow> 's node option) option \<Rightarrow> (nat \<Rightarrow> nat option) \<Rightarrow> nat \<Rightarrow> bool \<Rightarrow> 's node \<Rightarrow> 's node option" where
  "tcmi_penmigman_stop ops_free mem self remote_requested n = tcmi_penmigman_migrate_all_home ops_free mem self n"

definition tcmi_ccnmigman_stop :: "nat \<Rightarrow> bool \<Rightarrow> 's node \<Rightarrow> 's node option" where
  "tcmi_ccnmigman_stop self remote_requested n = Some n"

definition tcmi_ccnmigman_free :: "nat \<Rightarrow> 's node \<Rightarrow> 's node option" where
  "tcmi_ccnmigman_free self n = Some n"

subsection \<open>Shadow tasks\<close>

text \<open>
  What the environment of a task decides while it works on a message: memory for messages and
  wrappers, the address of a message it builds, interruption by signals, the checkpoint
  component and the table of remote calls.
\<close>

record 's task_env =
  xe_mem :: msg_mem
  xe_trans :: trans_env
  xe_signalled :: bool
  xe_jiffies :: u64
  xe_wrapper :: "nat option"
  xe_vm :: bool
  xe_msg :: nat
  xe_kmalloc :: "u64 \<Rightarrow> mem_block option"
  xe_kmalloc_name :: "u64 \<Rightarrow> bool"
  xe_page :: bool
  xe_pathname :: "byte list"
  xe_file :: bool
  xe_checkpoint :: bool
  xe_rpc :: "tcmi_rpc_procmsg \<Rightarrow> 's node \<Rightarrow> (tcmi_msg option \<times> 's node) option"

abbreviation set_remote_pid :: "nat \<Rightarrow> i32 \<Rightarrow> 's node \<Rightarrow> 's node" where
  "set_remote_pid self pid \<equiv> task_upd self (\<lambda>t. t\<lparr>tk_remote_pid := pid\<rparr>)"

definition proc_body :: "tcmi_msg \<Rightarrow> tcmi_proc_body option" where
  "proc_body m = map_option pm_body (msg_procmsg m)"

definition tcmi_shadowtask_verify_migration :: "nat \<Rightarrow> nat option \<Rightarrow> 's node \<Rightarrow> (int \<times> 's node) option" where
  "tcmi_shadowtask_verify_migration self resp n =
     (case resp of
        None \<Rightarrow> Some (- EINVAL, n)
      | Some a \<Rightarrow> do {
          m \<leftarrow> ms_msgs n a;
          (if m_id m = TCMI_GUEST_STARTED_PROCMSG_ID then
             (case proc_body m of
                Some (Guest_started_procmsg pid) \<Rightarrow> Some (if pid = - 1 then (- EINVAL, n) else (0, set_remote_pid self pid n))
              | _ \<Rightarrow> None)
           else Some (- EINVAL, n))
        })"

text \<open>The string that a checkpoint name in a message is.\<close>

definition ckpt_string :: "byte list option \<Rightarrow> byte list option" where
  "ckpt_string p = map_option c_string p"

definition tcmi_shadowtask_process_ppm_p_migr_back_guestreq_procmsg ::
  "'s task_env \<Rightarrow> nat \<Rightarrow> tcmi_guestreq \<Rightarrow> 's node \<Rightarrow> (tcmi_task_method_status_t \<times> 's node) option" where
  "tcmi_shadowtask_process_ppm_p_migr_back_guestreq_procmsg X self g n = do {
     ckpt_name \<leftarrow> ckpt_string (gr_ckpt_name g);
     (err, n) \<leftarrow> tcmi_taskhelper_restart (xe_kmalloc X) (xe_kmalloc_name X) (xe_wrapper X) self ckpt_name n;
     Some (if err < 0 then TCMI_TASK_KILL_ME else TCMI_TASK_KEEP_PUMPING, n)
   }"

definition shadow_rpc :: "'s task_env \<Rightarrow> nat \<Rightarrow> tcmi_rpc_procmsg \<Rightarrow> 's node \<Rightarrow> 's node option" where
  "shadow_rpc X self r n = do {
     (resp, n) \<leftarrow> xe_rpc X r n;
     (case resp of
        None \<Rightarrow> Some n
      | Some resp \<Rightarrow> do {
          let n = n\<lparr>ms_msgs := (ms_msgs n)(xe_msg X \<mapsto> resp)\<rparr>;
          (err, n) \<leftarrow> tcmi_task_send_anonymous_msg (xe_signalled X) (xe_jiffies X) self (xe_msg X) n;
          (err, n) \<leftarrow> tcmi_task_check_peer_lost self err n;
          n \<leftarrow> (if err = - ERESTARTSYS then do {
              m \<leftarrow> ms_msgs n (xe_msg X);
              tcmi_task_submit_method (xe_wrapper X) (xe_vm X) self Send_message (Some (Raw_data (msg_struct_bytes (tcmi_msg_get m))))
                (n\<lparr>ms_msgs := (ms_msgs n)(xe_msg X \<mapsto> tcmi_msg_get m)\<rparr>)
            }
            else Some n);
          task_msg_put self (Some (xe_msg X)) n
        })
   }"

definition tcmi_shadowtask_process_msg ::
  "'s task_env \<Rightarrow> nat \<Rightarrow> nat \<Rightarrow> 's node \<Rightarrow> (tcmi_task_method_status_t \<times> 's node) option" where
  "tcmi_shadowtask_process_msg X self a n = do {
     m \<leftarrow> ms_msgs n a;
     (if m_id m = TCMI_RPC_PROCMSG_ID then
        (case proc_body m of
           Some (Rpc_procmsg r) \<Rightarrow> do { n \<leftarrow> shadow_rpc X self r n; Some (TCMI_TASK_KEEP_PUMPING, n) }
         | _ \<Rightarrow> None)
      else if m_id m = TCMI_EXIT_PROCMSG_ID then
        (case proc_body m of
           Some (Exit_procmsg code) \<Rightarrow> Some (TCMI_TASK_KILL_ME, task_upd self (\<lambda>t. t\<lparr>tk_exit_code := sint code\<rparr>) n)
         | _ \<Rightarrow> None)
      else if m_id m = TCMI_PPM_P_MIGR_BACK_GUESTREQ_PROCMSG_ID then
        (case proc_body m of
           Some (Guestreq_procmsg g) \<Rightarrow> tcmi_shadowtask_process_ppm_p_migr_back_guestreq_procmsg X self g n
         | _ \<Rightarrow> None)
      else if m_id m = TCMI_GUEST_STARTED_PROCMSG_ID then
        (case proc_body m of
           Some (Guest_started_procmsg pid) \<Rightarrow> Some (TCMI_TASK_KEEP_PUMPING, set_remote_pid self pid n)
         | _ \<Rightarrow> None)
      else Some (TCMI_TASK_KEEP_PUMPING, n))
   }"

definition tcmi_shadowtask_execve :: "'s task_env \<Rightarrow> nat \<Rightarrow> 's node \<Rightarrow> (int \<times> 's node) option" where
  "tcmi_shadowtask_execve X self n = do {
     n \<leftarrow> tcmi_task_flush_and_submit_method (xe_wrapper X) True self Exit None n;
     n \<leftarrow> tcmi_taskhelper_enter_mig_mode self n;
     Some (0, n)
   }"

text \<open>Sending a message the task has built, watching for the loss of its peer, and releasing it.\<close>

definition task_send_own :: "'s task_env \<Rightarrow> nat \<Rightarrow> tcmi_msg \<Rightarrow> 's node \<Rightarrow> (int \<times> 's node) option" where
  "task_send_own X self msg n = do {
     let n = n\<lparr>ms_msgs := (ms_msgs n)(xe_msg X \<mapsto> msg)\<rparr>;
     (err, n) \<leftarrow> tcmi_task_send_anonymous_msg (xe_signalled X) (xe_jiffies X) self (xe_msg X) n;
     (err, n) \<leftarrow> tcmi_task_check_peer_lost self err n;
     n \<leftarrow> task_msg_put self (Some (xe_msg X)) n;
     Some (err, n)
   }"

definition tcmi_shadowtask_migrateback_ppm_p :: "'s task_env \<Rightarrow> nat \<Rightarrow> 's node \<Rightarrow> (tcmi_task_method_status_t \<times> 's node) option" where
  "tcmi_shadowtask_migrateback_ppm_p X self n = do {
     t \<leftarrow> nd_tasks n self;
     (msg, _ :: nat transactions) \<leftarrow> tcmi_ppm_p_migr_back_shadowreq_procmsg_new_tx (xe_mem X) (xe_trans X) (tk_remote_pid t);
     (case msg of
        None \<Rightarrow> Some (TCMI_TASK_KEEP_PUMPING, n)
      | Some msg \<Rightarrow> do { (_, n) \<leftarrow> task_send_own X self msg n; Some (TCMI_TASK_KEEP_PUMPING, n) })
   }"

text \<open>
  The checkpoint: memory for a page, the name of the image, whether the file can be opened
  and the image written. The name is stored in the task.
\<close>

definition tcmi_taskhelper_checkpoint :: "'s task_env \<Rightarrow> nat \<Rightarrow> 's node \<Rightarrow> (int \<times> 's node) option" where
  "tcmi_taskhelper_checkpoint X t_task n =
     (if \<not> xe_page X then Some (- EINVAL, n)
      else do {
        t \<leftarrow> nd_tasks n t_task;
        (err, t) \<leftarrow> tcmi_task_prepare_execve (xe_kmalloc X) (xe_kmalloc_name X) (xe_pathname X) [] [] t;
        let n = task_upd t_task (\<lambda>_. t) n;
        Some (if err < 0 \<or> \<not> xe_file X \<or> \<not> xe_checkpoint X then - EINVAL else 0, n)
      })"

text \<open>
  \<open>cred\<close> are the identities of the process; \<open>meanwhile\<close> and \<open>arrived\<close> are what the receiving
  thread does to the transactions of the task and to the stored messages during the wait.
\<close>

definition tcmi_shadowtask_emigrate_p ::
  "'s task_env \<Rightarrow> byte list \<Rightarrow> u16 \<times> u16 \<times> u16 \<times> u16 \<Rightarrow> (nat trans_table \<Rightarrow> nat trans_table) \<Rightarrow> (msg_heap \<Rightarrow> msg_heap) \<Rightarrow> bool \<Rightarrow>
   nat \<Rightarrow> 's node \<Rightarrow> (tcmi_task_method_status_t \<times> 's node) option" where
  "tcmi_shadowtask_emigrate_p X exec_name cred meanwhile arrived woken self n = do {
     (err, n) \<leftarrow> tcmi_taskhelper_checkpoint X self n;
     (if err < 0 then Some (TCMI_TASK_REMOVE_AND_LET_ME_GO, n)
      else do {
        t \<leftarrow> nd_tasks n self;
        ckpt_name \<leftarrow> tk_ckpt_pathname t;
        let (euid, egid, fsuid, fsgid) = cred;
        (req, tr) \<leftarrow> tcmi_p_emigrate_msg_new_tx (xe_mem X) (xe_trans X) (Some (tk_transactions t)) (tk_local_pid t) exec_name ckpt_name
           euid egid fsuid fsgid;
        tt \<leftarrow> tr;
        let n = task_upd self (\<lambda>t. t\<lparr>tk_transactions := tt\<rparr>) n;
        (case req of
           None \<Rightarrow> Some (TCMI_TASK_REMOVE_AND_LET_ME_GO, n)
         | Some req \<Rightarrow> do {
             let n = n\<lparr>ms_msgs := (ms_msgs n)(xe_msg X \<mapsto> req)\<rparr>;
             s \<leftarrow> nd_socks n (tk_sock t);
             (err, resp, tt, s) \<leftarrow> tcmi_msg_send_and_receive (xe_signalled X) (xe_jiffies X) meanwhile woken req tt s;
             let n = task_upd self (\<lambda>t. t\<lparr>tk_transactions := tt\<rparr>)
               (n\<lparr>nd_socks := (nd_socks n)(tk_sock t \<mapsto> s), ms_msgs := arrived (ms_msgs n)\<rparr>);
             (err, n) \<leftarrow> tcmi_task_check_peer_lost self err n;
             (if err < 0 then do { n \<leftarrow> task_msg_put self (Some (xe_msg X)) n; Some (TCMI_TASK_REMOVE_AND_LET_ME_GO, n) }
              else do {
                (err, n) \<leftarrow> tcmi_shadowtask_verify_migration self resp n;
                n \<leftarrow> (if err < 0 then Some n else tcmi_task_submit_method (xe_wrapper X) (xe_vm X) self Process_msg None n);
                n \<leftarrow> task_msg_put self (if err < 0 then resp else Some (xe_msg X)) n;
                n \<leftarrow> task_msg_put self (if err < 0 then Some (xe_msg X) else resp) n;
                Some (if err < 0 then TCMI_TASK_REMOVE_AND_LET_ME_GO else TCMI_TASK_KEEP_PUMPING, n)
              })
           })
      })
   }"

subsection \<open>Guest tasks\<close>

definition tcmi_guesttask_process_p_emigrate_msg ::
  "'s task_env \<Rightarrow> nat \<Rightarrow> tcmi_msg \<Rightarrow> tcmi_p_emigrate_msg \<Rightarrow> 's node \<Rightarrow> (tcmi_task_method_status_t \<times> 's node) option" where
  "tcmi_guesttask_process_p_emigrate_msg X self m e n = do {
     let n = set_remote_pid self (em_reply_pid e) n;
     ckpt_name \<leftarrow> ckpt_string (em_ckpt_name e);
     (err, n) \<leftarrow> tcmi_taskhelper_restart (xe_kmalloc X) (xe_kmalloc_name X) (xe_wrapper X) self ckpt_name n;
     t \<leftarrow> nd_tasks n self;
     (resp, _ :: nat transactions) \<leftarrow>
       (if err < 0 then tcmi_err_procmsg_new_tx (xe_mem X) (xe_trans X) TCMI_GUEST_STARTED_PROCMSG_ID (m_req m) (- 8) (tk_remote_pid t)
        else tcmi_guest_started_procmsg_new_tx (xe_mem X) (xe_trans X) (m_req m) (tk_remote_pid t) (tk_local_pid t));
     (case resp of
        None \<Rightarrow> Some (TCMI_TASK_KILL_ME, n)
      | Some resp \<Rightarrow> do { (_, n) \<leftarrow> task_send_own X self resp n; Some (TCMI_TASK_KEEP_PUMPING, n) })
   }"

text \<open>\<open>ops_free\<close> is the release method of the manager, needed when the last reference of a task goes.\<close>

definition tcmi_guesttask_process_msg ::
  "'s task_env \<Rightarrow> (nat \<Rightarrow> 's node \<Rightarrow> 's node option) option \<Rightarrow> nat \<Rightarrow> nat \<Rightarrow> 's node \<Rightarrow> (tcmi_task_method_status_t \<times> 's node) option" where
  "tcmi_guesttask_process_msg X ops_free self a n = do {
     m \<leftarrow> ms_msgs n a;
     (if m_id m = TCMI_P_EMIGRATE_MSG_ID then
        (case m_body m of P_emigrate_msg e \<Rightarrow> tcmi_guesttask_process_p_emigrate_msg X self m e n | _ \<Rightarrow> None)
      else if m_id m = TCMI_PPM_P_MIGR_BACK_SHADOWREQ_PROCMSG_ID then do {
        n \<leftarrow> task_msg_put self (Some a) n;
        t \<leftarrow> nd_tasks n self;
        (_, n) \<leftarrow> tcmi_migcom_migrate_home_ppm_p ops_free (xe_wrapper X) (tk_local_pid t) n;
        Some (TCMI_TASK_KEEP_PUMPING, n)
      }
      else Some (TCMI_TASK_KEEP_PUMPING, n))
   }"

definition tcmi_guesttask_migrateback_p :: "'s task_env \<Rightarrow> nat \<Rightarrow> 's node \<Rightarrow> (int \<times> 's node) option" where
  "tcmi_guesttask_migrateback_p X self n = do {
     (err, n) \<leftarrow> tcmi_taskhelper_checkpoint X self n;
     (if err < 0 then Some (- EFAULT, n)
      else do {
        t \<leftarrow> nd_tasks n self;
        ckpt_name \<leftarrow> tk_ckpt_pathname t;
        (req, _ :: nat transactions) \<leftarrow> tcmi_ppm_p_migr_back_guestreq_procmsg_new_tx (xe_mem X) (xe_trans X) (tk_remote_pid t) ckpt_name;
        (case req of
           None \<Rightarrow> Some (- EFAULT, n)
         | Some req \<Rightarrow> do {
             let n = n\<lparr>ms_msgs := (ms_msgs n)(xe_msg X \<mapsto> req)\<rparr>;
             (err, n) \<leftarrow> tcmi_task_send_anonymous_msg (xe_signalled X) (xe_jiffies X) self (xe_msg X) n;
             (err, n) \<leftarrow> tcmi_task_check_peer_lost self err n;
             (if err < 0 then do { n \<leftarrow> task_msg_put self (Some (xe_msg X)) n; Some (- EFAULT, n) } else Some (0, n))
           })
      })
   }"

definition tcmi_guesttask_migrateback_ppm_p :: "'s task_env \<Rightarrow> nat \<Rightarrow> 's node \<Rightarrow> (tcmi_task_method_status_t \<times> 's node) option" where
  "tcmi_guesttask_migrateback_ppm_p X self n = do { (_, n) \<leftarrow> tcmi_guesttask_migrateback_p X self n; Some (TCMI_TASK_KILL_ME, n) }"

definition tcmi_guesttask_migrateback_npm :: "'s task_env \<Rightarrow> nat \<Rightarrow> 's node \<Rightarrow> (tcmi_task_method_status_t \<times> 's node) option" where
  "tcmi_guesttask_migrateback_npm X self n = do {
     (res, n) \<leftarrow> tcmi_guesttask_migrateback_p X self n;
     Some (if res \<noteq> 0 then TCMI_TASK_REMOVE_AND_LET_ME_GO else TCMI_TASK_KILL_ME, n)
   }"

definition tcmi_guesttask_exit :: "'s task_env \<Rightarrow> nat \<Rightarrow> int \<Rightarrow> 's node \<Rightarrow> (tcmi_task_method_status_t \<times> 's node) option" where
  "tcmi_guesttask_exit X self code n = do {
     t \<leftarrow> nd_tasks n self;
     (m, _ :: nat transactions) \<leftarrow> tcmi_exit_procmsg_new_tx (xe_mem X) (xe_trans X) (tk_remote_pid t) (of_int code);
     (case m of
        None \<Rightarrow> Some (TCMI_TASK_REMOVE_AND_LET_ME_GO, n)
      | Some m \<Rightarrow> do {
          let n = n\<lparr>ms_msgs := (ms_msgs n)(xe_msg X \<mapsto> m)\<rparr>;
          (_, n) \<leftarrow> tcmi_task_send_anonymous_msg (xe_signalled X) (xe_jiffies X) self (xe_msg X) n;
          n \<leftarrow> task_msg_put self (Some (xe_msg X)) n;
          Some (TCMI_TASK_REMOVE_AND_LET_ME_GO, n)
        })
   }"

definition tcmi_guesttask_do_signal :: "nat \<Rightarrow> nat \<Rightarrow> 's node \<Rightarrow> (tcmi_task_method_status_t \<times> 's node) option" where
  "tcmi_guesttask_do_signal self signr n = do {
     t \<leftarrow> nd_tasks n self;
     Some (TCMI_TASK_KEEP_PUMPING,
       if signr \<in> {SIGKILL, 3, 2} then task_upd self (\<lambda>t. t\<lparr>tk_exit_code := int signr\<rparr>) n else n)
   }"

definition tcmi_guesttask_post_fork ::
  "'s task_env \<Rightarrow> nat \<Rightarrow> nat option \<Rightarrow> int \<Rightarrow> i32 \<Rightarrow> 's node \<Rightarrow> (int \<times> 's node) option" where
  "tcmi_guesttask_post_fork X self child fork_result remote_child_pid n = do {
     (m, n) \<leftarrow>
       (if fork_result < 0 then do {
          (m, _ :: nat transactions) \<leftarrow> tcmi_exit_procmsg_new_tx (xe_mem X) (xe_trans X) remote_child_pid (of_int fork_result);
          Some (m, n)
        }
        else do {
          c \<leftarrow> child;
          t \<leftarrow> nd_tasks n c;
          (m, _ :: nat transactions) \<leftarrow> tcmi_guest_started_procmsg_new_tx (xe_mem X) (xe_trans X) TCMI_TRANSACTION_INVAL_ID
            remote_child_pid (tk_local_pid t);
          Some (m, set_remote_pid c remote_child_pid n)
        });
     (case m of
        None \<Rightarrow> Some (- EINVAL, n)
      | Some m \<Rightarrow> do {
          let n = n\<lparr>ms_msgs := (ms_msgs n)(xe_msg X \<mapsto> m)\<rparr>;
          (_, n) \<leftarrow> tcmi_task_send_anonymous_msg (xe_signalled X) (xe_jiffies X) self (xe_msg X) n;
          n \<leftarrow> task_msg_put self (Some (xe_msg X)) n;
          Some (0, n)
        })
   }"

end
