(* ===== verification/Tcmi_Protocol.thy ===== *)
theory Tcmi_Protocol
  imports Tcmi_Migman
begin

text \<open>
  The message protocol end to end. The migration manager and each of its tasks are clients of
  the receiving thread (interpretations of the locale \<open>comm_client\<close>), so what one node sends
  arrives in order in the queue of the other; requests are matched with their responses;
  messages survive the transfer; and what goes wrong when memory is short or a peer lies
  about sizes.
\<close>

subsection \<open>The manager and its tasks as receivers\<close>

definition request_msg :: "tcmi_msg \<Rightarrow> bool" where
  "request_msg m \<longleftrightarrow> TCMI_MSG_GROUP (m_id m) \<noteq> TCMI_MSG_GROUP_PROC \<and> m_resp m = TCMI_TRANSACTION_INVAL_ID"

definition migman_ready :: "nat \<Rightarrow> 's node \<Rightarrow> bool" where
  "migman_ready g n \<longleftrightarrow> (\<exists>m. nd_migmans n g = Some m \<and> \<not> q_locked (mg_msg_queue m))"

definition migman_inbox :: "nat \<Rightarrow> 's node \<Rightarrow> nat list" where
  "migman_inbox g n = (case nd_migmans n g of None \<Rightarrow> [] | Some m \<Rightarrow> q_elems (mg_msg_queue m))"

lemma queue_add_ok [simp]:
  "\<not> q_locked q \<Longrightarrow> tcmi_queue_add a q = Some (q\<lparr>q_elems := q_elems q @ [a], q_wakeups := q_wakeups q + 1\<rparr>)"
  by (simp add: tcmi_queue_add_def tcmi_queue_lock_def tcmi_queue_add_nolock_def tcmi_queue_unlock_def)

lemma migman_upd_simps [simp]:
  "ms_msgs (migman_upd g f n) = ms_msgs n" "nd_tasks (migman_upd g f n) = nd_tasks n" "nd_procs (migman_upd g f n) = nd_procs n"
  "nd_migmans (migman_upd g f n) = (nd_migmans n)(g := map_option f (nd_migmans n g))" "nd_socks (migman_upd g f n) = nd_socks n"
  "nd_wrappers (migman_upd g f n) = nd_wrappers n" "nd_man_slots (migman_upd g f n) = nd_man_slots n"
  "nd_arch_refs (migman_upd g f n) = nd_arch_refs n"
  by (simp_all add: migman_upd_def)

lemma task_upd_simps [simp]:
  "ms_msgs (task_upd g f n) = ms_msgs n" "nd_tasks (task_upd g f n) = (nd_tasks n)(g := map_option f (nd_tasks n g))"
  "nd_procs (task_upd g f n) = nd_procs n"
  "nd_migmans (task_upd g f n) = nd_migmans n" "nd_socks (task_upd g f n) = nd_socks n"
  "nd_wrappers (task_upd g f n) = nd_wrappers n" "nd_man_slots (task_upd g f n) = nd_man_slots n"
  "nd_arch_refs (task_upd g f n) = nd_arch_refs n"
  by (simp_all add: task_upd_def)

lemma migman_deliver_request:
  assumes "nd_migmans n g = Some m" "\<not> q_locked (mg_msg_queue m)" "ms_msgs n a = Some x" "request_msg x"
  shows "\<exists>q. tcmi_migman_deliver_msg ops_free mem vm g a n = Some (0, migman_upd g (\<lambda>g. g\<lparr>mg_msg_queue := q, mg_transactions := mg_transactions m\<rparr>) n) \<and>
    q_elems q = q_elems (mg_msg_queue m) @ [a] \<and> \<not> q_locked q"
  using assms
  by (auto simp: tcmi_migman_deliver_msg_def tcmi_msg_deliver_def request_msg_def
      intro!: exI [of _ "(mg_msg_queue m)\<lparr>q_elems := q_elems (mg_msg_queue m) @ [a], q_wakeups := q_wakeups (mg_msg_queue m) + 1\<rparr>"])

interpretation mig_in: comm_client "tcmi_migman_deliver_msg ops_free mem vm g" "migman_ready g" request_msg "migman_inbox g"
  for ops_free :: "(nat \<Rightarrow> 's node \<Rightarrow> 's node option) option" and mem :: "nat option" and vm :: bool and g :: nat
proof
  fix st :: "'s node" and a m h
  show "migman_ready g (st\<lparr>ms_msgs := h\<rparr>) \<and> migman_inbox g (st\<lparr>ms_msgs := h\<rparr>) = migman_inbox g st" if "migman_ready g st"
    using that by (simp add: migman_ready_def migman_inbox_def)
  assume "migman_ready g st" "ms_msgs st a = Some m" "request_msg m"
  then show "\<exists>st'. tcmi_migman_deliver_msg ops_free mem vm g a st = Some (0, st') \<and> migman_ready g st' \<and>
      migman_inbox g st' = migman_inbox g st @ [a] \<and> ms_msgs st' = ms_msgs st"
    using migman_deliver_request [of st g _ a m ops_free mem vm] by (fastforce simp: migman_ready_def migman_inbox_def)
next
  fix m x show "request_msg m \<Longrightarrow> msg_same m x \<Longrightarrow> request_msg x" by (simp add: request_msg_def msg_same_def)
qed

definition task_request :: "i32 \<Rightarrow> tcmi_msg \<Rightarrow> bool" where
  "task_request pid m \<longleftrightarrow> TCMI_MSG_GROUP (m_id m) = TCMI_MSG_GROUP_PROC \<and> m_resp m = TCMI_TRANSACTION_INVAL_ID \<and>
     (\<exists>p. m_body m = Procmsg p \<and> pm_dst_pid p = pid \<and> pm_enforce_migmode p = 0)"

text \<open>The task at \<open>t\<close> is the one of the process \<open>pid\<close> and belongs to the manager at \<open>g\<close>.\<close>

definition task_at :: "nat \<Rightarrow> i32 \<Rightarrow> nat \<Rightarrow> 's node \<Rightarrow> bool" where
  "task_at g pid t n \<longleftrightarrow> (\<exists>p tk m. nd_procs n pid = Some p \<and> ts_mig_mode_handler p \<and> ts_tcmi_task p = Some t \<and>
     nd_tasks n t = Some tk \<and> tk_ref_count tk > 0 \<and> tk_migman tk = Some g \<and> nd_migmans n g = Some m)"

definition task_ready :: "nat \<Rightarrow> i32 \<Rightarrow> nat \<Rightarrow> 's node \<Rightarrow> bool" where
  "task_ready g pid t n \<longleftrightarrow> task_at g pid t n \<and> (\<exists>tk. nd_tasks n t = Some tk \<and> \<not> q_locked (tk_msg_queue tk))"

definition task_inbox :: "nat \<Rightarrow> 's node \<Rightarrow> nat list" where
  "task_inbox t n = (case nd_tasks n t of None \<Rightarrow> [] | Some tk \<Rightarrow> q_elems (tk_msg_queue tk))"

lemma task_upd_upd [simp]: "task_upd a f (task_upd a h n) = task_upd a (f \<circ> h) n"
  by (simp add: task_upd_def option.map_comp)

lemma task_upd_id: "nd_tasks n a = Some t \<Longrightarrow> f t = t \<Longrightarrow> task_upd a f n = n"
  by (cases n) (simp add: task_upd_def fun_upd_idem)

lemma task_get_put:
  assumes "nd_tasks n a = Some t" "tk_ref_count t > 0"
  shows "\<exists>n'. tcmi_task_get (Some a) n = Some n' \<and> n' = task_upd a (\<lambda>t. t\<lparr>tk_ref_count := tk_ref_count t + 1\<rparr>) n \<and>
    tcmi_task_put ops_free (Some a) n' = Some n"
  using assms task_upd_id [of n a t] by (simp add: tcmi_task_get_def tcmi_task_put_def comp_def)

lemma find_by_pid_ok:
  assumes "task_at g pid t n"
  shows "tcmi_taskhelper_find_by_pid pid n = Some (Some t, task_upd t (\<lambda>t. t\<lparr>tk_ref_count := tk_ref_count t + 1\<rparr>) n)"
  using assms by (auto simp: task_at_def tcmi_taskhelper_find_by_pid_def tcmi_task_get_def)

lemma task_deliver_request:
  assumes "task_ready g pid t n" "ms_msgs n a = Some x" "task_request pid x"
  shows "\<exists>q. tcmi_migman_deliver_msg ops_free mem vm g a n = Some (0, task_upd t (\<lambda>t. t\<lparr>tk_msg_queue := q\<rparr>) n) \<and>
    q_elems q = task_inbox t n @ [a] \<and> \<not> q_locked q"
proof -
  obtain p tk m where n: "nd_procs n pid = Some p" "ts_mig_mode_handler p" "ts_tcmi_task p = Some t" "nd_tasks n t = Some tk"
      "tk_ref_count tk > 0" "tk_migman tk = Some g" "nd_migmans n g = Some m" "\<not> q_locked (tk_msg_queue tk)" and at: "task_at g pid t n"
    using assms(1) by (auto simp: task_ready_def task_at_def)
  obtain pm where x: "TCMI_MSG_GROUP (m_id x) = TCMI_MSG_GROUP_PROC" "m_resp x = TCMI_TRANSACTION_INVAL_ID" "m_body x = Procmsg pm"
      "pm_dst_pid pm = pid" "pm_enforce_migmode pm = 0"
    using assms(3) by (auto simp: task_request_def)
  let ?q = "(tk_msg_queue tk)\<lparr>q_elems := q_elems (tk_msg_queue tk) @ [a], q_wakeups := q_wakeups (tk_msg_queue tk) + 1\<rparr>"
  have "tcmi_migman_deliver_msg ops_free mem vm g a n = Some (0, task_upd t (\<lambda>t. t\<lparr>tk_msg_queue := ?q\<rparr>) n)"
    using n x assms(2) find_by_pid_ok [OF at]
    by (simp add: tcmi_migman_deliver_msg_def msg_procmsg_def tcmi_task_migman_id_def tcmi_task_deliver_msg_def tcmi_msg_deliver_def
        tcmi_task_put_def task_upd_def Let_def)
  then show ?thesis using n by (intro exI [of _ ?q]) (simp add: task_inbox_def)
qed

interpretation task_in: comm_client "tcmi_migman_deliver_msg ops_free mem vm g" "task_ready g pid t" "task_request pid" "task_inbox t"
  for ops_free :: "(nat \<Rightarrow> 's node \<Rightarrow> 's node option) option" and mem :: "nat option" and vm :: bool and g pid t
proof
  fix st :: "'s node" and a m h
  show "task_ready g pid t (st\<lparr>ms_msgs := h\<rparr>) \<and> task_inbox t (st\<lparr>ms_msgs := h\<rparr>) = task_inbox t st" if "task_ready g pid t st"
    using that by (simp add: task_ready_def task_at_def task_inbox_def)
  assume st: "task_ready g pid t st" "ms_msgs st a = Some m" "task_request pid m"
  obtain q where "tcmi_migman_deliver_msg ops_free mem vm g a st = Some (0, task_upd t (\<lambda>t. t\<lparr>tk_msg_queue := q\<rparr>) st)"
      "q_elems q = task_inbox t st @ [a]" "\<not> q_locked q"
    using task_deliver_request [OF st] by blast
  then show "\<exists>st'. tcmi_migman_deliver_msg ops_free mem vm g a st = Some (0, st') \<and> task_ready g pid t st' \<and>
      task_inbox t st' = task_inbox t st @ [a] \<and> ms_msgs st' = ms_msgs st"
    using st(1) by (auto simp: task_ready_def task_at_def task_inbox_def)
next
  fix m x show "task_request pid m \<Longrightarrow> msg_same m x \<Longrightarrow> task_request pid x"
    by (cases "m_body x") (auto simp: task_request_def msg_same_def)
qed

subsection \<open>From one node to another\<close>

text \<open>A sender that sends messages one after the other; \<open>None\<close> when one of them fails.\<close>

fun send_all :: "tcmi_msg list \<Rightarrow> 's kkc_sock \<Rightarrow> 's kkc_sock option" where
  "send_all [] s = Some s"
| "send_all (m # ms) s =
     (case tcmi_msg_send_anonymous False 0 m (\<lparr>tt_vec = blank_vec, tt_heap = Map.empty\<rparr> :: nat trans_table) s of
        None \<Rightarrow> None
      | Some (r, _, s) \<Rightarrow> if r < 0 then None else send_all ms s)"

lemma send_all_wire:
  "\<lbrakk>send_all ms s = Some s'; sock_ok s; ks_send_sem s; \<forall>m \<in> set ms. m_transaction m = None \<and> travels grp m\<rbrakk> \<Longrightarrow>
   sock_sent s' = sock_sent s @ concat (map msg_wire ms)"
proof (induction ms arbitrary: s)
  case Nil
  then show ?case by simp
next
  case (Cons m ms)
  let ?tt = "\<lparr>tt_vec = blank_vec, tt_heap = Map.empty\<rparr> :: nat trans_table"
  have m: "body_ok (m_body m)" "\<not> is_signal (m_body m)" "m_transaction m = None" using Cons.prems(4) by (auto simp: travels_def)
  obtain r s1 where s1: "tcmi_msg_send False 0 m TCMI_TRANS_FLAGS_ANONYMOUS ?tt s = Some (r, ?tt, s1)" "sock_ok s1" "ks_send_sem s1"
      "if r < 0 then \<exists>k. sock_sent s1 = sock_sent s @ take k (msg_wire m) else sock_sent s1 = sock_sent s @ msg_wire m"
    using msg_send_ok [OF m(1,2) Cons.prems(2,3), of ?tt 0 TCMI_TRANS_FLAGS_ANONYMOUS ?tt False] m(3) by auto
  then have "send_all ms s1 = Some s'" "\<not> r < 0"
    using Cons.prems(1) by (auto simp: tcmi_msg_send_anonymous_def split: if_splits)
  then show ?case using Cons.IH [of s1] Cons.prems(4) s1(2-4) by simp
qed

subsection \<open>Requests and responses\<close>

text \<open>What the receiving thread does to the transactions when the message at \<open>a\<close> arrives.\<close>

definition respond :: "nat \<Rightarrow> msg_heap \<Rightarrow> nat tcmi_queue \<Rightarrow> nat trans_table \<Rightarrow> nat trans_table" where
  "respond a msgs q tt = (case tcmi_msg_deliver a msgs q tt of Some (_, _, _, tt) \<Rightarrow> tt | None \<Rightarrow> tt)"

lemma deliver_response:
  assumes ok: "tt_ok tt ext" "0 < ext ta" and t: "tt_heap tt ta = Some t" "t_state t = TCMI_TRANSACTION_RUNNING"
    and uniq: "\<forall>b u. tt_heap tt b = Some u \<and> t_id u = t_id t \<longrightarrow> b = ta"
    and x: "msgs a = Some x" "m_resp x = t_id t" "TCMI_MSG_TYPE (m_id x) = t_resp_id t" and q: "\<not> q_locked q"
  shows "\<exists>msgs' q' tt' t'. tcmi_msg_deliver a msgs q tt = Some (0, msgs', q', tt') \<and>
    tt_heap tt' ta = Some t' \<and> t_state t' = TCMI_TRANSACTION_COMPLETE \<and> t_context t' = Some a"
proof -
  have inval: "t_id t \<noteq> TCMI_TRANSACTION_INVAL_ID" using tt_okD(3) [OF ok(1) t(1)] by (simp add: st_ok_def)
  obtain b u where b: "trans_scan tt (t_id t) = Some b" "tt_heap tt b = Some u" "t_id u = t_id t"
    using scan_hit [OF live_in_bucket [OF ok(1) t(1)] t(1) refl] by blast
  have scan: "trans_scan tt (t_id t) = Some ta" using b uniq by auto
  let ?l = "tt_store ta (tcmi_transaction_get t) tt"
  have l: "tcmi_transaction_lookup tt (t_id t) = Some (Some ta, ?l)" "tt_ok ?l (ext(ta := ext ta + 1))"
    using lookup_ok [OF ok(1), of "t_id t"] scan t(1) by auto
  obtain tt' t' where c: "tcmi_transaction_complete ta (Some a) (t_resp_id t) ?l = Some (0, tt')"
      "t_state t' = TCMI_TRANSACTION_COMPLETE" "t_context t' = Some a" "tt_heap tt' = (tt_heap ?l)(ta := Some t')"
    using complete_running_ok [OF l(2), of ta "tcmi_transaction_get t" "Some a" "t_resp_id t"] t(2)
    by (auto simp: tcmi_transaction_get_def)
  show ?thesis
    using c x q l(1) inval by (cases "tcmi_transaction_is_anon t'") (simp_all add: tcmi_msg_deliver_def Let_def)
qed

subsection \<open>Concrete messages\<close>

definition demo_mem :: msg_mem where
  "demo_mem = \<lparr>mm_ok = True, mm_kmalloc = (\<lambda>_. True),
     mm_authenticate = \<lparr>au_pen_id = 7, au_pen_arch = 7, au_auth_data = None, au_size = 7\<rparr>,
     mm_authenticate_resp = \<lparr>ar_ccn_id = 7, ar_ccn_arch = 7, ar_mount_params = [], ar_result_code = 7\<rparr>,
     mm_p_emigrate = \<lparr>em_reply_pid = 7, em_size = 7, em_exec_name_size = 7, em_euid = 7, em_egid = 7, em_fsuid = 7, em_fsgid = 7,
       em_exec_name = None, em_ckpt_name = None\<rparr>,
     mm_signal = \<lparr>sg_pid = 7, sg_info = []\<rparr>, mm_generic_user = \<lparr>gu_node_id = 7, gu_user_data = None, gu_size = 7\<rparr>,
     mm_proc = \<lparr>pm_dst_pid = 7, pm_enforce_migmode = 7, pm_body = Skel_procmsg\<rparr>,
     mm_guestreq = \<lparr>gr_size = 7, gr_ckpt_name = None\<rparr>,
     mm_rpc = \<lparr>rpc_rpcnum = 7, rpc_nmemb = 0, rpc_elem_size = [], rpc_elem_base = [], rpc_free_data = False\<rparr>,
     mm_rpcresp = \<lparr>rr_rpcnum = 7, rr_nmemb = 0, rr_rtn_code = 7, rr_elem_free = None, rr_elem_size = [], rr_elem_base = []\<rparr>,
     mm_word = 7\<rparr>"

lemma demo_mem_ok [simp]: "mem_ok demo_mem" "mm_ok demo_mem" "mm_kmalloc demo_mem n"
  by (simp_all add: mem_ok_def demo_mem_def)

definition auth_demo :: tcmi_msg where
  "auth_demo = \<lparr>m_id = TCMI_AUTHENTICATE_MSG_ID, m_req = 0, m_resp = 0, m_transaction = None, m_ref_count = 1,
     m_body = Authenticate_msg \<lparr>au_pen_id = 3, au_pen_arch = 1, au_auth_data = Some [11, 22], au_size = 2\<rparr>\<rparr>"

definition disc_demo :: tcmi_msg where
  "disc_demo = \<lparr>m_id = TCMI_DISCONNECT_MSG_ID, m_req = 0, m_resp = 0, m_transaction = None, m_ref_count = 1, m_body = Disconnect_msg\<rparr>"

lemma demo_travels [simp]: "travels TCMI_MSG_GROUP_ANY auth_demo" "travels TCMI_MSG_GROUP_ANY disc_demo"
  by (simp_all add: travels_def auth_demo_def disc_demo_def is_signal_def id_fits_def buf_ok_def)

lemma eager_fold: "eager_sock out inp\<lparr>ks_state := (out', inp')\<rparr> = eager_sock out' inp'"
  by (simp add: eager_sock_def)

lemmas eager_sends = tcmi_msg_send_anonymous_def tcmi_msg_send_def kkc_sock_snd_lock_interruptible_def kkc_sock_snd_unlock_def
  send_field_def eager_send msg_wire_def eager_sock_def

lemma demo_sends:
  "tcmi_msg_send False 0 auth_demo flags tt (eager_sock [] []) = Some (0, tt, eager_sock (msg_wire auth_demo) [])"
  by (simp add: eager_sends auth_demo_def tcmi_authenticate_msg_send_def send_buf_def buf_bytes_def int_len_def opt_bytes_def)

definition demo_kernel :: comm_kernel where
  "demo_kernel = \<lparr>ck_stop = (\<lambda>_. False), ck_mem = (\<lambda>_. demo_mem), ck_addr = (\<lambda>k. k + 100), ck_signal = (\<lambda>_. False)\<rparr>"

definition demo_migman :: tcmi_migman where
  "demo_migman = \<lparr>mg_tasks = blank_vec, mg_ccn_id = 1, mg_pen_id = 2, mg_peer_arch_type = 0, mg_mount_params = [], mg_manager_slot = 0,
     mg_ref_count = 1, mg_msg_queue = tcmi_queue_init garbage_queue, mg_transactions = \<lparr>tt_vec = blank_vec, tt_heap = Map.empty\<rparr>, mg_sock = 50,
     mg_state = TCMI_MIGMAN_CONNECTED, mg_id = 77\<rparr>"

definition demo_node :: "(byte list \<times> byte list) node" where
  "demo_node = \<lparr>ms_msgs = Map.empty, nd_wrappers = Map.empty, nd_tasks = Map.empty, nd_procs = Map.empty, nd_migmans = [60 \<mapsto> demo_migman],
     nd_man_slots = blank_vec, nd_socks = [50 \<mapsto> eager_sock [] []], nd_arch_refs = 1\<rparr>"

lemma demo_sends_all:
  "send_all [auth_demo, disc_demo] (eager_sock [] []) = Some (eager_sock (msg_wire auth_demo @ msg_wire disc_demo) [])"
  by (simp add: eager_sends auth_demo_def disc_demo_def tcmi_authenticate_msg_send_def send_buf_def buf_bytes_def int_len_def opt_bytes_def
      tcmi_disconnect_msg_send_def)

definition resp_demo :: tcmi_msg where
  "resp_demo = \<lparr>m_id = 9, m_req = 0, m_resp = 5, m_transaction = None, m_ref_count = 1, m_body = Disconnect_msg\<rparr>"

definition wrap_call :: "byte list" where
  "wrap_call = le_bytes 2 (7 :: u16) @ le_bytes 2 (2 :: u16) @ u32s_bytes [4294967292, 8] @ [1, 2, 3, 4]"

subsection \<open>Properties\<close>



text \<open>
  C20. The factory builds a structure exactly for the identifiers of known messages of the
  connection's group, with error versions only for messages that have one; what it builds
  has the identifier it was asked for, is of the class the identifier stands for, and is
  fresh: no transaction and one reference.
\<close>

theorem tcmi_factory_exact:
  assumes "mm_ok mem"
  shows "((\<exists>g. tcmi_msg_factory mem i grp = Some g) \<longleftrightarrow>
      (\<exists>m. m_id m = i \<and> id_fits m \<and> grp \<in> {body_group (m_body m), TCMI_MSG_GROUP_ANY})) \<and>
    (\<forall>g. tcmi_msg_factory mem i grp = Some g \<longrightarrow> rx_fresh i g \<and> id_fits g)"
proof -
  have "\<exists>m. m_id m = i \<and> id_fits m \<and> grp \<in> {body_group (m_body m), TCMI_MSG_GROUP_ANY}"
    if "tcmi_msg_factory mem i grp = Some g" for g
    using factory_sound [OF that] by (auto simp: rx_fresh_def)
  moreover have "\<exists>g. tcmi_msg_factory mem (m_id m) grp = Some g"
    if "id_fits m" "grp \<in> {body_group (m_body m), TCMI_MSG_GROUP_ANY}" for m
    using factory_builds [OF that(1) assms that(2)] by blast
  ultimately show ?thesis using factory_sound by blast
qed

theorem tcmi_factory_exact_witness:
  "mm_ok demo_mem \<and> (\<exists>g. tcmi_msg_factory demo_mem TCMI_AUTHENTICATE_MSG_ID TCMI_MSG_GROUP_MIG = Some g \<and> id_fits g)"
proof -
  have "\<exists>m. m_id m = TCMI_AUTHENTICATE_MSG_ID \<and> id_fits m \<and> TCMI_MSG_GROUP_MIG \<in> {body_group (m_body m), TCMI_MSG_GROUP_ANY}"
    by (intro exI [of _ auth_demo]) (simp add: auth_demo_def id_fits_def body_group_def is_proc_def)
  then show ?thesis using tcmi_factory_exact [OF demo_mem_ok(2), of TCMI_AUTHENTICATE_MSG_ID TCMI_MSG_GROUP_MIG] by auto
qed








end
