(* ===== verification/Tcmi_Tasklife.thy ===== *)
theory Tcmi_Tasklife
  imports Tcmi_Protocol
begin

text \<open>
  Tasks on a node: messages reach only tasks of the manager they came to, killing a manager
  reaches all its tasks, flushing the method queue, and the attachment of tasks to processes.
\<close>

subsection \<open>Isolation of tasks\<close>

text \<open>Every process in the hands of the modules refers to a live task, and that to a live manager.\<close>

definition tasks_alive :: "'s node \<Rightarrow> bool" where
  "tasks_alive n \<longleftrightarrow> (\<forall>pid p t. nd_procs n pid = Some p \<and> ts_tcmi_task p = Some t \<longrightarrow>
     (\<exists>tk g m. nd_tasks n t = Some tk \<and> 0 < tk_ref_count tk \<and> tk_migman tk = Some g \<and> nd_migmans n g = Some m))"

text \<open>The task at \<open>t\<close> is the one of process \<open>pid\<close> and its manager carries the identifier \<open>i\<close>.\<close>

definition owned :: "u32 \<Rightarrow> i32 \<Rightarrow> nat \<Rightarrow> 's node \<Rightarrow> bool" where
  "owned i pid t n \<longleftrightarrow> (\<exists>p tk g m. nd_procs n pid = Some p \<and> ts_mig_mode_handler p \<and> ts_tcmi_task p = Some t \<and>
     nd_tasks n t = Some tk \<and> tk_migman tk = Some g \<and> nd_migmans n g = Some m \<and> mg_id m = i)"

abbreviation task_ref :: "nat \<Rightarrow> 's node \<Rightarrow> 's node" where
  "task_ref t \<equiv> task_upd t (\<lambda>t. t\<lparr>tk_ref_count := tk_ref_count t + 1\<rparr>)"

lemma find_by_pid_alive:
  assumes "tasks_alive n"
  shows "tcmi_taskhelper_find_by_pid pid n = (case nd_procs n pid of None \<Rightarrow> Some (None, n)
    | Some p \<Rightarrow> if ts_mig_mode_handler p then (case ts_tcmi_task p of None \<Rightarrow> Some (None, n) | Some t \<Rightarrow> Some (Some t, task_ref t n))
      else Some (None, n))"
proof (cases "nd_procs n pid")
  case (Some p)
  show ?thesis
  proof (cases "ts_tcmi_task p")
    case (Some t)
    then obtain tk where "nd_tasks n t = Some tk" using assms \<open>nd_procs n pid = Some p\<close> unfolding tasks_alive_def by blast
    then show ?thesis using Some \<open>nd_procs n pid = Some p\<close> by (simp add: tcmi_taskhelper_find_by_pid_def tcmi_task_get_def)
  qed (simp add: Some tcmi_taskhelper_find_by_pid_def)
qed (simp add: tcmi_taskhelper_find_by_pid_def)

lemma task_ref_put:
  assumes "nd_tasks n t = Some tk" "0 < tk_ref_count tk"
  shows "tcmi_task_put ops_free (Some t) (task_ref t n) = Some n"
  using task_get_put [OF assms, of ops_free] by auto

lemma deliver_rejects:
  assumes "ms_msgs n a = Some x" "TCMI_MSG_GROUP (m_id x) = TCMI_MSG_GROUP_PROC" "msg_procmsg x = Some p"
    and "nd_migmans n g = Some m" "tasks_alive n" "\<nexists>t. owned (mg_id m) (pm_dst_pid p) t n"
  shows "tcmi_migman_deliver_msg ops_free mem vm g a n = Some (- EINVAL, n)"
proof (cases "tcmi_taskhelper_find_by_pid (pm_dst_pid p) n = Some (None, n)")
  case True
  then show ?thesis using assms by (simp add: tcmi_migman_deliver_msg_def)
next
  case False
  then obtain pr t where pr: "nd_procs n (pm_dst_pid p) = Some pr" "ts_mig_mode_handler pr" "ts_tcmi_task pr = Some t"
      and fnd: "tcmi_taskhelper_find_by_pid (pm_dst_pid p) n = Some (Some t, task_ref t n)"
    using find_by_pid_alive [OF assms(5), of "pm_dst_pid p"] by (auto split: option.splits if_splits)
  obtain tk g' m' where tk: "nd_tasks n t = Some tk" "0 < tk_ref_count tk" "tk_migman tk = Some g'" "nd_migmans n g' = Some m'"
    using assms(5) pr unfolding tasks_alive_def by blast
  have "mg_id m' \<noteq> mg_id m" using assms(6) pr tk unfolding owned_def by blast
  then show ?thesis
    using assms fnd tk task_ref_put [OF tk(1,2), of ops_free] by (simp add: tcmi_migman_deliver_msg_def tcmi_task_migman_id_def)
qed

text \<open>Between \<open>n\<close> and \<open>n'\<close> only the task at \<open>t\<close> has changed, and that kept its references, manager and process.\<close>

definition task_frame :: "nat \<Rightarrow> 's node \<Rightarrow> 's node \<Rightarrow> bool" where
  "task_frame t n n' \<longleftrightarrow> nd_migmans n' = nd_migmans n \<and> nd_socks n' = nd_socks n \<and> (\<forall>t'. t' \<noteq> t \<longrightarrow> nd_tasks n' t' = nd_tasks n t') \<and>
     map_option (\<lambda>tk. (tk_ref_count tk, tk_migman tk, tk_local_pid tk)) (nd_tasks n' t) =
     map_option (\<lambda>tk. (tk_ref_count tk, tk_migman tk, tk_local_pid tk)) (nd_tasks n t)"

lemma task_frame_refl [simp]: "task_frame t n n"
  by (simp add: task_frame_def)

lemma task_frame_trans: "task_frame t n n1 \<Longrightarrow> task_frame t n1 n2 \<Longrightarrow> task_frame t n n2"
  by (simp add: task_frame_def)

lemma task_frame_upd:
  assumes "\<And>tk. tk_ref_count (f tk) = tk_ref_count tk" "\<And>tk. tk_migman (f tk) = tk_migman tk" "\<And>tk. tk_local_pid (f tk) = tk_local_pid tk"
  shows "task_frame t n (task_upd t f n)"
  using assms by (simp add: task_frame_def option.map_comp comp_def)

lemma submit_method_frame: "tcmi_task_submit_method mem vm t method data n = Some n' \<Longrightarrow> task_frame t n n'"
  by (auto simp: tcmi_task_submit_method_def tcmi_method_wrapper_new_def tcmi_task_add_wrapper_def task_frame_def
      split: option.splits if_splits bind_splits)

lemma enter_mig_mode_frame: "tcmi_taskhelper_enter_mig_mode t n = Some n' \<Longrightarrow> task_frame t n n'"
  by (auto simp: tcmi_taskhelper_enter_mig_mode_def force_sig_def task_frame_def split: option.splits bind_splits)

lemma task_deliver_frame:
  assumes "tcmi_task_deliver_msg mem vm t a n = Some (err, n')"
  shows "task_frame t n n'"
proof -
  obtain tk res msgs q tt where d: "nd_tasks n t = Some tk" "tcmi_msg_deliver a (ms_msgs n) (tk_msg_queue tk) (tk_transactions tk) = Some (res, msgs, q, tt)"
    using assms by (auto simp: tcmi_task_deliver_msg_def split: bind_splits)
  let ?n = "task_upd t (\<lambda>t. t\<lparr>tk_msg_queue := q, tk_transactions := tt\<rparr>) (n\<lparr>ms_msgs := msgs\<rparr>)"
  have f: "task_frame t n ?n" by (simp add: task_frame_def option.map_comp comp_def)
  consider "n' = ?n" | n1 where "tcmi_task_submit_method mem vm t Process_msg (Some (Int_data 0)) ?n = Some n1 \<or> n1 = ?n"
      "tcmi_taskhelper_enter_mig_mode t n1 = Some n'"
    using assms d by (auto simp: tcmi_task_deliver_msg_def Let_def split: bind_splits if_splits)
  then show ?thesis using f by cases (auto dest: submit_method_frame enter_mig_mode_frame intro: task_frame_trans)
qed

lemma task_put_extra:
  assumes "nd_tasks n t = Some tk" "1 < tk_ref_count tk"
  shows "tcmi_task_put ops_free (Some t) n = Some (task_upd t (\<lambda>t. t\<lparr>tk_ref_count := tk_ref_count t - 1\<rparr>) n)"
  using assms by (simp add: tcmi_task_put_def)

lemma task_frame_deref:
  assumes "task_frame t (task_ref t n) n1"
  shows "task_frame t n (task_upd t (\<lambda>t. t\<lparr>tk_ref_count := tk_ref_count t - 1\<rparr>) n1)"
  using assms by (cases "nd_tasks n t"; cases "nd_tasks n1 t") (auto simp: task_frame_def)

text \<open>
  C13. A message for a process goes only to a task of the manager it came to: when the process
  it names has no task, or one that belongs to another manager, delivery fails with
  \<^verbatim>\<open>-EINVAL\<close> and changes nothing on the node; otherwise no other task, no manager and no connection
  is touched, and the task keeps its references, its manager and its process.
\<close>

theorem proc_message_stays_with_its_manager:
  assumes "ms_msgs n a = Some x" "TCMI_MSG_GROUP (m_id x) = TCMI_MSG_GROUP_PROC" "msg_procmsg x = Some p"
    and "nd_migmans n g = Some m" "tasks_alive n"
  shows "if \<exists>t. owned (mg_id m) (pm_dst_pid p) t n
    then \<exists>t. owned (mg_id m) (pm_dst_pid p) t n \<and>
      (\<forall>err n'. tcmi_migman_deliver_msg ops_free mem vm g a n = Some (err, n') \<longrightarrow> task_frame t n n')
    else tcmi_migman_deliver_msg ops_free mem vm g a n = Some (- EINVAL, n)"
proof (cases "\<exists>t. owned (mg_id m) (pm_dst_pid p) t n")
  case True
  then obtain t where ow: "owned (mg_id m) (pm_dst_pid p) t n" by blast
  then obtain pr tk g' m' where t: "nd_procs n (pm_dst_pid p) = Some pr" "ts_mig_mode_handler pr" "ts_tcmi_task pr = Some t"
      "nd_tasks n t = Some tk" "tk_migman tk = Some g'" "nd_migmans n g' = Some m'" "mg_id m' = mg_id m"
    unfolding owned_def by blast
  have ref: "0 < tk_ref_count tk" using assms(5) t(1,3,4) unfolding tasks_alive_def by fastforce
  have "task_frame t n n'" if d: "tcmi_migman_deliver_msg ops_free mem vm g a n = Some (err, n')" for err n'
  proof -
    obtain n1 where n1: "tcmi_task_deliver_msg mem vm t a (task_ref t n) = Some (err, n1)" "tcmi_task_put ops_free (Some t) n1 = Some n'"
      using d assms(1-4) t find_by_pid_alive [OF assms(5), of "pm_dst_pid p"]
      by (auto simp: tcmi_migman_deliver_msg_def tcmi_task_migman_id_def split: bind_splits)
    note f = task_deliver_frame [OF n1(1)]
    then obtain tk1 where "nd_tasks n1 t = Some tk1" "tk_ref_count tk1 = tk_ref_count tk + 1" using t(4) by (auto simp: task_frame_def)
    then have "n' = task_upd t (\<lambda>t. t\<lparr>tk_ref_count := tk_ref_count t - 1\<rparr>) n1" using task_put_extra [of n1 t tk1 ops_free] n1(2) ref by simp
    then show ?thesis using task_frame_deref [OF f] by simp
  qed
  then show ?thesis using ow by auto
next
  case False
  then show ?thesis using deliver_rejects [OF assms False] by simp
qed

definition demo_task :: tcmi_task where
  "demo_task = \<lparr>tk_local_pid = 5, tk_remote_pid = 6, tk_migman = Some 60, tk_sock = 50, tk_method_queue = tcmi_queue_init garbage_queue,
     tk_msg_queue = tcmi_queue_init garbage_queue, tk_transactions = \<lparr>tt_vec = blank_vec, tt_heap = Map.empty\<rparr>, tk_exit_code = 0,
     tk_ref_count = 1, tk_ckpt_pathname = None, tk_argv = None, tk_envp = None, tk_execve_count = 0, tk_picked_up_flag = 0,
     tk_peer_lost = False\<rparr>"

definition exit_demo :: tcmi_msg where
  "exit_demo = \<lparr>m_id = TCMI_EXIT_PROCMSG_ID, m_req = 0, m_resp = 0, m_transaction = None, m_ref_count = 1,
     m_body = Procmsg \<lparr>pm_dst_pid = 5, pm_enforce_migmode = 0, pm_body = Exit_procmsg 1\<rparr>\<rparr>"

text \<open>Two managers; the process 5 belongs to a task of the first.\<close>

definition demo_node2 :: "(byte list \<times> byte list) node" where
  "demo_node2 = demo_node\<lparr>ms_msgs := [100 \<mapsto> exit_demo], nd_tasks := [70 \<mapsto> demo_task],
     nd_procs := [5 \<mapsto> \<lparr>ts_mig_mode_handler = True, ts_tcmi_task = Some 70, ts_task_type = guest, ts_signals = []\<rparr>],
     nd_migmans := [60 \<mapsto> demo_migman, 61 \<mapsto> demo_migman\<lparr>mg_id := 78, mg_sock := 51\<rparr>]\<rparr>"

theorem proc_message_stays_with_its_manager_witness:
  "tcmi_migman_deliver_msg None None True 61 100 demo_node2 = Some (- EINVAL, demo_node2)"
proof -
  have "\<nexists>t. owned 78 5 t demo_node2"
    by (simp add: owned_def demo_node2_def demo_task_def demo_migman_def)
  moreover have "tasks_alive demo_node2" by (simp add: tasks_alive_def demo_node2_def demo_task_def)
  moreover have "nd_migmans demo_node2 61 = Some (demo_migman\<lparr>mg_id := 78, mg_sock := 51\<rparr>)" "ms_msgs demo_node2 100 = Some exit_demo"
    by (simp_all add: demo_node2_def)
  ultimately show ?thesis
    using proc_message_stays_with_its_manager [of demo_node2 100 exit_demo _ 61 "demo_migman\<lparr>mg_id := 78, mg_sock := 51\<rparr>"]
    by (simp add: exit_demo_def msg_procmsg_def id_fields)
qed

subsection \<open>Killing the tasks of a manager\<close>

definition can_signal :: "nat \<Rightarrow> 's node \<Rightarrow> bool" where
  "can_signal t n \<longleftrightarrow> (\<exists>tk p. nd_tasks n t = Some tk \<and> nd_procs n (tk_local_pid tk) = Some p)"

definition sig_pending :: "nat \<Rightarrow> i32 \<Rightarrow> 's node \<Rightarrow> bool" where
  "sig_pending sig pid n \<longleftrightarrow> (\<exists>p. nd_procs n pid = Some p \<and> sig \<in> set (ts_signals p))"

lemma signal_one:
  assumes "nd_tasks n t = Some tk" "nd_procs n (tk_local_pid tk) = Some p"
  shows "\<exists>n'. tcmi_task_signal_peer_lost t n = Some n' \<and> nd_tasks n' = (nd_tasks n)(t \<mapsto> tk\<lparr>tk_peer_lost := True\<rparr>) \<and>
    nd_procs n' = (nd_procs n)(tk_local_pid tk \<mapsto> p\<lparr>ts_signals := ts_signals p @ [SIGKILL]\<rparr>)"
  using assms by (simp add: tcmi_task_signal_peer_lost_def force_sig_def)

lemma signal_all_ok:
  "\<forall>t \<in> set ts. can_signal t n \<Longrightarrow> \<exists>n'. signal_all ts n = Some n' \<and>
     (\<forall>t. nd_tasks n' t = map_option (\<lambda>tk. if t \<in> set ts then tk\<lparr>tk_peer_lost := True\<rparr> else tk) (nd_tasks n t)) \<and>
     (\<forall>sig pid. sig_pending sig pid n \<longrightarrow> sig_pending sig pid n') \<and>
     (\<forall>t tk. t \<in> set ts \<and> nd_tasks n t = Some tk \<longrightarrow> sig_pending SIGKILL (tk_local_pid tk) n')"
proof (induction ts arbitrary: n)
  case Nil
  then show ?case by (simp add: option.map_ident)
next
  case (Cons t ts)
  obtain tk p where t: "nd_tasks n t = Some tk" "nd_procs n (tk_local_pid tk) = Some p" using Cons.prems by (auto simp: can_signal_def)
  obtain n1 where n1: "tcmi_task_signal_peer_lost t n = Some n1" "nd_tasks n1 = (nd_tasks n)(t \<mapsto> tk\<lparr>tk_peer_lost := True\<rparr>)"
      "nd_procs n1 = (nd_procs n)(tk_local_pid tk \<mapsto> p\<lparr>ts_signals := ts_signals p @ [SIGKILL]\<rparr>)"
    using signal_one [OF t] by blast
  have "can_signal u n1" if "can_signal u n" for u using that n1(2,3) t by (auto simp: can_signal_def)
  then obtain n' where n': "signal_all ts n1 = Some n'"
      "\<forall>t. nd_tasks n' t = map_option (\<lambda>tk. if t \<in> set ts then tk\<lparr>tk_peer_lost := True\<rparr> else tk) (nd_tasks n1 t)"
      "\<forall>sig pid. sig_pending sig pid n1 \<longrightarrow> sig_pending sig pid n'"
      "\<forall>t tk. t \<in> set ts \<and> nd_tasks n1 t = Some tk \<longrightarrow> sig_pending SIGKILL (tk_local_pid tk) n'"
    using Cons.IH [of n1] Cons.prems by (auto 0 3)
  have "sig_pending SIGKILL (tk_local_pid tk) n1" "\<forall>sig pid. sig_pending sig pid n \<longrightarrow> sig_pending sig pid n1"
    using n1(3) t(2) by (auto simp: sig_pending_def)
  moreover have "nd_tasks n' u = map_option (\<lambda>tk. if u \<in> set (t # ts) then tk\<lparr>tk_peer_lost := True\<rparr> else tk) (nd_tasks n u)" for u
    using n'(2) n1(2) t(1) by auto
  moreover have "sig_pending SIGKILL (tk_local_pid uk) n'" if "u \<in> set ts" "nd_tasks n u = Some uk" for u uk
    using that n'(4) [rule_format, of u "if u = t then tk\<lparr>tk_peer_lost := True\<rparr> else uk"] n1(2) t(1) by (cases "u = t") auto
  ultimately show ?case using n1(1) n'(1,3) t(1) by (intro exI [of _ n']) auto
qed

lemma used_nodes:
  assumes "slotvec_inv sv"
  shows "t \<in> set (concat (map (nodes_at sv) (sv_used sv))) \<longleftrightarrow> \<not> fresh_node t sv"
  using slotvec_invD(6,7) [OF assms] by (fastforce simp: fresh_node_def)

text \<open>
  C14. Killing a manager reaches every task it manages and no other: each of them is marked
  as having lost its peer and has a SIGKILL pending at its process, and when that is
  taken up the task asks to be killed, whatever its class does with signals; the other tasks
  are as before.
\<close>

theorem kill_reaches_every_task:
  assumes "nd_migmans n g = Some m" "slotvec_ready (mg_tasks m)" "\<forall>t. \<not> fresh_node t (mg_tasks m) \<longrightarrow> can_signal t n"
  shows "\<exists>n'. kill_all_tasks g n = Some n' \<and>
    (\<forall>t tk. nd_tasks n t = Some tk \<longrightarrow>
       (if fresh_node t (mg_tasks m) then nd_tasks n' t = Some tk
        else nd_tasks n' t = Some (tk\<lparr>tk_peer_lost := True\<rparr>) \<and> sig_pending SIGKILL (tk_local_pid tk) n' \<and>
          (\<forall>ops. tcmi_task_do_signal ops t SIGKILL n' = Some (TCMI_TASK_KILL_ME, n'))))"
proof -
  let ?sv = "mg_tasks m\<lparr>sv_locked := True\<rparr>" and ?ts = "concat (map (nodes_at (mg_tasks m\<lparr>sv_locked := True\<rparr>)) (sv_used (mg_tasks m)))"
  have ts: "t \<in> set ?ts \<longleftrightarrow> \<not> fresh_node t (mg_tasks m)" for t
    using used_nodes [of ?sv t] assms(2) by (simp add: slotvec_ready_def)
  obtain n' where n': "signal_all ?ts n = Some n'"
      "\<forall>t. nd_tasks n' t = map_option (\<lambda>tk. if t \<in> set ?ts then tk\<lparr>tk_peer_lost := True\<rparr> else tk) (nd_tasks n t)"
      "\<forall>t tk. t \<in> set ?ts \<and> nd_tasks n t = Some tk \<longrightarrow> sig_pending SIGKILL (tk_local_pid tk) n'"
    using signal_all_ok [of ?ts n] assms(3) ts by blast
  have "kill_all_tasks g n = Some n'"
    using n'(1) assms(1,2) by (simp add: kill_all_tasks_def tcmi_slot_lock_def slotvec_ready_def)
  then show ?thesis using n'(2,3) ts by (intro exI [of _ n']) (auto simp: tcmi_task_do_signal_def)
qed

definition demo_tasks :: "nat tcmi_slotvec" where
  "demo_tasks = \<lparr>sv_slots = [\<lparr>slot_index = 0, slot_nodes = []\<rparr>, \<lparr>slot_index = 1, slot_nodes = [70]\<rparr>], sv_slot_count = 2, sv_hashmsk = 1,
     sv_unused = [0], sv_used = [1], sv_ref_count = 1, sv_locked = False\<rparr>"

lemma demo_tasks_ready: "slotvec_ready demo_tasks" "fresh_node t demo_tasks \<longleftrightarrow> t \<noteq> 70"
  by (auto simp: slotvec_ready_def slotvec_inv_def slots_disjoint_def demo_tasks_def fresh_node_def less_Suc_eq)

theorem kill_reaches_every_task_witness:
  "\<exists>n'. kill_all_tasks 60 (demo_node2\<lparr>nd_migmans := [60 \<mapsto> demo_migman\<lparr>mg_tasks := demo_tasks\<rparr>]\<rparr>) = Some n' \<and>
     nd_tasks n' 70 = Some (demo_task\<lparr>tk_peer_lost := True\<rparr>) \<and> sig_pending SIGKILL 5 n'"
proof -
  have "nd_tasks demo_node2 70 = Some demo_task" "tk_local_pid demo_task = 5" "nd_procs demo_node2 5 \<noteq> None"
    by (simp_all add: demo_node2_def demo_task_def)
  moreover have "\<forall>t. \<not> fresh_node t demo_tasks \<longrightarrow> can_signal t (demo_node2\<lparr>nd_migmans := [60 \<mapsto> demo_migman\<lparr>mg_tasks := demo_tasks\<rparr>]\<rparr>)"
    by (simp add: demo_tasks_ready can_signal_def demo_node2_def demo_task_def)
  ultimately show ?thesis
    using kill_reaches_every_task [of "demo_node2\<lparr>nd_migmans := [60 \<mapsto> demo_migman\<lparr>mg_tasks := demo_tasks\<rparr>]\<rparr>" 60 "demo_migman\<lparr>mg_tasks := demo_tasks\<rparr>"]
      demo_tasks_ready by (simp, elim exE conjE) (metis (full_types))
qed

subsection \<open>Replacing the methods of a task\<close>

text \<open>The reference: take the first \<open>k\<close> methods out of the queue one by one and release each.\<close>

fun discard_methods :: "nat \<Rightarrow> nat \<Rightarrow> 's node \<Rightarrow> 's node option" where
  "discard_methods 0 self n = Some n"
| "discard_methods (Suc k) self n = do {
     t \<leftarrow> nd_tasks n self;
     (w, q) \<leftarrow> tcmi_queue_remove (tk_method_queue t);
     n \<leftarrow> tcmi_method_wrapper_put w (task_upd self (\<lambda>t. t\<lparr>tk_method_queue := q\<rparr>) n);
     discard_methods k self n
   }"

lemma wrapper_put_task_upd:
  "tcmi_method_wrapper_put w (task_upd a f n) = map_option (task_upd a f) (tcmi_method_wrapper_put w n)"
  by (cases w; cases "nd_wrappers n (the w)") (simp_all add: tcmi_method_wrapper_put_def task_upd_def)

lemma wrapper_put_frame: "tcmi_method_wrapper_put w n = Some n' \<Longrightarrow> nd_tasks n' = nd_tasks n"
  by (auto simp: tcmi_method_wrapper_put_def split: option.splits bind_splits)

lemma flush_task_upd: "flush_methods ws (task_upd a f n) = map_option (task_upd a f) (flush_methods ws n)"
proof (induction ws arbitrary: n)
  case (Cons w ws)
  then show ?case by (cases "tcmi_method_wrapper_put (Some w) n") (simp_all add: wrapper_put_task_upd)
qed simp

lemma flush_frame: "flush_methods ws n = Some n' \<Longrightarrow> nd_tasks n' = nd_tasks n"
proof (induction ws arbitrary: n)
  case (Cons w ws)
  then show ?case by (cases "tcmi_method_wrapper_put (Some w) n") (auto dest: wrapper_put_frame)
qed simp

lemma flush_new_wrapper:
  "a \<notin> set ws \<Longrightarrow> flush_methods ws (n\<lparr>nd_wrappers := (nd_wrappers n)(a \<mapsto> x)\<rparr>) =
     map_option (\<lambda>n. n\<lparr>nd_wrappers := (nd_wrappers n)(a \<mapsto> x)\<rparr>) (flush_methods ws n)"
proof (induction ws arbitrary: n)
  case (Cons w ws)
  have "tcmi_method_wrapper_put (Some w) (n\<lparr>nd_wrappers := (nd_wrappers n)(a \<mapsto> x)\<rparr>) =
      map_option (\<lambda>n. n\<lparr>nd_wrappers := (nd_wrappers n)(a \<mapsto> x)\<rparr>) (tcmi_method_wrapper_put (Some w) n)"
    using Cons.prems by (cases "nd_wrappers n w") (auto simp: tcmi_method_wrapper_put_def fun_upd_twist)
  then show ?case using Cons by (cases "tcmi_method_wrapper_put (Some w) n") (simp_all add: fun_upd_def)
qed simp

lemma discard_flush:
  assumes "nd_tasks n self = Some t" "\<not> q_locked (tk_method_queue t)"
  shows "discard_methods (length (q_elems (tk_method_queue t))) self n =
    map_option (task_upd self (\<lambda>u. u\<lparr>tk_method_queue := (tk_method_queue t)\<lparr>q_elems := []\<rparr>\<rparr>)) (flush_methods (q_elems (tk_method_queue t)) n)"
  using assms
proof (induction "q_elems (tk_method_queue t)" arbitrary: n t)
  case Nil
  then have "(tk_method_queue t)\<lparr>q_elems := []\<rparr> = tk_method_queue t" by simp
  then show ?case using Nil task_upd_id [of n self t] by (simp flip: Nil.hyps)
next
  case (Cons w ws)
  let ?q = "(tk_method_queue t)\<lparr>q_elems := ws\<rparr>" and ?t = "t\<lparr>tk_method_queue := (tk_method_queue t)\<lparr>q_elems := ws\<rparr>\<rparr>"
  have rem: "tcmi_queue_remove (tk_method_queue t) = Some (Some w, ?q)"
    using Cons.prems(2) Cons.hyps(2) [symmetric] by (simp add: queue_remove_eq)
  show ?case
  proof (cases "tcmi_method_wrapper_put (Some w) n")
    case None
    then show ?thesis using Cons.prems(1) rem by (simp add: wrapper_put_task_upd flip: Cons.hyps(2))
  next
    case (Some n1)
    have t1: "nd_tasks (task_upd self (\<lambda>u. u\<lparr>tk_method_queue := ?q\<rparr>) n1) self = Some ?t"
      using wrapper_put_frame [OF Some] Cons.prems(1) by simp
    have "discard_methods (length ws) self (task_upd self (\<lambda>u. u\<lparr>tk_method_queue := ?q\<rparr>) n1) =
        map_option (task_upd self (\<lambda>u. u\<lparr>tk_method_queue := (tk_method_queue t)\<lparr>q_elems := []\<rparr>\<rparr>)) (flush_methods ws n1)"
      using Cons.hyps(1) [of ?t] t1 Cons.prems(2) by (simp add: flush_task_upd option.map_comp comp_def)
    then show ?thesis using Some Cons.prems(1) rem by (simp add: wrapper_put_task_upd flip: Cons.hyps(2))
  qed
qed

lemma queue_unlocked_id: "\<not> q_locked q \<Longrightarrow> q\<lparr>q_elems := x, q_wakeups := y, q_locked := False\<rparr> = q\<lparr>q_elems := x, q_wakeups := y\<rparr>"
  by (cases q) simp


definition demo_busy :: "(byte list \<times> byte list) node" where
  "demo_busy = demo_node2\<lparr>nd_wrappers := [80 \<mapsto> \<lparr>w_method = Process_msg, w_data = None, w_ref_count = 1\<rparr>, 81 \<mapsto> \<lparr>w_method = Exit, w_data = None, w_ref_count = 2\<rparr>],
     nd_tasks := [70 \<mapsto> demo_task\<lparr>tk_method_queue := (tk_method_queue demo_task)\<lparr>q_elems := [80, 81]\<rparr>\<rparr>]\<rparr>"


subsection \<open>Tasks and their processes\<close>



end
