(* ===== verification/Tcmi_Handshake.thy ===== *)
theory Tcmi_Handshake
  imports Tcmi_Ccnpen Tcmi_Tasklife
begin

text \<open>
  Shadow and guest: how the two halves of a migrated process find each other, and a
  message that a guest releases twice.
\<close>

subsection \<open>A request that is released twice\<close>

lemma notify_idle_task:
  assumes n: "nd_tasks n self = Some t" "task_at g (tk_local_pid t) self n" and q: "\<not> q_locked (tk_method_queue t)" "q_elems (tk_method_queue t) = []"
  shows "\<exists>n'. tcmi_taskhelper_notify_by_pid ops_free mem True (tk_local_pid t) method None 1 n = Some (0, n') \<and> ms_msgs n' = ms_msgs n \<and>
    nd_tasks n' self \<noteq> None"
proof -
  obtain p where p: "nd_procs n (tk_local_pid t) = Some p" "0 < tk_ref_count t" using n by (auto simp: task_at_def)
  show ?thesis
    using n(1) p q find_by_pid_ok [OF n(2)]
    by (cases mem) (simp_all add: tcmi_taskhelper_notify_by_pid_def tcmi_task_flush_and_submit_method_def tcmi_method_wrapper_new_def
        tcmi_queue_lock_def tcmi_taskhelper_enter_mig_mode_def force_sig_def tcmi_task_put_def Let_def)
qed

lemma guest_shadowreq:
  assumes n: "nd_tasks n self = Some t" "task_at g (tk_local_pid t) self n" and q: "\<not> q_locked (tk_method_queue t)" "q_elems (tk_method_queue t) = []"
    and x: "ms_msgs n a = Some x" "m_id x = TCMI_PPM_P_MIGR_BACK_SHADOWREQ_PROCMSG_ID" "m_ref_count x = 1" "m_transaction x = None"
  shows "\<exists>n1. tcmi_guesttask_process_msg X ops_free self a n = Some (TCMI_TASK_KEEP_PUMPING, n1) \<and> ms_msgs n1 a = None \<and> nd_tasks n1 self \<noteq> None"
proof -
  let ?n = "n\<lparr>ms_msgs := (ms_msgs n)(a := None)\<rparr>"
  have "task_upd self (\<lambda>u. u\<lparr>tk_transactions := tk_transactions t\<rparr>) ?n = ?n" by (rule task_upd_id [of _ _ t]) (simp_all add: n(1))
  then have p: "task_msg_put self (Some a) n = Some ?n"
    using n(1) x by (simp add: task_msg_put_def tcmi_msg_put_def tcmi_transaction_put_def)
  obtain n1 where "tcmi_taskhelper_notify_by_pid ops_free (xe_wrapper X) True (tk_local_pid t) Migrateback_ppm_p None 1 ?n = Some (0, n1)"
      "ms_msgs n1 = ms_msgs ?n" "nd_tasks n1 self \<noteq> None"
    using notify_idle_task [of ?n self t g ops_free "xe_wrapper X" Migrateback_ppm_p] n q by (auto simp: task_at_def)
  then show ?thesis using n(1) x p by (simp add: tcmi_guesttask_process_msg_def tcmi_migcom_migrate_home_ppm_p_def)
qed

definition demo_task_env :: "(byte list \<times> byte list) task_env" where
  "demo_task_env = \<lparr>xe_mem = demo_mem, xe_trans = \<lparr>te_mem = None, te_rnd = (\<lambda>_. 5), te_k = 0, te_hz = 100\<rparr>, xe_signalled = False, xe_jiffies = 0, xe_wrapper = Some 90, xe_vm = True,
     xe_msg = 110, xe_kmalloc = demo_kmalloc, xe_kmalloc_name = (\<lambda>_. True), xe_page = True, xe_pathname = [47], xe_file = True,
     xe_checkpoint = True, xe_rpc = (\<lambda>_ n. Some (None, n))\<rparr>"

definition emigrate_demo :: tcmi_p_emigrate_msg where
  "emigrate_demo = \<lparr>em_reply_pid = 33, em_size = 2, em_exec_name_size = 1, em_euid = 0, em_egid = 0, em_fsuid = 0, em_fsgid = 0,
     em_exec_name = Some [0], em_ckpt_name = Some [47, 0]\<rparr>"

lemma demo_restart:
  "\<exists>n1. tcmi_taskhelper_restart demo_kmalloc (\<lambda>_. True) (Some 90) 70 [47] (set_remote_pid 70 33 demo_node2) = Some (0, n1)"
proof -
  have "\<exists>b. tcmi_task_copy_strings demo_kmalloc [] = Some (Some b)"
    by (simp add: tcmi_task_copy_strings_def demo_kmalloc_def mb_write_def)
  then show ?thesis
    by (auto simp: tcmi_taskhelper_restart_def tcmi_task_prepare_execve_def tcmi_task_flush_and_submit_method_def tcmi_method_wrapper_new_def
        tcmi_queue_lock_def demo_node2_def demo_task_def tcmi_queue_init_def tcmi_task_release_execve_context_def)
qed

text \<open>
  C31. A guest asked to migrate back releases the request twice: its handler frees the message,
  the method that called the handler releases it again and so touches freed memory.
\<close>

theorem guest_shadowreq_released_twice:
  assumes n: "nd_tasks n self = Some t" "task_at g (tk_local_pid t) self n" and q: "\<not> q_locked (tk_method_queue t)" "q_elems (tk_method_queue t) = []"
    and x: "ms_msgs n a = Some x" "m_id x = TCMI_PPM_P_MIGR_BACK_SHADOWREQ_PROCMSG_ID" "m_ref_count x = 1" "m_transaction x = None"
    and wr: "nd_wrappers n wr = Some w" and mq: "\<not> q_locked (tk_msg_queue t)" "q_elems (tk_msg_queue t) = a # rest"
  shows "tcmi_task_process_msg (Some (tcmi_guesttask_process_msg X ops_free)) signalled self wr n = None \<and>
    (\<exists>n1. tcmi_guesttask_process_msg X ops_free self a n = Some (TCMI_TASK_KEEP_PUMPING, n1) \<and> ms_msgs n1 a = None)"
proof -
  let ?q = "(tk_msg_queue t)\<lparr>q_elems := rest\<rparr>"
  let ?n = "task_upd self (\<lambda>u. u\<lparr>tk_msg_queue := ?q\<rparr>) n"
  obtain n1 where n1: "tcmi_guesttask_process_msg X ops_free self a ?n = Some (TCMI_TASK_KEEP_PUMPING, n1)" "ms_msgs n1 a = None"
    using guest_shadowreq [of ?n self "t\<lparr>tk_msg_queue := ?q\<rparr>" g a x X ops_free] n q x by (auto simp: task_at_def)
  have "task_msg_put self (Some a) n1 = None" using n1(2) by (simp add: task_msg_put_def tcmi_msg_put_def bind_eq_None_conv)
  moreover have "tcmi_queue_remove (tk_msg_queue t) = Some (Some a, ?q)" using mq by (simp add: queue_remove_eq)
  ultimately have "tcmi_task_process_msg (Some (tcmi_guesttask_process_msg X ops_free)) signalled self wr n = None"
    using n(1) wr mq n1(1) by (simp add: tcmi_task_process_msg_def tcmi_queue_empty_def tcmi_queue_wait_on_empty_interruptible_def)
  then show ?thesis using guest_shadowreq [OF n q x, of X ops_free] by blast
qed

theorem guest_shadowreq_released_twice_witness:
  "tcmi_task_process_msg (Some (tcmi_guesttask_process_msg demo_task_env None)) False 70 80
     (demo_node2\<lparr>ms_msgs := [100 \<mapsto> exit_demo\<lparr>m_id := TCMI_PPM_P_MIGR_BACK_SHADOWREQ_PROCMSG_ID\<rparr>],
        nd_wrappers := [80 \<mapsto> \<lparr>w_method = Process_msg, w_data = None, w_ref_count = 1\<rparr>],
        nd_tasks := [70 \<mapsto> demo_task\<lparr>tk_msg_queue := (tk_msg_queue demo_task)\<lparr>q_elems := [100]\<rparr>\<rparr>]\<rparr>) = None"
proof -
  let ?t = "demo_task\<lparr>tk_msg_queue := (tk_msg_queue demo_task)\<lparr>q_elems := [100]\<rparr>\<rparr>"
  let ?n = "demo_node2\<lparr>ms_msgs := [100 \<mapsto> exit_demo\<lparr>m_id := TCMI_PPM_P_MIGR_BACK_SHADOWREQ_PROCMSG_ID\<rparr>],
        nd_wrappers := [80 \<mapsto> \<lparr>w_method = Process_msg, w_data = None, w_ref_count = 1\<rparr>], nd_tasks := [70 \<mapsto> ?t]\<rparr>"
  have "nd_tasks ?n 70 = Some ?t" "task_at 60 (tk_local_pid ?t) 70 ?n"
    by (simp_all add: task_at_def demo_node2_def demo_task_def)
  then show ?thesis
    using guest_shadowreq_released_twice [of ?n 70 ?t 60 100 "exit_demo\<lparr>m_id := TCMI_PPM_P_MIGR_BACK_SHADOWREQ_PROCMSG_ID\<rparr>" 80
        "\<lparr>w_method = Process_msg, w_data = None, w_ref_count = 1\<rparr>" "[]" demo_task_env None False]
    by (simp add: demo_task_def tcmi_queue_init_def exit_demo_def)
qed

subsection \<open>The migration handshake\<close>

abbreviation task_ids :: "nat \<Rightarrow> 's node \<Rightarrow> (i32 \<times> i32 \<times> nat) option" where
  "task_ids self n \<equiv> map_option (\<lambda>t. (tk_remote_pid t, tk_local_pid t, tk_sock t)) (nd_tasks n self)"

lemma prepare_execve_ids:
  "tcmi_task_prepare_execve km kn file argv envp t = Some (err, t') \<Longrightarrow>
     tk_remote_pid t' = tk_remote_pid t \<and> tk_local_pid t' = tk_local_pid t \<and> tk_sock t' = tk_sock t"
  by (auto simp: tcmi_task_prepare_execve_def tcmi_task_release_execve_context_def Let_def split: if_splits bind_splits option.splits)

lemma flush_methods_rest: "flush_methods ws n = Some n' \<Longrightarrow> nd_procs n' = nd_procs n \<and> nd_socks n' = nd_socks n \<and> nd_tasks n' = nd_tasks n"
proof (induction ws arbitrary: n)
  case (Cons w ws)
  then show ?case by (fastforce simp: tcmi_method_wrapper_put_def split: bind_splits option.splits)
qed simp

lemma flush_and_submit_ids:
  "tcmi_task_flush_and_submit_method mem vm self method data n = Some n' \<Longrightarrow>
     task_ids self n' = task_ids self n \<and> nd_procs n' = nd_procs n \<and> nd_socks n' = nd_socks n"
  by (auto simp: tcmi_task_flush_and_submit_method_def tcmi_method_wrapper_new_def Let_def split: option.splits if_splits bind_splits
      dest!: flush_methods_rest)

lemma restart_ids:
  assumes "tcmi_taskhelper_restart km kn mem self name n = Some (err, n')"
  shows "task_ids self n' = task_ids self n \<and> nd_procs n' = nd_procs n \<and> nd_socks n' = nd_socks n"
proof -
  obtain t r t' where t: "nd_tasks n self = Some t" "tcmi_task_prepare_execve km kn name [] [] t = Some (r, t')"
    using assms by (auto simp: tcmi_taskhelper_restart_def split: bind_splits)
  have "task_ids self (task_upd self (\<lambda>_. t') n) = task_ids self n" using prepare_execve_ids [OF t(2)] t(1) by simp
  then show ?thesis
    using assms t flush_and_submit_ids [of mem True self Execve None "task_upd self (\<lambda>_. t') n" n']
    by (auto simp: tcmi_taskhelper_restart_def Let_def split: if_splits bind_splits)
qed

lemma task_send_own_ok:
  fixes n :: "'s node"
  assumes t: "nd_tasks n self = Some t" "nd_procs n (tk_local_pid t) = Some p" and s: "nd_socks n (tk_sock t) = Some s" "sock_ok s" "ks_send_sem s"
    and m: "body_ok (m_body msg)" "\<not> is_signal (m_body msg)" "m_transaction msg = None" "m_ref_count msg = 1"
  shows "\<exists>err n'. task_send_own X self msg n = Some (err, n') \<and> task_ids self n' = task_ids self n \<and>
    (\<exists>s' k. nd_socks n' (tk_sock t) = Some s' \<and> sock_sent s' = sock_sent s @ take k (msg_wire msg))"
proof -
  obtain r s' where r: "tcmi_msg_send_anonymous (xe_signalled X) (xe_jiffies X) msg (tk_transactions t) s = Some (r, tk_transactions t, s')"
      "if r < 0 then \<exists>k. sock_sent s' = sock_sent s @ take k (msg_wire msg) else sock_sent s' = sock_sent s @ msg_wire msg"
    using msg_send_ok [OF m(1,2) s(2,3), of "tk_transactions t" "xe_jiffies X" TCMI_TRANS_FLAGS_ANONYMOUS "tk_transactions t" "xe_signalled X"] m(3)
    by (auto simp: tcmi_msg_send_anonymous_def)
  have k: "\<exists>k. sock_sent s' = sock_sent s @ take k (msg_wire msg)" using r(2) by (cases "r < 0") (auto intro: exI [of _ "length (msg_wire msg)"])
  show ?thesis
  proof (cases "r = - EPIPE")
    case True
    then show ?thesis using t s(1) r(1) k m(3,4)
      by (simp add: task_send_own_def tcmi_task_send_anonymous_msg_def tcmi_task_check_peer_lost_def tcmi_task_signal_peer_lost_def force_sig_def
          task_msg_put_def tcmi_msg_put_def tcmi_transaction_put_def)
  next
    case False
    then show ?thesis using t s(1) r(1) k m(3,4)
      by (simp add: task_send_own_def tcmi_task_send_anonymous_msg_def tcmi_task_check_peer_lost_def
          task_msg_put_def tcmi_msg_put_def tcmi_transaction_put_def)
  qed
qed

definition guest_reply :: "msg_mem \<Rightarrow> tcmi_msg \<Rightarrow> i32 \<Rightarrow> i32 \<Rightarrow> bool \<Rightarrow> tcmi_msg" where
  "guest_reply mem m dst_pid pid started = \<lparr>m_id = (if started then TCMI_GUEST_STARTED_PROCMSG_ID else TCMI_MSG_FLG_SET_ERR TCMI_GUEST_STARTED_PROCMSG_ID),
     m_req = TCMI_TRANSACTION_INVAL_ID, m_resp = m_req m, m_transaction = None, m_ref_count = 1,
     m_body = Procmsg \<lparr>pm_dst_pid = dst_pid, pm_enforce_migmode = 0, pm_body = (if started then Guest_started_procmsg pid else Err_procmsg (- 8))\<rparr>\<rparr>"

lemma guest_reply_new:
  assumes "mm_ok mem"
  shows "(if r < 0 then tcmi_err_procmsg_new_tx mem env TCMI_GUEST_STARTED_PROCMSG_ID (m_req m) (- 8) dst_pid
     else tcmi_guest_started_procmsg_new_tx mem env (m_req m) dst_pid pid) = Some (Some (guest_reply mem m dst_pid pid (\<not> r < (0 :: int))), None :: nat transactions)"
  using assms by (simp add: tcmi_err_procmsg_new_tx_def tcmi_guest_started_procmsg_new_tx_def tx_result_def tcmi_procmsg_init_tx_def
      tcmi_msg_init_tx_def tcmi_msg_init_shared_def guest_reply_def Let_def)

lemma verify_reply:
  assumes "ms_msgs n b = Some x" "msg_same (guest_reply mem m dst_pid pid started) x"
  shows "tcmi_shadowtask_verify_migration sh (Some b) n =
    Some (if started \<and> pid \<noteq> - 1 then (0, set_remote_pid sh pid n) else (- EINVAL, n))"
proof -
  have "TCMI_MSG_FLG_SET_ERR TCMI_GUEST_STARTED_PROCMSG_ID \<noteq> TCMI_GUEST_STARTED_PROCMSG_ID" by (simp add: TCMI_MSG_FLG_SET_ERR_def)
  then show ?thesis using assms
    by (cases "m_body x") (auto simp: tcmi_shadowtask_verify_migration_def msg_same_def guest_reply_def proc_body_def msg_procmsg_def)
qed



end
