(* ===== verification/Tcmi_Ccnlife.thy ===== *)
theory Tcmi_Ccnlife
  imports Tcmi_Ccnpen Tcmi_Protocol
begin

text \<open>
  The life of the migration managers of a core node: creation is all or nothing, and over every
  sequence of authentications, references, stop and kill requests and disconnections (the
  inductive relation \<open>ccn_reach\<close>) the reference counts are exact. The relation excludes an
  authentication request that arrives after a stop; what that does is shown separately.
\<close>

subsection \<open>Creation is all or nothing\<close>

lemma sock_ref_id [simp]: "s\<lparr>ks_ref_count := ks_ref_count s\<rparr> = s" for s :: "'s kkc_sock"
  by (cases s) simp

lemma node_socks_id: "nd_socks n a = Some s \<Longrightarrow> n\<lparr>nd_socks := (nd_socks n)(a \<mapsto> s), nd_arch_refs := nd_arch_refs n\<rparr> = n"
  "nd_socks n a = Some s \<Longrightarrow> n\<lparr>nd_socks := (nd_socks n)(a \<mapsto> s)\<rparr> = n" for n :: "'s node"
  by (cases n; simp add: fun_upd_idem)+

lemma sock_put_extra: "1 < ks_ref_count s \<Longrightarrow> kkc_sock_put s refs = (Some (s\<lparr>ks_ref_count := ks_ref_count s - 1\<rparr>), refs)" for s :: "'s kkc_sock"
  by (simp add: kkc_sock_put_def)

definition migman_memory_ok :: "migman_env \<Rightarrow> bool" where
  "migman_memory_ok E \<longleftrightarrow> tcmi_slotvec_hnew (me_trans_vec E) (me_trans_ok E) TRANSACTION_ORDER \<noteq> None \<and>
     tcmi_slotvec_hnew (me_tasks_vec E) (me_tasks_ok E) TASK_ORDER \<noteq> None \<and> me_comm_mem E \<and> me_comm_thread E \<and>
     me_dirs E \<and> me_symlink E \<and> me_files E \<and> me_sock E \<and> me_thread E"

lemma migman_init_fails:
  fixes n :: "'s node"
  assumes "nd_socks n sock = Some s" "0 < ks_ref_count s" "\<not> (ops \<and> migman_memory_ok E)"
  shows "tcmi_migman_init E deliver mem a sock ccn_id pen_id arch slot ops n = Some (- EINVAL, n)"
  using assms
  by (auto simp: tcmi_migman_init_def migman_memory_ok_def tcmi_comm_new_def kkc_sock_get_def Let_def node_sock_put_def node_sock_get_def
      kkc_sock_put_def node_socks_id split: option.splits)

lemma migman_init_works:
  fixes n :: "'s node"
  assumes "nd_socks n sock = Some s" "migman_memory_ok E"
  shows "\<exists>m tr tk. tcmi_migman_init E deliver mem a sock ccn_id pen_id arch slot True n = Some (0,
      n\<lparr>nd_migmans := (nd_migmans n)(a \<mapsto> m), nd_socks := (nd_socks n)(sock \<mapsto> s\<lparr>ks_ref_count := ks_ref_count s + 2\<rparr>)\<rparr>) \<and>
    mg_state m = TCMI_MIGMAN_INIT \<and> mg_ref_count m = 1 \<and> mg_sock m = sock \<and> q_elems (mg_msg_queue m) = [] \<and>
    mg_transactions m = \<lparr>tt_vec = tr, tt_heap = Map.empty\<rparr> \<and> mg_tasks m = tk \<and>
    tcmi_slotvec_hnew (me_trans_vec E) (me_trans_ok E) TRANSACTION_ORDER = Some tr \<and>
    tcmi_slotvec_hnew (me_tasks_vec E) (me_tasks_ok E) TASK_ORDER = Some tk"
proof -
  obtain tr tk where v: "tcmi_slotvec_hnew (me_trans_vec E) (me_trans_ok E) TRANSACTION_ORDER = Some tr"
      "tcmi_slotvec_hnew (me_tasks_vec E) (me_tasks_ok E) TASK_ORDER = Some tk"
    using assms(2) by (auto simp: migman_memory_ok_def)
  let ?m = "mem\<lparr>mg_tasks := tk, mg_ccn_id := ccn_id, mg_pen_id := pen_id, mg_peer_arch_type := arch, mg_manager_slot := slot,
    mg_ref_count := 1, mg_msg_queue := tcmi_queue_init (mg_msg_queue mem), mg_transactions := \<lparr>tt_vec = tr, tt_heap = Map.empty\<rparr>,
    mg_sock := sock, mg_state := TCMI_MIGMAN_INIT, mg_id := me_rnd E\<rparr>"
  have "tcmi_migman_init E deliver mem a sock ccn_id pen_id arch slot True n = Some (0,
      n\<lparr>nd_migmans := (nd_migmans n)(a \<mapsto> ?m), nd_socks := (nd_socks n)(sock \<mapsto> s\<lparr>ks_ref_count := ks_ref_count s + 2\<rparr>)\<rparr>)"
    using assms v by (simp add: tcmi_migman_init_def migman_memory_ok_def tcmi_comm_new_def kkc_sock_get_def Let_def node_sock_get_def add.commute)
  then show ?thesis using v by (intro exI [of _ ?m] exI [of _ tr] exI [of _ tk]) (simp add: tcmi_queue_init_def)
qed

text \<open>
  C24. Creating a migration manager either succeeds completely or leaves no trace: on success
  the manager is in its initial state with one reference, an empty queue and empty tables, and
  holds two references to the connection; on any failure, wherever it happens, the result is
  \<^verbatim>\<open>-EINVAL\<close> and the whole node, the references to the connection included, is as before.
\<close>

theorem migman_init_all_or_nothing:
  fixes n :: "'s node"
  assumes s: "nd_socks n sock = Some s" "0 < ks_ref_count s"
  shows "\<exists>err n'. tcmi_migman_init E deliver mem a sock ccn_id pen_id arch slot ops n = Some (err, n') \<and>
    (if err = 0
     then \<exists>m. n' = n\<lparr>nd_migmans := (nd_migmans n)(a \<mapsto> m), nd_socks := (nd_socks n)(sock \<mapsto> s\<lparr>ks_ref_count := ks_ref_count s + 2\<rparr>)\<rparr> \<and>
       mg_state m = TCMI_MIGMAN_INIT \<and> mg_ref_count m = 1 \<and> q_elems (mg_msg_queue m) = [] \<and>
       tt_ok (mg_transactions m) (\<lambda>_. 0) \<and> slotvec_ready (mg_tasks m) \<and> tcmi_slotvec_empty (mg_tasks m)
     else err = - EINVAL \<and> n' = n)"
proof (cases "ops \<and> migman_memory_ok E")
  case False
  then show ?thesis using migman_init_fails [OF s False] by simp
next
  case True
  obtain m tr tk where m: "tcmi_migman_init E deliver mem a sock ccn_id pen_id arch slot True n = Some (0,
      n\<lparr>nd_migmans := (nd_migmans n)(a \<mapsto> m), nd_socks := (nd_socks n)(sock \<mapsto> s\<lparr>ks_ref_count := ks_ref_count s + 2\<rparr>)\<rparr>)"
      "mg_state m = TCMI_MIGMAN_INIT" "mg_ref_count m = 1" "q_elems (mg_msg_queue m) = []"
      "mg_transactions m = \<lparr>tt_vec = tr, tt_heap = Map.empty\<rparr>" "mg_tasks m = tk"
      and v: "tcmi_slotvec_hnew (me_trans_vec E) (me_trans_ok E) TRANSACTION_ORDER = Some tr"
      "tcmi_slotvec_hnew (me_tasks_vec E) (me_tasks_ok E) TASK_ORDER = Some tk"
    using migman_init_works [OF s(1), of E deliver mem a ccn_id pen_id arch slot] True by blast
  have "tt_ok (mg_transactions m) (\<lambda>_. 0)" using hnew_ok [OF v(1)] m(5) by simp
  moreover have "slotvec_ready tk" "tcmi_slotvec_empty tk"
    using v(2) slotvec_new_ok [of "me_tasks_vec E" "me_tasks_ok E"]
    by (auto simp: tcmi_slotvec_hnew_def tcmi_slotvec_empty_def slotvec_ready_def slotvec_inv_def split: option.splits)
  ultimately show ?thesis using m True by auto
qed

definition demo_migman_env :: migman_env where
  "demo_migman_env = \<lparr>me_mem = True, me_trans_vec = Some blank_vec, me_trans_ok = (\<lambda>_. True), me_tasks_vec = Some blank_vec, me_tasks_ok = (\<lambda>_. True),
     me_comm_mem = True, me_comm_thread = True, me_dirs = True, me_symlink = True, me_files = True, me_sock = True, me_thread = True, me_rnd = 9\<rparr>"

theorem migman_init_all_or_nothing_witness:
  "\<exists>err n'. tcmi_migman_init (demo_migman_env\<lparr>me_thread := False\<rparr>) (\<lambda>_ n. Some (0, n)) demo_migman 61 50 1 0 0 0 True demo_node = Some (err, n') \<and>
     (err = 0 \<or> n' = demo_node)"
  using migman_init_all_or_nothing [of demo_node 50 "eager_sock [] []" "demo_migman_env\<lparr>me_thread := False\<rparr>" "\<lambda>_ n. Some (0, n)" demo_migman 61 1 0 0 0 True]
  by (simp add: demo_node_def eager_sock_def split: if_splits) metis

subsection \<open>References of the managers of a core node\<close>

definition own_ref :: "tcmi_migman \<Rightarrow> int" where
  "own_ref m = (if mg_state m \<in> {TCMI_MIGMAN_INIT, TCMI_MIGMAN_CONNECTED} then 1 else 0)"

text \<open>
  \<open>cnt\<close> is the number of references of each manager. Its connection is its own, can be
  used, and lasts at least as long as the manager.
\<close>

definition mg_core :: "(nat \<Rightarrow> int) \<Rightarrow> 's node \<Rightarrow> bool" where
  "mg_core cnt n \<longleftrightarrow> \<not> sv_locked (nd_man_slots n) \<and>
     (\<forall>g. nd_migmans n g = None \<longrightarrow> cnt g = 0) \<and>
     (\<forall>g m. nd_migmans n g = Some m \<longrightarrow> mg_ref_count m = cnt g \<and> 0 < cnt g \<and>
        (\<exists>s. nd_socks n (mg_sock m) = Some s \<and> 2 \<le> ks_ref_count s \<and> sock_ok s \<and> ks_send_sem s)) \<and>
     (\<forall>g g' m m'. nd_migmans n g = Some m \<and> nd_migmans n g' = Some m' \<and> mg_sock m = mg_sock m' \<longrightarrow> g = g')"

lemma mg_coreD:
  assumes "mg_core cnt n" "nd_migmans n g = Some m"
  shows "mg_ref_count m = cnt g" "0 < cnt g" "\<exists>s. nd_socks n (mg_sock m) = Some s \<and> 2 \<le> ks_ref_count s \<and> sock_ok s \<and> ks_send_sem s"
    "nd_migmans n g' = Some m' \<Longrightarrow> mg_sock m = mg_sock m' \<Longrightarrow> g' = g"
  using assms unfolding mg_core_def by blast+

lemma mg_core_unlocked: "mg_core cnt n \<Longrightarrow> \<not> sv_locked (nd_man_slots n)"
  by (simp add: mg_core_def)

lemma mg_coreI:
  assumes "\<not> sv_locked (nd_man_slots n)" "\<And>g. nd_migmans n g = None \<Longrightarrow> cnt g = 0"
    and "\<And>g m. nd_migmans n g = Some m \<Longrightarrow> mg_ref_count m = cnt g \<and> 0 < cnt g"
    and "\<And>g m. nd_migmans n g = Some m \<Longrightarrow> \<exists>s. nd_socks n (mg_sock m) = Some s \<and> 2 \<le> ks_ref_count s \<and> sock_ok s \<and> ks_send_sem s"
    and "\<And>g g' m m'. nd_migmans n g = Some m \<Longrightarrow> nd_migmans n g' = Some m' \<Longrightarrow> mg_sock m = mg_sock m' \<Longrightarrow> g = g'"
  shows "mg_core cnt n"
  using assms unfolding mg_core_def by blast

text \<open>A manager is changed, perhaps together with its connection, but not its references or its connection's address.\<close>

lemma mg_core_upd:
  assumes c: "mg_core cnt n" and m: "nd_migmans n g = Some m"
    and n': "nd_migmans n' = (nd_migmans n)(g \<mapsto> m')" "nd_socks n' = (nd_socks n)(mg_sock m \<mapsto> s)" "\<not> sv_locked (nd_man_slots n')"
    and m': "mg_sock m' = mg_sock m" "mg_ref_count m' = k" "0 < k" and s: "2 \<le> ks_ref_count s" "sock_ok s" "ks_send_sem s"
  shows "mg_core (cnt(g := k)) n'"
proof (rule mg_coreI)
  show "nd_migmans n' h = None \<Longrightarrow> (cnt(g := k)) h = 0" for h using c n'(1) by (auto simp: mg_core_def split: if_splits)
  show "nd_migmans n' h = Some x \<Longrightarrow> mg_ref_count x = (cnt(g := k)) h \<and> 0 < (cnt(g := k)) h" for h x
    using mg_coreD(1,2) [OF c] n'(1) m' by (auto split: if_splits)
  show "\<exists>s. nd_socks n' (mg_sock x) = Some s \<and> 2 \<le> ks_ref_count s \<and> sock_ok s \<and> ks_send_sem s" if "nd_migmans n' h = Some x" for h x
    using that mg_coreD(3) [OF c, of h] n'(1,2) m'(1) s by (cases "h = g") auto
  show "h = h'" if "nd_migmans n' h = Some x" "nd_migmans n' h' = Some x'" "mg_sock x = mg_sock x'" for h h' x x'
    using that mg_coreD(4) [OF c m] mg_coreD(4) [OF c, of h _ h'] n'(1) m'(1) by (auto split: if_splits)
qed (rule n'(3))

lemma mg_core_del:
  assumes c: "mg_core cnt n" and m: "nd_migmans n g = Some m"
    and n': "nd_migmans n' = (nd_migmans n)(g := None)" "\<forall>a. a \<noteq> mg_sock m \<longrightarrow> nd_socks n' a = nd_socks n a" "\<not> sv_locked (nd_man_slots n')"
  shows "mg_core (cnt(g := 0)) n'"
proof (rule mg_coreI)
  show "nd_migmans n' h = None \<Longrightarrow> (cnt(g := 0)) h = 0" for h using c n'(1) by (auto simp: mg_core_def split: if_splits)
  show "nd_migmans n' h = Some x \<Longrightarrow> mg_ref_count x = (cnt(g := 0)) h \<and> 0 < (cnt(g := 0)) h" for h x
    using mg_coreD(1,2) [OF c] n'(1) by (auto split: if_splits)
  show "\<exists>s. nd_socks n' (mg_sock x) = Some s \<and> 2 \<le> ks_ref_count s \<and> sock_ok s \<and> ks_send_sem s" if "nd_migmans n' h = Some x" for h x
  proof -
    have h: "h \<noteq> g" "nd_migmans n h = Some x" using that n'(1) by (auto split: if_splits)
    then have "mg_sock x \<noteq> mg_sock m" using mg_coreD(4) [OF c m, of h x] by auto
    then show ?thesis using mg_coreD(3) [OF c h(2)] n'(2) by simp
  qed
  show "h = h'" if "nd_migmans n' h = Some x" "nd_migmans n' h' = Some x'" "mg_sock x = mg_sock x'" for h h' x x'
    using that mg_coreD(4) [OF c, of h _ h'] n'(1) by (auto split: if_splits)
qed (rule n'(3))

lemma unhash_ok:
  assumes "nd_migmans n g = Some m" "\<not> sv_locked (nd_man_slots n)"
  shows "\<exists>sv. tcmi_migman_unhash g n = Some (n\<lparr>nd_man_slots := sv\<rparr>) \<and> \<not> sv_locked sv"
proof (cases "tcmi_slot_node_unhashed g (nd_man_slots n)")
  case True
  then show ?thesis using assms by (intro exI [of _ "nd_man_slots n"]) (simp add: tcmi_migman_unhash_def)
next
  case False
  then show ?thesis using assms by (simp add: tcmi_migman_unhash_def tcmi_slot_lock_def tcmi_slot_unlock_def case_prod_beta)
    (rule exI, rule conjI, rule refl, simp)
qed

lemma migman_free_ok:
  fixes n :: "'s node"
  assumes "nd_migmans n g = Some m" "nd_socks n (mg_sock m) = Some s" "2 \<le> ks_ref_count s" "\<not> sv_locked (nd_man_slots n)"
  shows "\<exists>n'. tcmi_migman_free (Some tcmi_ccnmigman_free) g n = Some n' \<and> nd_migmans n' = nd_migmans n \<and> ms_msgs n' = ms_msgs n \<and>
    (\<forall>a. a \<noteq> mg_sock m \<longrightarrow> nd_socks n' a = nd_socks n a) \<and> \<not> sv_locked (nd_man_slots n') \<and>
    nd_socks n' (mg_sock m) = (if ks_ref_count s = 2 then None else Some (s\<lparr>ks_ref_count := ks_ref_count s - 2\<rparr>))"
proof -
  let ?n1 = "n\<lparr>nd_socks := (nd_socks n)(mg_sock m \<mapsto> s\<lparr>ks_ref_count := ks_ref_count s - 1\<rparr>)\<rparr>"
  let ?n = "n\<lparr>nd_socks := (nd_socks n)(mg_sock m := (if ks_ref_count s = 2 then None else Some (s\<lparr>ks_ref_count := ks_ref_count s - 2\<rparr>))),
      nd_arch_refs := (if ks_ref_count s = 2 then kkc_arch_put (nd_arch_refs n) else nd_arch_refs n)\<rparr>"
  have p: "node_sock_put (mg_sock m) n = Some ?n1" using assms(2,3) by (simp add: node_sock_put_def kkc_sock_put_def)
  have q: "node_sock_put (mg_sock m) ?n1 = Some ?n" using assms(3) by (simp add: node_sock_put_def kkc_sock_put_def)
  obtain sv where "tcmi_migman_unhash g ?n = Some (?n\<lparr>nd_man_slots := sv\<rparr>)" "\<not> sv_locked sv"
    using unhash_ok [of ?n g m] assms(1,4) by auto
  then show ?thesis using assms(1) p q by (simp add: tcmi_migman_free_def tcmi_ccnmigman_free_def)
qed

lemma migman_put_ok:
  fixes n :: "'s node"
  assumes c: "mg_core cnt n" and m: "nd_migmans n g = Some m"
  shows "\<exists>r n'. tcmi_migman_put (Some tcmi_ccnmigman_free) (Some g) n = Some (r, n') \<and> mg_core (cnt(g := cnt g - 1)) n' \<and> ms_msgs n' = ms_msgs n \<and>
    nd_migmans n' = (nd_migmans n)(g := (if cnt g = 1 then None else Some (m\<lparr>mg_ref_count := cnt g - 1\<rparr>))) \<and> r = (if cnt g = 1 then 1 else 0)"
proof -
  let ?n = "migman_upd g (\<lambda>m. m\<lparr>mg_ref_count := mg_ref_count m - 1\<rparr>) n"
  obtain s where s: "nd_socks n (mg_sock m) = Some s" "2 \<le> ks_ref_count s" "sock_ok s" "ks_send_sem s" using mg_coreD(3) [OF c m] by blast
  note r = mg_coreD(1,2) [OF c m]
  show ?thesis
  proof (cases "cnt g = 1")
    case True
    obtain n' where n': "tcmi_migman_free (Some tcmi_ccnmigman_free) g ?n = Some n'" "nd_migmans n' = nd_migmans ?n" "ms_msgs n' = ms_msgs n"
        "\<forall>a. a \<noteq> mg_sock m \<longrightarrow> nd_socks n' a = nd_socks n a" "\<not> sv_locked (nd_man_slots n')"
      using migman_free_ok [of ?n g "m\<lparr>mg_ref_count := mg_ref_count m - 1\<rparr>" s] m s mg_core_unlocked [OF c] by auto
    let ?n' = "n'\<lparr>nd_migmans := (nd_migmans n')(g := None)\<rparr>"
    have "mg_core (cnt(g := 0)) ?n'" by (rule mg_core_del [OF c m]) (use n' in auto)
    then show ?thesis using True r m n'(1-3) by (simp add: tcmi_migman_put_def)
  next
    case False
    have "mg_core (cnt(g := cnt g - 1)) ?n"
      by (rule mg_core_upd [OF c m, where s = s and m' = "m\<lparr>mg_ref_count := mg_ref_count m - 1\<rparr>"])
        (use m s r False mg_core_unlocked [OF c] in \<open>auto simp: fun_upd_idem\<close>)
    then show ?thesis using False r m by (simp add: tcmi_migman_put_def)
  qed
qed

subsection \<open>Sending keeps the references of a connection\<close>

definition keeps_refs :: "('s kkc_sock \<Rightarrow> (int \<times> 's kkc_sock) option) \<Rightarrow> bool" where
  "keeps_refs f \<longleftrightarrow> (\<forall>s r s'. sock_ok s \<and> f s = Some (r, s') \<longrightarrow> sock_ok s' \<and> ks_ref_count s' = ks_ref_count s)"

lemma keeps_refs_done: "keeps_refs (\<lambda>s. Some (r, s))"
  by (simp add: keeps_refs_def)

lemma keeps_refs_field:
  fixes k :: "'s kkc_sock \<Rightarrow> (int \<times> 's kkc_sock) option"
  assumes "keeps_refs k"
  shows "keeps_refs (ksend data k)"
  unfolding keeps_refs_def
proof (intro allI impI, elim conjE)
  fix s :: "'s kkc_sock" and r s' assume s: "sock_ok s" "ksend data k s = Some (r, s')"
  obtain r1 s1 where s1: "kkc_sock_send s data = Some (r1, s1)" "sock_frame s s1" using kkc_sock_send_ok [OF s(1), of data] by blast
  then have "sock_ok s1" "ks_ref_count s1 = ks_ref_count s" using sock_frame_ok s(1) by (auto simp: sock_frame_def)
  then show "sock_ok s' \<and> ks_ref_count s' = ks_ref_count s"
    using s(2) s1(1) assms by (auto simp: send_field_def keeps_refs_def split: if_splits)
qed

definition plain_body :: "tcmi_body \<Rightarrow> bool" where
  "plain_body b \<longleftrightarrow> b = Disconnect_msg \<or> (\<exists>a. b = Authenticate_resp_msg a \<and> length (ar_mount_params a) = mount_params_size)"

lemma plain_body_ops:
  assumes "plain_body b"
  shows "keeps_refs (\<lambda>sock :: 's kkc_sock. do { (err, sock) \<leftarrow> msg_ops_send b sock; Some (min err 0, sock) })"
proof -
  have k: "keeps_refs (msg_ops_send b :: 's kkc_sock \<Rightarrow> _)"
    using assms by (auto simp: plain_body_def msg_ops_send_fun tcmi_authenticate_resp_msg_send_def intro!: keeps_refs_field keeps_refs_done)
  then show ?thesis unfolding keeps_refs_def by (auto split: bind_splits)
qed

lemma plain_send:
  fixes s :: "'s kkc_sock"
  assumes "plain_body (m_body msg)" "m_transaction msg = None" "sock_ok s" "ks_send_sem s"
  shows "\<exists>r s'. tcmi_msg_send_anonymous sg j msg tt s = Some (r, tt, s') \<and> sock_ok s' \<and> ks_send_sem s' \<and> ks_ref_count s' = ks_ref_count s"
proof -
  have b: "body_ok (m_body msg)" "\<not> is_signal (m_body msg)" using assms(1) by (auto simp: plain_body_def is_signal_def)
  obtain r s' where r: "tcmi_msg_send_anonymous sg j msg tt s = Some (r, tt, s')" "sock_ok s'" "ks_send_sem s'"
    using msg_send_ok [OF b assms(3,4), of tt j TCMI_TRANS_FLAGS_ANONYMOUS tt sg] assms(2) by (auto simp: tcmi_msg_send_anonymous_def)
  define f where "f = ksend (le_bytes 4 (m_id msg)) (ksend (le_bytes 4 (m_req msg) @ le_bytes 4 (m_resp msg))
      (\<lambda>sock :: 's kkc_sock. do { (err, sock) \<leftarrow> msg_ops_send (m_body msg) sock; Some (min err 0, sock) }))"
  have k: "keeps_refs f" unfolding f_def by (intro keeps_refs_field plain_body_ops [OF assms(1)])
  obtain s1 where s1: "f (s\<lparr>ks_send_sem := False\<rparr>) = Some (r, s1)" "s' = kkc_sock_snd_unlock s1"
    using r(1) assms(2,4) unfolding f_def
    by (auto simp: tcmi_msg_send_anonymous_def tcmi_msg_send_def kkc_sock_snd_lock_interruptible_def split: bind_splits)
  have "ks_ref_count s1 = ks_ref_count s" using k [unfolded keeps_refs_def, rule_format, of "s\<lparr>ks_send_sem := False\<rparr>" r s1] s1(1) assms(3) by simp
  then show ?thesis using r s1(2) by (simp add: kkc_sock_snd_unlock_def)
qed

text \<open>Sending over the connection of a manager.\<close>

lemma migman_send_core:
  fixes n :: "'s node"
  assumes c: "mg_core cnt n" and m: "nd_migmans n g = Some m" and msg: "plain_body (m_body msg)" "m_transaction msg = None"
  shows "\<exists>n'. migman_send V g msg n = Some n' \<and> mg_core cnt n' \<and> nd_migmans n' = nd_migmans n \<and> ms_msgs n' = ms_msgs n"
proof -
  obtain s where s: "nd_socks n (mg_sock m) = Some s" "2 \<le> ks_ref_count s" "sock_ok s" "ks_send_sem s" using mg_coreD(3) [OF c m] by blast
  obtain r s' where s': "tcmi_msg_send_anonymous (ve_signalled V) (ve_jiffies V) msg (mg_transactions m) s = Some (r, mg_transactions m, s')"
      "sock_ok s'" "ks_send_sem s'" "ks_ref_count s' = ks_ref_count s"
    using plain_send [OF msg s(3,4)] by blast
  have id: "(nd_migmans n)(g \<mapsto> m\<lparr>mg_transactions := mg_transactions m\<rparr>) = nd_migmans n" using m by (simp add: fun_upd_idem)
  let ?n = "migman_upd g (\<lambda>m'. m'\<lparr>mg_transactions := mg_transactions m\<rparr>) (n\<lparr>nd_socks := (nd_socks n)(mg_sock m \<mapsto> s')\<rparr>)"
  have "mg_core (cnt(g := cnt g)) ?n"
    by (rule mg_core_upd [OF c m, where s = s' and m' = m]) (use m id s s' mg_coreD(1,2) [OF c m] mg_core_unlocked [OF c] in auto)
  then show ?thesis using m s(1) s'(1) id by (simp add: migman_send_def)
qed

subsection \<open>Reachable states of a core node\<close>

definition refs :: "(nat \<Rightarrow> nat) \<Rightarrow> 's node \<Rightarrow> nat \<Rightarrow> int" where
  "refs held n g = int (held g) + (case nd_migmans n g of None \<Rightarrow> 0 | Some m \<Rightarrow> own_ref m)"

definition mg_inv :: "(nat \<Rightarrow> nat) \<Rightarrow> 's node \<Rightarrow> bool" where
  "mg_inv held n \<longleftrightarrow> mg_core (refs held n) n"

definition ccn_ops :: "'s stop_env \<Rightarrow> bool" where
  "ccn_ops E \<longleftrightarrow> se_free E = Some tcmi_ccnmigman_free \<and> se_stop E = Some tcmi_ccnmigman_stop"

lemma refs_upd:
  assumes "nd_migmans n' = (nd_migmans n)(g := x)"
  shows "refs held n' = (refs held n)(g := int (held g) + (case x of None \<Rightarrow> 0 | Some m \<Rightarrow> own_ref m))"
  using assms by (auto simp: refs_def fun_eq_iff)

lemma refs_same: "nd_migmans n' = nd_migmans n \<Longrightarrow> refs held n' = refs held n"
  by (simp add: refs_def fun_eq_iff)

lemma migman_upd_const: "nd_migmans n g = Some m \<Longrightarrow> migman_upd g (\<lambda>_. m) n = n"
  by (cases n) (simp add: migman_upd_def fun_upd_idem)

lemma mg_core_same:
  "mg_core cnt n \<Longrightarrow> nd_migmans n' = nd_migmans n \<Longrightarrow> nd_socks n' = nd_socks n \<Longrightarrow> nd_man_slots n' = nd_man_slots n \<Longrightarrow> mg_core cnt n'"
  unfolding mg_core_def by simp

lemma mg_core_migman:
  assumes c: "mg_core cnt n" and m: "nd_migmans n g = Some m" and m': "mg_sock m' = mg_sock m" "mg_ref_count m' = k" "0 < k"
    and n': "nd_migmans n' = (nd_migmans n)(g \<mapsto> m')" "nd_socks n' = nd_socks n" "nd_man_slots n' = nd_man_slots n"
  shows "mg_core (cnt(g := k)) n'"
proof -
  obtain s where s: "nd_socks n (mg_sock m) = Some s" "2 \<le> ks_ref_count s" "sock_ok s" "ks_send_sem s" using mg_coreD(3) [OF c m] by blast
  show ?thesis by (rule mg_core_upd [OF c m n'(1) _ _ m' s(2-4)]) (use n' s(1) mg_core_unlocked [OF c] in \<open>auto simp: fun_upd_idem\<close>)
qed

lemma mg_inv_migman:
  assumes i: "mg_inv held n" and m: "nd_migmans n g = Some m"
    and m': "mg_sock m' = mg_sock m" "mg_ref_count m' = mg_ref_count m" "own_ref m' = own_ref m"
    and n': "nd_migmans n' = (nd_migmans n)(g \<mapsto> m')" "nd_socks n' = nd_socks n" "nd_man_slots n' = nd_man_slots n"
  shows "mg_inv held n'"
proof -
  note c = i [unfolded mg_inv_def]
  have "refs held n' = (refs held n)(g := refs held n g)" using refs_upd [OF n'(1)] m m'(3) by (simp add: refs_def)
  then show ?thesis using mg_core_migman [OF c m m'(1) _ _ n'] mg_coreD(1,2) [OF c m] m'(2) by (simp add: mg_inv_def)
qed

lemma put_inv:
  fixes n :: "'s node"
  assumes c: "mg_core cnt n" and m: "nd_migmans n g = Some m"
    and held: "\<forall>h. h \<noteq> g \<longrightarrow> cnt h = refs held' n h" "cnt g - 1 = int (held' g) + (if cnt g = 1 then 0 else own_ref m)"
  shows "\<exists>r n'. tcmi_migman_put (Some tcmi_ccnmigman_free) (Some g) n = Some (r, n') \<and> mg_inv held' n'"
proof -
  obtain r n' where p: "tcmi_migman_put (Some tcmi_ccnmigman_free) (Some g) n = Some (r, n')" "mg_core (cnt(g := cnt g - 1)) n'"
      "nd_migmans n' = (nd_migmans n)(g := (if cnt g = 1 then None else Some (m\<lparr>mg_ref_count := cnt g - 1\<rparr>)))"
    using migman_put_ok [OF c m] by blast
  have "refs held' n' = cnt(g := cnt g - 1)" using refs_upd [OF p(3), of held'] held by (auto simp: fun_eq_iff own_ref_def)
  then show ?thesis using p(1,2) by (simp add: mg_inv_def)
qed

lemma notify_core:
  fixes n :: "'s node"
  assumes c: "mg_core cnt n" and m: "nd_migmans n g = Some m"
  shows "\<exists>n'. tcmi_migman_notify_peer_disconnect mem env sg j g n = Some n' \<and> mg_core cnt n' \<and> nd_migmans n' = nd_migmans n \<and> ms_msgs n' = ms_msgs n"
proof (cases "mm_ok mem")
  case False
  then show ?thesis using c m by (simp add: tcmi_migman_notify_peer_disconnect_def tcmi_disconnect_msg_new_tx_def)
next
  case True
  let ?V = "\<lparr>ve_mem = mem, ve_trans = env, ve_signalled = sg, ve_jiffies = j, ve_connected = \<lambda>_ _ _. (0, True), ve_arch = 0, ve_mount = []\<rparr>"
  let ?msg = "snd (tcmi_msg_init_shared TCMI_DISCONNECT_MSG_ID Disconnect_msg)\<lparr>m_resp := TCMI_TRANSACTION_INVAL_ID\<rparr>"
  have msg: "plain_body (m_body ?msg)" "m_transaction ?msg = None" by (simp_all add: tcmi_msg_init_shared_def plain_body_def)
  have "tcmi_migman_notify_peer_disconnect mem env sg j g n = migman_send ?V g ?msg n"
    using True m by (simp add: tcmi_migman_notify_peer_disconnect_def tcmi_disconnect_msg_new_tx_def tx_result_def tcmi_msg_init_tx_def migman_send_def)
  then show ?thesis using migman_send_core [OF c m msg, of ?V] by auto
qed

lemma stop_perform_core:
  fixes n :: "'s node"
  assumes c: "mg_core cnt n" and m: "nd_migmans n g = Some m" "mg_state m = TCMI_MIGMAN_CONNECTED" and E: "ccn_ops E"
  shows "\<exists>n'. tcmi_migman_stop_perform E g remote n = Some (if cnt g = 1 then 1 else 0, n') \<and> mg_core (cnt(g := cnt g - 1)) n' \<and> ms_msgs n' = ms_msgs n \<and>
    nd_migmans n' = (nd_migmans n)(g := (if cnt g = 1 then None
      else Some (m\<lparr>mg_state := TCMI_MIGMAN_SHUTTING_DOWN, mg_ref_count := cnt g - 1\<rparr>)))"
proof -
  let ?m = "m\<lparr>mg_state := TCMI_MIGMAN_SHUTTING_DOWN\<rparr>" and ?n = "migman_upd g (\<lambda>_. m\<lparr>mg_state := TCMI_MIGMAN_SHUTTING_DOWN\<rparr>) n"
  have c1: "mg_core cnt ?n"
    using mg_core_migman [OF c m(1), of ?m "cnt g" ?n] mg_coreD(1,2) [OF c m(1)] m(1) by simp
  obtain n1 where n1: "(if remote then Some ?n else tcmi_migman_notify_peer_disconnect (se_mem E) (se_trans E) (se_signalled E) (se_jiffies E) g ?n) = Some n1"
      "mg_core cnt n1" "nd_migmans n1 = nd_migmans ?n" "ms_msgs n1 = ms_msgs n"
    using notify_core [OF c1, of g ?m "se_mem E" "se_trans E" "se_signalled E" "se_jiffies E"] c1 m(1) by (cases remote) auto
  have "nd_migmans n1 g = Some ?m" using n1(3) m(1) by simp
  then obtain n' where "tcmi_migman_put (Some tcmi_ccnmigman_free) (Some g) n1 = Some (if cnt g = 1 then 1 else 0, n')"
      "mg_core (cnt(g := cnt g - 1)) n'" "ms_msgs n' = ms_msgs n1"
      "nd_migmans n' = (nd_migmans n1)(g := (if cnt g = 1 then None else Some (?m\<lparr>mg_ref_count := cnt g - 1\<rparr>)))"
    using migman_put_ok [OF n1(2)] by blast
  then show ?thesis using m E n1(1,3,4)
    by (auto simp: tcmi_migman_stop_perform_def tcmi_migman_change_state_def ccn_ops_def tcmi_ccnmigman_stop_def)
qed

lemma stop_perform_inv:
  fixes n :: "'s node"
  assumes i: "mg_inv held n" and m: "nd_migmans n g = Some m" and E: "ccn_ops E"
  shows "\<exists>r n'. tcmi_migman_stop_perform E g remote n = Some (r, n') \<and> mg_inv held n'"
proof (cases "mg_state m = TCMI_MIGMAN_CONNECTED")
  case False
  then show ?thesis using i m migman_upd_const [OF m] by (simp add: tcmi_migman_stop_perform_def tcmi_migman_change_state_def)
next
  case True
  obtain n' where n': "tcmi_migman_stop_perform E g remote n = Some (if refs held n g = 1 then 1 else 0, n')"
      "mg_core ((refs held n)(g := refs held n g - 1)) n'"
      "nd_migmans n' = (nd_migmans n)(g := (if refs held n g = 1 then None
        else Some (m\<lparr>mg_state := TCMI_MIGMAN_SHUTTING_DOWN, mg_ref_count := refs held n g - 1\<rparr>)))"
    using stop_perform_core [OF i [unfolded mg_inv_def] m True E, of remote] by blast
  have "refs held n' = (refs held n)(g := refs held n g - 1)"
    using refs_upd [OF n'(3), of held] m True by (auto simp: fun_eq_iff refs_def own_ref_def)
  then show ?thesis using n'(1,2) by (simp add: mg_inv_def)
qed

text \<open>
  What the threads of a core node do to its migration managers. \<open>held g\<close> is the number of
  references that tasks and other clients hold on the manager at \<open>g\<close>. A message is
  processed by a manager that has not been asked to stop.
\<close>

inductive ccn_reach :: "'s stop_env \<Rightarrow> (nat \<Rightarrow> nat) \<Rightarrow> 's node \<Rightarrow> bool" for E where
  ccn_start: "\<lbrakk>\<forall>g. nd_migmans n g = None; \<not> sv_locked (nd_man_slots n)\<rbrakk> \<Longrightarrow> ccn_reach E (\<lambda>_. 0) n"
| ccn_new: "\<lbrakk>ccn_reach E held n; nd_migmans n a = None; \<forall>g m. nd_migmans n g = Some m \<longrightarrow> mg_sock m \<noteq> sock;
    nd_socks n sock = Some s; 0 < ks_ref_count s; sock_ok s; ks_send_sem s;
    tcmi_ccnmigman_new M deliver mem a sock ccn_id slot n = Some (r, n')\<rbrakk> \<Longrightarrow> ccn_reach E held n'"
| ccn_msg: "\<lbrakk>ccn_reach E held n; nd_migmans n g = Some m; mg_state m \<in> {TCMI_MIGMAN_INIT, TCMI_MIGMAN_CONNECTED};
    length (ve_mount V) = mount_params_size; tcmi_ccnmigman_process_msg V g a n = Some n'\<rbrakk> \<Longrightarrow> ccn_reach E held n'"
| ccn_get: "\<lbrakk>ccn_reach E held n; nd_migmans n g \<noteq> None; tcmi_migman_get (Some g) n = Some n'\<rbrakk> \<Longrightarrow> ccn_reach E (held(g := held g + 1)) n'"
| ccn_put: "\<lbrakk>ccn_reach E held n; 0 < held g; tcmi_migman_put (se_free E) (Some g) n = Some (r, n')\<rbrakk> \<Longrightarrow>
    ccn_reach E (held(g := held g - 1)) n'"
| ccn_refuse: "\<lbrakk>ccn_reach E held n; nd_migmans n g = Some m; mg_state m = TCMI_MIGMAN_INIT; held g = 0;
    tcmi_migman_put (se_free E) (Some g) n = Some (r, n')\<rbrakk> \<Longrightarrow> ccn_reach E held n'"
| ccn_stop: "\<lbrakk>ccn_reach E held n; tcmi_migman_stop_perform E g remote_requested n = Some (r, n')\<rbrakk> \<Longrightarrow> ccn_reach E held n'"
| ccn_kill: "\<lbrakk>ccn_reach E held n; tcmi_migman_kill E g n = Some (r, n')\<rbrakk> \<Longrightarrow> ccn_reach E held n'"

lemma new_inv:
  fixes n :: "'s node"
  assumes i: "mg_inv held n" and a: "nd_migmans n a = None" "\<forall>g m. nd_migmans n g = Some m \<longrightarrow> mg_sock m \<noteq> sock"
    and s: "nd_socks n sock = Some s" "0 < ks_ref_count s" "sock_ok s" "ks_send_sem s"
    and new: "tcmi_ccnmigman_new M deliver mem a sock ccn_id slot n = Some (r, n')"
  shows "mg_inv held n'"
proof -
  note c = i [unfolded mg_inv_def]
  show ?thesis
  proof (cases "me_mem M \<and> migman_memory_ok M")
    case False
    then have "n' = n" using new migman_init_fails [OF s(1,2), of True M deliver mem a ccn_id 0 0 slot]
      by (auto simp: tcmi_ccnmigman_new_def split: if_splits bind_splits)
    then show ?thesis using i by simp
  next
    case True
    let ?s = "s\<lparr>ks_ref_count := ks_ref_count s + 2\<rparr>"
    obtain m where m: "tcmi_migman_init M deliver mem a sock ccn_id 0 0 slot True n = Some (0,
        n\<lparr>nd_migmans := (nd_migmans n)(a \<mapsto> m), nd_socks := (nd_socks n)(sock \<mapsto> ?s)\<rparr>)"
        "mg_state m = TCMI_MIGMAN_INIT" "mg_ref_count m = 1" "mg_sock m = sock"
      using migman_init_works [OF s(1), of M deliver mem a ccn_id 0 0 slot] True by blast
    then have n': "n' = n\<lparr>nd_migmans := (nd_migmans n)(a \<mapsto> m), nd_socks := (nd_socks n)(sock \<mapsto> ?s)\<rparr>"
      using new True by (simp add: tcmi_ccnmigman_new_def)
    have "held a = 0" using c a(1) by (auto simp: mg_core_def refs_def)
    then have r: "refs held n' = (refs held n)(a := 1)" using refs_upd [of n' n a "Some m" held] n' m(2) by (simp add: own_ref_def)
    have so: "sock_ok ?s" using s(3) by (simp add: sock_ok_def)
    have sk: "\<exists>s. nd_socks n' (mg_sock x) = Some s \<and> 2 \<le> ks_ref_count s \<and> sock_ok s \<and> ks_send_sem s" if "nd_migmans n' h = Some x" for h x
      using that n' m(4) s so mg_coreD(3) [OF c, of h] a(2) by (cases "h = a") auto
    have "mg_core ((refs held n)(a := 1)) n'"
      by (rule mg_coreI [OF _ _ _ sk]) (use c n' m(3,4) a in \<open>auto simp: mg_core_def split: if_splits\<close>)
    then show ?thesis using r by (simp add: mg_inv_def)
  qed
qed

lemma get_inv:
  assumes i: "mg_inv held n" and n': "tcmi_migman_get (Some g) n = Some n'"
  shows "mg_inv (held(g := held g + 1)) n'"
proof -
  note c = i [unfolded mg_inv_def]
  obtain m where m: "nd_migmans n g = Some m" "n' = migman_upd g (\<lambda>m. m\<lparr>mg_ref_count := mg_ref_count m + 1\<rparr>) n"
    using n' by (auto simp: tcmi_migman_get_def split: bind_splits)
  let ?m = "m\<lparr>mg_ref_count := mg_ref_count m + 1\<rparr>"
  have u: "nd_migmans n' = (nd_migmans n)(g \<mapsto> ?m)" using m by simp
  have "mg_core ((refs held n)(g := refs held n g + 1)) n'"
    using mg_core_migman [OF c m(1) _ _ _ u] mg_coreD(1,2) [OF c m(1)] m(2) by simp
  moreover have "refs (held(g := held g + 1)) n' = (refs held n)(g := refs held n g + 1)"
    using m(1) u by (auto simp: refs_def fun_eq_iff own_ref_def)
  ultimately show ?thesis by (simp add: mg_inv_def)
qed

lemma put_held_inv:
  fixes n :: "'s node"
  assumes i: "mg_inv held n" and "0 < held g"
  shows "\<exists>r n'. tcmi_migman_put (Some tcmi_ccnmigman_free) (Some g) n = Some (r, n') \<and> mg_inv (held(g := held g - 1)) n'"
proof -
  note c = i [unfolded mg_inv_def]
  obtain m where m: "nd_migmans n g = Some m" using c assms(2) by (cases "nd_migmans n g") (auto simp: mg_core_def refs_def)
  show ?thesis by (rule put_inv [OF c m]) (use assms(2) m in \<open>auto simp: refs_def own_ref_def\<close>)
qed

lemma own_ref_fields [simp]:
  "own_ref (m\<lparr>mg_transactions := tt\<rparr>) = own_ref m" "own_ref (m\<lparr>mg_ref_count := k\<rparr>) = own_ref m"
  "own_ref (m\<lparr>mg_pen_id := i, mg_peer_arch_type := x\<rparr>) = own_ref m"
  by (simp_all add: own_ref_def)

lemma msg_put_inv:
  assumes i: "mg_inv held n" and n': "migman_msg_put g a n = Some n'"
  shows "mg_inv held n'"
proof -
  obtain m msgs tt where m: "nd_migmans n g = Some m" "n' = migman_upd g (\<lambda>g. g\<lparr>mg_transactions := tt\<rparr>) (n\<lparr>ms_msgs := msgs\<rparr>)"
    using n' by (auto simp: migman_msg_put_def split: bind_splits)
  show ?thesis by (rule mg_inv_migman [OF i m(1), of "m\<lparr>mg_transactions := tt\<rparr>"]) (use m in auto)
qed

text \<open>An accepted authentication answers and makes the manager connected, whatever its state was.\<close>

lemma authenticate_core:
  fixes n :: "'s node"
  assumes c: "mg_core cnt n" and m: "nd_migmans n g = Some m"
    and V: "length (ve_mount V) = mount_params_size" "mm_ok (ve_mem V)"
      "ve_connected V (mg_manager_slot m) (au_size au) (au_auth_data au) \<noteq> (0, False)"
  shows "\<exists>n'. ccn_authenticate V g msg au n = Some n' \<and> mg_core cnt n' \<and> ms_msgs n' = ms_msgs n \<and>
    nd_migmans n' = (nd_migmans n)(g \<mapsto> m\<lparr>mg_pen_id := au_pen_id au, mg_peer_arch_type := au_pen_arch au, mg_state := TCMI_MIGMAN_CONNECTED\<rparr>)"
proof -
  let ?m = "m\<lparr>mg_pen_id := au_pen_id au, mg_peer_arch_type := au_pen_arch au\<rparr>"
  let ?n = "migman_upd g (\<lambda>g. g\<lparr>mg_pen_id := au_pen_id au, mg_peer_arch_type := au_pen_arch au\<rparr>) n"
  let ?resp = "snd (tcmi_msg_init_shared TCMI_AUTHENTICATE_RESP_MSG_ID (Authenticate_resp_msg \<lparr>ar_ccn_id = mg_ccn_id m, ar_ccn_arch = ve_arch V,
     ar_mount_params = ve_mount V, ar_result_code = 0\<rparr>))\<lparr>m_resp := m_req msg\<rparr>"
  have m1: "nd_migmans ?n g = Some ?m" using m by simp
  have c1: "mg_core (cnt(g := cnt g)) ?n" by (rule mg_core_migman [OF c m, of ?m]) (use m mg_coreD(1,2) [OF c m] in auto)
  have r: "plain_body (m_body ?resp)" "m_transaction ?resp = None" using V(1) by (simp_all add: tcmi_msg_init_shared_def plain_body_def)
  obtain n2 where n2: "migman_send V g ?resp ?n = Some n2" "mg_core cnt n2" "nd_migmans n2 = nd_migmans ?n" "ms_msgs n2 = ms_msgs n"
    using migman_send_core [OF c1 m1 r, of V] by auto
  let ?n3 = "migman_upd g (\<lambda>g. snd (tcmi_migman_set_state TCMI_MIGMAN_CONNECTED g)) n2"
  have m2: "nd_migmans n2 g = Some ?m" using n2(3) m by simp
  have "mg_core (cnt(g := cnt g)) ?n3"
    by (rule mg_core_migman [OF n2(2) m2, of "?m\<lparr>mg_state := TCMI_MIGMAN_CONNECTED\<rparr>"])
      (use m m2 mg_coreD(1,2) [OF c m] in \<open>auto simp: tcmi_migman_set_state_def\<close>)
  moreover have "ccn_authenticate V g msg au n = Some ?n3"
    using m V(2,3) n2(1)
    by (auto simp: ccn_authenticate_def tcmi_authenticate_resp_msg_new_tx_def tx_result_def tcmi_msg_init_tx_def Let_def split: prod.splits)
  ultimately show ?thesis using n2(3,4) m by (simp add: tcmi_migman_set_state_def)
qed

lemma authenticate_inv:
  fixes n :: "'s node"
  assumes i: "mg_inv held n" and m: "nd_migmans n g = Some m" "own_ref m = 1"
    and V: "length (ve_mount V) = mount_params_size" and n': "ccn_authenticate V g msg au n = Some n'"
  shows "mg_inv held n'"
proof (cases "mm_ok (ve_mem V) \<and> ve_connected V (mg_manager_slot m) (au_size au) (au_auth_data au) \<noteq> (0, False)")
  case True
  let ?m = "m\<lparr>mg_pen_id := au_pen_id au, mg_peer_arch_type := au_pen_arch au, mg_state := TCMI_MIGMAN_CONNECTED\<rparr>"
  have a: "mg_core (refs held n) n'" "nd_migmans n' = (nd_migmans n)(g \<mapsto> ?m)"
    using authenticate_core [OF i [unfolded mg_inv_def] m(1) V, of au msg] True n' by auto
  have "refs held n' = refs held n" using refs_upd [OF a(2), of held] m by (auto simp: refs_def own_ref_def fun_eq_iff)
  then show ?thesis using a(1) by (simp add: mg_inv_def)
next
  case False
  let ?m = "m\<lparr>mg_pen_id := au_pen_id au, mg_peer_arch_type := au_pen_arch au\<rparr>"
  have "n' = n \<or> n' = migman_upd g (\<lambda>g. g\<lparr>mg_pen_id := au_pen_id au, mg_peer_arch_type := au_pen_arch au\<rparr>) n"
    using False n' m(1) by (auto simp: ccn_authenticate_def tcmi_authenticate_resp_msg_new_tx_def Let_def split: prod.splits if_splits)
  then show ?thesis using mg_inv_migman [OF i m(1), of ?m n'] i m by auto
qed

lemma process_msg_inv:
  assumes i: "mg_inv held n" and m: "nd_migmans n g = Some m" "mg_state m \<in> {TCMI_MIGMAN_INIT, TCMI_MIGMAN_CONNECTED}"
    and V: "length (ve_mount V) = mount_params_size" and n': "tcmi_ccnmigman_process_msg V g a n = Some n'"
  shows "mg_inv held n'"
proof -
  have o: "own_ref m = 1" using m(2) by (auto simp: own_ref_def)
  show ?thesis
    using n' msg_put_inv [OF i] msg_put_inv [OF authenticate_inv [OF i m(1) o V]]
    by (auto simp: tcmi_ccnmigman_process_msg_def split: bind_splits if_splits tcmi_body.splits)
qed

lemma signal_all_frame: "signal_all ts n = Some n' \<Longrightarrow> nd_migmans n' = nd_migmans n \<and> nd_socks n' = nd_socks n \<and> nd_man_slots n' = nd_man_slots n"
proof (induction ts arbitrary: n)
  case (Cons t ts)
  then show ?case by (fastforce simp: tcmi_task_signal_peer_lost_def force_sig_def split: bind_splits)
qed simp

lemma kill_inv:
  fixes n :: "'s node"
  assumes i: "mg_inv held n" and E: "ccn_ops E" and k: "tcmi_migman_kill E g n = Some (r, n')"
  shows "mg_inv held n'"
proof -
  obtain n1 m where n1: "kill_all_tasks g n = Some n1" "nd_migmans n1 g = Some m"
    using k by (auto simp: tcmi_migman_kill_def split: bind_splits)
  have f: "nd_migmans n1 = nd_migmans n" "nd_socks n1 = nd_socks n" "nd_man_slots n1 = nd_man_slots n"
    using n1(1) signal_all_frame unfolding kill_all_tasks_def by (auto split: bind_splits)
  have i1: "mg_inv held n1" using mg_core_same [OF i [unfolded mg_inv_def] f] refs_same [OF f(1), of held] by (simp add: mg_inv_def)
  have "tcmi_migman_kill E g n = tcmi_migman_stop_perform E g True n1"
    using n1 E by (cases "mg_state m = TCMI_MIGMAN_CONNECTED")
      (simp_all add: tcmi_migman_kill_def tcmi_migman_stop_perform_def tcmi_migman_change_state_def ccn_ops_def tcmi_ccnmigman_stop_def)
  then show ?thesis using stop_perform_inv [OF i1 n1(2) E, of True] k by auto
qed

lemma ccn_reach_inv: "ccn_reach E held n \<Longrightarrow> ccn_ops E \<Longrightarrow> mg_inv held n"
proof (induction rule: ccn_reach.induct)
  case (ccn_start n)
  then show ?case by (simp add: mg_inv_def mg_core_def refs_def)
next
  case (ccn_get held n g n')
  then show ?case using get_inv [of held n g n'] by (simp add: fun_upd_def)
next
  case (ccn_put held n g r n')
  then show ?case using put_held_inv [of held n g] by (auto simp: ccn_ops_def fun_upd_def)
next
  case (ccn_refuse held n g m r n')
  have "\<exists>r n'. tcmi_migman_put (Some tcmi_ccnmigman_free) (Some g) n = Some (r, n') \<and> mg_inv held n'"
    by (rule put_inv [of "refs held n" n g m]) (use ccn_refuse in \<open>auto simp: mg_inv_def refs_def own_ref_def\<close>)
  then show ?case using ccn_refuse.hyps ccn_refuse.prems by (auto simp: ccn_ops_def)
next
  case (ccn_stop held n g remote r n')
  obtain m where "nd_migmans n g = Some m" using ccn_stop.hyps(2) by (auto simp: tcmi_migman_stop_perform_def split: bind_splits)
  then show ?case using stop_perform_inv [of held n g m E remote] ccn_stop by auto
qed (auto intro: new_inv process_msg_inv kill_inv)


definition demo_stop_env :: "(byte list \<times> byte list) stop_env" where
  "demo_stop_env = \<lparr>se_free = Some tcmi_ccnmigman_free, se_stop = Some tcmi_ccnmigman_stop, se_mem = demo_mem,
     se_trans = \<lparr>te_mem = None, te_rnd = (\<lambda>_. 5), te_k = 0, te_hz = 100\<rparr>, se_signalled = False, se_jiffies = 0\<rparr>"

text \<open>A manager is created and a client takes a reference; two authentication requests are there.\<close>

definition demo_ccn :: "(byte list \<times> byte list) node" where
  "demo_ccn = demo_node\<lparr>ms_msgs := [100 \<mapsto> auth_demo, 101 \<mapsto> auth_demo], nd_migmans := Map.empty,
     nd_man_slots := blank_vec\<lparr>sv_locked := False\<rparr>\<rparr>"

lemma demo_reach:
  "\<exists>n m. ccn_reach demo_stop_env ((\<lambda>_. 0)(61 := 1)) n \<and> nd_migmans n 61 = Some m \<and> mg_state m = TCMI_MIGMAN_INIT \<and>
     ms_msgs n = [100 \<mapsto> auth_demo, 101 \<mapsto> auth_demo]"
proof -
  let ?s = "eager_sock [] []\<lparr>ks_ref_count := ks_ref_count (eager_sock [] []) + 2\<rparr>"
  have ok: "migman_memory_ok demo_migman_env"
    by (simp add: migman_memory_ok_def demo_migman_env_def tcmi_slotvec_hnew_def tcmi_slotvec_new_def)
  obtain m where m: "tcmi_migman_init demo_migman_env (\<lambda>_ n. Some (0, n)) demo_migman 61 50 1 0 0 0 True demo_ccn = Some (0,
      demo_ccn\<lparr>nd_migmans := (nd_migmans demo_ccn)(61 \<mapsto> m), nd_socks := (nd_socks demo_ccn)(50 \<mapsto> ?s)\<rparr>)"
      "mg_state m = TCMI_MIGMAN_INIT"
    using migman_init_works [of demo_ccn 50 "eager_sock [] []" demo_migman_env "\<lambda>_ n. Some (0, n)" demo_migman 61 1 0 0 0] ok
    by (auto simp: demo_ccn_def demo_node_def)
  let ?n1 = "demo_ccn\<lparr>nd_migmans := (nd_migmans demo_ccn)(61 \<mapsto> m), nd_socks := (nd_socks demo_ccn)(50 \<mapsto> ?s)\<rparr>"
  let ?n2 = "migman_upd 61 (\<lambda>m. m\<lparr>mg_ref_count := mg_ref_count m + 1\<rparr>) ?n1"
  have "ccn_reach demo_stop_env (\<lambda>_. 0) demo_ccn" by (rule ccn_start) (simp_all add: demo_ccn_def demo_node_def)
  then have "ccn_reach demo_stop_env (\<lambda>_. 0) ?n1"
    by (rule ccn_new [where a = 61 and sock = 50 and s = "eager_sock [] []" and M = demo_migman_env and deliver = "\<lambda>_ n. Some (0, n)"
          and mem = demo_migman and ccn_id = 1 and slot = 0 and r = "Some 61"])
      (use m(1) in \<open>simp_all add: demo_ccn_def demo_node_def tcmi_ccnmigman_new_def demo_migman_env_def, simp add: eager_sock_def\<close>)
  then have "ccn_reach demo_stop_env ((\<lambda>_. 0)(61 := 0 + 1)) ?n2" by (rule ccn_get) (simp_all add: tcmi_migman_get_def)
  then show ?thesis using m(2)
    by (intro exI [of _ ?n2] exI [of _ "m\<lparr>mg_ref_count := mg_ref_count m + 1\<rparr>"]) (simp add: demo_ccn_def)
qed


text \<open>
  C30. A second authentication request undoes a shutdown: it makes a manager that is shutting
  down connected again, and the next stop request or disconnection drops the reference that
  was dropped before. The manager is freed while its last client still refers to it, and that
  client's release touches freed memory.
\<close>

theorem reauthentication_frees_manager_in_use:
  fixes n :: "'s node"
  assumes r: "ccn_reach E held n" "ccn_ops E" and m: "nd_migmans n g = Some m" "mg_state m = TCMI_MIGMAN_SHUTTING_DOWN" "held g = 1"
    and x: "ms_msgs n a = Some x" "m_id x = TCMI_AUTHENTICATE_MSG_ID" "m_body x = Authenticate_msg au" "m_transaction x = None"
    and V: "length (ve_mount V) = mount_params_size" "mm_ok (ve_mem V)"
      "ve_connected V (mg_manager_slot m) (au_size au) (au_auth_data au) \<noteq> (0, False)"
  shows "\<exists>n1 n2. tcmi_ccnmigman_process_msg V g a n = Some n1 \<and> tcmi_migman_stop_perform E g remote_requested n1 = Some (1, n2) \<and>
    nd_migmans n2 g = None \<and> tcmi_migman_put (se_free E) (Some g) n2 = None"
proof -
  have c: "mg_core (refs held n) n" using ccn_reach_inv [OF r] by (simp add: mg_inv_def)
  have k: "refs held n g = 1" using m by (simp add: refs_def own_ref_def)
  let ?m = "m\<lparr>mg_pen_id := au_pen_id au, mg_peer_arch_type := au_pen_arch au, mg_state := TCMI_MIGMAN_CONNECTED\<rparr>"
  obtain n0 where n0: "ccn_authenticate V g x au n = Some n0" "mg_core (refs held n) n0" "ms_msgs n0 = ms_msgs n"
      "nd_migmans n0 = (nd_migmans n)(g \<mapsto> ?m)"
    using authenticate_core [OF c m(1) V] by blast
  obtain n1 msgs where n1: "migman_msg_put g (Some a) n0 = Some n1"
      "n1 = migman_upd g (\<lambda>g. g\<lparr>mg_transactions := mg_transactions m\<rparr>) (n0\<lparr>ms_msgs := msgs\<rparr>)"
    using n0(3,4) x by (cases "m_ref_count x - 1 = 0") (simp_all add: migman_msg_put_def tcmi_msg_put_def tcmi_transaction_put_def)
  have m1: "nd_migmans n1 g = Some (?m\<lparr>mg_transactions := mg_transactions m\<rparr>)" using n1(2) n0(4) by simp
  have "mg_core ((refs held n)(g := 1)) n1"
    by (rule mg_core_migman [OF n0(2), of g ?m "?m\<lparr>mg_transactions := mg_transactions m\<rparr>"])
      (use n0(4) n1(2) mg_coreD(1) [OF c m(1)] k in auto)
  then obtain n2 where "tcmi_migman_stop_perform E g remote_requested n1 = Some (1, n2)" "nd_migmans n2 g = None"
    using stop_perform_core [OF _ m1 _ r(2), of "(refs held n)(g := 1)" remote_requested] by auto
  moreover have "tcmi_ccnmigman_process_msg V g a n = Some n1" using x n0(1) n1(1) by (simp add: tcmi_ccnmigman_process_msg_def)
  ultimately show ?thesis by (auto simp: tcmi_migman_put_def)
qed

definition demo_msg_env :: msg_env where
  "demo_msg_env = \<lparr>ve_mem = demo_mem, ve_trans = se_trans demo_stop_env, ve_signalled = False, ve_jiffies = 0, ve_connected = (\<lambda>_ _ _. (0, True)),
     ve_arch = 1, ve_mount = replicate mount_params_size 0\<rparr>"

text \<open>Authenticated once and stopped, with the second request still to be processed.\<close>

lemma demo_reach_stopped:
  "\<exists>n m. ccn_reach demo_stop_env ((\<lambda>_. 0)(61 := 1)) n \<and> nd_migmans n 61 = Some m \<and> mg_state m = TCMI_MIGMAN_SHUTTING_DOWN \<and>
     ms_msgs n 101 = Some auth_demo"
proof -
  obtain n m where n: "ccn_reach demo_stop_env ((\<lambda>_. 0)(61 := 1)) n" "nd_migmans n 61 = Some m" "mg_state m = TCMI_MIGMAN_INIT"
      "ms_msgs n = [100 \<mapsto> auth_demo, 101 \<mapsto> auth_demo]"
    using demo_reach by blast
  have E: "ccn_ops demo_stop_env" by (simp add: ccn_ops_def demo_stop_env_def)
  have V: "length (ve_mount demo_msg_env) = mount_params_size" "mm_ok (ve_mem demo_msg_env)" "ve_connected demo_msg_env i j k \<noteq> (0, False)" for i j k
    by (simp_all add: demo_msg_env_def)
  obtain au where x: "m_id auth_demo = TCMI_AUTHENTICATE_MSG_ID" "m_body auth_demo = Authenticate_msg au" "m_transaction auth_demo = None" "m_ref_count auth_demo = 1"
    by (simp add: auth_demo_def)
  note c = ccn_reach_inv [OF n(1) E, unfolded mg_inv_def]
  obtain n1 where n1: "ccn_authenticate demo_msg_env 61 auth_demo au n = Some n1" "ms_msgs n1 = ms_msgs n"
      "nd_migmans n1 = (nd_migmans n)(61 \<mapsto> m\<lparr>mg_pen_id := au_pen_id au, mg_peer_arch_type := au_pen_arch au, mg_state := TCMI_MIGMAN_CONNECTED\<rparr>)"
    using authenticate_core [OF c n(2) V(1,2), of au auth_demo] V(3) by blast
  have "\<exists>n2 m2. tcmi_ccnmigman_process_msg demo_msg_env 61 100 n = Some n2 \<and> nd_migmans n2 61 = Some m2 \<and> mg_state m2 = TCMI_MIGMAN_CONNECTED \<and>
      ms_msgs n2 101 = Some auth_demo"
    using n(4) n1 x by (simp add: tcmi_ccnmigman_process_msg_def migman_msg_put_def tcmi_msg_put_def tcmi_transaction_put_def)
  then obtain n2 m2 where n2: "tcmi_ccnmigman_process_msg demo_msg_env 61 100 n = Some n2" "nd_migmans n2 61 = Some m2"
      "mg_state m2 = TCMI_MIGMAN_CONNECTED" "ms_msgs n2 101 = Some auth_demo" by blast
  have r2: "ccn_reach demo_stop_env ((\<lambda>_. 0)(61 := 1)) n2" by (rule ccn_msg [OF n(1,2) _ V(1) n2(1)]) (simp add: n(3))
  obtain n3 r where n3: "tcmi_migman_stop_perform demo_stop_env 61 False n2 = Some (r, n3)" "ms_msgs n3 = ms_msgs n2"
      "nd_migmans n3 = (nd_migmans n2)(61 \<mapsto> m2\<lparr>mg_state := TCMI_MIGMAN_SHUTTING_DOWN, mg_ref_count := 1\<rparr>)"
    using stop_perform_core [OF ccn_reach_inv [OF r2 E, unfolded mg_inv_def] n2(2,3) E, of False] n2(2,3) by (auto simp: refs_def own_ref_def)
  then show ?thesis using ccn_stop [OF r2 n3(1)] n2(4) by (intro exI [of _ n3]) simp
qed

theorem reauthentication_frees_manager_in_use_witness:
  "\<exists>n n1 n2. ccn_reach demo_stop_env ((\<lambda>_. 0)(61 := 1)) n \<and> tcmi_ccnmigman_process_msg demo_msg_env 61 101 n = Some n1 \<and>
     tcmi_migman_stop_perform demo_stop_env 61 True n1 = Some (1, n2) \<and> tcmi_migman_put (Some tcmi_ccnmigman_free) (Some 61) n2 = None"
proof -
  obtain n m where n: "ccn_reach demo_stop_env ((\<lambda>_. 0)(61 := 1)) n" "nd_migmans n 61 = Some m" "mg_state m = TCMI_MIGMAN_SHUTTING_DOWN"
      "ms_msgs n 101 = Some auth_demo"
    using demo_reach_stopped by blast
  have E: "ccn_ops demo_stop_env" "se_free demo_stop_env = Some tcmi_ccnmigman_free" by (simp_all add: ccn_ops_def demo_stop_env_def)
  show ?thesis
    using reauthentication_frees_manager_in_use [OF n(1) E(1) n(2,3) _ n(4), where V = demo_msg_env and remote_requested = True] n(1) E(2)
    by (auto simp: auth_demo_def demo_msg_env_def)
qed

end
