(* ===== verification/Proxyfs_Peer.thy ===== *)
theory Proxyfs_Peer
  imports Kkc_Connect Wire
begin

text \<open>
  Messages and peers of ProxyFS (\<^verbatim>\<open>src/proxyfs/proxyfs_msg.c\<close>, \<^verbatim>\<open>proxyfs_msg.h\<close>,
  \<^verbatim>\<open>proxyfs_peer.c\<close>, \<^verbatim>\<open>proxyfs_peer.h\<close>).

  A message is a header of four \<^verbatim>\<open>unsigned long\<close> followed by data; a peer is a connection
  with a queue of messages to send and a buffer in which one message is put together from
  what a non-blocking receive delivers. The memory behind \<^verbatim>\<open>data\<close> and \<^verbatim>\<open>recv_buf\<close> is a
  list of bytes, and an access outside of it is \<open>None\<close>.
\<close>

subsection \<open>Messages\<close>

abbreviation (input) ENOENT :: int where "ENOENT \<equiv> 2"
abbreviation (input) EBADF :: int where "EBADF \<equiv> 9"
abbreviation (input) EACCES :: int where "EACCES \<equiv> 13"
abbreviation (input) ECONNABORTED :: int where "ECONNABORTED \<equiv> 103"

record proxyfs_msg_header =
  hd_magic :: u64
  hd_msg_num :: u64
  hd_file_ident :: u64
  hd_data_size :: u64

record proxyfs_msg =
  px_header :: proxyfs_msg_header
  px_data :: "byte list"
  px_send_start :: u64
  px_free :: bool

abbreviation (input) MSG_HDR_SIZE :: u64 where "MSG_HDR_SIZE \<equiv> 32"
abbreviation (input) MSG_MAGIC :: u64 where "MSG_MAGIC \<equiv> 0x1ee7babe"
abbreviation (input) MSG_MAX_SIZE :: u64 where "MSG_MAX_SIZE \<equiv> 4096"

abbreviation (input) MSG_OPEN :: u64 where "MSG_OPEN \<equiv> 1"
abbreviation (input) MSG_WRITE :: u64 where "MSG_WRITE \<equiv> 3"
abbreviation (input) MSG_IOCTL :: u64 where "MSG_IOCTL \<equiv> 4"
abbreviation (input) MSG_CLOSE :: u64 where "MSG_CLOSE \<equiv> 5"
abbreviation (input) MSG_FSYNC :: u64 where "MSG_FSYNC \<equiv> 6"
abbreviation (input) MSG_READ_REQUEST :: u64 where "MSG_READ_REQUEST \<equiv> 7"
abbreviation (input) MSG_OPEN_RESP_OK :: u64 where "MSG_OPEN_RESP_OK \<equiv> 101"
abbreviation (input) MSG_OPEN_RESP_FAILED :: u64 where "MSG_OPEN_RESP_FAILED \<equiv> 102"
abbreviation (input) MSG_WRITE_RESP :: u64 where "MSG_WRITE_RESP \<equiv> 301"
abbreviation (input) MSG_IOCTL_RESP :: u64 where "MSG_IOCTL_RESP \<equiv> 401"
abbreviation (input) MSG_CLOSE_RESP :: u64 where "MSG_CLOSE_RESP \<equiv> 501"
abbreviation (input) MSG_FSYNC_RESP :: u64 where "MSG_FSYNC_RESP \<equiv> 601"
abbreviation (input) MSG_READ_REQUEST_RESP :: u64 where "MSG_READ_REQUEST_RESP \<equiv> 701"

text \<open>The size of \<^verbatim>\<open>struct proxyfs_msg\<close>, and the header as it lies in memory.\<close>

abbreviation (input) sizeof_proxyfs_msg :: u64 where "sizeof_proxyfs_msg \<equiv> 72"

definition header_bytes :: "proxyfs_msg_header \<Rightarrow> byte list" where
  "header_bytes h = le_bytes 8 (hd_magic h) @ le_bytes 8 (hd_msg_num h) @ le_bytes 8 (hd_file_ident h) @ le_bytes 8 (hd_data_size h)"

definition bytes_header :: "byte list \<Rightarrow> proxyfs_msg_header" where
  "bytes_header bs = \<lparr>hd_magic = le_word (take 8 bs), hd_msg_num = le_word (take 8 (drop 8 bs)),
     hd_file_ident = le_word (take 8 (drop 16 bs)), hd_data_size = le_word (take 8 (drop 24 bs))\<rparr>"

definition proxyfs_msg_get_size :: "proxyfs_msg_header \<Rightarrow> i32" where
  "proxyfs_msg_get_size h = (if hd_magic h \<noteq> MSG_MAGIC then 0 else ucast (hd_data_size h + MSG_HDR_SIZE))"

definition proxyfs_msg_new_internal ::
  "(u64 \<Rightarrow> bool) \<Rightarrow> u64 \<Rightarrow> u64 \<Rightarrow> u64 \<Rightarrow> byte list \<Rightarrow> bool \<Rightarrow> proxyfs_msg option" where
  "proxyfs_msg_new_internal kmalloc msg_num file_ident data_size data_ptr take_ownership =
     (if data_size > MSG_MAX_SIZE - MSG_HDR_SIZE then None
      else if \<not> kmalloc sizeof_proxyfs_msg then None
      else Some \<lparr>px_header = \<lparr>hd_magic = MSG_MAGIC, hd_msg_num = msg_num, hd_file_ident = file_ident, hd_data_size = data_size\<rparr>,
             px_data = data_ptr, px_send_start = 0, px_free = take_ownership\<rparr>)"

definition proxyfs_msg_new :: "(u64 \<Rightarrow> bool) \<Rightarrow> u64 \<Rightarrow> u64 \<Rightarrow> u64 \<Rightarrow> byte list \<Rightarrow> proxyfs_msg option" where
  "proxyfs_msg_new kmalloc msg_num file_ident data_size data_ptr =
     proxyfs_msg_new_internal kmalloc msg_num file_ident data_size data_ptr False"

definition proxyfs_msg_new_takeover_ownership ::
  "(u64 \<Rightarrow> bool) \<Rightarrow> u64 \<Rightarrow> u64 \<Rightarrow> u64 \<Rightarrow> byte list \<Rightarrow> proxyfs_msg option" where
  "proxyfs_msg_new_takeover_ownership kmalloc msg_num file_ident data_size data_ptr =
     proxyfs_msg_new_internal kmalloc msg_num file_ident data_size data_ptr True"

text \<open>
  The arguments of the variadic constructor are pairs of a size and the memory at the
  pointer; a size of zero ends them. The first loop adds up the sizes, the second copies.
\<close>

fun compose_size :: "(u32 \<times> byte list) list \<Rightarrow> u64" where
  "compose_size [] = 0"
| "compose_size ((n, p) # args) = (if n = 0 then 0 else ucast n + compose_size args)"

fun compose_data :: "(u32 \<times> byte list) list \<Rightarrow> byte list" where
  "compose_data [] = []"
| "compose_data ((n, p) # args) = (if n = 0 then [] else take (unat n) p @ compose_data args)"

definition proxyfs_msg_compose_new ::
  "(u64 \<Rightarrow> bool) \<Rightarrow> u64 \<Rightarrow> u64 \<Rightarrow> (u32 \<times> byte list) list \<Rightarrow> proxyfs_msg option" where
  "proxyfs_msg_compose_new kmalloc msg_num file_ident args =
     (if \<not> kmalloc sizeof_proxyfs_msg then None
      else if \<not> kmalloc (compose_size args) then None
      else Some \<lparr>px_header = \<lparr>hd_magic = MSG_MAGIC, hd_msg_num = msg_num, hd_file_ident = file_ident,
               hd_data_size = compose_size args\<rparr>,
             px_data = compose_data args, px_send_start = 0, px_free = True\<rparr>)"

text \<open>
  Sending. The address \<^verbatim>\<open>self + self->send_start\<close> counts in messages: it is inside of
  the structure only at the very start.
\<close>

definition proxyfs_msg_real_send :: "proxyfs_msg \<Rightarrow> 's kkc_sock \<Rightarrow> (int \<times> proxyfs_msg \<times> 's kkc_sock) option" where
  "proxyfs_msg_real_send self sock =
     (let msg_size = scast (proxyfs_msg_get_size (px_header self));
          send_data = (\<lambda>self sock.
            if px_send_start self = msg_size then Some (1, self, sock)
            else
              (let off = unat (px_send_start self - MSG_HDR_SIZE); n = int_len (ucast (msg_size - px_send_start self))
               in if off + n > length (px_data self) then None
                  else do {
                    (result, sock) \<leftarrow> kkc_sock_send sock (take n (drop off (px_data self)));
                    (if result > 0 then
                       let self = self\<lparr>px_send_start := px_send_start self + of_int result\<rparr>
                       in Some (if px_send_start self = msg_size then 1 else 0, self, sock)
                     else Some (result, self, sock))
                  }))
      in if px_send_start self < MSG_HDR_SIZE then
           (if px_send_start self \<noteq> 0 then None
            else do {
              (result, sock) \<leftarrow> kkc_sock_send sock (header_bytes (px_header self));
              (if result > 0 then
                 let self = self\<lparr>px_send_start := px_send_start self + of_int result\<rparr>
                 in if px_send_start self \<ge> MSG_HDR_SIZE then send_data self sock else Some (0, self, sock)
               else Some (result, self, sock))
            })
         else send_data self sock)"

subsection \<open>Peers\<close>

datatype proxyfs_peer_state_t = PEER_CREATED | PEER_CONNECTED | PEER_DISCONNECTED | PEER_DEAD

record 's proxyfs_peer_t =
  pp_sock :: "'s kkc_sock option"
  pp_recv_buf :: "byte list"
  pp_recv_start :: u64
  pp_msg_queue :: "proxyfs_msg list"
  pp_ref_count :: int
  pp_state :: proxyfs_peer_state_t

text \<open>\<open>vmalloc\<close> is the memory of the receive buffer, \<open>None\<close> if there is none.\<close>

definition proxyfs_peer_init :: "byte list option \<Rightarrow> 's proxyfs_peer_t \<Rightarrow> int \<times> 's proxyfs_peer_t" where
  "proxyfs_peer_init vmalloc self =
     (case vmalloc of
        None \<Rightarrow> (- 1, self\<lparr>pp_recv_buf := []\<rparr>)
      | Some b \<Rightarrow> (0, self\<lparr>pp_recv_buf := b, pp_recv_start := 0, pp_ref_count := 1, pp_state := PEER_CREATED, pp_msg_queue := []\<rparr>))"

definition proxyfs_peer_new :: "'s proxyfs_peer_t option \<Rightarrow> byte list option \<Rightarrow> 's proxyfs_peer_t option" where
  "proxyfs_peer_new kmalloc vmalloc =
     (case kmalloc of
        None \<Rightarrow> None
      | Some self \<Rightarrow> (case proxyfs_peer_init vmalloc self of (err, self) \<Rightarrow> if err \<noteq> 0 then None else Some self))"

definition proxyfs_peer_get :: "'s proxyfs_peer_t \<Rightarrow> 's proxyfs_peer_t" where
  "proxyfs_peer_get self = self\<lparr>pp_ref_count := pp_ref_count self + 1\<rparr>"

text \<open>\<open>None\<close> is a peer that has been freed; \<open>refs\<close> are the references to the architecture its socket holds.\<close>

definition proxyfs_peer_put :: "'s proxyfs_peer_t \<Rightarrow> int \<Rightarrow> 's proxyfs_peer_t option \<times> int" where
  "proxyfs_peer_put self refs =
     (if pp_ref_count self - 1 = 0
      then (None, case pp_sock self of None \<Rightarrow> refs | Some s \<Rightarrow> snd (kkc_sock_put s refs))
      else (Some (self\<lparr>pp_ref_count := pp_ref_count self - 1\<rparr>), refs))"

definition proxyfs_peer_get_state :: "'s proxyfs_peer_t \<Rightarrow> proxyfs_peer_state_t" where
  "proxyfs_peer_get_state self = pp_state self"

definition proxyfs_peer_set_state :: "proxyfs_peer_state_t \<Rightarrow> 's proxyfs_peer_t \<Rightarrow> 's proxyfs_peer_t" where
  "proxyfs_peer_set_state st self = self\<lparr>pp_state := st\<rparr>"

text \<open>The loop over the queue; a message that has gone out completely is taken off and destroyed.\<close>

fun send_queue :: "proxyfs_msg list \<Rightarrow> 's kkc_sock \<Rightarrow> (proxyfs_msg list \<times> 's kkc_sock) option" where
  "send_queue [] sock = Some ([], sock)"
| "send_queue (msg # q) sock = do {
     (status, msg, sock) \<leftarrow> proxyfs_msg_real_send msg sock;
     (if status = 1 then send_queue q sock else Some (msg # q, sock))
   }"

definition proxyfs_peer_real_send :: "'s proxyfs_peer_t \<Rightarrow> 's proxyfs_peer_t option" where
  "proxyfs_peer_real_send self =
     (case pp_sock self of
        None \<Rightarrow> Some self
      | Some sock \<Rightarrow>
          (if pp_state self = PEER_DISCONNECTED then Some self
           else do {
             (q, sock) \<leftarrow> send_queue (pp_msg_queue self) sock;
             Some (self\<lparr>pp_msg_queue := q, pp_sock := Some sock\<rparr>)
           }))"

text \<open>
  One receive into the buffer at \<^verbatim>\<open>recv_start\<close>: the length is an \<^verbatim>\<open>int\<close> that the kernel
  reads as a \<^verbatim>\<open>size_t\<close>, and bytes behind the end of the buffer are a fault.
\<close>

definition recv_at :: "i32 \<Rightarrow> 's proxyfs_peer_t \<Rightarrow> (int \<times> 's proxyfs_peer_t) option" where
  "recv_at buflen self = do {
     sock \<leftarrow> pp_sock self;
     (result, out, sock) \<leftarrow> kkc_sock_recv sock (unat (scast buflen :: u64)) KKC_SOCK_NONBLOCK;
     (let off = unat (pp_recv_start self) in
      if off + length out > length (pp_recv_buf self) then None
      else Some (result, self\<lparr>pp_sock := Some sock, pp_recv_buf := memcpy_at (pp_recv_buf self) off out,
             pp_recv_start := (if result > 0 then pp_recv_start self + of_int result else pp_recv_start self)\<rparr>))
   }"

definition recv_header :: "'s proxyfs_peer_t \<Rightarrow> proxyfs_msg_header" where
  "recv_header self = bytes_header (pp_recv_buf self)"

definition proxyfs_peer_real_recv :: "'s proxyfs_peer_t \<Rightarrow> (int \<times> 's proxyfs_peer_t) option" where
  "proxyfs_peer_real_recv self = do {
     (result, self) \<leftarrow> (if pp_recv_start self < MSG_HDR_SIZE
        then recv_at (ucast (MSG_HDR_SIZE - pp_recv_start self)) self else Some (0, self));
     (if pp_recv_start self \<ge> MSG_HDR_SIZE then
        (let msg_size = scast (proxyfs_msg_get_size (recv_header self)) in
         if msg_size = pp_recv_start self then Some (1, self)
         else do {
           (result, self) \<leftarrow> recv_at (ucast (msg_size - pp_recv_start self)) self;
           Some (if result > 0
                 then if pp_recv_start self = scast (proxyfs_msg_get_size (recv_header self)) then 1 else 0
                 else result, self)
         })
      else Some (result, self))
   }"

definition proxyfs_peer_get_msg :: "'s proxyfs_peer_t \<Rightarrow> (proxyfs_msg_header \<times> byte list) option" where
  "proxyfs_peer_get_msg self =
     (if pp_recv_start self \<ge> MSG_HDR_SIZE \<and> scast (proxyfs_msg_get_size (recv_header self)) = pp_recv_start self
      then Some (recv_header self, drop 32 (pp_recv_buf self)) else None)"

definition proxyfs_peer_clear_msg :: "'s proxyfs_peer_t \<Rightarrow> int \<times> 's proxyfs_peer_t" where
  "proxyfs_peer_clear_msg self =
     (if pp_recv_start self \<ge> MSG_HDR_SIZE \<and> scast (proxyfs_msg_get_size (recv_header self)) = pp_recv_start self
      then (0, self\<lparr>pp_recv_start := 0\<rparr>) else (- 1, self))"

text \<open>Queueing; a message that could not be allocated is a null pointer, and queueing it a fault.\<close>

definition proxyfs_peer_send_msg :: "proxyfs_msg option \<Rightarrow> 's proxyfs_peer_t \<Rightarrow> 's proxyfs_peer_t option" where
  "proxyfs_peer_send_msg msg self = do { m \<leftarrow> msg; Some (self\<lparr>pp_msg_queue := pp_msg_queue self @ [m]\<rparr>) }"

definition proxyfs_peer_connect :: "'s net \<Rightarrow> string \<Rightarrow> int \<Rightarrow> 's proxyfs_peer_t \<Rightarrow> int \<times> 's proxyfs_peer_t \<times> int" where
  "proxyfs_peer_connect net connect_str refs self =
     (case kkc_connect net connect_str refs of (err, sock, refs) \<Rightarrow>
        if err \<noteq> 0 then (- 1, self\<lparr>pp_sock := None\<rparr>, refs)
        else (0, self\<lparr>pp_sock := sock, pp_state := PEER_CONNECTED\<rparr>, refs))"

definition proxyfs_peer_disconnect :: "'s proxyfs_peer_t \<Rightarrow> int \<times> 's proxyfs_peer_t" where
  "proxyfs_peer_disconnect self =
     (case pp_sock self of
        None \<Rightarrow> (0, self)
      | Some sock \<Rightarrow>
          (if pp_state self = PEER_CONNECTED
           then (case kkc_sock_tcp_shutdown sock of (err, sock) \<Rightarrow> (err, self\<lparr>pp_state := PEER_DISCONNECTED, pp_sock := Some sock\<rparr>))
           else (0, self)))"

end
