(* ===== verification/Circ_Buf.thy ===== *)
theory Circ_Buf
  imports Clondike_Prelude Fifo_Channel
begin

text \<open>
  The circular buffer of ProxyFS (\<^verbatim>\<open>src/proxyfs/buffer.h\<close> and \<^verbatim>\<open>buffer.c\<close>).

  The record keeps the C structure: the three pointers are 64-bit words, the size
  is the 32-bit \<^verbatim>\<open>unsigned\<close> of the source, so every pointer comparison, pointer
  difference and implicit truncation of the code is a word operation here. The
  memory the buffer owns is the list \<open>cb_mem\<close>, addressed relative to \<open>cb_buf\<close>.

  The theory then relates the pointers to offsets in the ring, the ring to the
  queue of bytes it holds (\<open>circ_contents\<close>), and proves that writing appends to
  that queue, reading takes from its front and looking ahead leaves the buffer
  untouched. The interface \<open>bounded_channel\<close> states this contract once; the buffer
  interprets it.
\<close>

subsection \<open>The operations\<close>

record circ_buf =
  cb_buf :: ptr
  cb_write :: ptr
  cb_read :: ptr
  cb_full :: bool
  cb_size :: u32
  cb_mem :: "byte list"

definition CIRC_BUF_USE_VMALLOC :: u32 where
  "CIRC_BUF_USE_VMALLOC = push_bit 10 4"

definition circ_buf_init ::
  "(u32 \<Rightarrow> (ptr \<times> byte list) option) \<Rightarrow> (u32 \<Rightarrow> (ptr \<times> byte list) option) \<Rightarrow>
   circ_buf \<Rightarrow> u32 \<Rightarrow> circ_buf \<times> int" where
  "circ_buf_init vmalloc kmalloc self sz =
     (case (if CIRC_BUF_USE_VMALLOC \<le> sz then vmalloc sz else kmalloc sz) of
        None \<Rightarrow> (self\<lparr>cb_buf := 0, cb_mem := []\<rparr>, -1)
      | Some (p, m) \<Rightarrow>
          (self\<lparr>cb_buf := p, cb_mem := m, cb_size := sz, cb_read := p, cb_write := p,
                cb_full := False\<rparr>, 0))"

definition circ_buf_destroy :: "circ_buf \<Rightarrow> circ_buf" where
  "circ_buf_destroy self = self\<lparr>cb_mem := [], cb_size := 0, cb_read := 0, cb_write := 0\<rparr>"

abbreviation cb_end :: "circ_buf \<Rightarrow> ptr" where
  "cb_end self \<equiv> cb_buf self + ucast (cb_size self)"

definition circ_buf_get_read_size :: "circ_buf \<Rightarrow> u32" where
  "circ_buf_get_read_size self =
     (if cb_read self < cb_write self then ucast (cb_write self - cb_read self)
      else if cb_write self < cb_read self \<or> cb_full self then ucast (cb_end self - cb_read self)
      else 0)"

definition circ_buf_get_read_addr :: "circ_buf \<Rightarrow> ptr" where
  "circ_buf_get_read_addr self = cb_read self"

definition circ_buf_get_write_size :: "circ_buf \<Rightarrow> u32" where
  "circ_buf_get_write_size self =
     (if cb_read self < cb_write self then ucast (cb_end self - cb_write self)
      else if cb_write self < cb_read self then ucast (cb_read self - cb_write self)
      else if cb_full self then 0
      else ucast (cb_end self - cb_write self))"

definition circ_buf_get_write_addr :: "circ_buf \<Rightarrow> ptr" where
  "circ_buf_get_write_addr self = cb_write self"

definition circ_buf_adjust_read_ptr :: "circ_buf \<Rightarrow> u32 \<Rightarrow> circ_buf" where
  "circ_buf_adjust_read_ptr self count =
     (if 0 < count then
        (let r = cb_read self + ucast count;
             r' = (if cb_end self \<le> r \<or> r < cb_buf self then r - ucast (cb_size self) else r)
         in self\<lparr>cb_full := False, cb_read := r'\<rparr>)
      else self)"

definition circ_buf_adjust_write_ptr :: "circ_buf \<Rightarrow> u32 \<Rightarrow> circ_buf" where
  "circ_buf_adjust_write_ptr self count =
     (if 0 < count then
        (let w = cb_write self + ucast count;
             w' = (if cb_end self \<le> w \<or> w < cb_buf self then w - ucast (cb_size self) else w)
         in self\<lparr>cb_write := w', cb_full := (if w' = cb_read self then True else cb_full self)\<rparr>)
      else self)"

definition circ_buf_free_space :: "circ_buf \<Rightarrow> u32" where
  "circ_buf_free_space self =
     (if cb_read self < cb_write self
        then ucast (ucast (cb_size self) - (cb_write self - cb_read self))
      else if cb_write self < cb_read self then ucast (cb_read self - cb_write self)
      else if cb_full self then 0
      else cb_size self)"

definition circ_buf_count :: "circ_buf \<Rightarrow> u32" where
  "circ_buf_count self = cb_size self - circ_buf_free_space self"

definition memcpy_to :: "circ_buf \<Rightarrow> ptr \<Rightarrow> byte list \<Rightarrow> circ_buf" where
  "memcpy_to self addr bs = self\<lparr>cb_mem := memcpy_at (cb_mem self) (unat (addr - cb_buf self)) bs\<rparr>"

definition memcpy_from :: "circ_buf \<Rightarrow> ptr \<Rightarrow> u32 \<Rightarrow> byte list" where
  "memcpy_from self addr n = take (unat n) (drop (unat (addr - cb_buf self)) (cb_mem self))"

function circ_buf_write :: "circ_buf \<Rightarrow> byte list \<Rightarrow> u32 \<Rightarrow> circ_buf \<times> i32" where
  "circ_buf_write self src count =
     (let wrs = circ_buf_get_write_size self in
      if wrs \<noteq> 0 then
        if count < wrs then
          (circ_buf_adjust_write_ptr
             (memcpy_to self (circ_buf_get_write_addr self) (take (unat count) src)) count, count)
        else
          (let self' = circ_buf_adjust_write_ptr
                 (memcpy_to self (circ_buf_get_write_addr self) (take (unat wrs) src)) wrs;
               (self'', n) = circ_buf_write self' (drop (unat wrs) src) (count - wrs)
           in (self'', wrs + n))
      else (self, 0))"
  by pat_completeness auto
termination
  by (relation "measure (\<lambda>(self, src, count). unat count)")
     (auto intro!: word_diff_decreases simp: not_less)

text \<open>
  \<^verbatim>\<open>__copy_from_user\<close> is the parameter \<open>cfu\<close>: the bytes it stores at the destination
  and the number of bytes it could not copy; \<^verbatim>\<open>__copy_to_user\<close> is \<open>ctu\<close>, the number
  of bytes it could not copy.
\<close>

function circ_buf_write_user ::
  "(u64 \<Rightarrow> u32 \<Rightarrow> byte list \<times> u64) \<Rightarrow> circ_buf \<Rightarrow> u64 \<Rightarrow> u32 \<Rightarrow> circ_buf \<times> i32" where
  "circ_buf_write_user cfu self ubuf count =
     (let wrs = circ_buf_get_write_size self in
      if wrs \<noteq> 0 then
        if count < wrs then
          (let (bs, left) = cfu ubuf count;
               self1 = memcpy_to self (circ_buf_get_write_addr self) bs in
           if left \<noteq> 0 then (self1, of_int (- EFAULT))
           else (circ_buf_adjust_write_ptr self1 count, count))
        else
          (let (bs, left) = cfu ubuf wrs;
               self1 = memcpy_to self (circ_buf_get_write_addr self) bs in
           if left \<noteq> 0 then (self1, of_int (- EFAULT))
           else
             (let (self2, n) = circ_buf_write_user cfu (circ_buf_adjust_write_ptr self1 wrs)
                                 (ubuf + ucast wrs) (count - wrs)
              in (self2, wrs + n)))
      else (self, 0))"
  by pat_completeness auto
termination
  by (relation "measure (\<lambda>(cfu, self, ubuf, count). unat count)")
     (auto intro!: word_diff_decreases simp: not_less)

function circ_buf_read :: "circ_buf \<Rightarrow> u32 \<Rightarrow> circ_buf \<times> byte list \<times> i32" where
  "circ_buf_read self count0 =
     (let count = (if circ_buf_count self < count0 then circ_buf_count self else count0);
          rs = circ_buf_get_read_size self in
      if rs \<noteq> 0 then
        if count < rs then
          (circ_buf_adjust_read_ptr self count,
           memcpy_from self (circ_buf_get_read_addr self) count, count)
        else
          (let self' = circ_buf_adjust_read_ptr self rs;
               (self'', bs, n) = circ_buf_read self' (count - rs)
           in (self'', memcpy_from self (circ_buf_get_read_addr self) rs @ bs, rs + n))
      else (self, [], 0))"
  by pat_completeness auto
termination
  by (relation "measure (\<lambda>(self, count). unat count)")
     (auto intro!: word_diff_decreases simp: not_less split: if_splits)

function circ_buf_read_user ::
  "(u64 \<Rightarrow> byte list \<Rightarrow> u64) \<Rightarrow> circ_buf \<Rightarrow> u64 \<Rightarrow> u32 \<Rightarrow> circ_buf \<times> byte list \<times> i32" where
  "circ_buf_read_user ctu self ubuf count0 =
     (let count = (if circ_buf_count self < count0 then circ_buf_count self else count0);
          rs = circ_buf_get_read_size self in
      if rs \<noteq> 0 then
        if count < rs then
          (let bs = memcpy_from self (circ_buf_get_read_addr self) count in
           if ctu ubuf bs \<noteq> 0 then (self, [], of_int (- EFAULT))
           else (circ_buf_adjust_read_ptr self count, bs, count))
        else
          (let bs = memcpy_from self (circ_buf_get_read_addr self) rs in
           if ctu ubuf bs \<noteq> 0 then (self, [], of_int (- EFAULT))
           else
             (let (self2, bs2, n) = circ_buf_read_user ctu (circ_buf_adjust_read_ptr self rs)
                                 (ubuf + ucast rs) (count - rs)
              in (self2, bs @ bs2, rs + n)))
      else (self, [], 0))"
  by pat_completeness auto
termination
  by (relation "measure (\<lambda>(ctu, self, ubuf, count). unat count)")
     (auto intro!: word_diff_decreases simp: not_less split: if_splits)

definition circ_buf_look_at :: "circ_buf \<Rightarrow> u32 \<Rightarrow> u64 \<Rightarrow> circ_buf \<times> byte list \<times> i32" where
  "circ_buf_look_at self count offset =
     (let rd = cb_read self; fl = cb_full self;
          self1 = circ_buf_adjust_read_ptr self (ucast offset);
          (self2, bs, rs) = circ_buf_read self1 count
      in (self2\<lparr>cb_read := rd, cb_full := fl\<rparr>, bs, rs))"

declare circ_buf_write.simps [simp del] circ_buf_read.simps [simp del]
  circ_buf_write_user.simps [simp del] circ_buf_read_user.simps [simp del]

subsection \<open>Invariant, ring arithmetic and abstract contents\<close>

definition circ_buf_inv :: "circ_buf \<Rightarrow> bool" where
  "circ_buf_inv b \<longleftrightarrow>
     cb_size b \<noteq> 0 \<and> length (cb_mem b) = unat (cb_size b) \<and>
     unat (cb_buf b) + unat (cb_size b) < 2 ^ 64 \<and>
     unat (cb_read b - cb_buf b) < unat (cb_size b) \<and>
     unat (cb_write b - cb_buf b) < unat (cb_size b) \<and>
     (cb_full b \<longrightarrow> cb_write b = cb_read b)"

abbreviation roff :: "circ_buf \<Rightarrow> nat" where
  "roff b \<equiv> unat (cb_read b - cb_buf b)"
abbreviation woff :: "circ_buf \<Rightarrow> nat" where
  "woff b \<equiv> unat (cb_write b - cb_buf b)"
abbreviation cap :: "circ_buf \<Rightarrow> nat" where
  "cap b \<equiv> unat (cb_size b)"

definition ring_dist :: "nat \<Rightarrow> nat \<Rightarrow> nat \<Rightarrow> bool \<Rightarrow> nat" where
  "ring_dist n r w f =
     (if r < w then w - r else if w < r then n - r + w else if f then n else 0)"

definition ring_pos :: "nat \<Rightarrow> nat \<Rightarrow> nat \<Rightarrow> nat" where
  "ring_pos n r i = (if r + i < n then r + i else r + i - n)"

definition ring_used :: "circ_buf \<Rightarrow> nat" where
  "ring_used b = ring_dist (cap b) (roff b) (woff b) (cb_full b)"

definition ring_index :: "circ_buf \<Rightarrow> nat \<Rightarrow> nat" where
  "ring_index b i = ring_pos (cap b) (roff b) i"

lemma ring_dist_le: "r < n \<Longrightarrow> w < n \<Longrightarrow> ring_dist n r w f \<le> n"
  by (auto simp: ring_dist_def)

lemma ring_pos_less: "r < n \<Longrightarrow> i \<le> n \<Longrightarrow> ring_pos n r i < n"
  by (auto simp: ring_pos_def)

lemma ring_pos_add:
  "r < n \<Longrightarrow> i + j \<le> n \<Longrightarrow> ring_pos n (ring_pos n r i) j = ring_pos n r (i + j)"
  unfolding ring_pos_def by (simp split: if_split; linarith)

lemma ring_dist_advance_read:
  assumes "r < n" "w < n" "f \<longrightarrow> w = r" "0 < c" "c \<le> ring_dist n r w f"
  shows "ring_dist n (ring_pos n r c) w False = ring_dist n r w f - c"
proof -
  consider "r < w" | "w < r" "r + c < n" | "w < r" "n \<le> r + c" | "w = r" f "r + c < n" | "w = r" f "n \<le> r + c"
    using assms by (fastforce simp: ring_dist_def)
  then show ?thesis using assms by cases (auto simp: ring_dist_def ring_pos_def)
qed

lemma ring_dist_advance_write:
  assumes "r < n" "w < n" "f \<longrightarrow> w = r" "0 < c" "c \<le> n - ring_dist n r w f"
  shows "ring_dist n r (ring_pos n w c) (if ring_pos n w c = r then True else f) = ring_dist n r w f + c"
proof -
  consider "r < w" "w + c < n" | "r < w" "n \<le> w + c" | "w < r" | "w = r" "\<not> f" "r + c < n" | "w = r" "\<not> f" "n \<le> r + c"
    using assms by (fastforce simp: ring_dist_def)
  then show ?thesis using assms by cases (auto simp: ring_dist_def ring_pos_def)
qed

lemma ring_pos_used:
  assumes "r < n" "w < n" "f \<longrightarrow> w = r" shows "ring_pos n r (ring_dist n r w f) = w"
proof -
  consider "r < w" | "w < r"| "w = r" by linarith
  then show ?thesis using assms by cases (simp_all add: ring_dist_def ring_pos_def)
qed

lemma ring_pos_outside:
  assumes "r < n" "w < n" "f \<longrightarrow> w = r" "i < ring_dist n r w f"
    "c \<le> (if w < r then r - w else if f then 0 else n - w)"
  shows "\<not> (w \<le> ring_pos n r i \<and> ring_pos n r i < w + c)"
proof -
  consider "r < w" | "w < r" "r + i < n" | "w < r" "n \<le> r + i" | "w = r" f
    using assms by (fastforce simp: ring_dist_def)
  then show ?thesis using assms by cases (auto simp: ring_dist_def ring_pos_def)
qed

lemma ring_write_bound:
  "\<lbrakk>r < n; w < n; f \<longrightarrow> w = r; c \<le> (if w < r then r - w else if f then 0 else n - w)\<rbrakk>
    \<Longrightarrow> w + c \<le> n \<and> c \<le> n - ring_dist n r w f"
  by (cases "w < r"; cases f) (auto simp: ring_dist_def)

lemma ring_read_bound:
  "\<lbrakk>r < n; w < n; f \<longrightarrow> w = r;
    c \<le> (if r < w then w - r else if w < r \<or> f then n - r else 0)\<rbrakk>
    \<Longrightarrow> r + c \<le> n \<and> c \<le> ring_dist n r w f"
  by (cases "w < r"; cases "w = r"; cases f) (auto simp: ring_dist_def)

definition circ_contents :: "circ_buf \<Rightarrow> byte list" where
  "circ_contents b = map (\<lambda>i. cb_mem b ! ring_index b i) [0..<ring_used b]"

definition circ_free :: "circ_buf \<Rightarrow> nat" where
  "circ_free b = cap b - ring_used b"

lemma circ_invD:
  assumes "circ_buf_inv b"
  shows "roff b < cap b" "woff b < cap b" "cb_full b \<longrightarrow> woff b = roff b"
    "length (cb_mem b) = cap b" "unat (cb_buf b) + cap b < 2 ^ 64" "cb_size b \<noteq> 0"
  using assms by (auto simp: circ_buf_inv_def)

lemma ring_used_le: "circ_buf_inv b \<Longrightarrow> ring_used b \<le> cap b"
  by (simp add: ring_used_def circ_buf_inv_def ring_dist_le)

lemma length_circ_contents [simp]: "length (circ_contents b) = ring_used b"
  by (simp add: circ_contents_def)

lemma circ_unat_ptrs:
  assumes "circ_buf_inv b"
  shows "unat (cb_read b) = unat (cb_buf b) + roff b"
    and "unat (cb_write b) = unat (cb_buf b) + woff b"
    and "unat (cb_end b) = unat (cb_buf b) + cap b"
  using assms unat_ptr_of_offset [of "cb_buf b" "cap b" "cb_read b"]
    unat_ptr_of_offset [of "cb_buf b" "cap b" "cb_write b"]
  by (auto simp: circ_buf_inv_def unat_plus_if')

lemma circ_ptr_less:
  assumes "circ_buf_inv b"
  shows "cb_read b < cb_write b \<longleftrightarrow> roff b < woff b"
    and "cb_write b < cb_read b \<longleftrightarrow> woff b < roff b"
    and "cb_write b = cb_read b \<longleftrightarrow> woff b = roff b"
  using circ_unat_ptrs [OF assms] by (auto simp: word_less_nat_alt word_unat_eq_iff)

lemma circ_ptr_diffs:
  assumes "circ_buf_inv b"
  shows "roff b \<le> woff b \<Longrightarrow> unat (cb_write b - cb_read b) = woff b - roff b"
    and "woff b \<le> roff b \<Longrightarrow> unat (cb_read b - cb_write b) = roff b - woff b"
    and "unat (cb_end b - cb_read b) = cap b - roff b"
    and "unat (cb_end b - cb_write b) = cap b - woff b"
  using circ_unat_ptrs [OF assms] assms unat_ptr_diff
  by (auto simp: circ_buf_inv_def)

lemma cap_lt: "cap b < 2 ^ 32"
  using unsigned_less [of "cb_size b", where ?'a = nat] by simp

lemma circ_offsets_lt:
  assumes "circ_buf_inv b"
  shows "roff b < cap b" "woff b < cap b" "roff b < 2 ^ 32" "woff b < 2 ^ 32"
  using assms cap_lt [of b] by (auto simp: circ_buf_inv_def)

lemma circ_fullD: "circ_buf_inv b \<Longrightarrow> cb_full b \<Longrightarrow> woff b = roff b"
  by (simp add: circ_buf_inv_def)

lemma unat_get_read_size:
  assumes "circ_buf_inv b"
  shows "unat (circ_buf_get_read_size b) =
    (if roff b < woff b then woff b - roff b
     else if woff b < roff b \<or> cb_full b then cap b - roff b else 0)"
proof -
  note lts = circ_offsets_lt [OF assms] cap_lt [of b]
  show ?thesis
    using lts circ_ptr_diffs [OF assms]
    by (auto simp: circ_buf_get_read_size_def circ_ptr_less [OF assms] unat_ucast_64_32)
qed

lemma unat_get_write_size:
  assumes "circ_buf_inv b"
  shows "unat (circ_buf_get_write_size b) =
    (if woff b < roff b then roff b - woff b
     else if cb_full b then 0 else cap b - woff b)"
proof -
  note lts = circ_offsets_lt [OF assms] cap_lt [of b]
  show ?thesis
    using lts circ_ptr_diffs [OF assms] circ_fullD [OF assms]
    by (auto simp: circ_buf_get_write_size_def circ_ptr_less [OF assms] unat_ucast_64_32)
qed

lemma unat_free_space:
  assumes "circ_buf_inv b"
  shows "unat (circ_buf_free_space b) = circ_free b"
proof -
  note lts = circ_offsets_lt [OF assms] cap_lt [of b]
  have "roff b < woff b \<Longrightarrow>
    unat (ucast (cb_size b) - (cb_write b - cb_read b) :: ptr) = cap b - (woff b - roff b)"
    using unat_ptr_diff [of "cb_write b - cb_read b" 0 "woff b - roff b" "ucast (cb_size b)" "cap b"]
      lts circ_ptr_diffs [OF assms] by simp
  then show ?thesis
    using lts circ_ptr_diffs [OF assms] circ_fullD [OF assms]
    by (auto simp: circ_buf_free_space_def circ_ptr_less [OF assms] unat_ucast_64_32
        circ_free_def ring_used_def ring_dist_def)
qed

lemma unat_count:
  assumes "circ_buf_inv b"
  shows "unat (circ_buf_count b) = ring_used b"
proof -
  have "unat (circ_buf_count b) = cap b - circ_free b"
    unfolding circ_buf_count_def
    using unat_free_space [OF assms] by (simp add: unat_sub word_le_nat_alt circ_free_def)
  then show ?thesis using ring_used_le [OF assms] by (simp add: circ_free_def)
qed

lemma adjusted_ptr_offset:
  fixes p b :: ptr and s c :: u32
  assumes "unat b + unat s < 2 ^ 64" "unat (p - b) < unat s" "unat c \<le> unat s"
  shows "unat ((if b + ucast s \<le> p + ucast c \<or> p + ucast c < b
                then p + ucast c - ucast s else p + ucast c) - b) =
         (if unat (p - b) + unat c < unat s then unat (p - b) + unat c
          else unat (p - b) + unat c - unat s)"
proof -
  let ?y = "(p - b) + ucast c"
  have s32: "unat s < 2 ^ 32" using unsigned_less [of s, where ?'a = nat] by simp
  have y: "unat ?y = unat (p - b) + unat c"
    using assms s32 by (subst unat_plus_if') simp
  have pc: "p + ucast c = b + ?y" by simp
  have iff: "b + ucast s \<le> p + ucast c \<or> p + ucast c < b \<longleftrightarrow> ucast s \<le> ?y"
    unfolding pc using ptr_in_region_iff [of b "ucast s" ?y] assms(1) by simp
  have le: "ucast s \<le> ?y \<longleftrightarrow> unat s \<le> unat (p - b) + unat c"
    by (simp add: word_le_nat_alt y)
  show ?thesis
  proof (cases "unat s \<le> unat (p - b) + unat c")
    case True
    have eq: "p + ucast c - ucast s - b = ?y - ucast s" by (simp add: algebra_simps)
    have "unat (p + ucast c - ucast s - b) = unat ?y - unat s"
      unfolding eq using True y by (simp add: unat_sub word_le_nat_alt)
    then show ?thesis using True iff le y by simp
  next
    case False
    have eq: "p + ucast c - b = ?y" by simp
    have "unat (p + ucast c - b) = unat ?y" unfolding eq ..
    then show ?thesis using False iff le y by simp
  qed
qed

lemma circ_contents_nth: "i < ring_used b \<Longrightarrow> circ_contents b ! i = cb_mem b ! ring_index b i"
  by (simp add: circ_contents_def)

lemma adjust_read_ptr_ok:
  assumes inv: "circ_buf_inv b" and c: "unat c \<le> ring_used b"
  defines "b' \<equiv> circ_buf_adjust_read_ptr b c"
  shows "circ_buf_inv b' \<and> circ_contents b' = drop (unat c) (circ_contents b) \<and>
    ring_used b' = ring_used b - unat c"
proof (cases "c = 0")
  case True
  then show ?thesis using inv by (simp add: b'_def circ_buf_adjust_read_ptr_def)
next
  case False
  have cle: "unat c \<le> cap b" using ring_used_le [OF inv] c by simp
  note inv' = circ_invD [OF inv]
  have flds: "cb_buf b' = cb_buf b" "cb_size b' = cb_size b" "cb_mem b' = cb_mem b"
      "cb_write b' = cb_write b" "cb_full b' = False"
    using False by (auto simp: b'_def circ_buf_adjust_read_ptr_def Let_def word_neq_0_conv)
  have roff': "unat (cb_read b' - cb_buf b) = ring_pos (cap b) (roff b) (unat c)"
    using False adjusted_ptr_offset [OF inv'(5,1) cle]
    by (simp add: b'_def circ_buf_adjust_read_ptr_def Let_def word_neq_0_conv ring_pos_def)
  have "circ_buf_inv b'"
    using roff' flds inv' ring_pos_less [OF inv'(1) cle] by (simp add: circ_buf_inv_def)
  moreover have u: "ring_used b' = ring_used b - unat c"
    using ring_dist_advance_read [OF inv'(1,2,3), of "unat c"] False c
    by (simp add: ring_used_def flds roff' unat_gt_0)
  moreover have "circ_contents b' = drop (unat c) (circ_contents b)"
  proof (rule nth_equalityI)
    fix i assume "i < length (circ_contents b')"
    then have i: "i < ring_used b - unat c" using u by simp
    have "ring_index b' i = ring_index b (unat c + i)"
      using ring_pos_add [OF inv'(1), of "unat c" i] i ring_used_le [OF inv]
      by (simp add: ring_index_def flds roff')
    then show "circ_contents b' ! i = drop (unat c) (circ_contents b) ! i"
      using i u flds by (simp add: circ_contents_nth)
  qed (use u in simp)
  ultimately show ?thesis by blast
qed

lemma adjust_write_ptr_ok:
  assumes inv: "circ_buf_inv b" and c: "unat c \<le> circ_free b"
  defines "b' \<equiv> circ_buf_adjust_write_ptr b c"
  shows "circ_buf_inv b' \<and> ring_used b' = ring_used b + unat c \<and>
    cb_read b' = cb_read b \<and> cb_buf b' = cb_buf b \<and> cb_size b' = cb_size b \<and> cb_mem b' = cb_mem b"
proof (cases "c = 0")
  case True
  then show ?thesis using inv by (simp add: b'_def circ_buf_adjust_write_ptr_def)
next
  case False
  have cle: "unat c \<le> cap b" using c by (simp add: circ_free_def)
  note inv' = circ_invD [OF inv]
  have flds: "cb_buf b' = cb_buf b" "cb_size b' = cb_size b" "cb_mem b' = cb_mem b"
      "cb_read b' = cb_read b" "cb_full b' = (if cb_write b' = cb_read b then True else cb_full b)"
    using False by (auto simp: b'_def circ_buf_adjust_write_ptr_def Let_def word_neq_0_conv)
  have woff': "unat (cb_write b' - cb_buf b) = ring_pos (cap b) (woff b) (unat c)"
    using False adjusted_ptr_offset [OF inv'(5,2) cle]
    by (simp add: b'_def circ_buf_adjust_write_ptr_def Let_def word_neq_0_conv ring_pos_def)
  have eq: "cb_write b' = cb_read b \<longleftrightarrow> ring_pos (cap b) (woff b) (unat c) = roff b"
    unfolding woff' [symmetric] word_unat_eq_iff [symmetric] by auto
  have used: "ring_used b' = ring_used b + unat c"
    using ring_dist_advance_write [OF inv'(1,2,3), of "unat c"] False c
    by (simp add: ring_used_def flds woff' eq unat_gt_0 circ_free_def)
  have "cb_full b' \<Longrightarrow> cb_write b' = cb_read b'"
  proof (rule ccontr)
    assume f: "cb_full b'" and ne: "cb_write b' \<noteq> cb_read b'"
    then have "cb_full b" unfolding flds by (simp split: if_splits)
    then have "circ_free b = 0" using inv'(3) by (simp add: circ_free_def ring_used_def ring_dist_def)
    then show False using c False by simp
  qed
  then have "circ_buf_inv b'"
    unfolding circ_buf_inv_def flds(1-4) woff'
    using inv' ring_pos_less [OF inv'(2) cle] flds(4) by simp
  then show ?thesis using used flds by simp
qed

lemma write_step_ok:
  assumes inv: "circ_buf_inv b" and len: "length bs = unat c"
    and c: "c \<le> circ_buf_get_write_size b"
  defines "b' \<equiv> circ_buf_adjust_write_ptr (memcpy_to b (circ_buf_get_write_addr b) bs) c"
  shows "circ_buf_inv b' \<and> circ_contents b' = circ_contents b @ bs \<and>
    cb_buf b' = cb_buf b \<and> cb_size b' = cb_size b"
proof -
  let ?m = "memcpy_to b (circ_buf_get_write_addr b) bs"
  note inv' = circ_invD [OF inv]
  have c': "unat c \<le> (if woff b < roff b then roff b - woff b else if cb_full b then 0 else cap b - woff b)"
    using c unat_get_write_size [OF inv] by (simp only: word_le_nat_alt)
  have fits: "woff b + length bs \<le> cap b"
    using ring_write_bound [OF inv'(1,2,3) c'] len by simp
  have free: "unat c \<le> circ_free b"
    using ring_write_bound [OF inv'(1,2,3) c'] by (simp add: circ_free_def ring_used_def)
  have m: "circ_buf_inv ?m" "ring_used ?m = ring_used b" "circ_free ?m = circ_free b"
    "cb_buf ?m = cb_buf b" "cb_size ?m = cb_size b" "cb_read ?m = cb_read b"
    "cb_mem ?m = memcpy_at (cb_mem b) (woff b) bs"
    using inv inv' fits
    by (simp_all add: circ_buf_inv_def memcpy_to_def circ_buf_get_write_addr_def ring_used_def circ_free_def)
  have b': "circ_buf_inv b'" "ring_used b' = ring_used b + unat c" "cb_read b' = cb_read b"
      "cb_buf b' = cb_buf b" "cb_size b' = cb_size b" "cb_mem b' = memcpy_at (cb_mem b) (woff b) bs"
    using adjust_write_ptr_ok [OF m(1), of c] free m by (simp_all add: b'_def)
  have le: "ring_used b + unat c \<le> cap b" using b' ring_used_le [OF b'(1)] by simp
  have "circ_contents b' = circ_contents b @ bs"
  proof (rule nth_equalityI)
    show "length (circ_contents b') = length (circ_contents b @ bs)" by (simp add: b' len)
    fix i assume "i < length (circ_contents b')"
    then have i: "i < ring_used b + unat c" by (simp add: b')
    have idx: "ring_index b' i = ring_index b i" by (simp add: ring_index_def b')
    have bnd: "ring_index b i < cap b"
      using ring_pos_less [OF inv'(1), of i] i le by (simp add: ring_index_def)
    have lhs: "circ_contents b' ! i =
      (if woff b \<le> ring_index b i \<and> ring_index b i < woff b + length bs
       then bs ! (ring_index b i - woff b) else cb_mem b ! ring_index b i)"
      using i bnd fits inv'(4) by (simp add: circ_contents_nth b' idx memcpy_at_nth)
    show "circ_contents b' ! i = (circ_contents b @ bs) ! i"
    proof (cases "i < ring_used b")
      case True
      have "\<not> (woff b \<le> ring_index b i \<and> ring_index b i < woff b + length bs)"
        using ring_pos_outside [OF inv'(1,2,3) _ c'] True len by (simp add: ring_index_def ring_used_def)
      then have "circ_contents b' ! i = cb_mem b ! ring_index b i" using lhs by auto
      then show ?thesis using True by (simp add: nth_append circ_contents_nth)
    next
      case False
      then obtain j where j: "i = ring_used b + j" "j < unat c" using i by (metis add_diff_inverse_nat nat_add_left_cancel_less)
      have "ring_index b i = ring_pos (cap b) (woff b) j"
        using ring_pos_add [OF inv'(1), of "ring_used b" j] ring_pos_used [OF inv'(1,2,3)] j le
        by (simp add: ring_index_def ring_used_def)
      also have "\<dots> = woff b + j" using fits j len by (simp add: ring_pos_def)
      finally show ?thesis using lhs j len by (simp add: nth_append)
    qed
  qed
  then show ?thesis using b' by blast
qed

lemma read_step_ok:
  assumes inv: "circ_buf_inv b" and c: "c \<le> circ_buf_get_read_size b"
  shows "memcpy_from b (circ_buf_get_read_addr b) c = take (unat c) (circ_contents b)"
    and "unat c \<le> ring_used b"
proof -
  note inv' = circ_invD [OF inv]
  have c': "unat c \<le> (if roff b < woff b then woff b - roff b
     else if woff b < roff b \<or> cb_full b then cap b - roff b else 0)"
    using c unat_get_read_size [OF inv] by (simp only: word_le_nat_alt)
  show le: "unat c \<le> ring_used b"
    using ring_read_bound [OF inv'(1,2,3) c'] by (simp add: ring_used_def)
  have fits: "roff b + unat c \<le> cap b" using ring_read_bound [OF inv'(1,2,3) c'] by simp
  show "memcpy_from b (circ_buf_get_read_addr b) c = take (unat c) (circ_contents b)"
  proof (rule nth_equalityI)
    show "length (memcpy_from b (circ_buf_get_read_addr b) c) = length (take (unat c) (circ_contents b))"
      using le fits inv'(4) by (simp add: memcpy_from_def circ_buf_get_read_addr_def)
    fix i assume "i < length (memcpy_from b (circ_buf_get_read_addr b) c)"
    then have i: "i < unat c" by (simp add: memcpy_from_def)
    then have "ring_index b i = roff b + i" using fits by (simp add: ring_index_def ring_pos_def)
    then show "memcpy_from b (circ_buf_get_read_addr b) c ! i = take (unat c) (circ_contents b) ! i"
      using i le fits inv'(4) by (simp add: memcpy_from_def circ_buf_get_read_addr_def circ_contents_nth)
  qed
qed

subsection \<open>Writing, reading and looking ahead\<close>

lemma circ_free_zero: "circ_buf_inv b \<Longrightarrow> circ_buf_get_write_size b = 0 \<Longrightarrow> circ_free b = 0"
proof -
  assume inv: "circ_buf_inv b" and z: "circ_buf_get_write_size b = 0"
  note i = circ_invD [OF inv]
  have "(if woff b < roff b then roff b - woff b else if cb_full b then 0 else cap b - woff b) = 0"
    using z unat_get_write_size [OF inv] by simp
  then have "cb_full b" using i by (simp split: if_splits)
  then show "circ_free b = 0" using i by (simp add: circ_free_def ring_used_def ring_dist_def)
qed

lemma circ_used_zero: "circ_buf_inv b \<Longrightarrow> circ_buf_get_read_size b = 0 \<Longrightarrow> ring_used b = 0"
proof -
  assume inv: "circ_buf_inv b" and z: "circ_buf_get_read_size b = 0"
  note i = circ_invD [OF inv]
  have "(if roff b < woff b then woff b - roff b
     else if woff b < roff b \<or> cb_full b then cap b - roff b else 0) = 0"
    using z unat_get_read_size [OF inv] by simp
  then have "\<not> cb_full b" "woff b = roff b" using i by (auto split: if_splits)
  then show "ring_used b = 0" by (simp add: ring_used_def ring_dist_def)
qed

lemma circ_free_contents: "circ_buf_inv b \<Longrightarrow> circ_free b = cap b - length (circ_contents b)"
  by (simp add: circ_free_def)

lemma write_chunk_free:
  assumes "circ_buf_inv b" "c \<le> circ_buf_get_write_size b"
  shows "unat c \<le> circ_free b"
proof -
  note i = circ_invD [OF assms(1)]
  have "unat c \<le> (if woff b < roff b then roff b - woff b else if cb_full b then 0 else cap b - woff b)"
    using assms(2) unat_get_write_size [OF assms(1)] by (simp only: word_le_nat_alt)
  then show ?thesis using ring_write_bound [OF i(1,2,3)] by (simp add: circ_free_def ring_used_def)
qed

lemma circ_buf_write_ok:
  "\<lbrakk>circ_buf_inv b; unat count \<le> length src; circ_buf_write b src count = (b', n)\<rbrakk> \<Longrightarrow>
   circ_buf_inv b' \<and> circ_contents b' = circ_contents b @ take (min (unat count) (circ_free b)) src \<and>
   unat n = min (unat count) (circ_free b) \<and> cb_buf b' = cb_buf b \<and> cb_size b' = cb_size b"
proof (induction b src count arbitrary: b' n rule: circ_buf_write.induct)
  case (1 b src count)
  let ?wrs = "circ_buf_get_write_size b"
  note inv = 1(2) and len = 1(3) and run = 1(4) [unfolded circ_buf_write.simps [of b src count] Let_def]
  consider "?wrs = 0" | "?wrs \<noteq> 0" "count < ?wrs" | "?wrs \<noteq> 0" "\<not> count < ?wrs" by blast
  then show ?case
  proof cases
    case 1
    then show ?thesis using run inv circ_free_zero [OF inv] by simp
  next
    case 2
    have free: "unat count \<le> circ_free b" using write_chunk_free [OF inv] 2 by simp
    show ?thesis using run 2 free len write_step_ok [OF inv, of "take (unat count) src" count]
      by (auto simp: min_def)
  next
    case 3
    let ?b1 = "circ_buf_adjust_write_ptr (memcpy_to b (circ_buf_get_write_addr b) (take (unat ?wrs) src)) ?wrs"
    have le: "unat ?wrs \<le> unat count" using 3 by (simp add: word_le_nat_alt not_less)
    have free: "unat ?wrs \<le> circ_free b" using write_chunk_free [OF inv] by simp
    have b1: "circ_buf_inv ?b1" "circ_contents ?b1 = circ_contents b @ take (unat ?wrs) src"
      "cb_buf ?b1 = cb_buf b" "cb_size ?b1 = cb_size b"
      using write_step_ok [OF inv, of "take (unat ?wrs) src" ?wrs] len le by simp_all
    have free1: "circ_free ?b1 = circ_free b - unat ?wrs"
      using circ_free_contents [OF b1(1)] circ_free_contents [OF inv] b1 len le by simp
    obtain n1 where n1: "circ_buf_write ?b1 (drop (unat ?wrs) src) (count - ?wrs) = (b', n1)" "n = ?wrs + n1"
      using run 3 by (auto split: prod.splits)
    have cnt: "unat (count - ?wrs) = unat count - unat ?wrs" using 3 by (simp add: unat_sub not_less)
    have ih: "circ_buf_inv b' \<and> circ_contents b' = circ_contents ?b1 @
        take (min (unat count - unat ?wrs) (circ_free ?b1)) (drop (unat ?wrs) src) \<and>
        unat n1 = min (unat count - unat ?wrs) (circ_free ?b1) \<and> cb_buf b' = cb_buf ?b1 \<and> cb_size b' = cb_size ?b1"
      using "1.IH" [OF refl 3 refl b1(1) _ n1(1)] len cnt by simp
    have m: "unat ?wrs + min (unat count - unat ?wrs) (circ_free ?b1) = min (unat count) (circ_free b)"
      using le free free1 by simp
    have "unat n = min (unat count) (circ_free b)"
      using ih m n1(2) unsigned_less [of count, where ?'a = nat] by (simp add: unat_add_small)
    moreover have "circ_contents b' = circ_contents b @ take (min (unat count) (circ_free b)) src"
      using ih b1 by (simp add: take_add [symmetric] m [symmetric])
    ultimately show ?thesis using ih b1 by simp
  qed
qed

lemma adjust_read_ptr_frame:
  "cb_buf (circ_buf_adjust_read_ptr b c) = cb_buf b" "cb_size (circ_buf_adjust_read_ptr b c) = cb_size b"
  "cb_mem (circ_buf_adjust_read_ptr b c) = cb_mem b" "cb_write (circ_buf_adjust_read_ptr b c) = cb_write b"
  by (simp_all add: circ_buf_adjust_read_ptr_def Let_def)

lemma circ_buf_read_ok:
  "\<lbrakk>circ_buf_inv b; circ_buf_read b count = (b', bs, n)\<rbrakk> \<Longrightarrow>
   circ_buf_inv b' \<and> bs = take (unat count) (circ_contents b) \<and>
   circ_contents b' = drop (unat count) (circ_contents b) \<and> unat n = min (unat count) (ring_used b) \<and>
   cb_buf b' = cb_buf b \<and> cb_size b' = cb_size b \<and> cb_mem b' = cb_mem b \<and> cb_write b' = cb_write b"
proof (induction b count arbitrary: b' bs n rule: circ_buf_read.induct)
  case (1 b count0)
  let ?rs = "circ_buf_get_read_size b"
  define count where "count = (if circ_buf_count b < count0 then circ_buf_count b else count0)"
  note inv = 1(2) and run = 1(3) [unfolded circ_buf_read.simps [of b count0] Let_def, folded count_def]
  have cnt: "unat count = min (unat count0) (ring_used b)"
    unfolding count_def unat_clamp unat_count [OF inv] ..
  have tk: "take (unat count) (circ_contents b) = take (unat count0) (circ_contents b)"
    "drop (unat count) (circ_contents b) = drop (unat count0) (circ_contents b)"
    unfolding cnt by (simp_all add: min_def)
  consider "?rs = 0" | "?rs \<noteq> 0" "count < ?rs" | "?rs \<noteq> 0" "\<not> count < ?rs" by blast
  then show ?case
  proof cases
    case 1
    then show ?thesis using run inv circ_used_zero [OF inv] by (auto simp: circ_contents_def)
  next
    case 2
    then have le: "count \<le> ?rs" by simp
    show ?thesis
      using run 2 read_step_ok [OF inv le] adjust_read_ptr_ok [OF inv, of count] cnt tk
      by (auto simp: adjust_read_ptr_frame)
  next
    case 3
    let ?b1 = "circ_buf_adjust_read_ptr b ?rs"
    have le: "unat ?rs \<le> unat count" using 3 by (simp add: word_le_nat_alt not_less)
    note step = read_step_ok [OF inv order_refl]
    note b1 = adjust_read_ptr_ok [OF inv step(2)]
    obtain bs1 n1 where n1: "circ_buf_read ?b1 (count - ?rs) = (b', bs1, n1)" "n = ?rs + n1"
        "bs = memcpy_from b (circ_buf_get_read_addr b) ?rs @ bs1"
      using run 3 by (auto split: prod.splits)
    have sub: "unat (count - ?rs) = unat count - unat ?rs" using 3 by (simp add: unat_sub not_less)
    have ih: "circ_buf_inv b' \<and> bs1 = take (unat count - unat ?rs) (circ_contents ?b1) \<and>
       circ_contents b' = drop (unat count - unat ?rs) (circ_contents ?b1) \<and>
       unat n1 = min (unat count - unat ?rs) (ring_used ?b1) \<and>
       cb_buf b' = cb_buf ?b1 \<and> cb_size b' = cb_size ?b1 \<and> cb_mem b' = cb_mem ?b1 \<and> cb_write b' = cb_write ?b1"
      using "1.IH" [OF count_def refl 3 refl, of b' bs1 n1] b1 n1(1) sub by simp
    have m: "unat ?rs + min (unat count - unat ?rs) (ring_used ?b1) = unat count"
      using le b1 cnt by simp
    have "unat n = unat count"
      using ih m n1(2) unsigned_less [of count, where ?'a = nat] by (simp add: unat_add_small)
    moreover have "bs = take (unat count) (circ_contents b)"
      using ih b1 n1(3) step(1) le
      by (metis le_add_diff_inverse take_add)
    moreover have "circ_contents b' = drop (unat count) (circ_contents b)"
      using ih b1 le by simp
    ultimately show ?thesis using ih tk cnt by (simp add: adjust_read_ptr_frame)
  qed
qed

lemma circ_buf_look_at_ok:
  assumes inv: "circ_buf_inv b" and off: "unat offset \<le> ring_used b"
  shows "circ_buf_look_at b count offset =
    (b, take (unat count) (drop (unat offset) (circ_contents b)),
     of_nat (min (unat count) (ring_used b - unat offset)))"
proof -
  have "unat offset < 2 ^ 32"
    using off ring_used_le [OF inv] unsigned_less [of "cb_size b", where ?'a = nat] by simp
  then have u: "unat (ucast offset :: 32 word) = unat offset" by (rule unat_ucast_64_32)
  let ?b1 = "circ_buf_adjust_read_ptr b (ucast offset)"
  obtain b2 bs n where r: "circ_buf_read ?b1 count = (b2, bs, n)" by (metis prod_cases3)
  note b1 = adjust_read_ptr_ok [OF inv, of "ucast offset", unfolded u, OF off]
  note b2 = circ_buf_read_ok [OF conjunct1 [OF b1] r]
  have "n = of_nat (min (unat count) (ring_used b - unat offset))"
    using b1 b2 by (metis of_nat_unat ucast_id)
  moreover have "b2\<lparr>cb_read := cb_read b, cb_full := cb_full b\<rparr> = b"
    using b2 by (simp add: adjust_read_ptr_frame)
  ultimately show ?thesis using b1 b2 r by (simp add: circ_buf_look_at_def Let_def)
qed
subsection \<open>User-space variants\<close>

lemma circ_buf_write_user_eq:
  "(\<forall>a n. cfu a n = (user_bytes umem a (unat n), 0)) \<Longrightarrow>
   circ_buf_write_user cfu b a count = circ_buf_write b (user_bytes umem a (unat count)) count"
proof (induction cfu b a count rule: circ_buf_write_user.induct)
  case (1 cfu b a count)
  note cfu = 1(2)
  let ?wrs = "circ_buf_get_write_size b"
  have c: "cfu x n = (user_bytes umem x (unat n), 0)" for x n using cfu by blast
  show ?case
  proof (cases "?wrs \<noteq> 0 \<and> \<not> count < ?wrs")
    case True
    then have le: "unat ?wrs \<le> unat count" by (simp add: word_le_nat_alt not_less)
    have ih: "circ_buf_write_user cfu (circ_buf_adjust_write_ptr
           (memcpy_to b (circ_buf_get_write_addr b) (user_bytes umem a (unat ?wrs))) ?wrs)
           (a + ucast ?wrs) (count - ?wrs) =
         circ_buf_write (circ_buf_adjust_write_ptr
           (memcpy_to b (circ_buf_get_write_addr b) (user_bytes umem a (unat ?wrs))) ?wrs)
           (user_bytes umem (a + ucast ?wrs) (unat (count - ?wrs))) (count - ?wrs)"
      using 1(1) [OF refl _ _ c [symmetric] refl refl _ cfu] True by simp
    have "unat (count - ?wrs) = unat count - unat ?wrs" using True by (simp add: unat_sub not_less)
    then show ?thesis
      using True ih le
      by (subst circ_buf_write_user.simps, subst circ_buf_write.simps)
         (simp add: c Let_def take_user_bytes drop_user_bytes of_nat_unat_ucast)
  next
    case False
    then show ?thesis
      by (subst circ_buf_write_user.simps, subst circ_buf_write.simps)
         (auto simp: c Let_def take_user_bytes)
  qed
qed

lemma circ_buf_read_user_eq:
  "ctu = (\<lambda>a bs. 0) \<Longrightarrow> circ_buf_read_user ctu b a count = circ_buf_read b count"
proof (induction ctu b a count rule: circ_buf_read_user.induct)
  case (1 ctu b a count)
  then show ?case
    by (subst circ_buf_read_user.simps, subst circ_buf_read.simps) (auto simp: Let_def)
qed

lemma memcpy_free_ok:
  assumes inv: "circ_buf_inv b" and len: "length bs \<le> unat (circ_buf_get_write_size b)"
  shows "circ_buf_inv (memcpy_to b (circ_buf_get_write_addr b) bs) \<and>
    circ_contents (memcpy_to b (circ_buf_get_write_addr b) bs) = circ_contents b"
proof -
  let ?m = "memcpy_to b (circ_buf_get_write_addr b) bs"
  note i = circ_invD [OF inv]
  have c: "length bs \<le> (if woff b < roff b then roff b - woff b else if cb_full b then 0 else cap b - woff b)"
    using len unat_get_write_size [OF inv] by (simp only: word_le_nat_alt)
  have fits: "woff b + length bs \<le> cap b" using ring_write_bound [OF i(1,2,3) c] by simp
  have m: "ring_used ?m = ring_used b" "ring_index ?m = ring_index b"
    by (auto simp: memcpy_to_def ring_used_def ring_index_def fun_eq_iff)
  have "circ_contents ?m = circ_contents b"
  proof (rule nth_equalityI)
    fix j assume "j < length (circ_contents ?m)"
    then have j: "j < ring_used b" by (simp add: m)
    have "ring_index b j < cap b"
      using ring_pos_less [OF i(1), of j] j ring_used_le [OF inv] by (simp add: ring_index_def)
    then show "circ_contents ?m ! j = circ_contents b ! j"
      using ring_pos_outside [OF i(1,2,3) _ c, of j] j fits i(4)
      by (auto simp: circ_contents_nth m memcpy_to_def circ_buf_get_write_addr_def memcpy_at_nth
          ring_used_def ring_index_def)
  qed (simp add: m)
  moreover have "circ_buf_inv ?m"
    using inv fits i(4) by (simp add: circ_buf_inv_def memcpy_to_def circ_buf_get_write_addr_def)
  ultimately show ?thesis by blast
qed

lemma write_user_first_fault:
  assumes inv: "circ_buf_inv b" and room: "circ_buf_get_write_size b \<noteq> 0"
    and fault: "cfu a (min count (circ_buf_get_write_size b)) = (bs, left)" "left \<noteq> 0"
    and len: "length bs \<le> unat (min count (circ_buf_get_write_size b))"
  shows "\<exists>b'. circ_buf_write_user cfu b a count = (b', of_int (- EFAULT)) \<and>
    circ_buf_inv b' \<and> circ_contents b' = circ_contents b"
proof -
  let ?m = "memcpy_to b (circ_buf_get_write_addr b) bs"
  have "circ_buf_write_user cfu b a count = (?m, of_int (- EFAULT))"
    using room fault unfolding circ_buf_write_user.simps [of cfu b a count] Let_def
    by (auto simp: min_def split: if_splits)
  moreover have "length bs \<le> unat (circ_buf_get_write_size b)"
    using len by (auto simp: min_def word_le_nat_alt split: if_splits)
  ultimately show ?thesis using memcpy_free_ok [OF inv] by blast
qed

lemma write_user_second_fault:
  assumes room: "circ_buf_get_write_size b = w" "w \<noteq> 0" "w < count"
    and ok: "cfu a w = (bs, 0)"
    and room2: "circ_buf_get_write_size (circ_buf_adjust_write_ptr
        (memcpy_to b (circ_buf_get_write_addr b) bs) w) = w2" "w2 \<noteq> 0"
    and fault: "cfu (a + ucast w) (min (count - w) w2) = (bs2, left)" "left \<noteq> 0"
  shows "snd (circ_buf_write_user cfu b a count) = w - 14"
proof -
  let ?b1 = "circ_buf_adjust_write_ptr (memcpy_to b (circ_buf_get_write_addr b) bs) w"
  have "snd (circ_buf_write_user cfu ?b1 (a + ucast w) (count - w)) = - 14"
    using room2 fault
    unfolding circ_buf_write_user.simps [of cfu ?b1 "a + ucast w" "count - w"] Let_def
    by (auto simp: min_def split: if_splits)
  then show ?thesis
    using room ok unfolding circ_buf_write_user.simps [of cfu b a count] Let_def
    by (auto split: prod.splits)
qed

subsection \<open>The buffer as a channel\<close>

definition circ_put :: "circ_buf \<Rightarrow> byte list \<Rightarrow> circ_buf \<times> nat" where
  "circ_put b bs = (let (b', n) = circ_buf_write b bs (of_nat (length bs)) in (b', unat n))"

definition circ_get :: "circ_buf \<Rightarrow> nat \<Rightarrow> circ_buf \<times> byte list" where
  "circ_get b k = (let (b', bs, n) = circ_buf_read b (of_nat k) in (b', take (unat n) bs))"

lemma circ_put_ok:
  assumes "circ_buf_inv s" "length bs < 2 ^ 32" "circ_put s bs = (s', n)"
  shows "circ_buf_inv s' \<and> n = min (length bs) (circ_free s) \<and>
      circ_contents s' = circ_contents s @ take n bs \<and> circ_free s' = circ_free s - n"
proof -
  obtain m where w: "circ_buf_write s bs (of_nat (length bs)) = (s', m)" "n = unat m"
    using assms(3) by (auto simp: circ_put_def split: prod.splits)
  have u: "unat (of_nat (length bs) :: u32) = length bs" using assms(2) by (simp add: unat_of_nat)
  show ?thesis
    using circ_buf_write_ok [OF assms(1) _ w(1), unfolded u] w(2) assms(1)
    by (auto simp: circ_free_contents)
qed

lemma circ_get_ok:
  assumes "circ_buf_inv s" "k < 2 ^ 32" "circ_get s k = (s', out)"
  shows "circ_buf_inv s' \<and> out = take k (circ_contents s) \<and>
      circ_contents s' = drop k (circ_contents s) \<and> circ_free s' = circ_free s + length out"
proof -
  obtain bs m where r: "circ_buf_read s (of_nat k) = (s', bs, m)" "out = take (unat m) bs"
    using assms(3) by (auto simp: circ_get_def split: prod.splits)
  have u: "unat (of_nat k :: u32) = k" using assms(2) by (simp add: unat_of_nat)
  show ?thesis
    using circ_buf_read_ok [OF assms(1) r(1), unfolded u] r(2) ring_used_le [OF assms(1)] assms(1)
    by (auto simp: circ_free_contents min_def)
qed

interpretation circ: bounded_channel circ_buf_inv circ_contents circ_put circ_get "2 ^ 32" circ_free
  by unfold_locales (use circ_put_ok circ_get_ok in blast)+

lemma circ_buf_init_ok:
  assumes "circ_buf_init vmalloc kmalloc self sz = (b, 0)" "sz \<noteq> 0"
    and vm: "\<And>n p m. vmalloc n = Some (p, m) \<Longrightarrow> length m = unat n \<and> unat p + unat n < 2 ^ 64"
    and km: "\<And>n p m. kmalloc n = Some (p, m) \<Longrightarrow> length m = unat n \<and> unat p + unat n < 2 ^ 64"
  shows "circ_buf_inv b \<and> circ_contents b = [] \<and> circ_free b = unat sz"
  using assms(1,2) vm km
  by (auto simp: circ_buf_init_def circ_buf_inv_def circ_contents_def ring_used_def ring_dist_def
      circ_free_def unat_gt_0 split: option.splits if_splits)

subsection \<open>Properties\<close>

text \<open>
  C15. Writing to the circular buffer appends to the queue of bytes it holds exactly
  the first \<open>min count free\<close> bytes of the source, wrap-around at the end of the
  memory included, returns that number, and keeps the buffer well formed.
\<close>
theorem circ_buf_write_appends:
  assumes "circ_buf_inv b" "unat count \<le> length src" "circ_buf_write b src count = (b', n)"
  shows "circ_buf_inv b' \<and> circ_contents b' = circ_contents b @ take (min (unat count) (circ_free b)) src \<and>
    unat n = min (unat count) (circ_free b)"
  using circ_buf_write_ok [OF assms] by blast

definition sample_buf :: circ_buf where
  "sample_buf = \<lparr>cb_buf = 4096, cb_write = 4102, cb_read = 4098, cb_full = False, cb_size = 8,
     cb_mem = [10, 11, 12, 13, 14, 15, 16, 17]\<rparr>"

lemma sample_buf_inv: "circ_buf_inv sample_buf"
  by (simp add: circ_buf_inv_def sample_buf_def)

lemma sample_buf_write: "circ_buf_write sample_buf [1, 2, 3, 4, 5] 5 =
  (sample_buf\<lparr>cb_write := 4098, cb_full := True, cb_mem := [3, 4, 12, 13, 14, 15, 1, 2]\<rparr>, 4)"
  by code_simp

theorem circ_buf_write_appends_witness:
  "circ_contents (sample_buf\<lparr>cb_write := 4098, cb_full := True, cb_mem := [3, 4, 12, 13, 14, 15, 1, 2]\<rparr>)
   = circ_contents sample_buf @ [1, 2, 3, 4] \<and> circ_contents sample_buf = [12, 13, 14, 15]"
proof -
  have "circ_free sample_buf = 4" "circ_contents sample_buf = [12, 13, 14, 15]" by code_simp+
  then show ?thesis
    using circ_buf_write_appends [OF sample_buf_inv _ sample_buf_write] by simp
qed

text \<open>
  C16. Reading from the circular buffer delivers the first \<open>min count used\<close> bytes of the
  queue in the order they were written, removes exactly those bytes, returns their
  number and keeps the buffer well formed.
\<close>
theorem circ_buf_read_takes:
  assumes "circ_buf_inv b" "circ_buf_read b count = (b', bs, n)"
  shows "circ_buf_inv b' \<and> bs = take (unat count) (circ_contents b) \<and>
    circ_contents b' = drop (unat count) (circ_contents b) \<and> unat n = length bs"
  using circ_buf_read_ok [OF assms] by simp

lemma sample_buf_read: "circ_buf_read (sample_buf\<lparr>cb_read := 4103, cb_write := 4097\<rparr>) 9 =
  (sample_buf\<lparr>cb_read := 4097, cb_write := 4097\<rparr>, [17, 10], 2)"
  by code_simp

theorem circ_buf_read_takes_witness:
  "[17, 10] = take 9 (circ_contents (sample_buf\<lparr>cb_read := 4103, cb_write := 4097\<rparr>))"
proof -
  have "circ_buf_inv (sample_buf\<lparr>cb_read := 4103, cb_write := 4097\<rparr>)"
    by (simp add: circ_buf_inv_def sample_buf_def)
  from circ_buf_read_takes [OF this sample_buf_read] show ?thesis by simp
qed

text \<open>
  Looking at the buffer at an offset within the stored data returns the bytes
  from that offset on, and leaves the buffer exactly as it was: the pointer and the
  full flag it moves are restored.
\<close>
theorem circ_buf_look_at_nondestructive:
  assumes "circ_buf_inv b" "unat offset \<le> length (circ_contents b)"
  shows "circ_buf_look_at b count offset =
    (b, take (unat count) (drop (unat offset) (circ_contents b)),
     of_nat (min (unat count) (length (circ_contents b) - unat offset)))"
  using circ_buf_look_at_ok [OF assms(1)] assms(2) by simp

theorem circ_buf_look_at_witness:
  "circ_buf_look_at sample_buf 2 1 = (sample_buf, [13, 14], 2)"
proof -
  have "circ_contents sample_buf = [12, 13, 14, 15]" by code_simp
  then show ?thesis
    using circ_buf_look_at_nondestructive [OF sample_buf_inv, of 1 2] by simp
qed

text \<open>
  C4. Starting from a freshly initialised buffer, for every sequence of writes and
  reads, the bytes the writes accepted are, in order, the bytes the reads delivered
  followed by the bytes still stored: nothing is lost, duplicated or reordered.
\<close>
theorem circ_buf_stream:
  assumes "circ_buf_init vmalloc kmalloc self sz = (b, 0)" "sz \<noteq> 0"
    and "\<And>n p m. vmalloc n = Some (p, m) \<Longrightarrow> length m = unat n \<and> unat p + unat n < 2 ^ 64"
    and "\<And>n p m. kmalloc n = Some (p, m) \<Longrightarrow> length m = unat n \<and> unat p + unat n < 2 ^ 64"
    and "list_all (op_in_range (2 ^ 32)) ops"
    and "chan_run circ_put circ_get b ops = (b', accepted, delivered)"
  shows "accepted = delivered @ circ_contents b' \<and> circ_buf_inv b'"
  using circ_buf_init_ok [OF assms(1-4)] circ.chan_fifo [OF _ assms(5,6)] by simp

definition sample_alloc :: "u32 \<Rightarrow> (ptr \<times> byte list) option" where
  "sample_alloc n = (if n \<le> 4096 then Some (65536, replicate (unat n) 0) else None)"

theorem circ_buf_stream_witness:
  "\<exists>b'. chan_run circ_put circ_get (fst (circ_buf_init sample_alloc sample_alloc sample_buf 4))
      [Chan_Put [1, 2, 3], Chan_Get 2, Chan_Put [4, 5, 6, 7], Chan_Get 3] =
      (b', [1, 2, 3, 4, 5, 6], [1, 2, 3, 4, 5]) \<and> circ_contents b' = [6]"
proof -
  define b where "b = fst (circ_buf_init sample_alloc sample_alloc sample_buf 4)"
  have i: "circ_buf_init sample_alloc sample_alloc sample_buf 4 = (b, 0)"
    unfolding b_def by code_simp
  have al: "\<And>n p m. sample_alloc n = Some (p, m) \<Longrightarrow> length m = unat n \<and> unat p + unat n < 2 ^ 64"
    by (auto simp: sample_alloc_def word_le_nat_alt split: if_splits)
  have ops: "list_all (op_in_range (2 ^ 32)) [Chan_Put [1, 2, 3], Chan_Get 2, Chan_Put [4, 5, 6, 7], Chan_Get 3]"
    by (simp add: op_in_range_def)
  have run: "snd (chan_run circ_put circ_get b
     [Chan_Put [1, 2, 3], Chan_Get 2, Chan_Put [4, 5, 6, 7], Chan_Get 3]) = ([1, 2, 3, 4, 5, 6], [1, 2, 3, 4, 5])"
    unfolding b_def by code_simp
  obtain b' where r: "chan_run circ_put circ_get b
     [Chan_Put [1, 2, 3], Chan_Get 2, Chan_Put [4, 5, 6, 7], Chan_Get 3] = (b', [1, 2, 3, 4, 5, 6], [1, 2, 3, 4, 5])"
    using run by (metis prod.collapse)
  show ?thesis
    using circ_buf_stream [OF i _ al al ops r] r by (simp add: b_def)
qed

text \<open>
  C36. When the second chunk of a user-space write (the one after the wrap-around)
  faults, the \<^verbatim>\<open>-EFAULT\<close> of the recursive call is added to the size of the first chunk:
  the caller sees \<open>w - 14\<close>, not the error number.
\<close>
theorem circ_buf_write_user_loses_fault:
  assumes "circ_buf_get_write_size b = w" "w \<noteq> 0" "w < count" "cfu a w = (bs, 0)"
    and "circ_buf_get_write_size (circ_buf_adjust_write_ptr
        (memcpy_to b (circ_buf_get_write_addr b) bs) w) = w2" "w2 \<noteq> 0"
    and "cfu (a + ucast w) (min (count - w) w2) = (bs2, left)" "left \<noteq> 0"
  shows "snd (circ_buf_write_user cfu b a count) = w + of_int (- EFAULT)"
  using write_user_second_fault [OF assms] by simp

theorem circ_buf_write_user_loses_fault_witness:
  "snd (circ_buf_write_user (\<lambda>a n. if a < 2 then ([7, 7], 0) else ([], 1)) sample_buf 0 4) = 2 - 14"
proof -
  have "circ_buf_get_write_size sample_buf = 2"
    "circ_buf_get_write_size (circ_buf_adjust_write_ptr
      (memcpy_to sample_buf (circ_buf_get_write_addr sample_buf) [7, 7]) 2) = 2" by code_simp+
  then show ?thesis using circ_buf_write_user_loses_fault
    [of sample_buf 2 4 "\<lambda>a n. if a < 2 then ([7, 7], 0) else ([], 1)" 0 "[7, 7]" 2 "[]" 1]
    by simp
qed
end
