(* ===== verification/Proxyfs_File.thy ===== *)
theory Proxyfs_File
  imports Proxyfs_Peer Circ_Buf
begin

text \<open>
  Files of ProxyFS: the parent class with its two circular buffers and its status
  (\<^verbatim>\<open>src/proxyfs/proxyfs_file.c\<close>), the proxy files of a client (\<^verbatim>\<open>proxyfs_proxy_file.c\<close>,
  \<^verbatim>\<open>proxyfs_generic_proxy_file.c\<close>, \<^verbatim>\<open>proxyfs_pipe_proxy_file.c\<close>) and the real files of a
  server (\<^verbatim>\<open>proxyfs_real_file.c\<close> and its subclasses for terminals, pipes and other files).

  The classes are records that extend each other as the structures do. The physical file
  behind a real file belongs to the kernel: it is a table of functions over a state of unknown
  type.
\<close>

subsection \<open>The parent class\<close>

abbreviation (input) WRITE_BUF_SIZE :: u32 where "WRITE_BUF_SIZE \<equiv> 8192"
abbreviation (input) READ_BUF_SIZE :: u32 where "READ_BUF_SIZE \<equiv> 8192"

abbreviation (input) PROXYFS_FILE_OPENED :: u32 where "PROXYFS_FILE_OPENED \<equiv> 1"
abbreviation (input) PROXYFS_FILE_DONT_EXISTS :: u32 where "PROXYFS_FILE_DONT_EXISTS \<equiv> 2"
abbreviation (input) PROXYFS_FILE_READ_EOF :: u32 where "PROXYFS_FILE_READ_EOF \<equiv> 4"
abbreviation (input) PROXYFS_FILE_CAN_WRITE :: u32 where "PROXYFS_FILE_CAN_WRITE \<equiv> 8"
abbreviation (input) PROXYFS_FILE_CAN_READ :: u32 where "PROXYFS_FILE_CAN_READ \<equiv> 16"
abbreviation (input) PROXYFS_FILE_ALL_WRITTEN :: u32 where "PROXYFS_FILE_ALL_WRITTEN \<equiv> 32"
abbreviation (input) PROXYFS_FILE_ALL_READ :: u32 where "PROXYFS_FILE_ALL_READ \<equiv> 64"
abbreviation (input) PROXYFS_FILE_IN_SYSCALL :: u32 where "PROXYFS_FILE_IN_SYSCALL \<equiv> 128"
abbreviation (input) PROXYFS_FILE_CLOSED :: u32 where "PROXYFS_FILE_CLOSED \<equiv> 256"
abbreviation (input) PROXYFS_FILE_EPIPE :: u32 where "PROXYFS_FILE_EPIPE \<equiv> 512"

definition PROXYFS_FILE_RO_STATUS :: u32 where "PROXYFS_FILE_RO_STATUS = 8 OR 16 OR 32 OR 64"
definition PROXYFS_FILE_RW_STATUS :: u32 where "PROXYFS_FILE_RW_STATUS = 1 OR 2 OR 4 OR 256 OR 512 OR 128"

abbreviation (input) PROXYFS_FILE_TTY :: u32 where "PROXYFS_FILE_TTY \<equiv> 1"
abbreviation (input) PROXYFS_FILE_GENERIC :: u32 where "PROXYFS_FILE_GENERIC \<equiv> 2"
abbreviation (input) PROXYFS_FILE_PIPE :: u32 where "PROXYFS_FILE_PIPE \<equiv> 3"

text \<open>A peer is named by its address, a file by the two halves of its identifier.\<close>

record proxyfs_file_t =
  pf_file_ident :: u16
  pf_file_owner_pid :: u16
  pf_write_buf :: circ_buf
  pf_read_buf :: circ_buf
  pf_write_buf_unconfirmed :: u64
  pf_read_was_requested :: bool
  pf_state :: u32
  pf_peer :: "nat option"

definition proxyfs_file_get_status :: "'a proxyfs_file_t_scheme \<Rightarrow> u32 \<Rightarrow> u32" where
  "proxyfs_file_get_status self status =
     (let rtn = (if status AND PROXYFS_FILE_RO_STATUS \<noteq> 0 then
          (if status AND PROXYFS_FILE_CAN_WRITE \<noteq> 0 \<and> circ_buf_get_write_size (pf_write_buf self) \<noteq> 0 then PROXYFS_FILE_CAN_WRITE else 0) OR
          (if status AND PROXYFS_FILE_CAN_READ \<noteq> 0 \<and> circ_buf_count (pf_read_buf self) \<noteq> 0 then PROXYFS_FILE_CAN_READ else 0) OR
          (if status AND PROXYFS_FILE_ALL_WRITTEN \<noteq> 0 \<and> circ_buf_get_read_size (pf_write_buf self) = 0 then PROXYFS_FILE_ALL_WRITTEN else 0) OR
          (if status AND PROXYFS_FILE_ALL_READ \<noteq> 0 \<and> circ_buf_get_read_size (pf_read_buf self) = 0 then PROXYFS_FILE_ALL_READ else 0)
        else 0)
      in if status AND PROXYFS_FILE_RW_STATUS \<noteq> 0
         then rtn OR (pf_state self AND (status AND PROXYFS_FILE_RW_STATUS)) else rtn)"

definition proxyfs_file_get_file_ident :: "'a proxyfs_file_t_scheme \<Rightarrow> u64" where
  "proxyfs_file_get_file_ident self =
     ucast (push_bit 16 (ucast (pf_file_owner_pid self)) + ucast (pf_file_ident self) :: u32)"

definition proxyfs_file_set_file_ident :: "u64 \<Rightarrow> 'a proxyfs_file_t_scheme \<Rightarrow> 'a proxyfs_file_t_scheme" where
  "proxyfs_file_set_file_ident encoded_identifier self =
     (let i = ucast (0xffff AND encoded_identifier)
      in self\<lparr>pf_file_ident := i, pf_file_owner_pid := ucast (drop_bit 16 (encoded_identifier - ucast i))\<rparr>)"

definition proxyfs_file_set_status :: "u32 \<Rightarrow> 'a proxyfs_file_t_scheme \<Rightarrow> 'a proxyfs_file_t_scheme" where
  "proxyfs_file_set_status status self = self\<lparr>pf_state := pf_state self OR status\<rparr>"

definition proxyfs_file_unset_status :: "u32 \<Rightarrow> 'a proxyfs_file_t_scheme \<Rightarrow> 'a proxyfs_file_t_scheme" where
  "proxyfs_file_unset_status status self = self\<lparr>pf_state := pf_state self AND NOT status\<rparr>"

text \<open>A list of files is the list of their addresses in \<open>heap\<close>.\<close>

fun proxyfs_file_find_in_list :: "(nat \<rightharpoonup> 'a proxyfs_file_t_scheme) \<Rightarrow> u64 \<Rightarrow> nat list \<Rightarrow> nat option" where
  "proxyfs_file_find_in_list heap ident [] = None"
| "proxyfs_file_find_in_list heap ident (a # l) =
     (case heap a of
        None \<Rightarrow> proxyfs_file_find_in_list heap ident l
      | Some f \<Rightarrow> (if proxyfs_file_get_file_ident f = ident then Some a else proxyfs_file_find_in_list heap ident l))"

type_synonym buf_alloc = "u32 \<Rightarrow> (ptr \<times> byte list) option"

definition proxyfs_file_init :: "buf_alloc \<Rightarrow> buf_alloc \<Rightarrow> 'a proxyfs_file_t_scheme \<Rightarrow> int \<times> 'a proxyfs_file_t_scheme" where
  "proxyfs_file_init alloc_w alloc_r self =
     (case circ_buf_init alloc_w alloc_w (pf_write_buf self) WRITE_BUF_SIZE of (wb, err) \<Rightarrow>
        let self = self\<lparr>pf_write_buf := wb\<rparr> in
        if err \<noteq> 0 then (- 1, self)
        else
          (case circ_buf_init alloc_r alloc_r (pf_read_buf self) READ_BUF_SIZE of (rb, err) \<Rightarrow>
             let self = self\<lparr>pf_read_buf := rb\<rparr> in
             if err \<noteq> 0 then (- 1, self\<lparr>pf_write_buf := circ_buf_destroy (pf_write_buf self)\<rparr>)
             else (0, self\<lparr>pf_state := 0, pf_write_buf_unconfirmed := 0, pf_read_was_requested := False, pf_peer := None\<rparr>)))"

definition proxyfs_file_was_read_requested :: "'a proxyfs_file_t_scheme \<Rightarrow> bool" where
  "proxyfs_file_was_read_requested self = pf_read_was_requested self"

definition proxyfs_file_mark_read_requested :: "'a proxyfs_file_t_scheme \<Rightarrow> 'a proxyfs_file_t_scheme" where
  "proxyfs_file_mark_read_requested self = self\<lparr>pf_read_was_requested := True\<rparr>"

text \<open>Methods a task calls on a file without knowing its class.\<close>

record 'f proxyfs_file_ops =
  op_write_from_peer :: "'f \<Rightarrow> byte list \<Rightarrow> u64 \<Rightarrow> (i32 \<times> 'f) option"
  op_read_to_peer :: "'f \<Rightarrow> u64 \<Rightarrow> (i32 \<times> byte list \<times> 'f) option"
  op_submit_read_to_peer :: "'f \<Rightarrow> u64 \<Rightarrow> 'f option"
  op_write_buf_info :: "'f \<Rightarrow> (u64 \<times> u64 \<times> ptr) option"

subsection \<open>Proxy files\<close>

datatype syscall_resp = RespMsg proxyfs_msg_header "byte list" | RespCode u64

datatype proxy_file_class = Generic_proxy_file | Pipe_proxy_file

text \<open>
  \<open>pr_syscall_resp\<close> says whether the pointer to the caller's variable for the response is set;
  \<open>pr_msg_resp\<close> is that variable.
\<close>

record proxyfs_proxy_file_t = proxyfs_file_t +
  pr_write_buf_sem :: bool
  pr_read_buf_sem :: bool
  pr_syscall_resp :: bool
  pr_msg_resp :: "syscall_resp option"
  pr_ops :: "proxy_file_class option"

text \<open>Semaphores: a caller that finds one taken sleeps, which is \<open>None\<close>.\<close>

definition with_write_sem :: "(proxyfs_proxy_file_t \<Rightarrow> 'r \<times> proxyfs_proxy_file_t) \<Rightarrow> proxyfs_proxy_file_t \<Rightarrow> ('r \<times> proxyfs_proxy_file_t) option" where
  "with_write_sem body self =
     (if pr_write_buf_sem self
      then (case body (self\<lparr>pr_write_buf_sem := False\<rparr>) of (r, self) \<Rightarrow> Some (r, self\<lparr>pr_write_buf_sem := True\<rparr>))
      else None)"

definition with_read_sem :: "(proxyfs_proxy_file_t \<Rightarrow> 'r \<times> proxyfs_proxy_file_t) \<Rightarrow> proxyfs_proxy_file_t \<Rightarrow> ('r \<times> proxyfs_proxy_file_t) option" where
  "with_read_sem body self =
     (if pr_read_buf_sem self
      then (case body (self\<lparr>pr_read_buf_sem := False\<rparr>) of (r, self) \<Rightarrow> Some (r, self\<lparr>pr_read_buf_sem := True\<rparr>))
      else None)"

definition proxyfs_proxy_file_write_from_peer :: "proxyfs_proxy_file_t \<Rightarrow> byte list \<Rightarrow> u64 \<Rightarrow> (i32 \<times> proxyfs_proxy_file_t) option" where
  "proxyfs_proxy_file_write_from_peer self buf count =
     with_read_sem (\<lambda>self.
       if count = 0 then (0, proxyfs_file_set_status PROXYFS_FILE_READ_EOF self)
       else (case circ_buf_write (pf_read_buf self) buf (ucast count) of (b, n) \<Rightarrow> (n, self\<lparr>pf_read_buf := b\<rparr>))) self"

definition proxyfs_proxy_file_read_to_peer :: "proxyfs_proxy_file_t \<Rightarrow> u64 \<Rightarrow> (i32 \<times> byte list \<times> proxyfs_proxy_file_t) option" where
  "proxyfs_proxy_file_read_to_peer self count = do {
     ((n, bs), self) \<leftarrow> with_write_sem (\<lambda>self.
       case circ_buf_look_at (pf_write_buf self) (ucast count) (pf_write_buf_unconfirmed self) of (b, bs, n) \<Rightarrow>
         let self = self\<lparr>pf_write_buf := b\<rparr>
         in ((n, bs), if 0 <s n then self\<lparr>pf_write_buf_unconfirmed := pf_write_buf_unconfirmed self + scast n\<rparr> else self)) self;
     Some (n, bs, self)
   }"

definition proxyfs_proxy_file_submit_read_to_peer :: "proxyfs_proxy_file_t \<Rightarrow> u64 \<Rightarrow> proxyfs_proxy_file_t option" where
  "proxyfs_proxy_file_submit_read_to_peer self count = do {
     (_, self) \<leftarrow> with_write_sem (\<lambda>self. ((),
       self\<lparr>pf_write_buf := circ_buf_adjust_read_ptr (pf_write_buf self) (ucast count),
            pf_write_buf_unconfirmed := pf_write_buf_unconfirmed self - count\<rparr>)) self;
     Some self
   }"

definition proxyfs_proxy_file_write_buf_info :: "proxyfs_proxy_file_t \<Rightarrow> (u64 \<times> u64 \<times> ptr) option" where
  "proxyfs_proxy_file_write_buf_info self = do {
     (r, _) \<leftarrow> with_write_sem (\<lambda>self. ((ucast (circ_buf_count (pf_write_buf self)), ucast (circ_buf_get_read_size (pf_write_buf self)),
        circ_buf_get_read_addr (pf_write_buf self)), self)) self;
     Some r
   }"

definition proxy_file_ops :: "proxyfs_proxy_file_t proxyfs_file_ops" where
  "proxy_file_ops = \<lparr>op_write_from_peer = proxyfs_proxy_file_write_from_peer, op_read_to_peer = proxyfs_proxy_file_read_to_peer,
     op_submit_read_to_peer = proxyfs_proxy_file_submit_read_to_peer, op_write_buf_info = proxyfs_proxy_file_write_buf_info\<rparr>"

definition proxyfs_proxy_file_init :: "buf_alloc \<Rightarrow> buf_alloc \<Rightarrow> proxyfs_proxy_file_t \<Rightarrow> int \<times> proxyfs_proxy_file_t" where
  "proxyfs_proxy_file_init alloc_w alloc_r self =
     (case proxyfs_file_init alloc_w alloc_r self of (rtn, self) \<Rightarrow>
        (rtn, if rtn = 0 then self\<lparr>pr_write_buf_sem := True, pr_read_buf_sem := True\<rparr> else self))"

text \<open>
  Writing and reading by a process. \<open>access\<close> is the check of the user's buffer; the copy
  functions are those of the circular buffer.
\<close>

definition proxyfs_generic_proxy_file_write_user ::
  "(u64 \<Rightarrow> u64 \<Rightarrow> bool) \<Rightarrow> (u64 \<Rightarrow> u32 \<Rightarrow> byte list \<times> u64) \<Rightarrow> proxyfs_proxy_file_t \<Rightarrow> u64 \<Rightarrow> u64 \<Rightarrow> (i32 \<times> proxyfs_proxy_file_t) option" where
  "proxyfs_generic_proxy_file_write_user access cfu self buf count =
     (if \<not> access buf count then Some (of_int (- EFAULT), self)
      else with_write_sem (\<lambda>self. case circ_buf_write_user cfu (pf_write_buf self) buf (ucast count) of (b, n) \<Rightarrow> (n, self\<lparr>pf_write_buf := b\<rparr>)) self)"

definition proxyfs_generic_proxy_file_read_user ::
  "(u64 \<Rightarrow> u64 \<Rightarrow> bool) \<Rightarrow> (u64 \<Rightarrow> byte list \<Rightarrow> u64) \<Rightarrow> proxyfs_proxy_file_t \<Rightarrow> u64 \<Rightarrow> u64 \<Rightarrow>
   (i32 \<times> byte list \<times> proxyfs_proxy_file_t) option" where
  "proxyfs_generic_proxy_file_read_user access ctu self buf count =
     (if \<not> access buf count then Some (of_int (- EFAULT), [], self)
      else do {
        ((n, bs), self) \<leftarrow> with_read_sem (\<lambda>self. case circ_buf_read_user ctu (pf_read_buf self) buf (ucast count) of (b, bs, n) \<Rightarrow>
          ((n, bs), self\<lparr>pf_read_buf := b\<rparr>)) self;
        Some (n, bs, self)
      })"

definition proxyfs_generic_proxy_file_from_proxy_file :: "proxyfs_proxy_file_t \<Rightarrow> proxyfs_proxy_file_t" where
  "proxyfs_generic_proxy_file_from_proxy_file self = self\<lparr>pr_ops := Some Generic_proxy_file\<rparr>"

abbreviation (input) PIPE_BUF :: u32 where "PIPE_BUF \<equiv> 4096"

text \<open>The kernel copies the four bytes of the length of a block from its own memory.\<close>

definition copy_u32 :: "u32 \<Rightarrow> u64 \<Rightarrow> u32 \<Rightarrow> byte list \<times> u64" where
  "copy_u32 w a n = (take (unat n) (drop (unat a) (le_bytes 4 w)), 0)"

definition proxyfs_pipe_proxy_file_write_user ::
  "(u64 \<Rightarrow> u64 \<Rightarrow> bool) \<Rightarrow> (u64 \<Rightarrow> u32 \<Rightarrow> byte list \<times> u64) \<Rightarrow> proxyfs_proxy_file_t \<Rightarrow> u64 \<Rightarrow> u64 \<Rightarrow> (i32 \<times> proxyfs_proxy_file_t) option" where
  "proxyfs_pipe_proxy_file_write_user access cfu self buf count =
     (if \<not> access buf count then Some (of_int (- EFAULT), self)
      else with_write_sem (\<lambda>self.
        let write_size = circ_buf_free_space (pf_write_buf self) in
        if write_size < 8 then (of_int (- 8), self)
        else if count \<le> ucast PIPE_BUF \<and> ucast write_size < 4 + count then (ucast (- (4 + count)), self)
        else
          (let write_size = write_size - 4;
               write_size = (if ucast write_size < count then write_size else ucast count)
           in case circ_buf_write_user (copy_u32 write_size) (pf_write_buf self) 0 4 of (b, _) \<Rightarrow>
              case circ_buf_write_user cfu b buf write_size of (b, n) \<Rightarrow> (n, self\<lparr>pf_write_buf := b\<rparr>))) self)"

definition proxyfs_pipe_proxy_file_from_proxy_file :: "proxyfs_proxy_file_t \<Rightarrow> proxyfs_proxy_file_t" where
  "proxyfs_pipe_proxy_file_from_proxy_file self = self\<lparr>pr_ops := Some Pipe_proxy_file\<rparr>"

subsection \<open>Physical files\<close>

record 'k file_operations =
  v_write :: "'k \<Rightarrow> byte list \<Rightarrow> u64 \<Rightarrow> int \<times> u64 \<times> 'k"
  v_read :: "'k \<Rightarrow> nat \<Rightarrow> u64 \<Rightarrow> int \<times> byte list \<times> u64 \<times> 'k"
  v_poll :: "('k \<Rightarrow> u64) option"
  v_fsync :: "'k \<Rightarrow> int \<times> 'k"
  v_is_reg :: "'k \<Rightarrow> bool"
  v_unlocked_ioctl :: "('k \<Rightarrow> u32 \<Rightarrow> byte list \<Rightarrow> int \<times> byte list \<times> 'k) option"
  v_ioctl :: "('k \<Rightarrow> u32 \<Rightarrow> byte list \<Rightarrow> int \<times> byte list \<times> 'k) option"
  v_tty_ok :: "'k \<Rightarrow> bool"
  v_tty_ldisc :: "'k \<Rightarrow> bool"
  v_tty_read :: "('k \<Rightarrow> nat \<Rightarrow> int \<times> byte list \<times> 'k) option"

record 'k kfile =
  f_op :: "'k file_operations"
  f_state :: 'k
  f_pos :: u64
  f_count :: int

definition vfs_write :: "'k kfile \<Rightarrow> byte list \<Rightarrow> u64 \<Rightarrow> int \<times> u64 \<times> 'k kfile" where
  "vfs_write F buf pos = (case v_write (f_op F) (f_state F) buf pos of (r, pos, k) \<Rightarrow> (r, pos, F\<lparr>f_state := k\<rparr>))"

definition vfs_read :: "'k kfile \<Rightarrow> nat \<Rightarrow> u64 \<Rightarrow> int \<times> byte list \<times> u64 \<times> 'k kfile" where
  "vfs_read F n pos = (case v_read (f_op F) (f_state F) n pos of (r, bs, pos, k) \<Rightarrow> (r, bs, pos, F\<lparr>f_state := k\<rparr>))"

subsection \<open>Real files\<close>

datatype real_file_class = Tty_real_file | Generic_real_file | Pipe_real_file

record proxyfs_real_file = proxyfs_file_t +
  rl_file :: nat
  rl_ops :: "real_file_class option"
  rl_shadow_list :: "nat list"

record proxyfs_pipe_real_file = proxyfs_real_file +
  pi_write_counter :: u32
  pi_atomic_write :: bool

definition proxyfs_real_file_write_from_peer :: "'a proxyfs_real_file_scheme \<Rightarrow> byte list \<Rightarrow> u64 \<Rightarrow> (i32 \<times> 'a proxyfs_real_file_scheme) option" where
  "proxyfs_real_file_write_from_peer self buf count =
     (case circ_buf_write (pf_read_buf self) buf (ucast count) of (b, n) \<Rightarrow> Some (n, self\<lparr>pf_read_buf := b\<rparr>))"

definition proxyfs_real_file_read_to_peer :: "'a proxyfs_real_file_scheme \<Rightarrow> u64 \<Rightarrow> (i32 \<times> byte list \<times> 'a proxyfs_real_file_scheme) option" where
  "proxyfs_real_file_read_to_peer self count =
     (case circ_buf_look_at (pf_write_buf self) (ucast count) (pf_write_buf_unconfirmed self) of (b, bs, n) \<Rightarrow>
        let self = self\<lparr>pf_write_buf := b\<rparr>
        in Some (n, bs, if 0 <s n then self\<lparr>pf_write_buf_unconfirmed := pf_write_buf_unconfirmed self + scast n\<rparr> else self))"

definition proxyfs_real_file_submit_read_to_peer :: "'a proxyfs_real_file_scheme \<Rightarrow> u64 \<Rightarrow> 'a proxyfs_real_file_scheme option" where
  "proxyfs_real_file_submit_read_to_peer self count =
     Some (self\<lparr>pf_write_buf := circ_buf_adjust_read_ptr (pf_write_buf self) (ucast count),
                pf_write_buf_unconfirmed := pf_write_buf_unconfirmed self - count\<rparr>)"

definition proxyfs_real_file_write_buf_info :: "'a proxyfs_real_file_scheme \<Rightarrow> (u64 \<times> u64 \<times> ptr) option" where
  "proxyfs_real_file_write_buf_info self =
     Some (ucast (circ_buf_count (pf_write_buf self)), ucast (circ_buf_get_read_size (pf_write_buf self)), circ_buf_get_read_addr (pf_write_buf self))"

definition real_file_ops :: "'a proxyfs_real_file_scheme proxyfs_file_ops" where
  "real_file_ops = \<lparr>op_write_from_peer = proxyfs_real_file_write_from_peer, op_read_to_peer = proxyfs_real_file_read_to_peer,
     op_submit_read_to_peer = proxyfs_real_file_submit_read_to_peer, op_write_buf_info = proxyfs_real_file_write_buf_info\<rparr>"

definition proxyfs_real_file_init :: "buf_alloc \<Rightarrow> buf_alloc \<Rightarrow> 'a proxyfs_real_file_scheme \<Rightarrow> int \<times> 'a proxyfs_real_file_scheme" where
  "proxyfs_real_file_init alloc_w alloc_r self =
     (case proxyfs_file_init alloc_w alloc_r self of (rtn, self) \<Rightarrow> (rtn, if rtn = 0 then self\<lparr>rl_shadow_list := []\<rparr> else self))"

text \<open>\<open>mem\<close>: whether there is memory for the list entry.\<close>

definition proxyfs_real_file_add_shadow :: "bool \<Rightarrow> nat \<Rightarrow> 'a proxyfs_real_file_scheme \<Rightarrow> int \<times> 'a proxyfs_real_file_scheme" where
  "proxyfs_real_file_add_shadow mem shadow self =
     (if \<not> mem then (- ENOMEM, self) else (0, self\<lparr>rl_shadow_list := shadow # rl_shadow_list self\<rparr>))"

definition proxyfs_real_file_remove_shadow :: "nat \<Rightarrow> 'a proxyfs_real_file_scheme \<Rightarrow> bool \<times> 'a proxyfs_real_file_scheme" where
  "proxyfs_real_file_remove_shadow shadow self =
     (let l = remove1 shadow (rl_shadow_list self) in (l = [], self\<lparr>rl_shadow_list := l\<rparr>))"

definition proxyfs_real_file_has_shadow :: "nat \<Rightarrow> 'a proxyfs_real_file_scheme \<Rightarrow> bool" where
  "proxyfs_real_file_has_shadow shadow self = (shadow \<in> set (rl_shadow_list self))"

abbreviation (input) POLLIN :: u64 where "POLLIN \<equiv> 1"
abbreviation (input) POLLOUT :: u64 where "POLLOUT \<equiv> 4"
abbreviation (input) POLLHUP :: u64 where "POLLHUP \<equiv> 16"

definition proxyfs_real_file_poll_read :: "'k kfile \<Rightarrow> int" where
  "proxyfs_real_file_poll_read F =
     (case v_poll (f_op F) of
        None \<Rightarrow> - 1
      | Some poll \<Rightarrow> if poll (f_state F) AND (POLLIN OR POLLHUP) = 0 then 0 else 1)"

definition proxyfs_real_file_poll_write :: "'k kfile \<Rightarrow> int" where
  "proxyfs_real_file_poll_write F =
     (case v_poll (f_op F) of
        None \<Rightarrow> - 1
      | Some poll \<Rightarrow> if poll (f_state F) AND POLLOUT = 0 then 0 else 1)"

abbreviation (input) ENOTTY :: int where "ENOTTY \<equiv> 25"
abbreviation (input) ENOIOCTLCMD :: int where "ENOIOCTLCMD \<equiv> 515"

definition proxyfs_real_file_do_ioctl :: "'k kfile \<Rightarrow> u32 \<Rightarrow> byte list \<Rightarrow> int \<times> byte list \<times> 'k kfile" where
  "proxyfs_real_file_do_ioctl F cmd arg =
     (if v_is_reg (f_op F) (f_state F) then (- ENOTTY, arg, F)
      else
        (case v_unlocked_ioctl (f_op F) of
           Some io \<Rightarrow> (case io (f_state F) cmd arg of (error, arg, k) \<Rightarrow>
             (if error = - ENOIOCTLCMD then - EINVAL else error, arg, F\<lparr>f_state := k\<rparr>))
         | None \<Rightarrow>
             (case v_ioctl (f_op F) of
                Some io \<Rightarrow> (case io (f_state F) cmd arg of (error, arg, k) \<Rightarrow> (error, arg, F\<lparr>f_state := k\<rparr>))
              | None \<Rightarrow> (- ENOTTY, arg, F))))"

text \<open>
  Writing the read buffer out. The buffer may wrap around, so both classes try twice; the
  position of the file is stored only when the first attempt has failed, because the
  statement after \<^verbatim>\<open>else\<close> is that assignment.
\<close>

definition read_chunk :: "circ_buf \<Rightarrow> u32 \<Rightarrow> byte list" where
  "read_chunk b n = memcpy_from b (circ_buf_get_read_addr b) n"

definition write_out_twice :: "'a proxyfs_real_file_scheme \<Rightarrow> 'k kfile \<Rightarrow> int \<times> 'a proxyfs_real_file_scheme \<times> 'k kfile" where
  "write_out_twice self F =
     (let buf_data = circ_buf_get_read_size (pf_read_buf self) in
      if buf_data = 0 then (0, self, F)
      else
        (case vfs_write F (read_chunk (pf_read_buf self) buf_data) (f_pos F) of (lenght, pos, F) \<Rightarrow>
           if lenght > 0 then
             (let self = self\<lparr>pf_read_buf := circ_buf_adjust_read_ptr (pf_read_buf self) (of_int lenght)\<rparr>;
                  buf_data' = circ_buf_get_read_size (pf_read_buf self)
              in if lenght = int (unat buf_data) \<and> buf_data' \<noteq> 0 then
                   (case vfs_write F (read_chunk (pf_read_buf self) buf_data') pos of (lenght2, pos, F) \<Rightarrow>
                      if lenght2 > 0
                      then (lenght + lenght2, self\<lparr>pf_read_buf := circ_buf_adjust_read_ptr (pf_read_buf self) (of_int lenght2)\<rparr>, F)
                      else (lenght, self, F))
                 else (lenght, self, F))
           else (0, self, F\<lparr>f_pos := pos\<rparr>)))"

definition proxyfs_generic_real_file_write :: "'a proxyfs_real_file_scheme \<Rightarrow> 'k kfile \<Rightarrow> int \<times> 'a proxyfs_real_file_scheme \<times> 'k kfile" where
  "proxyfs_generic_real_file_write self F = write_out_twice self F"

definition proxyfs_tty_real_file_write :: "'a proxyfs_real_file_scheme \<Rightarrow> 'k kfile \<Rightarrow> int \<times> 'a proxyfs_real_file_scheme \<times> 'k kfile" where
  "proxyfs_tty_real_file_write self F = write_out_twice self F"

text \<open>Storing what was read at the write pointer; more than the announced room would be a fault of the kernel.\<close>

definition store_chunk :: "circ_buf \<Rightarrow> byte list \<Rightarrow> int \<Rightarrow> circ_buf" where
  "store_chunk b bs n =
     (let b = memcpy_to b (circ_buf_get_write_addr b) bs in if n > 0 then circ_buf_adjust_write_ptr b (of_int n) else b)"

definition proxyfs_generic_real_file_read :: "'a proxyfs_real_file_scheme \<Rightarrow> 'k kfile \<Rightarrow> int \<times> 'a proxyfs_real_file_scheme \<times> 'k kfile" where
  "proxyfs_generic_real_file_read self F =
     (let buf_data = circ_buf_get_write_size (pf_write_buf self) in
      if buf_data = 0 then (0, self, F)
      else
        (case vfs_read F (unat buf_data) (f_pos F) of (lenght, bs, pos, F) \<Rightarrow>
           let self = self\<lparr>pf_write_buf := store_chunk (pf_write_buf self) bs lenght\<rparr>;
               buf_data' = circ_buf_get_write_size (pf_write_buf self)
           in if lenght > 0 \<and> lenght = int (unat buf_data) \<and> buf_data' \<noteq> 0 then
                (case vfs_read F (unat buf_data') pos of (lenght2, bs, pos, F) \<Rightarrow>
                   (lenght2, self\<lparr>pf_write_buf := store_chunk (pf_write_buf self) bs lenght2\<rparr>, F\<lparr>f_pos := pos\<rparr>))
              else (lenght, self, F\<lparr>f_pos := pos\<rparr>)))"

definition proxyfs_tty_real_file_tty_read :: "'k kfile \<Rightarrow> nat \<Rightarrow> int \<times> byte list \<times> 'k kfile" where
  "proxyfs_tty_real_file_tty_read F count =
     (if \<not> v_tty_ok (f_op F) (f_state F) then (- EIO, [], F)
      else if v_tty_ldisc (f_op F) (f_state F) then
        (case v_tty_read (f_op F) of
           Some rd \<Rightarrow> (case rd (f_state F) count of (i, bs, k) \<Rightarrow> (i, bs, F\<lparr>f_state := k\<rparr>))
         | None \<Rightarrow> (- EIO, [], F))
      else (- EAGAIN, [], F))"

definition proxyfs_tty_real_file_read :: "'a proxyfs_real_file_scheme \<Rightarrow> 'k kfile \<Rightarrow> int \<times> 'a proxyfs_real_file_scheme \<times> 'k kfile" where
  "proxyfs_tty_real_file_read self F =
     (if proxyfs_real_file_poll_read F < 1 then (- EAGAIN, self, F)
      else
        (let buf_data = circ_buf_get_write_size (pf_write_buf self) in
         if buf_data = 0 then (0, self, F)
         else
           (case proxyfs_tty_real_file_tty_read F (unat buf_data) of (lenght, bs, F) \<Rightarrow>
              let self = self\<lparr>pf_write_buf := store_chunk (pf_write_buf self) bs lenght\<rparr>;
                  buf_data' = circ_buf_get_write_size (pf_write_buf self)
              in if lenght > 0 \<and> lenght = int (unat buf_data) \<and> buf_data' \<noteq> 0 then
                   (case proxyfs_tty_real_file_tty_read F (unat buf_data') of (lenght2, bs, F) \<Rightarrow>
                      (lenght + max 0 lenght2, self\<lparr>pf_write_buf := store_chunk (pf_write_buf self) bs lenght2\<rparr>, F))
                 else (max 0 lenght, self, F))))"

text \<open>
  A pipe: the read buffer holds blocks, each with its length in front. A block that fits into
  a pipe buffer is written in one piece, in two or more otherwise. The loop goes on as long
  as the pipe takes data.
\<close>

partial_function (option) pipe_write_loop ::
  "proxyfs_pipe_real_file \<Rightarrow> 'k kfile \<Rightarrow> int \<Rightarrow> (int \<times> proxyfs_pipe_real_file \<times> 'k kfile) option" where
  "pipe_write_loop self F tot =
     (let rb = pf_read_buf self; buf_data = circ_buf_get_read_size rb; wc = pi_write_counter self in
      if proxyfs_real_file_poll_write F < 1 then Some (tot, self, F)
      else if buf_data = 0 then Some (tot, self, F)
      else if wc = 0 then
        (case circ_buf_look_at rb 4 0 of (rb, bs, n) \<Rightarrow>
           if n = 4 then
             pipe_write_loop (self\<lparr>pi_write_counter := le_word bs, pi_atomic_write := (le_word bs \<le> PIPE_BUF),
               pf_read_buf := circ_buf_adjust_read_ptr rb 4\<rparr>) F (tot + 4)
           else Some (tot, self\<lparr>pi_write_counter := 0, pf_read_buf := rb\<rparr>, F))
      else if pi_atomic_write self then
        (if circ_buf_count rb < wc then Some (tot, self, F)
         else
           (let bs = (if buf_data < wc then fst (snd (circ_buf_look_at rb wc 0)) else read_chunk rb wc) in
            case vfs_write F bs (f_pos F) of (lenght, pos, F) \<Rightarrow>
              if lenght > 0 then
                pipe_write_loop (self\<lparr>pi_write_counter := 0, pf_read_buf := circ_buf_adjust_read_ptr rb (of_int lenght)\<rparr>)
                  (F\<lparr>f_pos := pos\<rparr>) (tot + lenght)
              else Some (tot, self, F)))
      else
        (let n = (if buf_data > wc then wc else buf_data) in
         case vfs_write F (read_chunk rb n) (f_pos F) of (lenght, pos, F) \<Rightarrow>
           if lenght > 0 then
             pipe_write_loop (self\<lparr>pi_write_counter := wc - of_int lenght, pf_read_buf := circ_buf_adjust_read_ptr rb (of_int lenght)\<rparr>)
               (F\<lparr>f_pos := pos\<rparr>) (tot + lenght)
           else Some (tot, self, F)))"

definition proxyfs_pipe_real_file_write :: "proxyfs_pipe_real_file \<Rightarrow> 'k kfile \<Rightarrow> (int \<times> proxyfs_pipe_real_file \<times> 'k kfile) option" where
  "proxyfs_pipe_real_file_write self F = pipe_write_loop self F 0"

definition proxyfs_pipe_real_file_read :: "proxyfs_pipe_real_file \<Rightarrow> 'k kfile \<Rightarrow> int \<times> proxyfs_pipe_real_file \<times> 'k kfile" where
  "proxyfs_pipe_real_file_read self F =
     (if \<not> proxyfs_file_was_read_requested self then (- EAGAIN, self, F)
      else if proxyfs_real_file_poll_read F < 1 then (- EAGAIN, self, F)
      else if circ_buf_free_space (pf_write_buf self) = 0 then (- EAGAIN, self, F)
      else
        (let buf_data = circ_buf_get_write_size (pf_write_buf self) in
         if buf_data = 0 then (0, self, F)
         else
           (case vfs_read F (unat buf_data) (f_pos F) of (lenght, bs, pos, F) \<Rightarrow>
              let self = self\<lparr>pf_write_buf := store_chunk (pf_write_buf self) bs lenght\<rparr>;
                  buf_data' = circ_buf_get_write_size (pf_write_buf self)
              in if lenght > 0 \<and> lenght = int (unat buf_data) \<and> buf_data' \<noteq> 0 \<and> proxyfs_real_file_poll_read F \<noteq> 0 then
                   (case vfs_read F (unat buf_data') pos of (lenght2, bs, pos, F) \<Rightarrow>
                      (lenght + max 0 lenght2, self\<lparr>pf_write_buf := store_chunk (pf_write_buf self) bs lenght2\<rparr>, F\<lparr>f_pos := pos\<rparr>))
                 else (max 0 lenght, self, F\<lparr>f_pos := pos\<rparr>))))"

definition proxyfs_real_file_write :: "proxyfs_pipe_real_file \<Rightarrow> 'k kfile \<Rightarrow> (int \<times> proxyfs_pipe_real_file \<times> 'k kfile) option" where
  "proxyfs_real_file_write self F =
     (case rl_ops self of
        None \<Rightarrow> Some (- 1, self, F)
      | Some Tty_real_file \<Rightarrow> Some (proxyfs_tty_real_file_write self F)
      | Some Generic_real_file \<Rightarrow> Some (proxyfs_generic_real_file_write self F)
      | Some Pipe_real_file \<Rightarrow> proxyfs_pipe_real_file_write self F)"

definition proxyfs_real_file_read :: "proxyfs_pipe_real_file \<Rightarrow> 'k kfile \<Rightarrow> int \<times> proxyfs_pipe_real_file \<times> 'k kfile" where
  "proxyfs_real_file_read self F =
     (case rl_ops self of
        None \<Rightarrow> (- 1, self, F)
      | Some Tty_real_file \<Rightarrow> proxyfs_tty_real_file_read self F
      | Some Generic_real_file \<Rightarrow> proxyfs_generic_real_file_read self F
      | Some Pipe_real_file \<Rightarrow> proxyfs_pipe_real_file_read self F)"

end
