(* ===== verification/Proxyfs_Task.thy ===== *)
theory Proxyfs_Task
  imports Proxyfs_File
begin

text \<open>
  The tasks of ProxyFS: what client and server share (\<^verbatim>\<open>src/proxyfs/proxyfs_task.c\<close>) and the
  client with the operations of its proxy files (\<^verbatim>\<open>proxyfs_client.c\<close>,
  \<^verbatim>\<open>proxyfs_proxy_file.c\<close>).

  A task owns two heaps: its files and its peers, both by address. \<open>None\<close> is an access through
  a null pointer or to freed memory, a sleep on a semaphore nobody releases, or a loop that does
  not end. A wait for another thread is a function that gives the state the waiter finds
  when it is woken.
\<close>

subsection \<open>Peers by address\<close>

record 's peer_store =
  ps_peers :: "nat \<rightharpoonup> 's proxyfs_peer_t"
  ps_arch_refs :: int

definition store_peer_get :: "nat option \<Rightarrow> 's peer_store \<Rightarrow> 's peer_store option" where
  "store_peer_get p st =
     (case p of
        None \<Rightarrow> Some st
      | Some a \<Rightarrow> do { x \<leftarrow> ps_peers st a; Some (st\<lparr>ps_peers := (ps_peers st)(a \<mapsto> proxyfs_peer_get x)\<rparr>) })"

definition store_peer_put :: "nat option \<Rightarrow> 's peer_store \<Rightarrow> 's peer_store option" where
  "store_peer_put p st =
     (case p of
        None \<Rightarrow> Some st
      | Some a \<Rightarrow> do {
          x \<leftarrow> ps_peers st a;
          (case proxyfs_peer_put x (ps_arch_refs st) of (x, refs) \<Rightarrow>
             Some (st\<lparr>ps_peers := (ps_peers st)(a := x), ps_arch_refs := refs\<rparr>))
        })"

definition store_send_msg :: "nat option \<Rightarrow> proxyfs_msg option \<Rightarrow> 's peer_store \<Rightarrow> 's peer_store option" where
  "store_send_msg p msg st = do {
     a \<leftarrow> p;
     x \<leftarrow> ps_peers st a;
     x \<leftarrow> proxyfs_peer_send_msg msg x;
     Some (st\<lparr>ps_peers := (ps_peers st)(a \<mapsto> x)\<rparr>)
   }"

definition proxyfs_file_set_peer ::
  "nat option \<Rightarrow> 'a proxyfs_file_t_scheme \<Rightarrow> 's peer_store \<Rightarrow> ('a proxyfs_file_t_scheme \<times> 's peer_store) option" where
  "proxyfs_file_set_peer peer self st = do {
     st \<leftarrow> store_peer_get peer st;
     st \<leftarrow> store_peer_put (pf_peer self) st;
     Some (self\<lparr>pf_peer := peer\<rparr>, st)
   }"

definition proxyfs_file_destroy :: "'a proxyfs_file_t_scheme \<Rightarrow> 's peer_store \<Rightarrow> 's peer_store option" where
  "proxyfs_file_destroy self st = store_peer_put (pf_peer self) st"

subsection \<open>Tasks\<close>

record ('s, 'f) proxyfs_task =
  pt_files :: "nat list"
  pt_peers :: "nat list"
  pt_ref_count :: int
  pt_data_ready :: bool
  pt_heap :: "nat \<rightharpoonup> 'f"
  pt_store :: "'s peer_store"

definition proxyfs_task_init :: "('s, 'f, 'z) proxyfs_task_scheme \<Rightarrow> ('s, 'f, 'z) proxyfs_task_scheme" where
  "proxyfs_task_init self = self\<lparr>pt_files := [], pt_peers := [], pt_ref_count := 1, pt_data_ready := False\<rparr>"

definition proxyfs_task_get :: "('s, 'f, 'z) proxyfs_task_scheme \<Rightarrow> ('s, 'f, 'z) proxyfs_task_scheme" where
  "proxyfs_task_get task = task\<lparr>pt_ref_count := pt_ref_count task + 1\<rparr>"

definition proxyfs_task_notify_data_ready :: "('s, 'f, 'z) proxyfs_task_scheme \<Rightarrow> ('s, 'f, 'z) proxyfs_task_scheme" where
  "proxyfs_task_notify_data_ready self = self\<lparr>pt_data_ready := True\<rparr>"

definition proxyfs_task_wait_for_data_ready :: "('s, 'f, 'z) proxyfs_task_scheme \<Rightarrow> ('s, 'f, 'z) proxyfs_task_scheme" where
  "proxyfs_task_wait_for_data_ready self = self\<lparr>pt_data_ready := False\<rparr>"

definition proxyfs_task_find_file :: "('s, 'a proxyfs_file_t_scheme, 'z) proxyfs_task_scheme \<Rightarrow> u64 \<Rightarrow> nat option" where
  "proxyfs_task_find_file task ident = proxyfs_file_find_in_list (pt_heap task) ident (pt_files task)"

definition task_file :: "nat \<Rightarrow> 'f \<Rightarrow> ('s, 'f, 'z) proxyfs_task_scheme \<Rightarrow> ('s, 'f, 'z) proxyfs_task_scheme" where
  "task_file a f self = self\<lparr>pt_heap := (pt_heap self)(a \<mapsto> f)\<rparr>"

definition task_peer :: "nat \<Rightarrow> 's proxyfs_peer_t \<Rightarrow> ('s, 'f, 'z) proxyfs_task_scheme \<Rightarrow> ('s, 'f, 'z) proxyfs_task_scheme" where
  "task_peer a p self = self\<lparr>pt_store := (pt_store self)\<lparr>ps_peers := (ps_peers (pt_store self))(a \<mapsto> p)\<rparr>\<rparr>"

definition task_send_msg ::
  "nat option \<Rightarrow> proxyfs_msg option \<Rightarrow> ('s, 'f, 'z) proxyfs_task_scheme \<Rightarrow> ('s, 'f, 'z) proxyfs_task_scheme option" where
  "task_send_msg p msg self = do { st \<leftarrow> store_send_msg p msg (pt_store self); Some (self\<lparr>pt_store := st\<rparr>) }"

definition proxyfs_task_send_write_buf ::
  "(u64 \<Rightarrow> bool) \<Rightarrow> 'a proxyfs_file_t_scheme proxyfs_file_ops \<Rightarrow> nat \<Rightarrow> ('s, 'a proxyfs_file_t_scheme, 'z) proxyfs_task_scheme \<Rightarrow>
   (int \<times> ('s, 'a proxyfs_file_t_scheme, 'z) proxyfs_task_scheme) option" where
  "proxyfs_task_send_write_buf kmalloc ops a self = do {
     f \<leftarrow> pt_heap self a;
     (case pf_peer f of
        None \<Rightarrow> Some (0, self)
      | Some p \<Rightarrow> do {
          (total_size, _, _) \<leftarrow> op_write_buf_info ops f;
          let send = total_size - pf_write_buf_unconfirmed f;
          (if send = 0 then Some (0, self)
           else
             (let (send, res) = (if send > MSG_MAX_SIZE - MSG_HDR_SIZE then (MSG_MAX_SIZE - MSG_HDR_SIZE, - EAGAIN) else (send, 0)) in
              if \<not> kmalloc send then Some (- ENOMEM, self)
              else do {
                (n, bs, f) \<leftarrow> op_read_to_peer ops f send;
                let self = task_file a f self;
                (if n = 0 then Some (- ENOMEM, self)
                 else
                   (case proxyfs_msg_new_takeover_ownership kmalloc MSG_WRITE (proxyfs_file_get_file_ident f) (scast n) bs of
                      None \<Rightarrow> Some (- ENOMEM, self)
                    | Some m \<Rightarrow> do { self \<leftarrow> task_send_msg (Some p) (Some m) self; Some (res, self) }))
              }))
        })
   }"

partial_function (option) send_file_buf ::
  "(u64 \<Rightarrow> bool) \<Rightarrow> 'a proxyfs_file_t_scheme proxyfs_file_ops \<Rightarrow> nat \<Rightarrow> ('s, 'a proxyfs_file_t_scheme, 'z) proxyfs_task_scheme \<Rightarrow>
   ('s, 'a proxyfs_file_t_scheme, 'z) proxyfs_task_scheme option" where
  "send_file_buf kmalloc ops a self = do {
     (res, self) \<leftarrow> proxyfs_task_send_write_buf kmalloc ops a self;
     (if res = - EAGAIN then send_file_buf kmalloc ops a self else Some self)
   }"

fun send_each_buf ::
  "(u64 \<Rightarrow> bool) \<Rightarrow> 'a proxyfs_file_t_scheme proxyfs_file_ops \<Rightarrow> nat list \<Rightarrow> ('s, 'a proxyfs_file_t_scheme, 'z) proxyfs_task_scheme \<Rightarrow>
   ('s, 'a proxyfs_file_t_scheme, 'z) proxyfs_task_scheme option" where
  "send_each_buf kmalloc ops [] self = Some self"
| "send_each_buf kmalloc ops (a # l) self = do { self \<leftarrow> send_file_buf kmalloc ops a self; send_each_buf kmalloc ops l self }"

definition proxyfs_task_send_buffers ::
  "(u64 \<Rightarrow> bool) \<Rightarrow> 'a proxyfs_file_t_scheme proxyfs_file_ops \<Rightarrow> ('s, 'a proxyfs_file_t_scheme, 'z) proxyfs_task_scheme \<Rightarrow>
   ('s, 'a proxyfs_file_t_scheme, 'z) proxyfs_task_scheme option" where
  "proxyfs_task_send_buffers kmalloc ops self = send_each_buf kmalloc ops (pt_files self) self"

text \<open>The first word of the data of a message, wherever its data end.\<close>

definition data_word :: "byte list \<Rightarrow> u32" where
  "data_word data = le_word (take 4 data)"

definition proxyfs_task_handle_msg ::
  "'a proxyfs_file_t_scheme proxyfs_file_ops \<Rightarrow>
   (nat \<Rightarrow> ('s, 'a proxyfs_file_t_scheme, 'z) proxyfs_task_scheme \<Rightarrow> ('s, 'a proxyfs_file_t_scheme, 'z) proxyfs_task_scheme option) \<Rightarrow>
   nat \<Rightarrow> ('s, 'a proxyfs_file_t_scheme, 'z) proxyfs_task_scheme \<Rightarrow> ('s, 'a proxyfs_file_t_scheme, 'z) proxyfs_task_scheme option" where
  "proxyfs_task_handle_msg ops handle_msg peer self = do {
     p \<leftarrow> ps_peers (pt_store self) peer;
     (case proxyfs_peer_get_msg p of
        None \<Rightarrow> Some self
      | Some (h, data) \<Rightarrow>
          (if hd_msg_num h = MSG_WRITE_RESP then
             (case proxyfs_task_find_file self (hd_file_ident h) of
                None \<Rightarrow> Some self
              | Some a \<Rightarrow>
                  (if data_word data = 0 then Some self
                   else do {
                     f \<leftarrow> pt_heap self a;
                     f \<leftarrow> op_submit_read_to_peer ops f (ucast (data_word data));
                     Some (task_file a f self)
                   }))
           else if hd_msg_num h = MSG_WRITE then
             (case proxyfs_task_find_file self (hd_file_ident h) of
                None \<Rightarrow> Some self
              | Some a \<Rightarrow> do {
                  f \<leftarrow> pt_heap self a;
                  (_, f) \<leftarrow> op_write_from_peer ops f data (hd_data_size h);
                  Some (task_file a f self)
                })
           else handle_msg peer self))
   }"

partial_function (option) recv_peer ::
  "(nat \<Rightarrow> ('s, 'f, 'z) proxyfs_task_scheme \<Rightarrow> ('s, 'f, 'z) proxyfs_task_scheme option) \<Rightarrow>
   nat \<Rightarrow> ('s, 'f, 'z) proxyfs_task_scheme \<Rightarrow> ('s, 'f, 'z) proxyfs_task_scheme option" where
  "recv_peer handle a self = do {
     p \<leftarrow> ps_peers (pt_store self) a;
     (recv_res, p) \<leftarrow> proxyfs_peer_real_recv p;
     let self = task_peer a p self;
     (if recv_res = 1 then do {
        self \<leftarrow> handle a self;
        p \<leftarrow> ps_peers (pt_store self) a;
        recv_peer handle a (task_peer a (snd (proxyfs_peer_clear_msg p)) self)
      }
      else if recv_res = - ECONNRESET \<or> recv_res = - ECONNABORTED then Some (task_peer a (proxyfs_peer_set_state PEER_DEAD p) self)
      else Some self)
   }"

fun recv_each ::
  "(nat \<Rightarrow> ('s, 'f, 'z) proxyfs_task_scheme \<Rightarrow> ('s, 'f, 'z) proxyfs_task_scheme option) \<Rightarrow>
   nat list \<Rightarrow> ('s, 'f, 'z) proxyfs_task_scheme \<Rightarrow> ('s, 'f, 'z) proxyfs_task_scheme option" where
  "recv_each handle [] self = Some self"
| "recv_each handle (a # l) self = do { self \<leftarrow> recv_peer handle a self; recv_each handle l self }"

definition proxyfs_task_recv_peers ::
  "'a proxyfs_file_t_scheme proxyfs_file_ops \<Rightarrow>
   (nat \<Rightarrow> ('s, 'a proxyfs_file_t_scheme, 'z) proxyfs_task_scheme \<Rightarrow> ('s, 'a proxyfs_file_t_scheme, 'z) proxyfs_task_scheme option) \<Rightarrow>
   ('s, 'a proxyfs_file_t_scheme, 'z) proxyfs_task_scheme \<Rightarrow> ('s, 'a proxyfs_file_t_scheme, 'z) proxyfs_task_scheme option" where
  "proxyfs_task_recv_peers ops handle_msg self = recv_each (proxyfs_task_handle_msg ops handle_msg) (pt_peers self) self"

fun send_each :: "nat list \<Rightarrow> ('s, 'f, 'z) proxyfs_task_scheme \<Rightarrow> ('s, 'f, 'z) proxyfs_task_scheme option" where
  "send_each [] self = Some self"
| "send_each (a # l) self = do {
     p \<leftarrow> ps_peers (pt_store self) a;
     p \<leftarrow> proxyfs_peer_real_send p;
     send_each l (task_peer a p self)
   }"

definition proxyfs_task_send_peers :: "('s, 'f, 'z) proxyfs_task_scheme \<Rightarrow> ('s, 'f, 'z) proxyfs_task_scheme option" where
  "proxyfs_task_send_peers self = send_each (pt_peers self) self"

text \<open>\<open>dead\<close> is the method of the subclass, \<open>None\<close> where it has none.\<close>

fun bury_each ::
  "(nat \<Rightarrow> ('s, 'f, 'z) proxyfs_task_scheme \<Rightarrow> ('s, 'f, 'z) proxyfs_task_scheme option) option \<Rightarrow>
   nat list \<Rightarrow> ('s, 'f, 'z) proxyfs_task_scheme \<Rightarrow> ('s, 'f, 'z) proxyfs_task_scheme option" where
  "bury_each dead [] self = Some self"
| "bury_each dead (a # l) self = do {
     p \<leftarrow> ps_peers (pt_store self) a;
     self \<leftarrow> (if proxyfs_peer_get_state p = PEER_DEAD then do {
         let self = task_peer a (snd (proxyfs_peer_disconnect p)) (self\<lparr>pt_peers := remove1 a (pt_peers self)\<rparr>);
         self \<leftarrow> (case dead of None \<Rightarrow> Some self | Some h \<Rightarrow> h a self);
         st \<leftarrow> store_peer_put (Some a) (pt_store self);
         Some (self\<lparr>pt_store := st\<rparr>)
       }
       else Some self);
     bury_each dead l self
   }"

definition proxyfs_task_handle_dead_peers ::
  "(nat \<Rightarrow> ('s, 'f, 'z) proxyfs_task_scheme \<Rightarrow> ('s, 'f, 'z) proxyfs_task_scheme option) option \<Rightarrow>
   ('s, 'f, 'z) proxyfs_task_scheme \<Rightarrow> ('s, 'f, 'z) proxyfs_task_scheme option" where
  "proxyfs_task_handle_dead_peers dead self = bury_each dead (pt_peers self) self"

text \<open>\<open>kmalloc\<close> and \<open>vmalloc\<close>: the memory for the peer at address \<open>a\<close> and for its buffer.\<close>

definition proxyfs_task_add_to_peers ::
  "nat \<Rightarrow> 's proxyfs_peer_t option \<Rightarrow> byte list option \<Rightarrow> 's kkc_sock \<Rightarrow> ('s, 'f, 'z) proxyfs_task_scheme \<Rightarrow>
   bool \<times> ('s, 'f, 'z) proxyfs_task_scheme" where
  "proxyfs_task_add_to_peers a kmalloc vmalloc peer_sock self =
     (case proxyfs_peer_new kmalloc vmalloc of
        None \<Rightarrow> (False, self)
      | Some p \<Rightarrow> (True, (task_peer a (p\<lparr>pp_sock := Some peer_sock\<rparr>) self)\<lparr>pt_peers := a # pt_peers self\<rparr>))"

text \<open>
  Releasing a task. \<open>stopped\<close> is what stopping its thread returns, an error when the thread itself releases the task; then
  the peers are not released. \<open>free\<close> is the method of the subclass. A task that has been freed is \<open>None\<close>, and only its peers are left.
\<close>

fun free_peers :: "nat list \<Rightarrow> 's peer_store \<Rightarrow> 's peer_store option" where
  "free_peers [] st = Some st"
| "free_peers (a # l) st = do {
     p \<leftarrow> ps_peers st a;
     st \<leftarrow> store_peer_put (Some a) (st\<lparr>ps_peers := (ps_peers st)(a \<mapsto> snd (proxyfs_peer_disconnect p))\<rparr>);
     free_peers l st
   }"

definition proxyfs_task_free ::
  "int \<Rightarrow> (('s, 'f, 'z) proxyfs_task_scheme \<Rightarrow> ('s, 'f, 'z) proxyfs_task_scheme) option \<Rightarrow> ('s, 'f, 'z) proxyfs_task_scheme \<Rightarrow> 's peer_store option" where
  "proxyfs_task_free stopped free self =
     (if stopped \<noteq> 0 then Some (pt_store self)
      else (let self = (case free of None \<Rightarrow> self | Some m \<Rightarrow> m self) in free_peers (pt_peers self) (pt_store self)))"

definition proxyfs_task_put ::
  "int \<Rightarrow> (('s, 'f, 'z) proxyfs_task_scheme \<Rightarrow> ('s, 'f, 'z) proxyfs_task_scheme) option \<Rightarrow> ('s, 'f, 'z) proxyfs_task_scheme \<Rightarrow>
   (('s, 'f, 'z) proxyfs_task_scheme option \<times> 's peer_store) option" where
  "proxyfs_task_put stopped free task =
     (if pt_ref_count task - 1 = 0 then do { st \<leftarrow> proxyfs_task_free stopped free task; Some (None, st) }
      else Some (Some (task\<lparr>pt_ref_count := pt_ref_count task - 1\<rparr>), pt_store task))"

subsection \<open>The client\<close>

record 's proxyfs_client_task = "('s, proxyfs_proxy_file_t) proxyfs_task" +
  ct_try_open :: "nat list"
  ct_try_open_send :: "nat list"
  ct_try_open_sem :: bool
  ct_files_sem :: bool
  ct_server :: "nat option"

definition proxyfs_client_new :: "'s proxyfs_client_task option \<Rightarrow> 's proxyfs_client_task option" where
  "proxyfs_client_new kmalloc =
     map_option (\<lambda>self. (proxyfs_task_init self)\<lparr>ct_try_open := [], ct_try_open_send := [], ct_try_open_sem := True, ct_files_sem := True\<rparr>) kmalloc"

fun open_each :: "(u64 \<Rightarrow> bool) \<Rightarrow> nat list \<Rightarrow> 's proxyfs_client_task \<Rightarrow> 's proxyfs_client_task option" where
  "open_each kmalloc [] self = Some self"
| "open_each kmalloc (a # l) self = do {
     f \<leftarrow> pt_heap self a;
     self \<leftarrow> task_send_msg (ct_server self) (proxyfs_msg_new kmalloc MSG_OPEN (proxyfs_file_get_file_ident f) 0 []) self;
     open_each kmalloc l (self\<lparr>ct_try_open := remove1 a (ct_try_open self), ct_try_open_send := ct_try_open_send self @ [a]\<rparr>)
   }"

definition proxyfs_client_open_files :: "(u64 \<Rightarrow> bool) \<Rightarrow> 's proxyfs_client_task \<Rightarrow> 's proxyfs_client_task option" where
  "proxyfs_client_open_files kmalloc self =
     (if ct_try_open_sem self then open_each kmalloc (ct_try_open self) self else None)"

definition get_proxy_file_by_id :: "'s proxyfs_client_task \<Rightarrow> u64 \<Rightarrow> nat option" where
  "get_proxy_file_by_id self identifier =
     (case proxyfs_file_find_in_list (pt_heap self) identifier (pt_files self) of
        Some a \<Rightarrow> Some a
      | None \<Rightarrow> proxyfs_file_find_in_list (pt_heap self) identifier (ct_try_open_send self))"

text \<open>A response is stored through the pointer of the waiting caller; there must be one.\<close>

definition store_resp :: "syscall_resp \<Rightarrow> proxyfs_proxy_file_t \<Rightarrow> proxyfs_proxy_file_t option" where
  "store_resp r f = (if pr_syscall_resp f then Some (f\<lparr>pr_msg_resp := Some r, pr_syscall_resp := False\<rparr>) else None)"

definition client_del_file :: "nat \<Rightarrow> 's proxyfs_client_task \<Rightarrow> 's proxyfs_client_task" where
  "client_del_file a self = self\<lparr>pt_files := remove1 a (pt_files self), ct_try_open_send := remove1 a (ct_try_open_send self)\<rparr>"

definition client_answer :: "u64 \<Rightarrow> u64 \<Rightarrow> 's proxyfs_client_task \<Rightarrow> (nat option \<times> 's proxyfs_client_task) option" where
  "client_answer ident num self =
     (case get_proxy_file_by_id self ident of
        None \<Rightarrow> Some (None, self)
      | Some a \<Rightarrow> do {
          f \<leftarrow> pt_heap self a;
          f \<leftarrow> store_resp (RespCode num) f;
          Some (Some a, task_file a (proxyfs_file_unset_status PROXYFS_FILE_IN_SYSCALL f) self)
        })"

definition proxyfs_client_handle_msg :: "(u64 \<Rightarrow> bool) \<Rightarrow> nat \<Rightarrow> 's proxyfs_client_task \<Rightarrow> 's proxyfs_client_task option" where
  "proxyfs_client_handle_msg kmalloc peer self = do {
     p \<leftarrow> ps_peers (pt_store self) peer;
     (h, data) \<leftarrow> proxyfs_peer_get_msg p;
     let ident = hd_file_ident h; num = hd_msg_num h
     in if num = MSG_OPEN_RESP_OK then
        (case proxyfs_file_find_in_list (pt_heap self) ident (ct_try_open_send self) of
           None \<Rightarrow> Some self
         | Some a \<Rightarrow> do {
             f \<leftarrow> pt_heap self a;
             let self = self\<lparr>ct_try_open_send := remove1 a (ct_try_open_send self), pt_files := pt_files self @ [a]\<rparr>;
             let f = (if data_word data = PROXYFS_FILE_PIPE then proxyfs_pipe_proxy_file_from_proxy_file f
                      else proxyfs_generic_proxy_file_from_proxy_file f);
             (f, st) \<leftarrow> proxyfs_file_set_peer (Some peer) f (pt_store self);
             Some (task_file a (proxyfs_file_set_status PROXYFS_FILE_OPENED f) (self\<lparr>pt_store := st\<rparr>))
           })
      else if num = MSG_OPEN_RESP_FAILED then
        (case proxyfs_file_find_in_list (pt_heap self) ident (ct_try_open_send self) of
           None \<Rightarrow> Some self
         | Some a \<Rightarrow> do {
             f \<leftarrow> pt_heap self a;
             Some (task_file a (proxyfs_file_set_status PROXYFS_FILE_DONT_EXISTS f) (client_del_file a self))
           })
      else if num = MSG_IOCTL_RESP then
        (case get_proxy_file_by_id self ident of
           None \<Rightarrow> Some self
         | Some a \<Rightarrow> do {
             f \<leftarrow> pt_heap self a;
             f \<leftarrow> (if \<not> pr_syscall_resp f then None
                  else if kmalloc (scast (proxyfs_msg_get_size h)) then store_resp (RespMsg h data) f
                  else Some (f\<lparr>pr_msg_resp := None\<rparr>));
             Some (task_file a (proxyfs_file_unset_status PROXYFS_FILE_IN_SYSCALL f) self)
           })
      else if num = MSG_FSYNC_RESP \<or> num = MSG_READ_REQUEST_RESP then do { (_, self) \<leftarrow> client_answer ident num self; Some self }
      else if num = MSG_CLOSE_RESP then do {
        (a, self) \<leftarrow> client_answer ident num self;
        Some (case a of None \<Rightarrow> self | Some a \<Rightarrow> client_del_file a self)
      }
      else Some self
   }"

subsection \<open>Waiting\<close>

definition wait_event :: "('st \<Rightarrow> bool) \<Rightarrow> ('st \<Rightarrow> 'st) \<Rightarrow> 'st \<Rightarrow> 'st option" where
  "wait_event cond woken st = (if cond st then Some st else if cond (woken st) then Some (woken st) else None)"

definition wait_event_interruptible :: "('st \<Rightarrow> bool) \<Rightarrow> ('st \<Rightarrow> bool \<times> 'st) \<Rightarrow> 'st \<Rightarrow> (int \<times> 'st) option" where
  "wait_event_interruptible cond woken st =
     (if cond st then Some (0, st)
      else (case woken st of (signalled, st) \<Rightarrow> if cond st then Some (0, st) else if signalled then Some (- ERESTARTSYS, st) else None))"

definition file_status :: "nat \<Rightarrow> u32 \<Rightarrow> ('s, 'a proxyfs_file_t_scheme, 'z) proxyfs_task_scheme \<Rightarrow> u32" where
  "file_status a status self = (case pt_heap self a of None \<Rightarrow> 0 | Some f \<Rightarrow> proxyfs_file_get_status f status)"

definition file_connected :: "nat \<Rightarrow> ('s, 'a proxyfs_file_t_scheme, 'z) proxyfs_task_scheme \<Rightarrow> bool option" where
  "file_connected a self = do {
     f \<leftarrow> pt_heap self a;
     p \<leftarrow> pf_peer f;
     x \<leftarrow> ps_peers (pt_store self) p;
     Some (proxyfs_peer_get_state x = PEER_CONNECTED)
   }"

text \<open>What the kernel and the other threads contribute to a call of a client.\<close>

record 's client_env =
  ce_kmalloc :: "u64 \<Rightarrow> bool"
  ce_access :: "u64 \<Rightarrow> u64 \<Rightarrow> bool"
  ce_cfu :: "u64 \<Rightarrow> u32 \<Rightarrow> byte list \<times> u64"
  ce_ctu :: "u64 \<Rightarrow> byte list \<Rightarrow> u64"
  ce_woken :: "'s proxyfs_client_task \<Rightarrow> 's proxyfs_client_task"
  ce_woken_sig :: "'s proxyfs_client_task \<Rightarrow> bool \<times> 's proxyfs_client_task"
  ce_exiting :: bool

definition proxyfs_proxy_file_wait_interruptible ::
  "'s client_env \<Rightarrow> nat \<Rightarrow> u32 \<Rightarrow> 's proxyfs_client_task \<Rightarrow> (u32 \<times> 's proxyfs_client_task) option" where
  "proxyfs_proxy_file_wait_interruptible E a status self = do {
     (r, self) \<leftarrow> wait_event_interruptible (\<lambda>self. file_status a status self \<noteq> 0 \<or> file_connected a self \<noteq> Some True) (ce_woken_sig E) self;
     (if r = - ERESTARTSYS then Some (0, self)
      else do {
        c \<leftarrow> file_connected a self;
        (if \<not> c then Some (PROXYFS_FILE_CLOSED, self)
         else
           (let rtn = file_status a status self in
            if rtn AND status \<noteq> 0 then Some (rtn, self) else None))
      })
   }"

definition proxyfs_proxy_file_wait_for_space_interruptible ::
  "'s client_env \<Rightarrow> nat \<Rightarrow> u32 \<Rightarrow> 's proxyfs_client_task \<Rightarrow> (u32 \<times> 's proxyfs_client_task) option" where
  "proxyfs_proxy_file_wait_for_space_interruptible E a space self = do {
     (r, self) \<leftarrow> wait_event_interruptible (\<lambda>self. case pt_heap self a of None \<Rightarrow> True | Some f \<Rightarrow> circ_buf_free_space (pf_write_buf f) \<ge> space) (ce_woken_sig E) self;
     f \<leftarrow> pt_heap self a;
     Some (if r = - ERESTARTSYS then 0 else proxyfs_file_get_status f 0xffffffff, self)
   }"

subsection \<open>Calls of a client\<close>

definition proxyfs_client_do_syscall ::
  "'s client_env \<Rightarrow> nat \<Rightarrow> proxyfs_msg option \<Rightarrow> 's proxyfs_client_task \<Rightarrow> (syscall_resp option \<times> 's proxyfs_client_task) option" where
  "proxyfs_client_do_syscall E a msg self = do {
     f \<leftarrow> pt_heap self a;
     let peer = pf_peer f;
     let self = task_file a (proxyfs_file_set_status PROXYFS_FILE_IN_SYSCALL (f\<lparr>pr_syscall_resp := True, pr_msg_resp := None\<rparr>)) self;
     self \<leftarrow> task_send_msg peer msg self;
     let self = proxyfs_task_notify_data_ready self;
     p \<leftarrow> peer;
     self \<leftarrow> wait_event (\<lambda>self. file_status a PROXYFS_FILE_IN_SYSCALL self = 0 \<or>
        map_option proxyfs_peer_get_state (ps_peers (pt_store self) p) \<noteq> Some PEER_CONNECTED) (ce_woken E) self;
     f \<leftarrow> pt_heap self a;
     Some (pr_msg_resp f, self)
   }"

definition proxyfs_client_send_message :: "nat \<Rightarrow> proxyfs_msg option \<Rightarrow> 's proxyfs_client_task \<Rightarrow> 's proxyfs_client_task option" where
  "proxyfs_client_send_message a msg self = do { f \<leftarrow> pt_heap self a; task_send_msg (pf_peer f) msg self }"

definition proxyfs_pipe_proxy_file_read_user ::
  "'s client_env \<Rightarrow> nat \<Rightarrow> u64 \<Rightarrow> u64 \<Rightarrow> 's proxyfs_client_task \<Rightarrow> (i32 \<times> byte list \<times> 's proxyfs_client_task) option" where
  "proxyfs_pipe_proxy_file_read_user E a buf count self =
     (if \<not> ce_access E buf count then Some (of_int (- EFAULT), [], self)
      else do {
        f \<leftarrow> pt_heap self a;
        (ok, self) \<leftarrow> (if proxyfs_file_was_read_requested f then Some (True, self)
          else
            (case proxyfs_msg_new (ce_kmalloc E) MSG_READ_REQUEST (proxyfs_file_get_file_ident f) 0 [] of
               None \<Rightarrow> Some (True, self)
             | Some m \<Rightarrow> do {
                 (resp, self) \<leftarrow> proxyfs_client_do_syscall E a (Some m) self;
                 f \<leftarrow> pt_heap self a;
                 Some (if resp \<noteq> Some (RespCode MSG_READ_REQUEST_RESP) then (False, self)
                       else (True, task_file a (proxyfs_file_mark_read_requested f) self))
               }));
        (if \<not> ok then Some (of_int (- EINTR), [], self)
         else do {
           f \<leftarrow> pt_heap self a;
           ((n, bs), f) \<leftarrow> with_read_sem (\<lambda>f. case circ_buf_read_user (ce_ctu E) (pf_read_buf f) buf (ucast count) of (b, bs, n) \<Rightarrow>
             ((n, bs), f\<lparr>pf_read_buf := b\<rparr>)) f;
           Some (n, bs, task_file a f self)
         })
      })"

text \<open>The virtual calls; without a class they return 0.\<close>

definition proxyfs_proxy_file_write_user ::
  "'s client_env \<Rightarrow> nat \<Rightarrow> u64 \<Rightarrow> u64 \<Rightarrow> 's proxyfs_client_task \<Rightarrow> (i32 \<times> 's proxyfs_client_task) option" where
  "proxyfs_proxy_file_write_user E a buf count self = do {
     f \<leftarrow> pt_heap self a;
     (n, f) \<leftarrow> (case pr_ops f of
          None \<Rightarrow> Some (0, f)
        | Some Generic_proxy_file \<Rightarrow> proxyfs_generic_proxy_file_write_user (ce_access E) (ce_cfu E) f buf count
        | Some Pipe_proxy_file \<Rightarrow> proxyfs_pipe_proxy_file_write_user (ce_access E) (ce_cfu E) f buf count);
     Some (n, task_file a f self)
   }"

definition virtual_proxyfs_proxy_file_read_user ::
  "'s client_env \<Rightarrow> nat \<Rightarrow> u64 \<Rightarrow> u64 \<Rightarrow> 's proxyfs_client_task \<Rightarrow> (i32 \<times> byte list \<times> 's proxyfs_client_task) option" where
  "virtual_proxyfs_proxy_file_read_user E a buf count self = do {
     f \<leftarrow> pt_heap self a;
     (case pr_ops f of
        None \<Rightarrow> Some (0, [], self)
      | Some Generic_proxy_file \<Rightarrow> do {
          (n, bs, f) \<leftarrow> proxyfs_generic_proxy_file_read_user (ce_access E) (ce_ctu E) f buf count;
          Some (n, bs, task_file a f self)
        }
      | Some Pipe_proxy_file \<Rightarrow> proxyfs_pipe_proxy_file_read_user E a buf count self)
   }"

definition proxyfs_proxy_file_read_user ::
  "'s client_env \<Rightarrow> nat \<Rightarrow> u64 \<Rightarrow> u64 \<Rightarrow> 's proxyfs_client_task \<Rightarrow> (i32 \<times> byte list \<times> 's proxyfs_client_task) option" where
  "proxyfs_proxy_file_read_user E a buf count self = do {
     (read_count, bs, self) \<leftarrow> virtual_proxyfs_proxy_file_read_user E a buf count self;
     f \<leftarrow> pt_heap self a;
     self \<leftarrow> proxyfs_client_send_message a
       (proxyfs_msg_compose_new (ce_kmalloc E) MSG_WRITE_RESP (proxyfs_file_get_file_ident f) [(4, le_bytes 4 read_count), (0, [])]) self;
     Some (read_count, bs, self)
   }"

definition proxyfs_proxy_file_close :: "'s client_env \<Rightarrow> nat \<Rightarrow> 's proxyfs_client_task \<Rightarrow> (int \<times> 's proxyfs_client_task) option" where
  "proxyfs_proxy_file_close E a self = do {
     (st, self) \<leftarrow> proxyfs_proxy_file_wait_interruptible E a PROXYFS_FILE_ALL_WRITTEN self;
     (if st = 0 then Some (- ERESTARTSYS, self)
      else do {
        f \<leftarrow> pt_heap self a;
        (rtn, self) \<leftarrow>
          (case proxyfs_msg_new (ce_kmalloc E) MSG_CLOSE (proxyfs_file_get_file_ident f) 4 (le_bytes 4 (if ce_exiting E then 4 else 0 :: u32)) of
             None \<Rightarrow> Some (- ERESTARTSYS, self)
           | Some m \<Rightarrow> do {
               (resp, self) \<leftarrow> proxyfs_client_do_syscall E a (Some m) self;
               Some (if resp = Some (RespCode MSG_CLOSE_RESP) then 0 else - ERESTARTSYS, self)
             });
        (if rtn = 0 then Some (0, self)
         else do { c \<leftarrow> file_connected a self; Some (if \<not> c then 0 else rtn, self) })
      })
   }"

definition proxyfs_proxy_file_fsync :: "'s client_env \<Rightarrow> nat \<Rightarrow> 's proxyfs_client_task \<Rightarrow> (int \<times> 's proxyfs_client_task) option" where
  "proxyfs_proxy_file_fsync E a self = do {
     (st, self) \<leftarrow> proxyfs_proxy_file_wait_interruptible E a PROXYFS_FILE_ALL_WRITTEN self;
     (if st = 0 then Some (- ERESTARTSYS, self)
      else if st = PROXYFS_FILE_CLOSED then Some (- EFAULT, self)
      else do {
        f \<leftarrow> pt_heap self a;
        (case proxyfs_msg_new (ce_kmalloc E) MSG_FSYNC (proxyfs_file_get_file_ident f) 0 [] of
           None \<Rightarrow> Some (- ERESTARTSYS, self)
         | Some m \<Rightarrow> do {
             (resp, self) \<leftarrow> proxyfs_client_do_syscall E a (Some m) self;
             Some (if resp = Some (RespCode MSG_FSYNC_RESP) then 0 else - ERESTARTSYS, self)
           })
      })
   }"

text \<open>Opening; \<open>mem\<close> is the address and the memory of the new file.\<close>

definition proxyfs_client_open_proxy ::
  "'s client_env \<Rightarrow> (nat \<times> proxyfs_proxy_file_t) option \<Rightarrow> buf_alloc \<Rightarrow> buf_alloc \<Rightarrow> u64 \<Rightarrow> 's proxyfs_client_task \<Rightarrow>
   ((int + nat) \<times> 's proxyfs_client_task) option" where
  "proxyfs_client_open_proxy E mem alloc_w alloc_r inode_num self =
     (if \<not> ct_files_sem self then None
      else if get_proxy_file_by_id self inode_num \<noteq> None then Some (Inl (- EACCES), self)
      else
        (case mem of
           None \<Rightarrow> Some (Inl (- ENOMEM), self)
         | Some (a, f) \<Rightarrow>
             (let f = proxyfs_file_set_file_ident inode_num (snd (proxyfs_proxy_file_init alloc_w alloc_r f)) in
              if \<not> ct_try_open_sem self then None
              else do {
                let self = proxyfs_task_notify_data_ready ((task_file a f self)\<lparr>ct_try_open := ct_try_open self @ [a]\<rparr>);
                self \<leftarrow> wait_event (\<lambda>self. file_status a (PROXYFS_FILE_OPENED OR PROXYFS_FILE_DONT_EXISTS) self \<noteq> 0) (ce_woken E) self;
                (if file_status a PROXYFS_FILE_OPENED self \<noteq> 0 then Some (Inr a, self)
                 else do {
                   f \<leftarrow> pt_heap self a;
                   st \<leftarrow> proxyfs_file_destroy f (pt_store self);
                   Some (Inl (- ENOENT), self\<lparr>pt_store := st, pt_heap := (pt_heap self)(a := None)\<rparr>)
                 })
              })))"

subsection \<open>The client's thread\<close>

fun forget_each :: "nat \<Rightarrow> nat list \<Rightarrow> 's proxyfs_client_task \<Rightarrow> 's proxyfs_client_task option" where
  "forget_each peer [] self = Some self"
| "forget_each peer (a # l) self = do {
     f \<leftarrow> pt_heap self a;
     forget_each peer l (if pf_peer f = Some peer then self\<lparr>pt_files := remove1 a (pt_files self)\<rparr> else self)
   }"

definition proxyfs_client_handle_dead_peer :: "nat \<Rightarrow> 's proxyfs_client_task \<Rightarrow> 's proxyfs_client_task option" where
  "proxyfs_client_handle_dead_peer peer self = do {
     self \<leftarrow> forget_each peer (pt_files self) self;
     Some (if ct_server self = Some peer then self\<lparr>ct_server := None\<rparr> else self)
   }"

definition client_round :: "(u64 \<Rightarrow> bool) \<Rightarrow> 's proxyfs_client_task \<Rightarrow> 's proxyfs_client_task option" where
  "client_round kmalloc self = do {
     let self = proxyfs_task_wait_for_data_ready self;
     (if \<not> ct_files_sem self then None else Some ());
     self \<leftarrow> proxyfs_client_open_files kmalloc self;
     self \<leftarrow> proxyfs_task_send_buffers kmalloc proxy_file_ops self;
     s \<leftarrow> ct_server self;
     p \<leftarrow> ps_peers (pt_store self) s;
     p \<leftarrow> proxyfs_peer_real_send p;
     self \<leftarrow> proxyfs_task_recv_peers proxy_file_ops (proxyfs_client_handle_msg kmalloc) (task_peer s p self);
     proxyfs_task_handle_dead_peers (Some proxyfs_client_handle_dead_peer) self
   }"

text \<open>\<open>stop k\<close>: whether the thread is asked to stop before round \<open>k\<close>.\<close>

partial_function (option) proxyfs_client_loop ::
  "(u64 \<Rightarrow> bool) \<Rightarrow> (nat \<Rightarrow> bool) \<Rightarrow> nat \<Rightarrow> 's proxyfs_client_task \<Rightarrow> 's proxyfs_client_task option" where
  "proxyfs_client_loop kmalloc stop k self =
     (if stop k then Some self
      else do {
        self \<leftarrow> client_round kmalloc self;
        (if ct_server self = None then Some self else proxyfs_client_loop kmalloc stop (Suc k) self)
      })"

text \<open>
  The start of the thread: what its creator is given, and the references to the architecture. \<open>mem\<close> is the memory of the task,
  then the address and the memory of the peer and of its buffer; \<open>wait_err\<close> is what entering the wait queue of the socket returns.
\<close>

definition proxyfs_client_thread ::
  "'s net \<Rightarrow> string \<Rightarrow> 's proxyfs_client_task option \<times> nat \<times> 's proxyfs_peer_t option \<times> byte list option \<Rightarrow> int \<Rightarrow> int \<Rightarrow>
   's proxyfs_client_task option \<times> int" where
  "proxyfs_client_thread net addr_str mem wait_err refs =
     (case mem of (kmalloc, a, pmem, pbuf) \<Rightarrow>
        case proxyfs_client_new kmalloc of
          None \<Rightarrow> (None, refs)
        | Some self \<Rightarrow>
            (case proxyfs_peer_new pmem pbuf of
               None \<Rightarrow> (None, refs)
             | Some server \<Rightarrow>
                 (case proxyfs_peer_connect net addr_str refs server of (err, server, refs) \<Rightarrow>
                    if err \<noteq> 0 then (None, snd (proxyfs_peer_put server refs))
                    else if wait_err \<noteq> 0 then (None, snd (proxyfs_peer_put (snd (proxyfs_peer_disconnect server)) refs))
                    else (Some ((task_peer a server self)\<lparr>ct_server := Some a, pt_peers := [a]\<rparr>), refs))))"

end
