(* ===== verification/Proxyfs_Server.thy ===== *)
theory Proxyfs_Server
  imports Proxyfs_Task
begin

text \<open>
  The server of ProxyFS (\<^verbatim>\<open>src/proxyfs/proxyfs_server.c\<close>, \<^verbatim>\<open>proxyfs_real_file.c\<close>): it takes
  files over from processes that migrate, answers the messages of clients, and moves data
  between the buffers of its real files and the physical files.
\<close>

subsection \<open>Commands of \<^verbatim>\<open>ioctl\<close>\<close>

text \<open>
  The table of commands (\<^verbatim>\<open>proxyfs_ioctl_table.c\<close>): pairs of a command and its description. The numbers of
  the commands are those of the kernel's headers \<^verbatim>\<open>asm-generic/ioctls.h\<close> and \<^verbatim>\<open>sockios.h\<close>; \<open>sz\<close> are the sizes of the
  kernel's types. The search (\<^verbatim>\<open>proxyfs_ioctl.h\<close>) keeps \<open>low \<le> high\<close>, so its condition \<^verbatim>\<open>low != high\<close> is \<open>low < high\<close>.
\<close>

abbreviation (input) IOCTL_READ :: u64 where "IOCTL_READ \<equiv> 0x40000000"
abbreviation (input) IOCTL_WRITE :: u64 where "IOCTL_WRITE \<equiv> 0x80000000"
abbreviation (input) IOCTL_INT :: u64 where "IOCTL_INT \<equiv> 0x30000004"
abbreviation (input) IOCTL_VOID :: u64 where "IOCTL_VOID \<equiv> 0x30000000"

definition IOCTL_WILL_WRITE :: "u64 \<Rightarrow> bool" where "IOCTL_WILL_WRITE arg \<longleftrightarrow> arg AND IOCTL_WRITE \<noteq> 0"
definition IOCTL_WILL_READ :: "u64 \<Rightarrow> bool" where "IOCTL_WILL_READ arg \<longleftrightarrow> arg AND IOCTL_READ \<noteq> 0"
definition IOCTL_ARG_SIZE :: "u64 \<Rightarrow> u64" where "IOCTL_ARG_SIZE arg = arg AND 0x0FFFffff"

definition ioctl_table :: "(string \<Rightarrow> u64) \<Rightarrow> (u64 \<times> u64) list" where
  "ioctl_table sz =
     [(0x8901, sz ''int'' OR IOCTL_WRITE), (0x8902, sz ''int'' OR IOCTL_WRITE), (0x8903, sz ''int'' OR IOCTL_READ), (0x8904, sz ''int'' OR IOCTL_READ),
      (0x8905, sz ''int'' OR IOCTL_READ), (0x8906, sz ''struct timeval'' OR IOCTL_READ), (0x5401, sz ''struct termios'' OR IOCTL_READ),
      (0x5402, sz ''struct termios'' OR IOCTL_WRITE), (0x5403, sz ''struct termios'' OR IOCTL_WRITE), (0x5404, sz ''struct termios'' OR IOCTL_WRITE),
      (0x5405, sz ''struct termio'' OR IOCTL_READ), (0x5406, sz ''struct termio'' OR IOCTL_WRITE), (0x5407, sz ''struct termio'' OR IOCTL_WRITE),
      (0x5408, sz ''struct termio'' OR IOCTL_WRITE), (0x5409, IOCTL_INT), (0x540A, IOCTL_INT), (0x540B, IOCTL_INT), (0x540C, IOCTL_VOID),
      (0x540D, IOCTL_VOID), (0x540E, IOCTL_INT), (0x540F, sz ''pid_t'' OR IOCTL_READ), (0x5410, sz ''pid_t'' OR IOCTL_WRITE),
      (0x5411, sz ''int'' OR IOCTL_READ), (0x5412, sz ''char *'' OR IOCTL_WRITE), (0x5413, sz ''struct winsize'' OR IOCTL_READ),
      (0x5414, sz ''struct winsize'' OR IOCTL_WRITE), (0x5415, sz ''int'' OR IOCTL_READ), (0x5416, sz ''int'' OR IOCTL_WRITE),
      (0x5417, sz ''int'' OR IOCTL_WRITE), (0x5418, sz ''int'' OR IOCTL_WRITE), (0x5419, sz ''int'' OR IOCTL_READ),
      (0x541A, sz ''int'' OR IOCTL_WRITE), (0x541B, sz ''int'' OR IOCTL_READ), (0x541B, sz ''int'' OR IOCTL_READ),
      (0x541C, sz ''char'' OR IOCTL_WRITE), (0x541D, IOCTL_VOID), (0x541E, sz ''struct serial_struct'' OR IOCTL_READ),
      (0x541F, sz ''struct serial_struct'' OR IOCTL_WRITE), (0x5420, sz ''int'' OR IOCTL_WRITE), (0x5421, sz ''int'' OR IOCTL_WRITE),
      (0x5422, IOCTL_VOID), (0x5423, sz ''int'' OR IOCTL_WRITE), (0x5424, sz ''int'' OR IOCTL_READ), (0x5425, IOCTL_INT), (0x5450, IOCTL_VOID),
      (0x5451, IOCTL_VOID), (0x5452, sz ''int'' OR IOCTL_WRITE), (0x5453, IOCTL_VOID), (0x5454, sz ''int'' OR IOCTL_READ),
      (0x5455, sz ''int'' OR IOCTL_WRITE), (0x5456, sz ''struct termios'' OR IOCTL_READ), (0x5457, sz ''struct termios'' OR IOCTL_WRITE),
      (0x5459, sz ''int'' OR IOCTL_READ), (0x545A, sz ''struct serial_multiport_struct'' OR IOCTL_READ),
      (0x545B, sz ''struct serial_multiport_struct'' OR IOCTL_WRITE)]"

function ioctl_search :: "(u64 \<times> u64) list \<Rightarrow> u64 \<Rightarrow> nat \<Rightarrow> nat \<Rightarrow> u64" where
  "ioctl_search table cmd low high =
     (if low < high then
        (let mid = low + (high - low) div 2 in
         if cmd < fst (table ! mid) then ioctl_search table cmd low mid
         else if fst (table ! mid) < cmd then ioctl_search table cmd (mid + 1) high
         else snd (table ! mid))
      else if cmd = fst (table ! low) then snd (table ! low) else 0)"
  by pat_completeness auto
termination by (relation "measure (\<lambda>(table, cmd, low, high). high - low)") auto

definition ioctl_get_info :: "(u64 \<times> u64) list \<Rightarrow> i32 \<Rightarrow> u64" where
  "ioctl_get_info table cmd = ioctl_search table (scast cmd) 0 (length table - 1)"

declare ioctl_search.simps [simp del]

subsection \<open>State\<close>

record ('s, 'k) proxyfs_server = "('s, proxyfs_pipe_real_file) proxyfs_task" +
  sv_files_sem :: bool
  sv_server_sock :: "'s kkc_sock"
  sv_phys :: "nat \<rightharpoonup> 'k kfile"
  sv_ident :: i32

definition fput :: "nat \<Rightarrow> ('s, 'k) proxyfs_server \<Rightarrow> ('s, 'k) proxyfs_server option" where
  "fput x self = do {
     F \<leftarrow> sv_phys self x;
     Some (self\<lparr>sv_phys := (sv_phys self)(x := if f_count F = 1 then None else Some (F\<lparr>f_count := f_count F - 1\<rparr>))\<rparr>)
   }"

definition get_file :: "nat \<Rightarrow> ('s, 'k) proxyfs_server \<Rightarrow> ('s, 'k) proxyfs_server option" where
  "get_file x self = do {
     F \<leftarrow> sv_phys self x;
     Some (self\<lparr>sv_phys := (sv_phys self)(x \<mapsto> F\<lparr>f_count := f_count F + 1\<rparr>)\<rparr>)
   }"

definition server_store :: "'s peer_store \<Rightarrow> ('s, 'k) proxyfs_server \<Rightarrow> ('s, 'k) proxyfs_server" where
  "server_store st self = self\<lparr>pt_store := st\<rparr>"

subsection \<open>Requests on a real file\<close>

definition real_file_type :: "real_file_class \<Rightarrow> u32" where
  "real_file_type c = (case c of Tty_real_file \<Rightarrow> PROXYFS_FILE_TTY | Generic_real_file \<Rightarrow> PROXYFS_FILE_GENERIC | Pipe_real_file \<Rightarrow> PROXYFS_FILE_PIPE)"

text \<open>The method of the class: only the generic one sets the peer itself.\<close>

definition real_file_class_open ::
  "(u64 \<Rightarrow> bool) \<Rightarrow> real_file_class \<Rightarrow> nat \<Rightarrow> nat \<Rightarrow> ('s, 'k) proxyfs_server \<Rightarrow> (int \<times> ('s, 'k) proxyfs_server) option" where
  "real_file_class_open kmalloc c a peer self = do {
     f \<leftarrow> pt_heap self a;
     (case proxyfs_msg_new kmalloc MSG_OPEN_RESP_OK (proxyfs_file_get_file_ident f) 4 (le_bytes 4 (real_file_type c)) of
        None \<Rightarrow> Some (- 1, self)
      | Some m \<Rightarrow> do {
          self \<leftarrow> task_send_msg (Some peer) (Some m) self;
          (if c = Generic_real_file then do {
             (f, st) \<leftarrow> proxyfs_file_set_peer (Some peer) f (pt_store self);
             Some (0, task_file a f (server_store st self))
           }
           else Some (0, self))
        })
   }"

definition proxyfs_real_file_open :: "(u64 \<Rightarrow> bool) \<Rightarrow> nat \<Rightarrow> nat \<Rightarrow> ('s, 'k) proxyfs_server \<Rightarrow> (int \<times> ('s, 'k) proxyfs_server) option" where
  "proxyfs_real_file_open kmalloc a peer self = do {
     f \<leftarrow> pt_heap self a;
     (case rl_ops f of
        None \<Rightarrow> Some (- EINVAL, self)
      | Some c \<Rightarrow> do {
          (res, self) \<leftarrow> real_file_class_open kmalloc c a peer self;
          (if res = 0 then do {
             f \<leftarrow> pt_heap self a;
             (f, st) \<leftarrow> proxyfs_file_set_peer (Some peer) f (pt_store self);
             Some (0, task_file a f (server_store st self))
           }
           else Some (res, self))
        })
   }"

definition proxyfs_real_file_close :: "(u64 \<Rightarrow> bool) \<Rightarrow> nat \<Rightarrow> nat \<Rightarrow> ('s, 'k) proxyfs_server \<Rightarrow> (int \<times> ('s, 'k) proxyfs_server) option" where
  "proxyfs_real_file_close kmalloc a peer self = do {
     f \<leftarrow> pt_heap self a;
     (if pf_peer f = Some peer then
        (case proxyfs_msg_new kmalloc MSG_CLOSE_RESP (proxyfs_file_get_file_ident f) 0 [] of
           None \<Rightarrow> Some (- ENOMEM, self)
         | Some m \<Rightarrow> do {
             self \<leftarrow> task_send_msg (Some peer) (Some m) self;
             (f, st) \<leftarrow> proxyfs_file_set_peer None f (pt_store self);
             Some (0, task_file a (f\<lparr>pf_write_buf_unconfirmed := 0\<rparr>) (server_store st self))
           })
      else Some (- 1, self))
   }"

definition proxyfs_real_file_fsync :: "(u64 \<Rightarrow> bool) \<Rightarrow> nat \<Rightarrow> nat \<Rightarrow> ('s, 'k) proxyfs_server \<Rightarrow> (int \<times> ('s, 'k) proxyfs_server) option" where
  "proxyfs_real_file_fsync kmalloc a peer self = do {
     f \<leftarrow> pt_heap self a;
     (if pf_peer f = Some peer then do {
        F \<leftarrow> sv_phys self (rl_file f);
        let (rtn, k) = v_fsync (f_op F) (f_state F);
        let self = self\<lparr>sv_phys := (sv_phys self)(rl_file f \<mapsto> F\<lparr>f_state := k\<rparr>)\<rparr>;
        (case proxyfs_msg_new kmalloc MSG_FSYNC_RESP (proxyfs_file_get_file_ident f) 0 [] of
           None \<Rightarrow> Some (- ENOMEM, self)
         | Some m \<Rightarrow> do { self \<leftarrow> task_send_msg (Some peer) (Some m) self; Some (rtn, self) })
      }
      else Some (- 1, self))
   }"

definition proxyfs_real_file_mark_read_request ::
  "(u64 \<Rightarrow> bool) \<Rightarrow> nat \<Rightarrow> nat \<Rightarrow> ('s, 'k) proxyfs_server \<Rightarrow> (int \<times> ('s, 'k) proxyfs_server) option" where
  "proxyfs_real_file_mark_read_request kmalloc a peer self = do {
     f \<leftarrow> pt_heap self a;
     (case proxyfs_msg_new kmalloc MSG_READ_REQUEST_RESP (proxyfs_file_get_file_ident f) 0 [] of
        None \<Rightarrow> Some (- ENOMEM, self)
      | Some m \<Rightarrow> do {
          self \<leftarrow> task_send_msg (Some peer) (Some m) (task_file a (proxyfs_file_mark_read_requested f) self);
          Some (0, self)
        })
   }"

subsection \<open>Messages\<close>

text \<open>\<open>ve_buffer n\<close>: the memory a request for \<open>n\<close> bytes gives, with whatever it contains.\<close>

record server_env =
  ve_kmalloc :: "u64 \<Rightarrow> bool"
  ve_buffer :: "u64 \<Rightarrow> byte list option"
  ve_ioctls :: "(u64 \<times> u64) list"

definition server_ioctl :: "server_env \<Rightarrow> nat \<Rightarrow> nat \<Rightarrow> byte list \<Rightarrow> ('s, 'k) proxyfs_server \<Rightarrow> ('s, 'k) proxyfs_server option" where
  "server_ioctl V a peer data self = do {
     f \<leftarrow> pt_heap self a;
     let info = ioctl_get_info (ve_ioctls V) (data_word data);
     (case ve_buffer V (IOCTL_ARG_SIZE info) of
        None \<Rightarrow> Some self
      | Some buf \<Rightarrow> do {
          F \<leftarrow> sv_phys self (rl_file f);
          let (result, buf, F) = proxyfs_real_file_do_ioctl F (data_word data) buf;
          let self = self\<lparr>sv_phys := (sv_phys self)(rl_file f \<mapsto> F)\<rparr>;
          let res = (4, le_bytes 4 (of_int result :: u32));
          let msg = proxyfs_msg_compose_new (ve_kmalloc V) MSG_IOCTL_RESP (proxyfs_file_get_file_ident f)
             (if IOCTL_WILL_READ info then [res, (ucast (IOCTL_ARG_SIZE info), buf), (0, [])] else [res, (0, [])]);
          (case msg of None \<Rightarrow> Some self | Some m \<Rightarrow> task_send_msg (Some peer) (Some m) self)
        })
   }"

definition proxyfs_server_handle_msg :: "server_env \<Rightarrow> nat \<Rightarrow> ('s, 'k) proxyfs_server \<Rightarrow> ('s, 'k) proxyfs_server option" where
  "proxyfs_server_handle_msg V peer self = do {
     p \<leftarrow> ps_peers (pt_store self) peer;
     (h, data) \<leftarrow> proxyfs_peer_get_msg p;
     let num = hd_msg_num h; ident = hd_file_ident h; real_file = proxyfs_task_find_file self ident;
         reply = (\<lambda>r. task_send_msg (Some peer) (proxyfs_msg_new (ve_kmalloc V) r ident 0 []) self)
     in if num = MSG_OPEN then
          (case real_file of
             Some a \<Rightarrow> do { (_, self) \<leftarrow> proxyfs_real_file_open (ve_kmalloc V) a peer self; Some self }
           | None \<Rightarrow> reply MSG_OPEN_RESP_FAILED)
        else if num = MSG_IOCTL then
          (case real_file of Some a \<Rightarrow> server_ioctl V a peer data self | None \<Rightarrow> Some self)
        else if num = MSG_CLOSE then
          (case real_file of
             Some a \<Rightarrow> do {
               (_, self) \<leftarrow> proxyfs_real_file_close (ve_kmalloc V) a peer self;
               f \<leftarrow> pt_heap self a;
               Some (if data_word data = 0 then task_file a (proxyfs_file_set_status PROXYFS_FILE_CLOSED f) self else self)
             }
           | None \<Rightarrow> reply MSG_CLOSE_RESP)
        else if num = MSG_FSYNC then
          (case real_file of
             Some a \<Rightarrow> do { (_, self) \<leftarrow> proxyfs_real_file_fsync (ve_kmalloc V) a peer self; Some self }
           | None \<Rightarrow> reply MSG_FSYNC_RESP)
        else if num = MSG_READ_REQUEST then
          (case real_file of
             Some a \<Rightarrow> do { (_, self) \<leftarrow> proxyfs_real_file_mark_read_request (ve_kmalloc V) a peer self; Some self }
           | None \<Rightarrow> reply MSG_READ_REQUEST_RESP)
        else Some self
   }"

subsection \<open>Moving data\<close>

definition rw_write :: "(u64 \<Rightarrow> bool) \<Rightarrow> nat \<Rightarrow> ('s, 'k) proxyfs_server \<Rightarrow> ('s, 'k) proxyfs_server option" where
  "rw_write kmalloc a self = do {
     f \<leftarrow> pt_heap self a;
     F \<leftarrow> sv_phys self (rl_file f);
     (n, f, F) \<leftarrow> proxyfs_real_file_write f F;
     let self = (task_file a f self)\<lparr>sv_phys := (sv_phys self)(rl_file f \<mapsto> F)\<rparr>;
     let lenght = (of_int n :: u32);
     (case pf_peer f of
        Some p \<Rightarrow>
          (if lenght > 0
           then task_send_msg (Some p) (proxyfs_msg_compose_new kmalloc MSG_WRITE_RESP (proxyfs_file_get_file_ident f)
                  [(4, le_bytes 4 lenght), (0, [])]) self
           else Some self)
      | None \<Rightarrow> Some self)
   }"

definition rw_read :: "(u64 \<Rightarrow> bool) \<Rightarrow> nat \<Rightarrow> ('s, 'k) proxyfs_server \<Rightarrow> ('s, 'k) proxyfs_server option" where
  "rw_read kmalloc a self = do {
     f \<leftarrow> pt_heap self a;
     (case pf_peer f of
        None \<Rightarrow> Some self
      | Some p \<Rightarrow>
          (if proxyfs_file_get_status f PROXYFS_FILE_READ_EOF \<noteq> 0 then Some self
           else do {
             F \<leftarrow> sv_phys self (rl_file f);
             let (n, f, F) = proxyfs_real_file_read f F;
             let self = (task_file a f self)\<lparr>sv_phys := (sv_phys self)(rl_file f \<mapsto> F)\<rparr>;
             (if n = 0 then do {
                self \<leftarrow> task_send_msg (Some p) (proxyfs_msg_compose_new kmalloc MSG_WRITE (proxyfs_file_get_file_ident f) [(0, [])]) self;
                Some (task_file a (proxyfs_file_set_status PROXYFS_FILE_READ_EOF f) self)
              }
              else Some self)
           }))
   }"

definition rw_file :: "(u64 \<Rightarrow> bool) \<Rightarrow> nat \<Rightarrow> ('s, 'k) proxyfs_server \<Rightarrow> ('s, 'k) proxyfs_server option" where
  "rw_file kmalloc a self = do {
     self \<leftarrow> rw_write kmalloc a self;
     f \<leftarrow> pt_heap self a;
     (if proxyfs_file_get_status f PROXYFS_FILE_CLOSED \<noteq> 0 \<and> proxyfs_file_get_status f PROXYFS_FILE_ALL_READ \<noteq> 0 then do {
        let self = self\<lparr>pt_files := remove1 a (pt_files self)\<rparr>;
        st \<leftarrow> proxyfs_file_destroy f (pt_store self);
        fput (rl_file f) ((server_store st self)\<lparr>pt_heap := (pt_heap self)(a := None)\<rparr>)
      }
      else rw_read kmalloc a self)
   }"

fun rw_each :: "(u64 \<Rightarrow> bool) \<Rightarrow> nat list \<Rightarrow> ('s, 'k) proxyfs_server \<Rightarrow> ('s, 'k) proxyfs_server option" where
  "rw_each kmalloc [] self = Some self"
| "rw_each kmalloc (a # l) self = do { self \<leftarrow> rw_file kmalloc a self; rw_each kmalloc l self }"

definition proxyfs_server_read_and_write_real_files :: "(u64 \<Rightarrow> bool) \<Rightarrow> ('s, 'k) proxyfs_server \<Rightarrow> ('s, 'k) proxyfs_server option" where
  "proxyfs_server_read_and_write_real_files kmalloc self =
     (if sv_files_sem self then rw_each kmalloc (pt_files self) self else None)"

subsection \<open>Taking files over\<close>

fun release_each :: "nat \<Rightarrow> nat list \<Rightarrow> ('s, 'k) proxyfs_server \<Rightarrow> ('s, 'k) proxyfs_server option" where
  "release_each task [] self = Some self"
| "release_each task (a # l) self = do {
     f \<leftarrow> pt_heap self a;
     let (last, f) = proxyfs_real_file_remove_shadow task f;
     release_each task l (task_file a (if last then proxyfs_file_set_status PROXYFS_FILE_CLOSED f else f) self)
   }"

definition proxyfs_server_release_all :: "nat \<Rightarrow> ('s, 'k) proxyfs_server \<Rightarrow> ('s, 'k) proxyfs_server option" where
  "proxyfs_server_release_all task self = (if sv_files_sem self then release_each task (pt_files self) self else None)"

text \<open>
  Memory of a new file: its address with the structure as allocated, and its two buffers. A
  constructor that fails after the allocation gives back a pointer to the structure it has freed,
  except for terminals.
\<close>

record file_mem =
  fm_struct :: "(nat \<times> proxyfs_pipe_real_file) option"
  fm_wbuf :: buf_alloc
  fm_rbuf :: buf_alloc
  fm_shadow :: bool

datatype file_ptr = FileNull | FileLive nat proxyfs_pipe_real_file | FileFreed

definition proxyfs_tty_real_file_init :: "file_mem \<Rightarrow> proxyfs_pipe_real_file \<Rightarrow> int \<times> proxyfs_pipe_real_file" where
  "proxyfs_tty_real_file_init mem self =
     (case proxyfs_real_file_init (fm_wbuf mem) (fm_rbuf mem) self of (rtn, self) \<Rightarrow>
        (rtn, if rtn = 0 then self\<lparr>rl_ops := Some Tty_real_file\<rparr> else self))"

definition proxyfs_tty_real_file_new :: "file_mem \<Rightarrow> file_ptr" where
  "proxyfs_tty_real_file_new mem =
     (case fm_struct mem of
        None \<Rightarrow> FileNull
      | Some (a, self) \<Rightarrow>
          (case proxyfs_tty_real_file_init mem self of (err, self) \<Rightarrow> if err \<noteq> 0 then FileNull else FileLive a self))"

definition proxyfs_pipe_real_file_init :: "proxyfs_pipe_real_file \<Rightarrow> proxyfs_pipe_real_file" where
  "proxyfs_pipe_real_file_init self = self\<lparr>rl_ops := Some Pipe_real_file, pi_write_counter := 0\<rparr>"

definition proxyfs_pipe_real_file_new :: "file_mem \<Rightarrow> file_ptr" where
  "proxyfs_pipe_real_file_new mem =
     (case fm_struct mem of
        None \<Rightarrow> FileNull
      | Some (a, self) \<Rightarrow>
          (case proxyfs_real_file_init (fm_wbuf mem) (fm_rbuf mem) self of (err, self) \<Rightarrow>
             if err \<noteq> 0 then FileFreed else FileLive a (proxyfs_pipe_real_file_init self)))"

definition proxyfs_generic_real_file_init :: "proxyfs_pipe_real_file \<Rightarrow> proxyfs_pipe_real_file" where
  "proxyfs_generic_real_file_init self = self\<lparr>rl_ops := Some Generic_real_file\<rparr>"

definition proxyfs_generic_real_file_new :: "file_mem \<Rightarrow> file_ptr" where
  "proxyfs_generic_real_file_new mem =
     (case fm_struct mem of
        None \<Rightarrow> FileNull
      | Some (a, self) \<Rightarrow>
          (case proxyfs_real_file_init (fm_wbuf mem) (fm_rbuf mem) self of (err, self) \<Rightarrow>
             if err \<noteq> 0 then FileFreed else FileLive a (proxyfs_generic_real_file_init self)))"

definition proxyfs_server_register_poll_callback :: "proxyfs_pipe_real_file \<Rightarrow> ('s, 'k) proxyfs_server \<Rightarrow> int option" where
  "proxyfs_server_register_poll_callback f self = do {
     F \<leftarrow> sv_phys self (rl_file f);
     Some (if v_poll (f_op F) = None then - EINVAL else 0)
   }"

datatype inode_kind = S_ISCHR | S_ISFIFO | S_OTHER

text \<open>
  Taking over the file \<open>filp\<close> of the process \<open>current\<close> with the process group \<open>tgid\<close>; the
  result is the identifier. When the file cannot be polled the semaphore stays taken and the new
  structure is not freed.
\<close>

definition proxyfs_server_overtake_file ::
  "file_mem \<Rightarrow> nat \<Rightarrow> i32 \<Rightarrow> nat option \<Rightarrow> inode_kind \<Rightarrow> ('s, 'k) proxyfs_server \<Rightarrow> (u64 option \<times> ('s, 'k) proxyfs_server) option" where
  "proxyfs_server_overtake_file mem current tgid filp mode self =
     (case filp of
        None \<Rightarrow> Some (None, self)
      | Some x \<Rightarrow> do {
          self \<leftarrow> get_file x self;
          (case (case mode of S_ISCHR \<Rightarrow> proxyfs_tty_real_file_new mem | S_ISFIFO \<Rightarrow> proxyfs_pipe_real_file_new mem | S_OTHER \<Rightarrow> FileNull) of
             FileNull \<Rightarrow> do { self \<leftarrow> fput x self; Some (None, self) }
           | FileFreed \<Rightarrow> None
           | FileLive a f \<Rightarrow>
               (if \<not> sv_files_sem self then None
                else do {
                  let self = self\<lparr>sv_files_sem := False, sv_ident := sv_ident self + 1\<rparr>;
                  let f = f\<lparr>pf_file_ident := ucast (sv_ident self), pf_file_owner_pid := ucast tgid, rl_file := x\<rparr>;
                  let f = snd (proxyfs_real_file_add_shadow (fm_shadow mem) current f);
                  err \<leftarrow> proxyfs_server_register_poll_callback f self;
                  (if err \<noteq> 0 then do {
                     st \<leftarrow> proxyfs_file_destroy f (pt_store self);
                     self \<leftarrow> fput x (server_store st self);
                     Some (None, self)
                   }
                   else Some (Some (proxyfs_file_get_file_ident f),
                     (task_file a f self)\<lparr>pt_files := pt_files self @ [a], sv_files_sem := True\<rparr>))
                }))
        })"

text \<open>
  Duplicating a file for a new process. When the copy cannot be initialised, the methods of the
  classes free the original instead of the copy.
\<close>

definition real_file_duplicate ::
  "file_mem \<Rightarrow> nat \<Rightarrow> ('s, 'k) proxyfs_server \<Rightarrow> ((nat \<times> proxyfs_pipe_real_file) option \<times> ('s, 'k) proxyfs_server) option" where
  "real_file_duplicate mem a self = do {
     f \<leftarrow> pt_heap self a;
     (case fm_struct mem of
        None \<Rightarrow> Some (None, self)
      | Some (c, clone) \<Rightarrow>
          (let free_original = Some (None, self\<lparr>pt_heap := (pt_heap self)(a := None)\<rparr>);
               finish = (\<lambda>clone. do {
                 self \<leftarrow> get_file (rl_file f) self;
                 Some (Some (c, clone\<lparr>pf_file_ident := pf_file_ident f, pf_file_owner_pid := pf_file_owner_pid f, rl_file := rl_file f\<rparr>), self)
               })
           in case rl_ops f of
                Some Tty_real_file \<Rightarrow>
                  (case proxyfs_tty_real_file_init mem clone of (err, clone) \<Rightarrow> if err \<noteq> 0 then free_original else finish clone)
              | Some Pipe_real_file \<Rightarrow>
                  (case proxyfs_real_file_init (fm_wbuf mem) (fm_rbuf mem) clone of (err, clone) \<Rightarrow>
                     if err \<noteq> 0 then free_original else finish (proxyfs_pipe_real_file_init clone))
              | _ \<Rightarrow> Some (None, self)))
   }"

definition proxyfs_server_duplicate_overtaken_file ::
  "file_mem \<Rightarrow> nat \<Rightarrow> nat \<Rightarrow> i32 \<Rightarrow> ('s, 'k) proxyfs_server \<Rightarrow> ('s, 'k) proxyfs_server option" where
  "proxyfs_server_duplicate_overtaken_file mem a new_owner tgid self = do {
     (r, self) \<leftarrow> real_file_duplicate mem a self;
     (case r of
        None \<Rightarrow> Some self
      | Some (c, clone) \<Rightarrow> do {
          let clone = snd (proxyfs_real_file_add_shadow (fm_shadow mem) new_owner (clone\<lparr>pf_file_owner_pid := ucast tgid\<rparr>));
          err \<leftarrow> proxyfs_server_register_poll_callback clone self;
          (if err \<noteq> 0 then do {
             self \<leftarrow> fput (rl_file clone) self;
             st \<leftarrow> proxyfs_file_destroy clone (pt_store self);
             Some (server_store st self)
           }
           else Some ((task_file c clone self)\<lparr>pt_files := pt_files self @ [c]\<rparr>))
        })
   }"

fun duplicate_each ::
  "(nat \<Rightarrow> file_mem) \<Rightarrow> nat \<Rightarrow> nat \<Rightarrow> i32 \<Rightarrow> nat list \<Rightarrow> ('s, 'k) proxyfs_server \<Rightarrow> ('s, 'k) proxyfs_server option" where
  "duplicate_each mem parent child tgid [] self = Some self"
| "duplicate_each mem parent child tgid (a # l) self = do {
     f \<leftarrow> pt_heap self a;
     self \<leftarrow> (if proxyfs_real_file_has_shadow parent f
       then proxyfs_server_duplicate_overtaken_file (mem a) a child tgid self else Some self);
     duplicate_each mem parent child tgid l self
   }"

text \<open>Copies are appended to the list while it is walked; they belong to the child only, so it makes no difference whether the walk reaches them.\<close>

definition proxyfs_server_duplicate_all_parent ::
  "(nat \<Rightarrow> file_mem) \<Rightarrow> nat \<Rightarrow> i32 \<Rightarrow> nat \<Rightarrow> i32 \<Rightarrow> ('s, 'k) proxyfs_server \<Rightarrow> ('s, 'k) proxyfs_server option" where
  "proxyfs_server_duplicate_all_parent mem parent ptgid child tgid self =
     (if ptgid = tgid then Some self
      else if sv_files_sem self then duplicate_each mem parent child tgid (pt_files self) self else None)"

subsection \<open>The server's thread\<close>

text \<open>\<open>wait_err\<close>: what the kernel returns when the thread is added to the wait queue of the socket.\<close>

definition proxyfs_server_listen :: "'s net \<Rightarrow> string \<Rightarrow> int \<Rightarrow> ('s, 'k) proxyfs_server \<Rightarrow> int \<times> ('s, 'k) proxyfs_server" where
  "proxyfs_server_listen net listen_str wait_err self =
     (case kkc_listen net listen_str (ps_arch_refs (pt_store self)) of (err, sock, refs) \<Rightarrow>
        let self = server_store ((pt_store self)\<lparr>ps_arch_refs := refs\<rparr>) self in
        case sock of
          None \<Rightarrow> (- 1, self)
        | Some s \<Rightarrow> if err \<noteq> 0 then (- 1, self) else (wait_err, self\<lparr>sv_server_sock := s\<rparr>))"

text \<open>\<open>mem\<close>: address and memory of the new peer and of its buffer.\<close>

definition proxyfs_server_accept ::
  "'s net \<Rightarrow> nat \<times> 's proxyfs_peer_t option \<times> byte list option \<Rightarrow> ('s, 'k) proxyfs_server \<Rightarrow> int \<times> ('s, 'k) proxyfs_server" where
  "proxyfs_server_accept net mem self =
     (case kkc_sock_tcp_accept net KKC_SOCK_NONBLOCK (sv_server_sock self) (ps_arch_refs (pt_store self)) of (err, lsock, sock, refs) \<Rightarrow>
        let self = (server_store ((pt_store self)\<lparr>ps_arch_refs := refs\<rparr>) self)\<lparr>sv_server_sock := lsock\<rparr> in
        if err < 0 then (0, self)
        else
          (case sock of
             SockLive s \<Rightarrow> (1, snd (proxyfs_task_add_to_peers (fst mem) (fst (snd mem)) (snd (snd mem)) s self))
           | _ \<Rightarrow> (1, self)))"

partial_function (option) accept_all ::
  "'s net \<Rightarrow> (nat \<Rightarrow> nat \<times> 's proxyfs_peer_t option \<times> byte list option) \<Rightarrow> nat \<Rightarrow> ('s, 'k) proxyfs_server \<Rightarrow>
   ('s, 'k) proxyfs_server option" where
  "accept_all net mem k self =
     (case proxyfs_server_accept net (mem k) self of (r, self) \<Rightarrow> if r = 1 then accept_all net mem (Suc k) self else Some self)"

definition server_round ::
  "server_env \<Rightarrow> 's net \<Rightarrow> (nat \<Rightarrow> nat \<times> 's proxyfs_peer_t option \<times> byte list option) \<Rightarrow> ('s, 'k) proxyfs_server \<Rightarrow>
   ('s, 'k) proxyfs_server option" where
  "server_round V net mem self = do {
     self \<leftarrow> accept_all net mem 0 (proxyfs_task_wait_for_data_ready self);
     self \<leftarrow> proxyfs_task_recv_peers real_file_ops (proxyfs_server_handle_msg V) self;
     self \<leftarrow> proxyfs_server_read_and_write_real_files (ve_kmalloc V) self;
     self \<leftarrow> proxyfs_task_send_buffers (ve_kmalloc V) real_file_ops self;
     self \<leftarrow> proxyfs_task_send_peers self;
     proxyfs_task_handle_dead_peers None self
   }"

partial_function (option) proxyfs_server_loop ::
  "server_env \<Rightarrow> 's net \<Rightarrow> (nat \<Rightarrow> nat \<Rightarrow> nat \<times> 's proxyfs_peer_t option \<times> byte list option) \<Rightarrow> (nat \<Rightarrow> bool) \<Rightarrow> nat \<Rightarrow>
   ('s, 'k) proxyfs_server \<Rightarrow> ('s, 'k) proxyfs_server option" where
  "proxyfs_server_loop V net mem stop k self =
     (if stop k then Some self
      else do { self \<leftarrow> server_round V net (mem k) self; proxyfs_server_loop V net mem stop (Suc k) self })"

text \<open>
  The start of the server: what its creator is given. Without memory the thread ends and nobody completes the start: the
  creator waits forever, which is \<open>None\<close>.
\<close>

definition proxyfs_server_thread ::
  "'s net \<Rightarrow> string \<Rightarrow> ('s, 'k) proxyfs_server option \<Rightarrow> int \<Rightarrow> ('s, 'k) proxyfs_server option option" where
  "proxyfs_server_thread net addr_str kmalloc wait_err =
     (case kmalloc of
        None \<Rightarrow> None
      | Some self \<Rightarrow>
          (case proxyfs_server_listen net addr_str wait_err ((proxyfs_task_init self)\<lparr>sv_files_sem := True\<rparr>) of (err, self) \<Rightarrow>
             Some (if err \<noteq> 0 then None else Some self)))"

definition proxyfs_server_free :: "('s, 'k) proxyfs_server \<Rightarrow> ('s, 'k) proxyfs_server" where
  "proxyfs_server_free self =
     server_store ((pt_store self)\<lparr>ps_arch_refs := snd (kkc_sock_put (sv_server_sock self) (ps_arch_refs (pt_store self)))\<rparr>) self"

end
