(* ===== verification/Proxyfs_Fs.thy ===== *)
theory Proxyfs_Fs
  imports Proxyfs_Server
begin

text \<open>
  The file system of a client (\<^verbatim>\<open>src/proxyfs/proxyfs_fs.c\<close>): looking a name up, and the
  calls of a process on an open proxy file; and the names of proxy files
  (\<^verbatim>\<open>proxyfs_helper.h\<close>).
\<close>

subsection \<open>Names\<close>

definition PROXYFS_MNT_POINT :: string where "PROXYFS_MNT_POINT = ''/mnt/proxy''"

definition is_proxyfs_file :: "string \<Rightarrow> bool" where
  "is_proxyfs_file path \<longleftrightarrow> take (length PROXYFS_MNT_POINT) path = PROXYFS_MNT_POINT"

definition create_proxyfs_name :: "nat \<Rightarrow> nat \<Rightarrow> string" where
  "create_proxyfs_name tgid proxy_ident = PROXYFS_MNT_POINT @ ''/'' @ print_u tgid @ ''-'' @ print_u proxy_ident"

text \<open>Reading a decimal number: the digits at the start of a string, at least one.\<close>

definition scan_number :: "string \<Rightarrow> (nat \<times> string) option" where
  "scan_number s = (if takeWhile is_digit s = [] then None else Some (scan_u s, dropWhile is_digit s))"

definition scan_pid_ident :: "string \<Rightarrow> (nat \<times> nat) option" where
  "scan_pid_ident s = do {
     (pid, s) \<leftarrow> scan_number s;
     (case s of
        [] \<Rightarrow> None
      | c # s \<Rightarrow> if c = CHR ''-'' then do { (i, _) \<leftarrow> scan_number s; Some (pid, i) } else None)
   }"

text \<open>The result of the scan is not checked: a name without numbers leaves the variables undefined.\<close>

definition alter_proxyfs_name_task_change :: "string \<Rightarrow> nat \<Rightarrow> (int \<times> string option) option" where
  "alter_proxyfs_name_task_change old_name new_owner_pid =
     (if \<not> is_proxyfs_file old_name then Some (- EINVAL, None)
      else do {
        (old_pid, proxy_ident) \<leftarrow> scan_pid_ident (drop (length PROXYFS_MNT_POINT + 1) old_name);
        Some (if old_pid = new_owner_pid then (1, None) else (0, Some (create_proxyfs_name new_owner_pid proxy_ident)))
      })"

text \<open>The number of the inode a name stands for; \<open>None\<close> is a name that is not found.\<close>

definition proxyfs_fs_rootinode_lookup :: "string \<Rightarrow> u64 option" where
  "proxyfs_fs_rootinode_lookup name =
     (case scan_pid_ident name of
        None \<Rightarrow> None
      | Some (owner_pid, file_number) \<Rightarrow> Some (ucast (push_bit 16 (of_nat owner_pid) + of_nat file_number :: u32)))"

subsection \<open>Calls on an open file\<close>

definition proxyfs_fs_fdinode_open ::
  "'s client_env \<Rightarrow> (nat \<times> proxyfs_proxy_file_t) option \<Rightarrow> buf_alloc \<Rightarrow> buf_alloc \<Rightarrow> u64 \<Rightarrow> 's proxyfs_client_task \<Rightarrow>
   (int \<times> nat option \<times> 's proxyfs_client_task) option" where
  "proxyfs_fs_fdinode_open E mem alloc_w alloc_r i_ino task = do {
     (r, task) \<leftarrow> proxyfs_client_open_proxy E mem alloc_w alloc_r i_ino task;
     Some (case r of Inl err \<Rightarrow> (err, None, task) | Inr a \<Rightarrow> (0, Some a, task))
   }"

definition proxyfs_fs_fdinode_release :: "'s client_env \<Rightarrow> nat \<Rightarrow> 's proxyfs_client_task \<Rightarrow> (int \<times> 's proxyfs_client_task) option" where
  "proxyfs_fs_fdinode_release E a self = do {
     (rtn, self) \<leftarrow> proxyfs_proxy_file_close E a self;
     (if rtn = 0 then do {
        f \<leftarrow> pt_heap self a;
        st \<leftarrow> proxyfs_file_destroy f (pt_store self);
        Some (0, self\<lparr>pt_store := st, pt_heap := (pt_heap self)(a := None)\<rparr>)
      }
      else Some (rtn, self))
   }"

definition proxyfs_fs_fdinode_fsync :: "'s client_env \<Rightarrow> nat \<Rightarrow> 's proxyfs_client_task \<Rightarrow> (int \<times> 's proxyfs_client_task) option" where
  "proxyfs_fs_fdinode_fsync E a self = proxyfs_proxy_file_fsync E a self"

text \<open>
  Writing. \<open>written\<close> is the number of bytes the buffer has taken so far; the results of the waits
  are compared as a whole, so any other combination of states falls through to \<open>-1\<close>.
\<close>

partial_function (option) fdinode_write_loop ::
  "'s client_env \<Rightarrow> bool \<Rightarrow> nat \<Rightarrow> u64 \<Rightarrow> u64 \<Rightarrow> u64 \<Rightarrow> 's proxyfs_client_task \<Rightarrow> (int \<times> 's proxyfs_client_task) option" where
  "fdinode_write_loop E nonblock a buf count written self = do {
     (n, self) \<leftarrow> proxyfs_proxy_file_write_user E a (buf + written) (count - written) self;
     (if 0 < sint n then
        (let self = proxyfs_task_notify_data_ready self; written = written + scast n in
         if written = count \<or> nonblock then Some (sint (ucast written :: i32), self)
         else fdinode_write_loop E nonblock a buf count written self)
      else if n = 0 then
        (if nonblock then Some (- EAGAIN, self)
         else do {
           (st, self) \<leftarrow> proxyfs_proxy_file_wait_interruptible E a (PROXYFS_FILE_CAN_WRITE OR PROXYFS_FILE_EPIPE OR PROXYFS_FILE_CLOSED) self;
           (if st = PROXYFS_FILE_EPIPE then Some (- EPIPE, self)
            else if st = PROXYFS_FILE_CLOSED then Some (- EBADF, self)
            else if st = PROXYFS_FILE_CAN_WRITE then fdinode_write_loop E nonblock a buf count written self
            else if st = 0 then Some (- ERESTARTSYS, self)
            else Some (- 1, self))
         })
      else if sint n < - 4 then
        (if nonblock then Some (- EAGAIN, self)
         else do {
           (st, self) \<leftarrow> proxyfs_proxy_file_wait_for_space_interruptible E a (- n) self;
           (if st AND PROXYFS_FILE_CAN_WRITE \<noteq> 0 then fdinode_write_loop E nonblock a buf count written self
            else if st = PROXYFS_FILE_EPIPE then Some (- EPIPE, self)
            else if st = 0 then Some (- ERESTARTSYS, self)
            else Some (- 1, self))
         })
      else Some (- 1, self))
   }"

definition proxyfs_fs_fdinode_write ::
  "'s client_env \<Rightarrow> bool \<Rightarrow> nat \<Rightarrow> u64 \<Rightarrow> u64 \<Rightarrow> 's proxyfs_client_task \<Rightarrow> (int \<times> 's proxyfs_client_task) option" where
  "proxyfs_fs_fdinode_write E nonblock a buf count self =
     (if count <s 0 then Some (- EINVAL, self) else fdinode_write_loop E nonblock a buf count 0 self)"

text \<open>Reading: the bytes delivered come with the result.\<close>

partial_function (option) fdinode_read_loop ::
  "'s client_env \<Rightarrow> bool \<Rightarrow> nat \<Rightarrow> u64 \<Rightarrow> u64 \<Rightarrow> 's proxyfs_client_task \<Rightarrow> (int \<times> byte list \<times> 's proxyfs_client_task) option" where
  "fdinode_read_loop E nonblock a buf count self = do {
     (n, bs, self) \<leftarrow> proxyfs_proxy_file_read_user E a buf count self;
     (if n \<noteq> 0 then Some (sint n, bs, self)
      else if file_status a PROXYFS_FILE_READ_EOF self \<noteq> 0 then
        (if file_status a PROXYFS_FILE_CAN_READ self \<noteq> 0 then fdinode_read_loop E nonblock a buf count self
         else Some (0, bs, self))
      else if nonblock then Some (- EAGAIN, bs, self)
      else do {
        (st, self) \<leftarrow> proxyfs_proxy_file_wait_interruptible E a (PROXYFS_FILE_CAN_READ OR PROXYFS_FILE_READ_EOF) self;
        (if st = PROXYFS_FILE_CAN_READ then fdinode_read_loop E nonblock a buf count self
         else if st = PROXYFS_FILE_READ_EOF then Some (0, bs, self)
         else if st = 0 then Some (- EINTR, bs, self)
         else Some (0, bs, self))
      })
   }"

definition proxyfs_fs_fdinode_read ::
  "'s client_env \<Rightarrow> bool \<Rightarrow> nat \<Rightarrow> u64 \<Rightarrow> u64 \<Rightarrow> 's proxyfs_client_task \<Rightarrow> (int \<times> byte list \<times> 's proxyfs_client_task) option" where
  "proxyfs_fs_fdinode_read E nonblock a buf count self =
     (if count <s 0 then Some (- EINVAL, [], self) else fdinode_read_loop E nonblock a buf count self)"

text \<open>Control commands; \<open>arg\<close> is the address of the user's argument.\<close>

definition proxyfs_proxy_file_ioctl_user ::
  "(u64 \<times> u64) list \<Rightarrow> 's client_env \<Rightarrow> nat \<Rightarrow> i32 \<Rightarrow> u64 \<Rightarrow> 's proxyfs_client_task \<Rightarrow> (int \<times> byte list \<times> 's proxyfs_client_task) option" where
  "proxyfs_proxy_file_ioctl_user table E a cmd arg self =
     (let info = ioctl_get_info table cmd; arg_size = IOCTL_ARG_SIZE info in
      if (IOCTL_WILL_READ info \<or> IOCTL_WILL_WRITE info) \<and> \<not> ce_access E arg arg_size then Some (- EFAULT, [], self)
      else do {
        (st, self) \<leftarrow> proxyfs_proxy_file_wait_interruptible E a PROXYFS_FILE_ALL_WRITTEN self;
        (if st = 0 then Some (- ERESTARTSYS, [], self)
         else if st = PROXYFS_FILE_CLOSED then Some (- EFAULT, [], self)
         else do {
           f \<leftarrow> pt_heap self a;
           let msg = (if IOCTL_WILL_WRITE info then
               (case ce_cfu E arg (ucast arg_size) of (bs, left) \<Rightarrow>
                  if \<not> ce_kmalloc E (arg_size + 4) \<or> left \<noteq> 0 then None
                  else proxyfs_msg_new (ce_kmalloc E) MSG_IOCTL (proxyfs_file_get_file_ident f) (4 + arg_size) (le_bytes 4 cmd @ bs))
             else proxyfs_msg_new (ce_kmalloc E) MSG_IOCTL (proxyfs_file_get_file_ident f) 4 (le_bytes 4 cmd));
           (case msg of
              None \<Rightarrow> Some (- ERESTARTSYS, [], self)
            | Some m \<Rightarrow> do {
                (resp, self) \<leftarrow> proxyfs_client_do_syscall E a (Some m) self;
                (case resp of
                   Some (RespMsg h data) \<Rightarrow> Some (int (unat (data_word data)), if IOCTL_WILL_READ info then take (unat arg_size) (drop 4 data) else [], self)
                 | Some (RespCode _) \<Rightarrow> None
                 | None \<Rightarrow> Some (- ERESTARTSYS, [], self))
              })
         })
      })"

definition proxyfs_fs_fdinode_ioctl ::
  "(u64 \<times> u64) list \<Rightarrow> 's client_env \<Rightarrow> nat \<Rightarrow> i32 \<Rightarrow> u64 \<Rightarrow> 's proxyfs_client_task \<Rightarrow> (int \<times> byte list \<times> 's proxyfs_client_task) option" where
  "proxyfs_fs_fdinode_ioctl table E a cmd arg self =
     (if ioctl_get_info table cmd \<noteq> 0 then proxyfs_proxy_file_ioctl_user table E a cmd arg self else Some (- ENOTTY, [], self))"

definition proxyfs_file_poll :: "nat \<Rightarrow> 's proxyfs_client_task \<Rightarrow> u32" where
  "proxyfs_file_poll a self =
     (if file_status a PROXYFS_FILE_CAN_READ self \<noteq> 0 then 0x41 else 0) OR
     (if file_status a PROXYFS_FILE_CAN_WRITE self \<noteq> 0 then 0x104 else 0)"

end
