(* ===== verification/Proxyfs_Framing.thy ===== *)
theory Proxyfs_Framing
  imports Proxyfs_Peer
begin

text \<open>
  Messages between two peers: what the queue of one peer puts on the stream, and that the other
  takes the same messages off it, however the network splits the stream.
\<close>

subsection \<open>A message on the wire\<close>

definition px_wire :: "proxyfs_msg \<Rightarrow> byte list" where
  "px_wire m = header_bytes (px_header m) @ px_data m"

definition msg_ok :: "proxyfs_msg \<Rightarrow> bool" where
  "msg_ok m \<longleftrightarrow> hd_magic (px_header m) = MSG_MAGIC \<and> hd_data_size (px_header m) = of_nat (length (px_data m)) \<and> length (px_data m) \<le> 4064"

lemma small_i32:
  assumes "n < 2 ^ 31"
  shows "unat (of_nat n :: i32) = n" "sint (of_nat n :: i32) = int n" "(scast (of_nat n :: i32) :: u64) = of_nat n"
proof -
  show u: "unat (of_nat n :: i32) = n" using assms by (simp add: unat_of_nat)
  then have "uint (of_nat n :: i32) = int n" by (metis uint_nat)
  then show s: "sint (of_nat n :: i32) = int n" using assms by (simp add: sint_uint signed_take_bit_int_eq_self)
  show "(scast (of_nat n :: i32) :: u64) = of_nat n" using s by (simp add: scast_eq)
qed

lemma length_header_bytes [simp]: "length (header_bytes h) = 32"
  by (simp add: header_bytes_def)

lemma header_bytes_nonempty [simp]: "header_bytes h \<noteq> []"
  using length_header_bytes [of h] by fastforce

lemma bytes_header_bytes [simp]: "bytes_header (header_bytes h @ rest) = h"
  by (simp add: bytes_header_def header_bytes_def)

lemma length_px_wire [simp]: "length (px_wire m) = 32 + length (px_data m)"
  by (simp add: px_wire_def)

lemma get_size_ok:
  assumes "msg_ok m" shows "proxyfs_msg_get_size (px_header m) = of_nat (length (px_wire m))"
    "scast (proxyfs_msg_get_size (px_header m)) = (of_nat (length (px_wire m)) :: u64)"
proof -
  let ?n = "length (px_data m)"
  have n: "?n \<le> 4064" using assms by (simp add: msg_ok_def)
  have "(ucast (of_nat (32 + ?n) :: u64) :: i32) = of_nat (32 + ?n)" using n
    by (simp only: unsigned_of_nat) (simp add: take_bit_nat_eq_self)
  then show "proxyfs_msg_get_size (px_header m) = of_nat (length (px_wire m))" using assms
    by (simp add: proxyfs_msg_get_size_def msg_ok_def add.commute)
  then show "scast (proxyfs_msg_get_size (px_header m)) = (of_nat (length (px_wire m)) :: u64)"
    using small_i32(3) [of "32 + ?n"] n by simp
qed

lemma msg_ok_size: "msg_ok m \<Longrightarrow> length (px_wire m) \<le> 4096"
  by (simp add: msg_ok_def)

subsection \<open>Sending\<close>

lemma int_len_u64: "n < 2 ^ 31 \<Longrightarrow> int_len (ucast (of_nat n :: u64) :: i32) = n"
  by (simp add: unsigned_of_nat take_bit_nat_eq_self small_i32(2))

lemma msg_real_send_ok:
  assumes m: "msg_ok m" "px_send_start m = 0" and s: "sock_ok s"
  shows "\<exists>st m' s'. proxyfs_msg_real_send m s = Some (st, m', s') \<and> sock_frame s s' \<and> sock_avail s' = sock_avail s \<and>
    (st = 1 \<longrightarrow> sock_sent s' = sock_sent s @ px_wire m)"
proof -
  let ?n = "length (px_data m)"
  have n: "?n \<le> 4064" using m(1) by (simp add: msg_ok_def)
  obtain r s1 where h: "kkc_sock_send s (header_bytes (px_header m)) = Some (r, s1)" "sock_frame s s1" "sock_avail s1 = sock_avail s"
      "\<not> r < 0 \<Longrightarrow> r = 32 \<and> sock_sent s1 = sock_sent s @ header_bytes (px_header m)"
    using kkc_sock_send_ok [OF s, of "header_bytes (px_header m)"] by force
  obtain r2 s2 where d: "kkc_sock_send s1 (px_data m) = Some (r2, s2)" "sock_frame s1 s2" "sock_avail s2 = sock_avail s1"
      "\<not> r2 < 0 \<Longrightarrow> r2 = int ?n \<and> sock_sent s2 = sock_sent s1 @ px_data m"
    using kkc_sock_send_ok [OF sock_frame_ok [OF h(2) s], of "px_data m"] by force
  have z: "(of_nat ?n :: u64) = 0 \<longleftrightarrow> px_data m = []"
    using n by (simp flip: unat_eq_0 add: unat_of_nat)
  have sz: "scast (proxyfs_msg_get_size (px_header m)) = (32 + of_nat ?n :: u64)" using get_size_ok(2) [OF m(1)] by simp
  have l: "int_len (ucast (of_nat ?n :: u64) :: i32) = ?n" using n by (intro int_len_u64) simp
  consider "r < 0" | "\<not> r < 0" "px_data m = []" | "\<not> r < 0" "px_data m \<noteq> []" "r2 < 0" | "\<not> r < 0" "px_data m \<noteq> []" "\<not> r2 < 0" by blast
  then show ?thesis
  proof cases
    case 1
    then show ?thesis using h(1-3) m(2) by (simp add: proxyfs_msg_real_send_def Let_def)
  next
    case 2
    then show ?thesis using h m(2) z sz by (simp add: proxyfs_msg_real_send_def Let_def px_wire_def)
  next
    case 3
    then show ?thesis using h d m(2) z sz l sock_frame_trans by (auto simp: proxyfs_msg_real_send_def Let_def)
  next
    case 4
    then have "0 < int ?n" by simp
    then show ?thesis using 4 h d m(2) z sz l sock_frame_trans by (auto simp: proxyfs_msg_real_send_def Let_def px_wire_def)
  qed
qed

lemma send_queue_ok:
  assumes "\<forall>m \<in> set q. msg_ok m \<and> px_send_start m = 0" "sock_ok s"
  shows "\<exists>q' s'. send_queue q s = Some (q', s') \<and> sock_frame s s' \<and> sock_avail s' = sock_avail s \<and>
    (q' = [] \<longrightarrow> sock_sent s' = sock_sent s @ concat (map px_wire q))"
  using assms
proof (induction q arbitrary: s)
  case (Cons m q)
  obtain st m' s1 where r: "proxyfs_msg_real_send m s = Some (st, m', s1)" "sock_frame s s1" "sock_avail s1 = sock_avail s"
      "st = 1 \<longrightarrow> sock_sent s1 = sock_sent s @ px_wire m"
    using msg_real_send_ok [of m s] Cons.prems by auto
  obtain q' s' where ih: "send_queue q s1 = Some (q', s')" "sock_frame s1 s'" "sock_avail s' = sock_avail s1"
      "q' = [] \<longrightarrow> sock_sent s' = sock_sent s1 @ concat (map px_wire q)"
    using Cons.IH [OF _ sock_frame_ok [OF r(2) Cons.prems(2)]] Cons.prems(1) by auto
  show ?case using r ih sock_frame_trans [OF r(2) ih(2)] by (cases "st = 1") simp_all
qed simp

subsection \<open>Receiving\<close>

abbreviation rx_len :: "'s proxyfs_peer_t \<Rightarrow> nat" where
  "rx_len y \<equiv> unat (pp_recv_start y)"

text \<open>A peer that has the first part of \<open>w\<close> in its buffer; the stream has the other and then \<open>rest\<close>.\<close>

definition rx_part :: "byte list \<Rightarrow> byte list \<Rightarrow> 's proxyfs_peer_t \<Rightarrow> bool" where
  "rx_part w rest y \<longleftrightarrow> length (pp_recv_buf y) = 4096 \<and> rx_len y \<le> length w \<and> length w \<le> 4096 \<and> take (rx_len y) (pp_recv_buf y) = take (rx_len y) w \<and>
     (\<exists>s. pp_sock y = Some s \<and> sock_ok s \<and> sock_avail s = drop (rx_len y) w @ rest)"

lemma append_take_take:
  assumes "drop k w @ rest = out @ zs" "k + length out \<le> length w" "k \<le> length w"
  shows "take k w @ out = take (k + length out) w" "zs = drop (k + length out) w @ rest"
proof -
  have "take (length out) (drop k w @ rest) = out" using assms(1) by simp
  then have "take (length out) (drop k w) = out" using assms(2,3) by simp
  then show "take k w @ out = take (k + length out) w" by (simp add: take_add)
  have "zs = drop (length out) (drop k w @ rest)" using assms(1) by simp
  then show "zs = drop (k + length out) w @ rest" using assms(2) by (simp add: add.commute)
qed

lemma recv_at_ok:
  assumes y: "rx_part w rest y" and n: "rx_len y + n \<le> length w"
  shows "\<exists>r y'. recv_at (of_nat n) y = Some (r, y') \<and> rx_part w rest y' \<and> rx_len y \<le> rx_len y' \<and> rx_len y' \<le> rx_len y + n \<and>
    pp_msg_queue y' = pp_msg_queue y \<and> pp_state y' = pp_state y \<and>
    (if r < 0 then rx_len y' = rx_len y else rx_len y' = rx_len y + nat r)"
proof -
  obtain s where s: "pp_sock y = Some s" "sock_ok s" "sock_avail s = drop (rx_len y) w @ rest" using y by (auto simp: rx_part_def)
  have w: "length (pp_recv_buf y) = 4096" "length w \<le> 4096" "take (rx_len y) (pp_recv_buf y) = take (rx_len y) w"
    using y by (simp_all add: rx_part_def)
  have "n < 2 ^ 31" using n w(2) by simp
  then have u: "unat (scast (of_nat n :: i32) :: u64) = n" using small_i32(3) [of n] by (simp add: unat_of_nat)
  obtain r out s' where t: "kkc_sock_tcp_recv s n KKC_SOCK_NONBLOCK = (r, out, s')" by (metis prod_cases3)
  note ok = tcp_recv_ok [OF s(2) t]
  define y' where "y' = y\<lparr>pp_sock := Some s', pp_recv_buf := memcpy_at (pp_recv_buf y) (rx_len y) out,
      pp_recv_start := (if r > 0 then pp_recv_start y + of_int r else pp_recv_start y)\<rparr>"
  have o: "length out \<le> n" "drop (rx_len y) w @ rest = out @ sock_avail s'" using ok s(3) by simp_all
  then have fit: "rx_len y + length out \<le> length w" using n by linarith
  have ro: "if r < 0 then out = [] else r = int (length out)" using ok by (auto split: if_splits)
  have "unat (pp_recv_start y + of_nat (length out)) = rx_len y + length out"
    using fit w(2) by (subst unat_word_ariths) (simp add: unat_of_nat)
  then have k: "rx_len y' = rx_len y + length out" using ro by (auto simp: y'_def split: if_splits)
  have buf: "pp_recv_buf y' = memcpy_at (pp_recv_buf y) (rx_len y) out" by (simp add: y'_def)
  have "recv_at (of_nat n) y = Some (r, y')"
    using s(1) t u fit w by (simp add: recv_at_def kkc_sock_recv_def y'_def)
  moreover have "rx_part w rest y'"
  proof -
    note a = append_take_take [OF o(2) fit]
    have "take (rx_len y') (pp_recv_buf y') = take (rx_len y) (pp_recv_buf y) @ out"
      using fit w unfolding k buf by (simp add: memcpy_at_def)
    then have "take (rx_len y') (pp_recv_buf y') = take (rx_len y') w" using a(1) w y k by (simp add: rx_part_def)
    moreover have "pp_sock y' = Some s'" "sock_ok s'" "sock_avail s' = drop (rx_len y') w @ rest"
      using a(2) y ok s(2) sock_frame_ok k by (auto simp: y'_def rx_part_def)
    moreover have "length (pp_recv_buf y') = 4096" using fit w unfolding buf by simp
    ultimately show ?thesis using fit w k by (simp add: rx_part_def)
  qed
  ultimately show ?thesis using o(1) k ro by (intro exI [of _ r] exI [of _ y']) (simp add: y'_def split: if_splits)
qed

lemma bytes_header_take: "bytes_header (take 32 bs) = bytes_header bs"
  by (simp add: bytes_header_def drop_take min_def)

lemma rx_header:
  assumes "rx_part (px_wire m) rest y" "32 \<le> rx_len y" shows "recv_header y = px_header m"
proof -
  have "take 32 (take (rx_len y) (pp_recv_buf y)) = take 32 (take (rx_len y) (px_wire m))" using assms(1) by (simp add: rx_part_def)
  then have "take 32 (pp_recv_buf y) = header_bytes (px_header m)" using assms(2) by (simp add: px_wire_def)
  then show ?thesis using bytes_header_bytes [of "px_header m" "[]"] bytes_header_take [of "pp_recv_buf y"] by (simp add: recv_header_def)
qed

lemma ucast_diff:
  fixes w :: u64
  assumes "unat w \<le> k" "k \<le> 4096" shows "(ucast (of_nat k - w) :: i32) = of_nat (k - unat w)"
proof -
  have "of_nat k - w = of_nat (k - unat w)" using assms(1) by (simp add: of_nat_diff)
  then show ?thesis using assms(2) by (simp only: unsigned_of_nat) (simp add: take_bit_nat_eq_self)
qed

lemma rx_size:
  assumes "rx_part (px_wire m) rest y" "msg_ok m" "32 \<le> rx_len y"
  shows "scast (proxyfs_msg_get_size (recv_header y)) = pp_recv_start y \<longleftrightarrow> rx_len y = length (px_wire m)"
    "ucast (scast (proxyfs_msg_get_size (recv_header y)) - pp_recv_start y :: u64) = (of_nat (length (px_wire m) - rx_len y) :: i32)"
proof -
  have s: "scast (proxyfs_msg_get_size (recv_header y)) = (of_nat (length (px_wire m)) :: u64)"
    using rx_header [OF assms(1,3)] get_size_ok(2) [OF assms(2)] by simp
  have u: "unat (of_nat (length (px_wire m)) :: u64) = length (px_wire m)"
    using msg_ok_size [OF assms(2)] by (simp only: unat_of_nat) simp
  show "scast (proxyfs_msg_get_size (recv_header y)) = pp_recv_start y \<longleftrightarrow> rx_len y = length (px_wire m)"
    unfolding s using u by (metis of_nat_unat ucast_id)
  have le: "rx_len y \<le> length (px_wire m)" using assms(1) by (simp add: rx_part_def)
  show "ucast (scast (proxyfs_msg_get_size (recv_header y)) - pp_recv_start y :: u64) = (of_nat (length (px_wire m) - rx_len y) :: i32)"
    unfolding s by (rule ucast_diff [OF le msg_ok_size [OF assms(2)]])
qed

lemma rx_get_msg:
  assumes "rx_part (px_wire m) rest y" "msg_ok m"
  shows "proxyfs_peer_get_msg y = (if rx_len y = length (px_wire m) then Some (px_header m, px_data m @ drop (length (px_wire m)) (pp_recv_buf y)) else None)"
    "proxyfs_peer_clear_msg y = (if rx_len y = length (px_wire m) then (0, y\<lparr>pp_recv_start := 0\<rparr>) else (- 1, y))"
proof -
  have g: "pp_recv_start y \<ge> MSG_HDR_SIZE \<longleftrightarrow> 32 \<le> rx_len y" by (simp add: word_le_nat_alt)
  have d: "drop 32 (pp_recv_buf y) = px_data m @ drop (length (px_wire m)) (pp_recv_buf y)" if "rx_len y = length (px_wire m)"
  proof -
    have "take (length (px_wire m)) (pp_recv_buf y) = px_wire m" using assms(1) that by (simp add: rx_part_def)
    then have "pp_recv_buf y = px_wire m @ drop (length (px_wire m)) (pp_recv_buf y)" by (metis append_take_drop_id)
    then have "drop 32 (pp_recv_buf y) = drop 32 (px_wire m @ drop (length (px_wire m)) (pp_recv_buf y))" by (rule arg_cong)
    also have "\<dots> = px_data m @ drop (length (px_wire m)) (pp_recv_buf y)" by (simp add: px_wire_def)
    finally show ?thesis .
  qed
  show "proxyfs_peer_get_msg y = (if rx_len y = length (px_wire m) then Some (px_header m, px_data m @ drop (length (px_wire m)) (pp_recv_buf y)) else None)"
    using rx_size(1) [OF assms] rx_header [OF assms(1)] d by (cases "32 \<le> rx_len y") (auto simp: proxyfs_peer_get_msg_def g)
  show "proxyfs_peer_clear_msg y = (if rx_len y = length (px_wire m) then (0, y\<lparr>pp_recv_start := 0\<rparr>) else (- 1, y))"
    using rx_size(1) [OF assms] by (cases "32 \<le> rx_len y") (auto simp: proxyfs_peer_clear_msg_def g)
qed

lemma real_recv_ok:
  assumes y: "rx_part (px_wire m) rest y" and m: "msg_ok m"
  shows "\<exists>r y'. proxyfs_peer_real_recv y = Some (r, y') \<and> rx_part (px_wire m) rest y' \<and>
    pp_msg_queue y' = pp_msg_queue y \<and> pp_state y' = pp_state y \<and> (rx_len y' = length (px_wire m) \<longrightarrow> r = 1)"
proof -
  have lt: "pp_recv_start z < MSG_HDR_SIZE \<longleftrightarrow> rx_len z < 32" "pp_recv_start z \<ge> MSG_HDR_SIZE \<longleftrightarrow> 32 \<le> rx_len z" for z :: "'a proxyfs_peer_t"
    by (simp_all add: word_less_nat_alt word_le_nat_alt)
  obtain r1 y1 where h: "(if pp_recv_start y < MSG_HDR_SIZE then recv_at (ucast (MSG_HDR_SIZE - pp_recv_start y)) y else Some (0, y)) = Some (r1, y1)"
      "rx_part (px_wire m) rest y1" "pp_msg_queue y1 = pp_msg_queue y" "pp_state y1 = pp_state y"
  proof (cases "rx_len y < 32")
    case True
    have b: "(ucast (MSG_HDR_SIZE - pp_recv_start y) :: i32) = of_nat (32 - rx_len y)"
      using ucast_diff [of "pp_recv_start y" 32] True by simp
    have "rx_len y + (32 - rx_len y) \<le> length (px_wire m)" using True by simp
    from recv_at_ok [OF y this] obtain r1 y1 where r1: "recv_at (of_nat (32 - rx_len y)) y = Some (r1, y1)"
      "rx_part (px_wire m) rest y1" "pp_msg_queue y1 = pp_msg_queue y" "pp_state y1 = pp_state y" by blast
    have "pp_recv_start y < MSG_HDR_SIZE" using True lt(1) by blast
    then show ?thesis using r1(1) unfolding b [symmetric] by (intro that [OF _ r1(2-4)]) (simp only: if_True)
  next
    case False
    then have "\<not> pp_recv_start y < MSG_HDR_SIZE" using lt(1) by blast
    then show ?thesis by (intro that [of 0 y]) (simp_all only: if_False y)
  qed
  show ?thesis
  proof (cases "32 \<le> rx_len y1 \<and> rx_len y1 \<noteq> length (px_wire m)")
    case True
    then have "32 \<le> rx_len y1" by simp
    note s = rx_size [OF h(2) m this]
    have "rx_len y1 + (length (px_wire m) - rx_len y1) \<le> length (px_wire m)" using h(2) by (simp add: rx_part_def)
    from recv_at_ok [OF h(2) this] obtain r2 y2 where
      r: "recv_at (of_nat (length (px_wire m) - rx_len y1)) y1 = Some (r2, y2)" "rx_part (px_wire m) rest y2" "rx_len y1 \<le> rx_len y2"
        "pp_msg_queue y2 = pp_msg_queue y1" "pp_state y2 = pp_state y1" "if r2 < 0 then rx_len y2 = rx_len y1 else rx_len y2 = rx_len y1 + nat r2" by blast
    have e: "pp_recv_start y2 = scast (proxyfs_msg_get_size (recv_header y2)) \<longleftrightarrow> rx_len y2 = length (px_wire m)"
      using rx_size(1) [OF r(2) m] True r(3) by (metis le_trans)
    have p: "rx_len y2 = length (px_wire m) \<longrightarrow> 0 < r2" using r(6) True by (auto split: if_splits)
    have "proxyfs_peer_real_recv y = Some (if 0 < r2 then if rx_len y2 = length (px_wire m) then 1 else 0 else r2, y2)"
      unfolding proxyfs_peer_real_recv_def h(1) using True s(1) by (simp add: lt(2) Let_def s(2) r(1) e del: length_px_wire)
    moreover have "rx_len y2 = length (px_wire m) \<longrightarrow> (if 0 < r2 then if rx_len y2 = length (px_wire m) then 1 else 0 else r2) = 1" using p by simp
    ultimately show ?thesis using h(3,4) r(2) unfolding r(4,5) [symmetric] by blast
  next
    case False
    have "32 \<le> rx_len y1 \<Longrightarrow> scast (proxyfs_msg_get_size (recv_header y1)) = pp_recv_start y1" using rx_size(1) [OF h(2) m] False by blast
    then have "proxyfs_peer_real_recv y = Some (if 32 \<le> rx_len y1 then 1 else r1, y1)"
      unfolding proxyfs_peer_real_recv_def h(1) by (cases "32 \<le> rx_len y1") (simp_all add: lt(2) Let_def)
    moreover have "rx_len y1 = length (px_wire m) \<longrightarrow> (if 32 \<le> rx_len y1 then 1 else r1) = 1" by simp
    ultimately show ?thesis using h(2-4) by blast
  qed
qed

subsection \<open>The stream of messages\<close>

text \<open>
  One iteration of the receiving loop of a task, and several: the messages that the handler gets to see,
  each with as many bytes behind the header as the header says.
\<close>

definition recv_round :: "'s proxyfs_peer_t \<Rightarrow> ((proxyfs_msg_header \<times> byte list) option \<times> 's proxyfs_peer_t) option" where
  "recv_round y = do {
     (r, y) \<leftarrow> proxyfs_peer_real_recv y;
     (if r = 1 then Some (map_option (\<lambda>(h, d). (h, take (unat (hd_data_size h)) d)) (proxyfs_peer_get_msg y), snd (proxyfs_peer_clear_msg y))
      else Some (None, y))
   }"

primrec recv_rounds :: "nat \<Rightarrow> 's proxyfs_peer_t \<Rightarrow> ((proxyfs_msg_header \<times> byte list) list \<times> 's proxyfs_peer_t) option" where
  "recv_rounds 0 y = Some ([], y)"
| "recv_rounds (Suc n) y = do {
     (g, y) \<leftarrow> recv_round y;
     (gs, y) \<leftarrow> recv_rounds n y;
     Some ((case g of None \<Rightarrow> [] | Some c \<Rightarrow> [c]) @ gs, y)
   }"

fun receiving :: "proxyfs_msg list \<Rightarrow> 's proxyfs_peer_t \<Rightarrow> bool" where
  "receiving [] y \<longleftrightarrow> rx_part [] [] y"
| "receiving (m # ms) y \<longleftrightarrow> rx_part (px_wire m) (concat (map px_wire ms)) y"

lemma receiving_clear:
  assumes "rx_part w (concat (map px_wire ms)) y" "rx_len y = length w" "\<forall>m \<in> set ms. msg_ok m"
  shows "receiving ms (y\<lparr>pp_recv_start := 0\<rparr>)"
  using assms msg_ok_size by (cases ms) (auto simp: rx_part_def)

lemma real_recv_idle:
  assumes "rx_part [] [] y"
  shows "\<exists>r y'. proxyfs_peer_real_recv y = Some (r, y') \<and> r \<noteq> 1 \<and> rx_part [] [] y'"
proof -
  obtain s where s: "pp_sock y = Some s" "sock_ok s" "sock_avail s = []" and y: "pp_recv_start y = 0" "length (pp_recv_buf y) = 4096"
    using assms by (auto simp: rx_part_def unat_eq_0)
  obtain r out s' where t: "kkc_sock_tcp_recv s 32 KKC_SOCK_NONBLOCK = (r, out, s')" by (metis prod_cases3)
  note ok = tcp_recv_ok [OF s(2) t]
  then have o: "out = []" "r < 0" "sock_avail s' = []" "sock_ok s'" using s(2,3) sock_frame_ok by (auto split: if_splits)
  let ?y = "y\<lparr>pp_sock := Some s'\<rparr>"
  have "recv_at 32 y = Some (r, ?y)" using s(1) t y o(1,2) by (cases y) (simp add: recv_at_def kkc_sock_recv_def memcpy_at_def)
  then have "proxyfs_peer_real_recv y = Some (r, ?y)" using y(1) by (simp add: proxyfs_peer_real_recv_def)
  moreover have "rx_part [] [] ?y" using y o(3,4) by (simp add: rx_part_def)
  ultimately show ?thesis using o(2) by (intro exI [of _ r] exI [of _ ?y]) simp
qed

lemma receiving_round:
  assumes "receiving ms y" "\<forall>m \<in> set ms. msg_ok m"
  shows "\<exists>g y'. recv_round y = Some (g, y') \<and>
    (case g of None \<Rightarrow> receiving ms y' | Some c \<Rightarrow> ms \<noteq> [] \<and> c = (px_header (hd ms), px_data (hd ms)) \<and> receiving (tl ms) y')"
proof (cases ms)
  case Nil
  then show ?thesis using real_recv_idle [of y] assms(1) by (auto simp: recv_round_def)
next
  case (Cons m ms')
  then have y: "rx_part (px_wire m) (concat (map px_wire ms')) y" and m: "msg_ok m" and ms': "\<forall>m \<in> set ms'. msg_ok m" using assms by simp_all
  obtain r y' where r: "proxyfs_peer_real_recv y = Some (r, y')" "rx_part (px_wire m) (concat (map px_wire ms')) y'"
      "rx_len y' = length (px_wire m) \<longrightarrow> r = 1" using real_recv_ok [OF y m] by blast
  note g = rx_get_msg [OF r(2) m]
  have d: "unat (hd_data_size (px_header m)) = length (px_data m)" using m by (simp add: msg_ok_def unat_of_nat)
  show ?thesis
  proof (cases "rx_len y' = length (px_wire m)")
    case True
    then have "recv_round y = Some (Some (px_header m, px_data m), y'\<lparr>pp_recv_start := 0\<rparr>)"
      using r(1,3) g d by (simp add: recv_round_def)
    then show ?thesis using receiving_clear [OF r(2) True ms'] Cons by simp
  next
    case False
    then have "recv_round y = Some (None, y')" using r(1) g by (simp add: recv_round_def)
    then show ?thesis using r(2) Cons by simp
  qed
qed

lemma receiving_rounds:
  assumes "receiving ms y" "\<forall>m \<in> set ms. msg_ok m"
  shows "\<exists>k y'. recv_rounds n y = Some (map (\<lambda>m. (px_header m, px_data m)) (take k ms), y') \<and> receiving (drop k ms) y'"
  using assms
proof (induction n arbitrary: ms y)
  case 0
  then show ?case by (intro exI [of _ 0]) simp
next
  case (Suc n)
  obtain g y1 where g: "recv_round y = Some (g, y1)"
      "case g of None \<Rightarrow> receiving ms y1 | Some c \<Rightarrow> ms \<noteq> [] \<and> c = (px_header (hd ms), px_data (hd ms)) \<and> receiving (tl ms) y1"
    using receiving_round [OF Suc.prems] by blast
  show ?case
  proof (cases g)
    case None
    then show ?thesis using g Suc.IH [of ms y1] Suc.prems(2) by auto
  next
    case (Some c)
    then obtain m ms' where ms: "ms = m # ms'" "c = (px_header m, px_data m)" "receiving ms' y1" using g(2) by (cases ms) auto
    then obtain k y' where "recv_rounds n y1 = Some (map (\<lambda>m. (px_header m, px_data m)) (take k ms'), y')" "receiving (drop k ms') y'"
      using Suc.IH [of ms' y1] Suc.prems(2) by auto
    then show ?thesis using g(1) Some ms by (intro exI [of _ "Suc k"] exI [of _ y']) simp
  qed
qed


definition sample_msg :: proxyfs_msg where
  "sample_msg = \<lparr>px_header = \<lparr>hd_magic = MSG_MAGIC, hd_msg_num = MSG_WRITE, hd_file_ident = 7, hd_data_size = 3\<rparr>,
     px_data = [1, 2, 3], px_send_start = 0, px_free = True\<rparr>"

definition sample_peer :: "proxyfs_msg list \<Rightarrow> byte list \<Rightarrow> byte list \<Rightarrow> (byte list \<times> byte list) proxyfs_peer_t" where
  "sample_peer q out inp = \<lparr>pp_sock = Some (eager_sock out inp), pp_recv_buf = replicate 4096 0, pp_recv_start = 0, pp_msg_queue = q,
     pp_ref_count = 1, pp_state = PEER_CONNECTED\<rparr>"


end
