(* ===== verification/Proxyfs_Class.thy ===== *)
theory Proxyfs_Class
  imports Proxyfs_Fs Proxyfs_Framing
begin

text \<open>
  The contract of a file class, that proxy files and real files keep it, what a task does with
  a file of any class that does, and what the writing of a real file does to its read buffer.
\<close>

subsection \<open>The contract of a file class\<close>

abbreviation wr_bytes :: "'a proxyfs_file_t_scheme \<Rightarrow> byte list" where
  "wr_bytes f \<equiv> circ_contents (pf_write_buf f)"
abbreviation rd_bytes :: "'a proxyfs_file_t_scheme \<Rightarrow> byte list" where
  "rd_bytes f \<equiv> circ_contents (pf_read_buf f)"
abbreviation unconf :: "'a proxyfs_file_t_scheme \<Rightarrow> nat" where
  "unconf f \<equiv> unat (pf_write_buf_unconfirmed f)"

definition file_ok :: "'a proxyfs_file_t_scheme \<Rightarrow> bool" where
  "file_ok f \<longleftrightarrow> circ_buf_inv (pf_write_buf f) \<and> circ_buf_inv (pf_read_buf f) \<and>
     cb_size (pf_write_buf f) = WRITE_BUF_SIZE \<and> cb_size (pf_read_buf f) = READ_BUF_SIZE \<and> unconf f \<le> length (wr_bytes f)"

definition file_same :: "'a proxyfs_file_t_scheme \<Rightarrow> 'b proxyfs_file_t_scheme \<Rightarrow> bool" where
  "file_same f f' \<longleftrightarrow> pf_file_ident f' = pf_file_ident f \<and> pf_file_owner_pid f' = pf_file_owner_pid f \<and> pf_peer f' = pf_peer f"

lemma file_ok_bounds:
  assumes "file_ok f" shows "length (wr_bytes f) \<le> 8192" "length (rd_bytes f) \<le> 8192" "unconf f \<le> length (wr_bytes f)"
  using assms ring_used_le [of "pf_write_buf f"] ring_used_le [of "pf_read_buf f"] by (simp_all add: file_ok_def)

lemma file_ok_free: "file_ok f \<Longrightarrow> circ_free (pf_read_buf f) = 8192 - length (rd_bytes f)"
  by (simp add: file_ok_def circ_free_def)

lemma file_ok_free_w: "file_ok f \<Longrightarrow> circ_free (pf_write_buf f) = 8192 - length (wr_bytes f)"
  by (simp add: file_ok_def circ_free_def)

lemma file_same_ident [simp]: "file_same f f' \<Longrightarrow> proxyfs_file_get_file_ident f' = proxyfs_file_get_file_ident f"
  by (simp add: file_same_def proxyfs_file_get_file_ident_def)

locale file_class =
  fixes ops :: "'a proxyfs_file_t_scheme proxyfs_file_ops" and ready :: "'a proxyfs_file_t_scheme \<Rightarrow> bool"
  assumes write_from_peer: "\<lbrakk>file_ok f; ready f; count \<noteq> 0; unat count \<le> length buf; unat count < 2 ^ 32\<rbrakk> \<Longrightarrow>
      \<exists>n f'. op_write_from_peer ops f buf count = Some (n, f') \<and> file_ok f' \<and> ready f' \<and> file_same f f' \<and>
        rd_bytes f' = rd_bytes f @ take (min (unat count) (8192 - length (rd_bytes f))) buf \<and> wr_bytes f' = wr_bytes f \<and> unconf f' = unconf f"
    and read_to_peer: "\<lbrakk>file_ok f; ready f; unat count < 2 ^ 31\<rbrakk> \<Longrightarrow>
      \<exists>n bs f'. op_read_to_peer ops f count = Some (n, bs, f') \<and> file_ok f' \<and> ready f' \<and> file_same f f' \<and>
        bs = take (unat count) (drop (unconf f) (wr_bytes f)) \<and> unat n = length bs \<and>
        rd_bytes f' = rd_bytes f \<and> wr_bytes f' = wr_bytes f \<and> unconf f' = unconf f + length bs"
    and submit_read_to_peer: "\<lbrakk>file_ok f; ready f; unat count \<le> unconf f\<rbrakk> \<Longrightarrow>
      \<exists>f'. op_submit_read_to_peer ops f count = Some f' \<and> file_ok f' \<and> ready f' \<and> file_same f f' \<and>
        rd_bytes f' = rd_bytes f \<and> wr_bytes f' = drop (unat count) (wr_bytes f) \<and> unconf f' = unconf f - unat count"
    and write_buf_info: "\<lbrakk>file_ok f; ready f\<rbrakk> \<Longrightarrow>
      \<exists>sz ad. op_write_buf_info ops f = Some (of_nat (length (wr_bytes f)), sz, ad)"

subsection \<open>Both kinds of files keep the contract\<close>

lemma look_at_view:
  fixes count :: u64
  assumes "file_ok f" "unat count < 2 ^ 31"
  shows "circ_buf_look_at (pf_write_buf f) (ucast count) (pf_write_buf_unconfirmed f) =
      (pf_write_buf f, take (unat count) (drop (unconf f) (wr_bytes f)), of_nat (length (take (unat count) (drop (unconf f) (wr_bytes f)))))"
proof -
  have u: "unat (ucast count :: u32) = unat count" using assms(2) by (intro unat_ucast_64_32) simp
  show ?thesis using circ_buf_look_at_ok [of "pf_write_buf f" "pf_write_buf_unconfirmed f" "ucast count"] assms(1)
    by (simp add: file_ok_def u min.commute)
qed

lemma sent_length:
  assumes "file_ok f" "bs = take n (drop (unconf f) (wr_bytes f))"
  shows "unat (of_nat (length bs) :: i32) = length bs" "0 <s (of_nat (length bs) :: i32) \<longleftrightarrow> bs \<noteq> []"
    "unat (pf_write_buf_unconfirmed f + scast (of_nat (length bs) :: i32)) = unconf f + length bs"
    "unconf f + length bs \<le> length (wr_bytes f)"
proof -
  note b = file_ok_bounds [OF assms(1)]
  have l: "length bs \<le> length (wr_bytes f) - unconf f" using assms(2) by simp
  then have l2: "length bs < 2 ^ 31" using b by simp
  note w = small_i32 [OF l2]
  show "unat (of_nat (length bs) :: i32) = length bs" by (rule w)
  show "0 <s (of_nat (length bs) :: i32) \<longleftrightarrow> bs \<noteq> []" by (simp add: word_sless_alt w)
  show "unat (pf_write_buf_unconfirmed f + scast (of_nat (length bs) :: i32)) = unconf f + length bs"
  proof -
    have "unconf f + length bs \<le> 8192" using l b by linarith
    then have u: "unat (of_nat (length bs) :: u64) = length bs" "unconf f + length bs < 2 ^ 64" by (simp_all add: unat_of_nat)
    show ?thesis unfolding w using unat_add_small [of "pf_write_buf_unconfirmed f" "of_nat (length bs)"] u by simp
  qed
  show "unconf f + length bs \<le> length (wr_bytes f)" using l b by linarith
qed

definition proxy_ready :: "proxy_file_class option \<Rightarrow> proxyfs_proxy_file_t \<Rightarrow> bool" where
  "proxy_ready k f \<longleftrightarrow> pr_write_buf_sem f \<and> pr_read_buf_sem f \<and> pr_ops f = k"

definition real_ready :: "real_file_class option \<Rightarrow> nat \<Rightarrow> 'b proxyfs_real_file_scheme \<Rightarrow> bool" where
  "real_ready k x f \<longleftrightarrow> rl_ops f = k \<and> rl_file f = x"

lemma circ_write_view:
  fixes count :: u64
  assumes "file_ok f" "unat count \<le> length buf" "unat count < 2 ^ 32"
  obtains b n where "circ_buf_write (pf_read_buf f) buf (ucast count) = (b, n)" "circ_buf_inv b" "cb_size b = READ_BUF_SIZE"
    "circ_contents b = rd_bytes f @ take (min (unat count) (8192 - length (rd_bytes f))) buf"
proof -
  have u: "unat (ucast count :: u32) = unat count" using assms(3) by (rule unat_ucast_64_32)
  obtain b n where r: "circ_buf_write (pf_read_buf f) buf (ucast count) = (b, n)" by force
  have "circ_buf_inv (pf_read_buf f)" using assms(1) by (simp add: file_ok_def)
  from circ_buf_write_ok [OF this _ r] assms(1,2) u file_ok_free [OF assms(1)] that [OF r] show thesis
    by (simp add: file_ok_def)
qed

lemma submit_view:
  fixes count :: u64
  assumes "file_ok f" "unat count \<le> unconf f"
  shows "circ_buf_inv (circ_buf_adjust_read_ptr (pf_write_buf f) (ucast count)) \<and>
    cb_size (circ_buf_adjust_read_ptr (pf_write_buf f) (ucast count)) = WRITE_BUF_SIZE \<and>
    circ_contents (circ_buf_adjust_read_ptr (pf_write_buf f) (ucast count)) = drop (unat count) (wr_bytes f) \<and>
    ring_used (circ_buf_adjust_read_ptr (pf_write_buf f) (ucast count)) = ring_used (pf_write_buf f) - unat count \<and>
    unat (pf_write_buf_unconfirmed f - count) = unconf f - unat count"
proof -
  have c: "unat count \<le> ring_used (pf_write_buf f)" "unat count < 2 ^ 32"
    using assms file_ok_bounds [OF assms(1)] by simp_all
  have u: "unat (ucast count :: u32) = unat count" using c(2) by (rule unat_ucast_64_32)
  have "unat (pf_write_buf_unconfirmed f - count) = unconf f - unat count"
    using assms(2) by (simp add: unat_sub word_le_nat_alt)
  moreover have "cb_size (circ_buf_adjust_read_ptr (pf_write_buf f) (ucast count)) = cb_size (pf_write_buf f)"
    by (simp add: circ_buf_adjust_read_ptr_def Let_def)
  ultimately show ?thesis using adjust_read_ptr_ok [of "pf_write_buf f" "ucast count"] assms(1) c u by (simp add: file_ok_def)
qed

lemma count_view: "file_ok f \<Longrightarrow> ucast (circ_buf_count (pf_write_buf f)) = (of_nat (length (wr_bytes f)) :: u64)"
  using unat_count [of "pf_write_buf f"] by (metis file_ok_def length_circ_contents of_nat_unat_ucast)

lemma proxy_file_class: "file_class proxy_file_ops (proxy_ready k)"
proof
  fix f :: proxyfs_proxy_file_t and count :: u64 and buf :: "byte list"
  assume f: "file_ok f" "proxy_ready k f"
  {
    assume c: "count \<noteq> 0" "unat count \<le> length buf" "unat count < 2 ^ 32"
    obtain b n where "circ_buf_write (pf_read_buf f) buf (ucast count) = (b, n)" "circ_buf_inv b" "cb_size b = READ_BUF_SIZE"
      "circ_contents b = rd_bytes f @ take (min (unat count) (8192 - length (rd_bytes f))) buf"
      using circ_write_view [OF f(1) c(2,3)] by blast
    then show "\<exists>n f'. op_write_from_peer proxy_file_ops f buf count = Some (n, f') \<and> file_ok f' \<and> proxy_ready k f' \<and> file_same f f' \<and>
        rd_bytes f' = rd_bytes f @ take (min (unat count) (8192 - length (rd_bytes f))) buf \<and> wr_bytes f' = wr_bytes f \<and> unconf f' = unconf f"
      using f c(1) by (simp add: proxy_file_ops_def proxyfs_proxy_file_write_from_peer_def with_read_sem_def proxy_ready_def file_same_def file_ok_def)
  }
  {
    assume c: "unat count < 2 ^ 31"
    show "\<exists>n bs f'. op_read_to_peer proxy_file_ops f count = Some (n, bs, f') \<and> file_ok f' \<and> proxy_ready k f' \<and> file_same f f' \<and>
        bs = take (unat count) (drop (unconf f) (wr_bytes f)) \<and> unat n = length bs \<and>
        rd_bytes f' = rd_bytes f \<and> wr_bytes f' = wr_bytes f \<and> unconf f' = unconf f + length bs"
      using f sent_length [OF f(1) refl, of "unat count"]
      by (auto simp: proxy_file_ops_def proxyfs_proxy_file_read_to_peer_def with_write_sem_def proxy_ready_def look_at_view [OF f(1) c]
          Let_def file_same_def file_ok_def)
  }
  {
    assume c: "unat count \<le> unconf f"
    show "\<exists>f'. op_submit_read_to_peer proxy_file_ops f count = Some f' \<and> file_ok f' \<and> proxy_ready k f' \<and> file_same f f' \<and>
        rd_bytes f' = rd_bytes f \<and> wr_bytes f' = drop (unat count) (wr_bytes f) \<and> unconf f' = unconf f - unat count"
      using f submit_view [OF f(1) c]
      by (auto simp: proxy_file_ops_def proxyfs_proxy_file_submit_read_to_peer_def with_write_sem_def proxy_ready_def file_same_def file_ok_def)
  }
  show "\<exists>sz ad. op_write_buf_info proxy_file_ops f = Some (of_nat (length (wr_bytes f)), sz, ad)"
    using f by (simp add: proxy_file_ops_def proxyfs_proxy_file_write_buf_info_def with_write_sem_def proxy_ready_def count_view)
qed

interpretation proxy: file_class proxy_file_ops "proxy_ready k" for k
  by (rule proxy_file_class)

lemma real_file_class: "file_class real_file_ops (real_ready k x :: 'b proxyfs_real_file_scheme \<Rightarrow> bool)"
proof
  fix f :: "'b proxyfs_real_file_scheme" and count :: u64 and buf :: "byte list"
  assume f: "file_ok f" "real_ready k x f"
  {
    assume c: "count \<noteq> 0" "unat count \<le> length buf" "unat count < 2 ^ 32"
    obtain b n where "circ_buf_write (pf_read_buf f) buf (ucast count) = (b, n)" "circ_buf_inv b" "cb_size b = READ_BUF_SIZE"
      "circ_contents b = rd_bytes f @ take (min (unat count) (8192 - length (rd_bytes f))) buf"
      using circ_write_view [OF f(1) c(2,3)] by blast
    then show "\<exists>n f'. op_write_from_peer real_file_ops f buf count = Some (n, f') \<and> file_ok f' \<and> real_ready k x f' \<and> file_same f f' \<and>
        rd_bytes f' = rd_bytes f @ take (min (unat count) (8192 - length (rd_bytes f))) buf \<and> wr_bytes f' = wr_bytes f \<and> unconf f' = unconf f"
      using f c(1) by (simp add: real_file_ops_def real_ready_def proxyfs_real_file_write_from_peer_def file_same_def file_ok_def)
  }
  {
    assume c: "unat count < 2 ^ 31"
    show "\<exists>n bs f'. op_read_to_peer real_file_ops f count = Some (n, bs, f') \<and> file_ok f' \<and> real_ready k x f' \<and> file_same f f' \<and>
        bs = take (unat count) (drop (unconf f) (wr_bytes f)) \<and> unat n = length bs \<and>
        rd_bytes f' = rd_bytes f \<and> wr_bytes f' = wr_bytes f \<and> unconf f' = unconf f + length bs"
      using f sent_length [OF f(1) refl, of "unat count"]
      by (auto simp: real_file_ops_def real_ready_def proxyfs_real_file_read_to_peer_def look_at_view [OF f(1) c] Let_def file_same_def file_ok_def)
  }
  {
    assume c: "unat count \<le> unconf f"
    show "\<exists>f'. op_submit_read_to_peer real_file_ops f count = Some f' \<and> file_ok f' \<and> real_ready k x f' \<and> file_same f f' \<and>
        rd_bytes f' = rd_bytes f \<and> wr_bytes f' = drop (unat count) (wr_bytes f) \<and> unconf f' = unconf f - unat count"
      using f submit_view [OF f(1) c] by (auto simp: real_file_ops_def real_ready_def proxyfs_real_file_submit_read_to_peer_def file_same_def file_ok_def)
  }
  show "\<exists>sz ad. op_write_buf_info real_file_ops f = Some (of_nat (length (wr_bytes f)), sz, ad)"
    using f by (simp add: real_file_ops_def real_ready_def proxyfs_real_file_write_buf_info_def count_view)
qed

interpretation real: file_class real_file_ops "real_ready k x :: 'b proxyfs_real_file_scheme \<Rightarrow> bool" for k x
  by (rule real_file_class)

subsection \<open>What a task does with a file\<close>

definition plain_msg :: "u64 \<Rightarrow> u64 \<Rightarrow> byte list \<Rightarrow> proxyfs_msg" where
  "plain_msg num ident bs = \<lparr>px_header = \<lparr>hd_magic = MSG_MAGIC, hd_msg_num = num, hd_file_ident = ident, hd_data_size = of_nat (length bs)\<rparr>,
     px_data = bs, px_send_start = 0, px_free = True\<rparr>"

definition queue_msg :: "proxyfs_msg \<Rightarrow> 's proxyfs_peer_t \<Rightarrow> 's proxyfs_peer_t" where
  "queue_msg m x = x\<lparr>pp_msg_queue := pp_msg_queue x @ [m]\<rparr>"

lemma task_send_ok:
  "ps_peers (pt_store self) p = Some x \<Longrightarrow> task_send_msg (Some p) (Some m) self = Some (task_peer p (queue_msg m x) self)"
  by (simp add: task_send_msg_def store_send_msg_def proxyfs_peer_send_msg_def task_peer_def queue_msg_def)

lemma task_file_fields [simp]:
  "pt_heap (task_file a f self) = (pt_heap self)(a \<mapsto> f)" "pt_store (task_file a f self) = pt_store self"
  "pt_files (task_file a f self) = pt_files self" "pt_peers (task_file a f self) = pt_peers self"
  by (simp_all add: task_file_def)

lemma task_peer_fields [simp]:
  "pt_heap (task_peer a x self) = pt_heap self" "ps_peers (pt_store (task_peer a x self)) = (ps_peers (pt_store self))(a \<mapsto> x)"
  "pt_files (task_peer a x self) = pt_files self" "pt_peers (task_peer a x self) = pt_peers self"
  by (simp_all add: task_peer_def)

lemma takeover_ok:
  assumes "kmalloc sizeof_proxyfs_msg" "length bs \<le> 4064"
  shows "proxyfs_msg_new_takeover_ownership kmalloc num ident (of_nat (length bs)) bs = Some (plain_msg num ident bs)"
proof -
  have "\<not> (of_nat (length bs) :: u64) > 4064" using assms(2) by (simp add: word_less_nat_alt unat_of_nat)
  then show ?thesis using assms(1)
    by (simp add: proxyfs_msg_new_takeover_ownership_def proxyfs_msg_new_internal_def plain_msg_def)
qed

context file_class
begin

lemma send_write_buf:
  assumes f: "pt_heap self a = Some f" "file_ok f" "ready f" and p: "pf_peer f = Some p" "ps_peers (pt_store self) p = Some x"
    and mem: "kmalloc sizeof_proxyfs_msg"
  shows "\<exists>r self'. proxyfs_task_send_write_buf kmalloc ops a self = Some (r, self') \<and>
    (self' = self \<or> (\<exists>f' bs. self' = task_peer p (queue_msg (plain_msg MSG_WRITE (proxyfs_file_get_file_ident f) bs) x) (task_file a f' self) \<and>
       file_ok f' \<and> ready f' \<and> file_same f f' \<and> bs = take 4064 (drop (unconf f) (wr_bytes f)) \<and> bs \<noteq> [] \<and>
       rd_bytes f' = rd_bytes f \<and> wr_bytes f' = wr_bytes f \<and> unconf f' = unconf f + length bs))"
proof -
  note b = file_ok_bounds [OF f(2)]
  obtain T sz ad where i: "op_write_buf_info ops f = Some (T, sz, ad)" and T: "T = of_nat (length (wr_bytes f))"
    using write_buf_info [OF f(2,3)] by blast
  define send where "send = T - pf_write_buf_unconfirmed f"
  have s: "unat send = length (wr_bytes f) - unconf f"
    using b unfolding send_def T by (subst unat_sub) (simp_all add: word_le_nat_alt unat_of_nat)
  have z: "T = pf_write_buf_unconfirmed f \<longleftrightarrow> send = 0" by (simp add: send_def)
  define n where "n = (if send > 4064 then 4064 else send)"
  have n: "unat n = min 4064 (length (wr_bytes f) - unconf f)"
    using s by (simp add: n_def word_less_nat_alt min_def)
  obtain k bs f' where r: "op_read_to_peer ops f n = Some (k, bs, f')" "file_ok f'" "ready f'" "file_same f f'"
      "bs = take (unat n) (drop (unconf f) (wr_bytes f))" "unat k = length bs"
      "rd_bytes f' = rd_bytes f" "wr_bytes f' = wr_bytes f" "unconf f' = unconf f + length bs"
    using read_to_peer [OF f(2,3), of n] n by fastforce
  have bs: "bs = take 4064 (drop (unconf f) (wr_bytes f))" using r(5) n by (simp add: min_def)
  have "k = of_nat (length bs)" using r(6) by (metis of_nat_unat ucast_id)
  moreover have "length bs < 2 ^ 31" using bs by simp
  ultimately have k: "scast k = (of_nat (length bs) :: u64)" "k = 0 \<longleftrightarrow> bs = []"
    using small_i32(3) r(6) by (simp, metis length_0_conv unat_ne_0_iff)
  let ?self = "task_peer p (queue_msg (plain_msg MSG_WRITE (proxyfs_file_get_file_ident f) bs) x) (task_file a f' self)"
  have new: "proxyfs_msg_new_takeover_ownership kmalloc MSG_WRITE (proxyfs_file_get_file_ident f') (scast k) bs =
      Some (plain_msg MSG_WRITE (proxyfs_file_get_file_ident f) bs)"
    unfolding k using takeover_ok [of kmalloc bs] mem bs r(4) by simp
  have snd: "task_send_msg (Some p) (Some m) (task_file a f' self) = Some (task_peer p (queue_msg m x) (task_file a f' self))" for m
    using p(2) by (simp add: task_send_ok)
  have ne: "send \<noteq> 0 \<Longrightarrow> bs \<noteq> []" using s bs by (metis drop_eq_Nil take_eq_Nil2 diff_is_0_eq zero_neq_numeral unat_ne_0_iff)
  consider "send = 0" | "send \<noteq> 0" "\<not> kmalloc n" | "send \<noteq> 0" "kmalloc n" by blast
  then show ?thesis
  proof cases
    case 3
    have "proxyfs_task_send_write_buf kmalloc ops a self = Some (if send > 4064 then - EAGAIN else 0, ?self)"
      using 3 ne r(1) by (cases "send > 4064")
        (simp_all add: proxyfs_task_send_write_buf_def f(1) p(1) i z k(2) new snd Let_def n_def flip: send_def)
    then show ?thesis using r bs ne 3 by blast
  qed (simp_all add: proxyfs_task_send_write_buf_def f(1) p(1) i z Let_def n_def flip: send_def split: if_splits)
qed

lemma handle_write:
  assumes y: "ps_peers (pt_store self) q = Some y" "proxyfs_peer_get_msg y = Some (h, data)"
    and h: "hd_msg_num h = MSG_WRITE" "proxyfs_task_find_file self (hd_file_ident h) = Some b"
    and f: "pt_heap self b = Some f" "file_ok f" "ready f"
    and d: "hd_data_size h \<noteq> 0" "unat (hd_data_size h) \<le> length data" "length (rd_bytes f) + unat (hd_data_size h) \<le> 8192"
  shows "\<exists>f'. proxyfs_task_handle_msg ops hm q self = Some (task_file b f' self) \<and> file_ok f' \<and> ready f' \<and> file_same f f' \<and>
    rd_bytes f' = rd_bytes f @ take (unat (hd_data_size h)) data \<and> wr_bytes f' = wr_bytes f \<and> unconf f' = unconf f"
proof -
  have "unat (hd_data_size h) < 2 ^ 32" using d(3) by simp
  then obtain n f' where "op_write_from_peer ops f data (hd_data_size h) = Some (n, f')" "file_ok f'" "ready f'" "file_same f f'"
      "rd_bytes f' = rd_bytes f @ take (min (unat (hd_data_size h)) (8192 - length (rd_bytes f))) data" "wr_bytes f' = wr_bytes f" "unconf f' = unconf f"
    using write_from_peer [OF f(2,3) d(1,2)] by blast
  moreover have "min (unat (hd_data_size h)) (8192 - length (rd_bytes f)) = unat (hd_data_size h)" using d(3) by linarith
  ultimately show ?thesis by (intro exI [of _ f']) (simp add: proxyfs_task_handle_msg_def y h f(1))
qed

lemma handle_write_resp:
  assumes y: "ps_peers (pt_store self) q = Some y" "proxyfs_peer_get_msg y = Some (h, data)"
    and h: "hd_msg_num h = MSG_WRITE_RESP" "proxyfs_task_find_file self (hd_file_ident h) = Some b"
    and f: "pt_heap self b = Some f" "file_ok f" "ready f"
    and d: "data_word data \<noteq> 0" "unat (data_word data) \<le> unconf f"
  shows "\<exists>f'. proxyfs_task_handle_msg ops hm q self = Some (task_file b f' self) \<and> file_ok f' \<and> ready f' \<and> file_same f f' \<and>
    rd_bytes f' = rd_bytes f \<and> wr_bytes f' = drop (unat (data_word data)) (wr_bytes f) \<and> unconf f' = unconf f - unat (data_word data)"
proof -
  obtain f' where "op_submit_read_to_peer ops f (ucast (data_word data)) = Some f'" "file_ok f'" "ready f'" "file_same f f'"
      "rd_bytes f' = rd_bytes f" "wr_bytes f' = drop (unat (data_word data)) (wr_bytes f)" "unconf f' = unconf f - unat (data_word data)"
    using submit_read_to_peer [OF f(2,3), of "ucast (data_word data)"] d(2) by auto
  then show ?thesis by (intro exI [of _ f']) (simp add: proxyfs_task_handle_msg_def y h f(1) d(1))
qed

end

subsection \<open>Writing a read buffer out\<close>

text \<open>What a physical file does with data: \<open>wr\<close> gives all it has been given.\<close>

definition vfs_ok :: "'k file_operations \<Rightarrow> ('k \<Rightarrow> byte list) \<Rightarrow> bool" where
  "vfs_ok op wr \<longleftrightarrow> (\<forall>k bs pos r pos' k'. v_write op k bs pos = (r, pos', k') \<longrightarrow>
     (if 0 < r then r \<le> int (length bs) \<and> wr k' = wr k @ take (nat r) bs else wr k' = wr k))"

abbreviation written :: "('k \<Rightarrow> byte list) \<Rightarrow> 'k kfile \<Rightarrow> byte list" where
  "written wr F \<equiv> wr (f_state F)"

lemma vfs_write_ok:
  assumes "vfs_ok (f_op F) wr" "vfs_write F bs pos = (r, pos', F')"
  shows "f_op F' = f_op F \<and> r \<le> int (length bs) \<and> written wr F' = written wr F @ take (nat r) bs"
proof -
  obtain k where k: "v_write (f_op F) (f_state F) bs pos = (r, pos', k)" "F' = F\<lparr>f_state := k\<rparr>"
    using assms(2) by (auto simp: vfs_write_def split: prod.splits)
  have "if 0 < r then r \<le> int (length bs) \<and> wr k = wr (f_state F) @ take (nat r) bs else wr k = wr (f_state F)"
    using assms(1) k(1) unfolding vfs_ok_def by blast
  then show ?thesis using k(2) by (auto split: if_splits)
qed

definition wrote :: "('k \<Rightarrow> byte list) \<Rightarrow> 'b proxyfs_real_file_scheme \<Rightarrow> 'k kfile \<Rightarrow> nat \<Rightarrow> 'b proxyfs_real_file_scheme \<Rightarrow> 'k kfile \<Rightarrow> bool" where
  "wrote wr f F n f' F' \<longleftrightarrow> n \<le> length (rd_bytes f) \<and> file_ok f' \<and> file_same f f' \<and> rl_file f' = rl_file f \<and> rl_ops f' = rl_ops f \<and> f_op F' = f_op F \<and>
     rd_bytes f' = drop n (rd_bytes f) \<and> wr_bytes f' = wr_bytes f \<and> unconf f' = unconf f \<and>
     written wr F' = written wr F @ take n (rd_bytes f)"

lemma chunk_view:
  assumes "file_ok f" shows "read_chunk (pf_read_buf f) (circ_buf_get_read_size (pf_read_buf f)) =
      take (unat (circ_buf_get_read_size (pf_read_buf f))) (rd_bytes f)"
    "unat (circ_buf_get_read_size (pf_read_buf f)) \<le> length (rd_bytes f)"
  using read_step_ok [of "pf_read_buf f" "circ_buf_get_read_size (pf_read_buf f)"] assms
  by (simp_all add: file_ok_def read_chunk_def)

lemma wrote_chunk:
  fixes f :: "'b proxyfs_real_file_scheme"
  assumes f: "file_ok f" and F: "vfs_ok (f_op F) wr"
    and w: "vfs_write F (read_chunk (pf_read_buf f) (circ_buf_get_read_size (pf_read_buf f))) pos = (r, pos', F')" "0 < r"
  shows "wrote wr f F (nat r) (f\<lparr>pf_read_buf := circ_buf_adjust_read_ptr (pf_read_buf f) (of_int r)\<rparr>) F'"
proof -
  note c = chunk_view [OF f] and b = file_ok_bounds [OF f]
  note v = vfs_write_ok [OF F w(1)]
  have "length (read_chunk (pf_read_buf f) (circ_buf_get_read_size (pf_read_buf f))) = unat (circ_buf_get_read_size (pf_read_buf f))"
    using c by simp
  then have r: "nat r \<le> unat (circ_buf_get_read_size (pf_read_buf f))" using v by linarith
  have "(of_int r :: u32) = of_nat (nat r)" using w(2) by simp
  moreover have "nat r < 2 ^ 32" using r c(2) b(2) by simp
  ultimately have u: "unat (of_int r :: u32) = nat r" by (simp add: unat_of_nat)
  have "circ_buf_inv (pf_read_buf f)" "nat r \<le> ring_used (pf_read_buf f)" using f r c(2) by (simp_all add: file_ok_def)
  note a = adjust_read_ptr_ok [OF this(1), of "of_int r", unfolded u, OF this(2)]
  moreover have "cb_size (circ_buf_adjust_read_ptr (pf_read_buf f) (of_int r)) = cb_size (pf_read_buf f)"
    by (simp add: circ_buf_adjust_read_ptr_def Let_def)
  moreover have "take (nat r) (take (unat (circ_buf_get_read_size (pf_read_buf f))) (rd_bytes f)) = take (nat r) (rd_bytes f)"
    using r by (simp add: min_def)
  ultimately show ?thesis using f v c r by (auto simp: wrote_def file_ok_def file_same_def)
qed

lemma wrote_none: "file_ok f \<Longrightarrow> f_op F' = f_op F \<Longrightarrow> written wr F' = written wr F \<Longrightarrow> wrote wr f F 0 f F'"
  by (simp add: wrote_def file_same_def)

lemma wrote_trans:
  assumes "wrote wr f F n f1 F1" "wrote wr f1 F1 m f2 F2" shows "wrote wr f F (n + m) f2 F2"
proof -
  have "drop m (drop n (rd_bytes f)) = drop (n + m) (rd_bytes f)" by (simp add: add.commute)
  then show ?thesis using assms by (auto simp: wrote_def file_same_def take_add simp del: drop_drop)
qed

lemma write_out_twice_ok:
  fixes f :: "'b proxyfs_real_file_scheme"
  assumes f: "file_ok f" and F: "vfs_ok (f_op F) wr" and r: "write_out_twice f F = (n, f', F')"
  shows "0 \<le> n \<and> wrote wr f F (nat n) f' F'"
proof -
  let ?c = "circ_buf_get_read_size (pf_read_buf f)"
  obtain l pos F1 where w: "vfs_write F (read_chunk (pf_read_buf f) ?c) (f_pos F) = (l, pos, F1)" by (metis prod_cases3)
  let ?f1 = "f\<lparr>pf_read_buf := circ_buf_adjust_read_ptr (pf_read_buf f) (of_int l)\<rparr>"
  let ?c1 = "circ_buf_get_read_size (pf_read_buf ?f1)"
  obtain l2 pos2 F2 where w2: "vfs_write F1 (read_chunk (pf_read_buf ?f1) ?c1) pos = (l2, pos2, F2)" by (metis prod_cases3)
  note v = vfs_write_ok [OF F w]
  have v1: "0 < l \<Longrightarrow> wrote wr f F (nat l) ?f1 F1" by (rule wrote_chunk [OF f F w])
  have F1: "vfs_ok (f_op F1) wr" using F v by simp
  note v2 = vfs_write_ok [OF F1 w2]
  have f1: "0 < l \<Longrightarrow> file_ok ?f1" using v1 by (simp add: wrote_def)
  have two: "0 < l \<Longrightarrow> 0 < l2 \<Longrightarrow> wrote wr f F (nat (l + l2))
      (?f1\<lparr>pf_read_buf := circ_buf_adjust_read_ptr (pf_read_buf ?f1) (of_int l2)\<rparr>) F2"
    using wrote_trans [OF v1 wrote_chunk [OF f1 F1 w2]] by (simp add: nat_add_distrib)
  have one: "0 < l \<Longrightarrow> l2 \<le> 0 \<Longrightarrow> wrote wr f F (nat l) ?f1 F2"
    using wrote_trans [OF v1 wrote_none [OF f1, of F2 F1 wr]] v2 by simp
  have none: "l \<le> 0 \<Longrightarrow> wrote wr f F 0 f (F1\<lparr>f_pos := p\<rparr>)" "wrote wr f F 0 f F" for p using v f by (simp_all add: wrote_none)
  show ?thesis
    using r w w2 v1 two one none by (auto simp: write_out_twice_def Let_def split: if_splits)
qed

end
