(* ===== verification/Proxyfs_Flow.thy ===== *)
theory Proxyfs_Flow
  imports Proxyfs_Class
begin

text \<open>
  Data between a process and a file on another node: no byte is lost, repeated or reordered
  between the buffer of the proxy file and the physical file.
\<close>

subsection \<open>A process, its proxy file and the real file\<close>

text \<open>
  A message that a peer has put together, and what the receiving loop of a task does with it: the
  two calls after a complete receive. How messages get there is the subject of the transport.
\<close>

definition arrive :: "proxyfs_msg \<Rightarrow> 's proxyfs_peer_t \<Rightarrow> 's proxyfs_peer_t" where
  "arrive m y = y\<lparr>pp_recv_buf := memcpy_at (pp_recv_buf y) 0 (px_wire m), pp_recv_start := of_nat (length (px_wire m))\<rparr>"

definition hand_over ::
  "(nat \<Rightarrow> ('s, 'f, 'z) proxyfs_task_scheme \<Rightarrow> ('s, 'f, 'z) proxyfs_task_scheme option) \<Rightarrow> nat \<Rightarrow> proxyfs_msg \<Rightarrow>
   ('s, 'f, 'z) proxyfs_task_scheme \<Rightarrow> ('s, 'f, 'z) proxyfs_task_scheme option" where
  "hand_over handle q m self = do {
     y \<leftarrow> ps_peers (pt_store self) q;
     self \<leftarrow> handle q (task_peer q (arrive m y) self);
     y \<leftarrow> ps_peers (pt_store self) q;
     Some (task_peer q (snd (proxyfs_peer_clear_msg y)) self)
   }"

definition dequeue :: "nat \<Rightarrow> ('s, 'f, 'z) proxyfs_task_scheme \<Rightarrow> (proxyfs_msg \<times> ('s, 'f, 'z) proxyfs_task_scheme) option" where
  "dequeue p self = do {
     x \<leftarrow> ps_peers (pt_store self) p;
     (case pp_msg_queue x of [] \<Rightarrow> None | m # ms \<Rightarrow> Some (m, task_peer p (x\<lparr>pp_msg_queue := ms\<rparr>) self))
   }"

text \<open>
  The steps of a process that writes to proxy file \<open>a\<close> of a client, whose peer \<open>p\<close> is connected
  to peer \<open>q\<close> of a server with the real file \<open>b\<close>; the last argument is what the process has
  been told to be written.
\<close>

inductive flow ::
  "'s client_env \<Rightarrow> (u64 \<Rightarrow> byte) \<Rightarrow> (u64 \<Rightarrow> bool) \<Rightarrow> nat \<Rightarrow> nat \<Rightarrow> nat \<Rightarrow> nat \<Rightarrow> 's proxyfs_client_task \<Rightarrow> ('s, 'k) proxyfs_server \<Rightarrow>
   's proxyfs_client_task \<Rightarrow> ('s, 'k) proxyfs_server \<Rightarrow> byte list \<Rightarrow> bool"
  for E umem kmalloc a p b q C0 S0 where
  start: "flow E umem kmalloc a p b q C0 S0 C0 S0 []"
| process_writes: "\<lbrakk>flow E umem kmalloc a p b q C0 S0 C S acc; proxyfs_proxy_file_write_user E a buf count C = Some (n, C')\<rbrakk> \<Longrightarrow>
    flow E umem kmalloc a p b q C0 S0 C' S (acc @ take (nat (sint n)) (user_bytes umem buf (unat count)))"
| client_sends: "\<lbrakk>flow E umem kmalloc a p b q C0 S0 C S acc; proxyfs_task_send_write_buf kmalloc proxy_file_ops a C = Some (r, C')\<rbrakk> \<Longrightarrow>
    flow E umem kmalloc a p b q C0 S0 C' S acc"
| server_receives: "\<lbrakk>flow E umem kmalloc a p b q C0 S0 C S acc; dequeue p C = Some (m, C');
     hand_over (proxyfs_task_handle_msg real_file_ops hs) q m S = Some S'\<rbrakk> \<Longrightarrow> flow E umem kmalloc a p b q C0 S0 C' S' acc"
| server_writes: "\<lbrakk>flow E umem kmalloc a p b q C0 S0 C S acc; rw_write kmalloc b S = Some S'\<rbrakk> \<Longrightarrow>
    flow E umem kmalloc a p b q C0 S0 C S' acc"
| client_receives: "\<lbrakk>flow E umem kmalloc a p b q C0 S0 C S acc; dequeue q S = Some (m, S');
     hand_over (proxyfs_task_handle_msg proxy_file_ops hc) p m C = Some C'\<rbrakk> \<Longrightarrow> flow E umem kmalloc a p b q C0 S0 C' S' acc"

lemma arrive_get_msg:
  assumes "length (pp_recv_buf y) = 4096" "length bs \<le> 4064"
  shows "proxyfs_peer_get_msg (arrive (plain_msg num ident bs) y) =
      Some (px_header (plain_msg num ident bs), bs @ drop (32 + length bs) (pp_recv_buf y))"
proof -
  let ?h = "px_header (plain_msg num ident bs)"
  have b: "pp_recv_buf (arrive (plain_msg num ident bs) y) = header_bytes ?h @ bs @ drop (32 + length bs) (pp_recv_buf y)"
    by (simp add: arrive_def memcpy_at_def px_wire_def plain_msg_def)
  have "msg_ok (plain_msg num ident bs)" using assms(2) by (simp add: msg_ok_def plain_msg_def)
  from get_size_ok(2) [OF this] have "scast (proxyfs_msg_get_size ?h) = (of_nat (32 + length bs) :: u64)" by (simp add: plain_msg_def)
  moreover have "(32 :: u64) \<le> of_nat (32 + length bs)" using assms(2) by (simp only: word_le_nat_alt unat_of_nat) simp
  ultimately show ?thesis
    by (simp add: proxyfs_peer_get_msg_def recv_header_def b)
      (simp add: arrive_def px_wire_def plain_msg_def)
qed

text \<open>The two ends, with the fields that the steps keep.\<close>

definition client_link :: "nat \<Rightarrow> nat \<Rightarrow> u64 \<Rightarrow> 's proxyfs_client_task \<Rightarrow> proxyfs_proxy_file_t \<Rightarrow> 's proxyfs_peer_t \<Rightarrow> bool" where
  "client_link a p ident C c x \<longleftrightarrow> pt_heap C a = Some c \<and> file_ok c \<and> proxy_ready (Some Generic_proxy_file) c \<and> pf_peer c = Some p \<and>
     proxyfs_file_get_file_ident c = ident \<and> proxyfs_task_find_file C ident = Some a \<and> ps_peers (pt_store C) p = Some x \<and> length (pp_recv_buf x) = 4096"

definition server_link ::
  "nat \<Rightarrow> nat \<Rightarrow> u64 \<Rightarrow> ('k \<Rightarrow> byte list) \<Rightarrow> ('s, 'k) proxyfs_server \<Rightarrow> proxyfs_pipe_real_file \<Rightarrow> 'k kfile \<Rightarrow> 's proxyfs_peer_t \<Rightarrow> bool" where
  "server_link b q ident wr S s F y \<longleftrightarrow> pt_heap S b = Some s \<and> file_ok s \<and> rl_ops s \<in> {Some Tty_real_file, Some Generic_real_file} \<and> pf_peer s = Some q \<and>
     proxyfs_file_get_file_ident s = ident \<and> proxyfs_task_find_file S ident = Some b \<and> ps_peers (pt_store S) q = Some y \<and> length (pp_recv_buf y) = 4096 \<and>
     sv_phys S (rl_file s) = Some F \<and> vfs_ok (f_op F) wr"

lemma find_keeps:
  assumes "heap a = Some f" "proxyfs_file_get_file_ident f' = proxyfs_file_get_file_ident f"
  shows "proxyfs_file_find_in_list (heap(a \<mapsto> f')) i l = proxyfs_file_find_in_list heap i l"
  using assms by (induction l) (auto split: option.splits)

lemma find_task [simp]:
  "pt_heap self a = Some f \<Longrightarrow> proxyfs_file_get_file_ident f' = proxyfs_file_get_file_ident f \<Longrightarrow>
   proxyfs_task_find_file (task_file a f' self) i = proxyfs_task_find_file self i"
  "proxyfs_task_find_file (task_peer p x self) i = proxyfs_task_find_file self i"
  by (simp_all add: proxyfs_task_find_file_def find_keeps)

lemma arrive_fields [simp]:
  "pp_msg_queue (arrive m y) = pp_msg_queue y"
  "length (px_wire m) \<le> length (pp_recv_buf y) \<Longrightarrow> length (pp_recv_buf (arrive m y)) = length (pp_recv_buf y)"
  "pp_msg_queue (snd (proxyfs_peer_clear_msg y)) = pp_msg_queue y" "pp_recv_buf (snd (proxyfs_peer_clear_msg y)) = pp_recv_buf y"
  by (simp_all add: arrive_def memcpy_at_def proxyfs_peer_clear_msg_def)

lemma px_data_plain [simp]: "px_data (plain_msg num ident bs) = bs"
  by (simp add: plain_msg_def)

lemma dequeue_client:
  assumes "client_link a p ident C c x" "dequeue p C = Some (m, C')"
  shows "\<exists>ms. pp_msg_queue x = m # ms \<and> client_link a p ident C' c (x\<lparr>pp_msg_queue := ms\<rparr>)"
  using assms by (auto simp: client_link_def dequeue_def split: list.splits)

lemma dequeue_server:
  assumes "server_link b q ident wr S s F y" "dequeue q S = Some (m, S')"
  shows "\<exists>ms. pp_msg_queue y = m # ms \<and> server_link b q ident wr S' s F (y\<lparr>pp_msg_queue := ms\<rparr>)"
  using assms by (auto simp: server_link_def dequeue_def task_peer_def proxyfs_task_find_file_def split: list.splits)

lemma client_write_step:
  assumes C: "client_link a p ident C c x" and cfu: "\<forall>a n. ce_cfu E a n = (user_bytes umem a (unat n), 0)"
  shows "\<exists>n c'. proxyfs_proxy_file_write_user E a buf count C = Some (n, task_file a c' C) \<and> client_link a p ident (task_file a c' C) c' x \<and>
    rd_bytes c' = rd_bytes c \<and> unconf c' = unconf c \<and> wr_bytes c' = wr_bytes c @ take (nat (sint n)) (user_bytes umem buf (unat count)) \<and>
    (ce_access E buf count \<longrightarrow> nat (sint n) = min (unat (ucast count :: u32)) (8192 - length (wr_bytes c)))"
proof (cases "ce_access E buf count")
  case True
  obtain b n where w: "circ_buf_write_user (ce_cfu E) (pf_write_buf c) buf (ucast count) = (b, n)" by fastforce
  let ?n = "unat (ucast count :: u32)"
  have c: "circ_buf_inv (pf_write_buf c)" "cb_size (pf_write_buf c) = WRITE_BUF_SIZE" "file_ok c"
    using C by (simp_all add: client_link_def file_ok_def)
  have w': "circ_buf_write (pf_write_buf c) (user_bytes umem buf ?n) (ucast count) = (b, n)"
    using w circ_buf_write_user_eq [OF cfu] by simp
  have r: "circ_buf_inv b \<and> circ_contents b = wr_bytes c @ take (min ?n (circ_free (pf_write_buf c))) (user_bytes umem buf ?n) \<and>
      unat n = min ?n (circ_free (pf_write_buf c)) \<and> cb_buf b = cb_buf (pf_write_buf c) \<and> cb_size b = cb_size (pf_write_buf c)"
    using circ_buf_write_ok [OF c(1) _ w'] by simp
  have "unat n \<le> 8192" using r file_ok_free_w [OF c(3)] by simp
  then have n: "nat (sint n) = unat n" using small_i32(2) [of "unat n"] by simp
  note free = file_ok_free_w [OF c(3)]
  have "?n \<le> unat count" by (simp add: unsigned_ucast_eq unsigned_take_bit_eq take_bit_nat_less_eq_self)
  then have t: "take (unat n) (user_bytes umem buf (unat count)) = take (unat n) (user_bytes umem buf ?n)" using r
    by (simp add: take_user_bytes)
  let ?c = "c\<lparr>pf_write_buf := b, pr_write_buf_sem := True\<rparr>"
  have "file_ok ?c" using r c(2,3) file_ok_bounds(3) [OF c(3)] by (auto simp: file_ok_def)
  moreover have "proxyfs_file_get_file_ident ?c = proxyfs_file_get_file_ident c" by (simp add: proxyfs_file_get_file_ident_def)
  ultimately show ?thesis using True C r n t w free
    by (intro exI [of _ n] exI [of _ ?c]) (simp add: proxyfs_proxy_file_write_user_def proxyfs_generic_proxy_file_write_user_def
        with_write_sem_def client_link_def proxy_ready_def)
next
  case False
  have "sint (- 14 :: i32) = - 14" by code_simp
  then show ?thesis using False C
    by (intro exI [of _ "- 14"] exI [of _ c]) (simp add: proxyfs_proxy_file_write_user_def proxyfs_generic_proxy_file_write_user_def client_link_def proxy_ready_def)
qed

lemma client_send_step:
  assumes C: "client_link a p ident C c x" and mem: "kmalloc sizeof_proxyfs_msg"
  shows "\<exists>r C'. proxyfs_task_send_write_buf kmalloc proxy_file_ops a C = Some (r, C') \<and>
    (C' = C \<or> (\<exists>c' bs. client_link a p ident C' c' (queue_msg (plain_msg MSG_WRITE ident bs) x) \<and>
       bs = take 4064 (drop (unconf c) (wr_bytes c)) \<and> bs \<noteq> [] \<and> rd_bytes c' = rd_bytes c \<and> wr_bytes c' = wr_bytes c \<and> unconf c' = unconf c + length bs))"
proof -
  have c: "pt_heap C a = Some c" "file_ok c" "proxy_ready (Some Generic_proxy_file) c" "pf_peer c = Some p" "ps_peers (pt_store C) p = Some x"
    "proxyfs_file_get_file_ident c = ident" using C by (simp_all add: client_link_def)
  have keep: "client_link a p ident (task_peer p (queue_msg m x) (task_file a f' C)) f' (queue_msg m x)"
    if "file_ok f'" "proxy_ready (Some Generic_proxy_file) f'" "file_same c f'" for f' m
    using that C by (simp add: client_link_def queue_msg_def file_same_def proxyfs_file_get_file_ident_def)
  show ?thesis using proxy.send_write_buf [of C a c _ p x kmalloc, OF c(1-5) mem] keep unfolding c(6) by blast
qed

lemma hand_over_ok:
  assumes "ps_peers (pt_store self) q = Some y" "handle q (task_peer q (arrive m y) self) = Some (task_file b f' (task_peer q (arrive m y) self))"
  shows "hand_over handle q m self = Some (task_peer q (snd (proxyfs_peer_clear_msg (arrive m y))) (task_file b f' (task_peer q (arrive m y) self)))"
  using assms by (simp add: hand_over_def)

lemma server_receive_step:
  assumes S: "server_link b q ident wr S s F y" and bs: "bs \<noteq> []" "length bs \<le> 4064" "length (rd_bytes s) + length bs \<le> 8192"
  shows "\<exists>S' s' y'. hand_over (proxyfs_task_handle_msg real_file_ops hs) q (plain_msg MSG_WRITE ident bs) S = Some S' \<and>
    server_link b q ident wr S' s' F y' \<and> rd_bytes s' = rd_bytes s @ bs \<and> pp_msg_queue y' = pp_msg_queue y"
proof -
  let ?m = "plain_msg MSG_WRITE ident bs"
  let ?S = "task_peer q (arrive ?m y) S"
  have s: "pt_heap S b = Some s" "file_ok s" "real_ready (rl_ops s) (rl_file s) s" "ps_peers (pt_store S) q = Some y"
    "length (pp_recv_buf y) = 4096" using S by (simp_all add: server_link_def real_ready_def)
  have n: "unat (of_nat (length bs) :: u64) = length bs" using bs(2) by (simp add: unat_of_nat)
  then have n0: "(of_nat (length bs) :: u64) \<noteq> 0" using bs(1) by (metis length_0_conv unat_0)
  obtain f' where f': "proxyfs_task_handle_msg real_file_ops hs q ?S = Some (task_file b f' ?S)" "file_ok f'"
      "real_ready (rl_ops s) (rl_file s) f'" "file_same s f'" "rd_bytes f' = rd_bytes s @ bs"
    using real.handle_write [of ?S q "arrive ?m y" _ _ b s "rl_ops s" "rl_file s" hs, OF _ arrive_get_msg [OF s(5) bs(2)]] s S n n0 bs(3)
    by (auto simp: plain_msg_def server_link_def)
  let ?y = "snd (proxyfs_peer_clear_msg (arrive ?m y))"
  have "server_link b q ident wr (task_peer q ?y (task_file b f' ?S)) f' F ?y"
    using S f'(2-4) bs(2) by (simp add: server_link_def real_ready_def file_same_def proxyfs_file_get_file_ident_def)
      (simp add: task_peer_def task_file_def)
  then show ?thesis using hand_over_ok [where handle = "proxyfs_task_handle_msg real_file_ops hs" and b = b, OF s(4) f'(1)] f'(5) by (intro exI [of _ ?y] exI [of _ f'] exI conjI) (assumption | simp)+
qed

lemma client_receive_step:
  assumes C: "client_link a p ident C c x" and n: "0 < n" "n \<le> unconf c"
  shows "\<exists>C' c' x'. hand_over (proxyfs_task_handle_msg proxy_file_ops hc) p (plain_msg MSG_WRITE_RESP ident (le_bytes 4 (of_nat n :: u32))) C = Some C' \<and>
    client_link a p ident C' c' x' \<and> wr_bytes c' = drop n (wr_bytes c) \<and> unconf c' = unconf c - n \<and> pp_msg_queue x' = pp_msg_queue x"
proof -
  let ?m = "plain_msg MSG_WRITE_RESP ident (le_bytes 4 (of_nat n :: u32))"
  let ?C = "task_peer p (arrive ?m x) C"
  have c: "pt_heap C a = Some c" "file_ok c" "proxy_ready (Some Generic_proxy_file) c" "ps_peers (pt_store C) p = Some x"
    "length (pp_recv_buf x) = 4096" using C by (simp_all add: client_link_def)
  have "n \<le> 8192" using n(2) file_ok_bounds [OF c(2)] by linarith
  then have u: "unat (of_nat n :: u32) = n" by (simp add: unat_of_nat)
  have d: "data_word (le_bytes 4 (of_nat n :: u32) @ rest) = of_nat n" for rest by (simp add: data_word_def)
  have n0: "(of_nat n :: u32) \<noteq> 0" using u n(1) by (metis neq0_conv unat_0)
  have l: "length (le_bytes 4 (of_nat n :: u32)) \<le> 4064" by simp
  obtain f' where f': "proxyfs_task_handle_msg proxy_file_ops hc p ?C = Some (task_file a f' ?C)" "file_ok f'"
      "proxy_ready (Some Generic_proxy_file) f'" "file_same c f'" "wr_bytes f' = drop n (wr_bytes c)" "unconf f' = unconf c - n"
    using proxy.handle_write_resp [of ?C p "arrive ?m x" _ _ a c "Some Generic_proxy_file" hc, OF _ arrive_get_msg [OF c(5) l]] c C u n0 n(2)
    by (auto simp: plain_msg_def client_link_def d)
  let ?x = "snd (proxyfs_peer_clear_msg (arrive ?m x))"
  have "client_link a p ident (task_peer p ?x (task_file a f' ?C)) f' ?x"
    using C f'(2-4) by (simp add: client_link_def file_same_def proxyfs_file_get_file_ident_def)
  then show ?thesis using hand_over_ok [where handle = "proxyfs_task_handle_msg proxy_file_ops hc" and b = a, OF c(4) f'(1)] f'(5,6) by (intro exI [of _ ?x] exI [of _ f'] exI conjI) (assumption | simp)+
qed

lemma server_write_step:
  assumes S: "server_link b q ident wr S s F y" and mem: "kmalloc sizeof_proxyfs_msg" "kmalloc 4"
  shows "\<exists>S' n s' F' y'. rw_write kmalloc b S = Some S' \<and> server_link b q ident wr S' s' F' y' \<and> wrote wr s F n s' F' \<and>
    pp_msg_queue y' = pp_msg_queue y @ (if n = 0 then [] else [plain_msg MSG_WRITE_RESP ident (le_bytes 4 (of_nat n :: u32))])"
proof -
  have s: "pt_heap S b = Some s" "file_ok s" "vfs_ok (f_op F) wr" using S by (simp_all add: server_link_def)
  obtain k s' F' where w: "write_out_twice s F = (k, s', F')" by (metis prod_cases3)
  obtain n where k: "k = int n" and n: "wrote wr s F n s' F'" using write_out_twice_ok [OF s(2,3) w] by (metis nat_0_le)
  have "n \<le> 8192" using n file_ok_bounds(2) [OF s(2)] by (simp add: wrote_def)
  then have u: "(of_nat n :: u32) > 0 \<longleftrightarrow> n \<noteq> 0" by (auto simp: word_less_nat_alt unat_of_nat)
  let ?S = "(task_file b s' S)\<lparr>sv_phys := (sv_phys S)(rl_file s' \<mapsto> F')\<rparr>"
  let ?m = "plain_msg MSG_WRITE_RESP ident (le_bytes 4 (of_nat n :: u32))"
  have id: "file_same s s'" "rl_ops s' = rl_ops s" "rl_file s' = rl_file s" "file_ok s'" "f_op F' = f_op F" using n by (simp_all add: wrote_def)
  have keep: "server_link b q ident wr ?S s' F' y" "server_link b q ident wr (task_peer q (queue_msg ?m y) ?S) s' F' (queue_msg ?m y)"
    using S id by (simp_all add: server_link_def file_same_def task_file_def task_peer_def proxyfs_task_find_file_def find_keeps proxyfs_file_get_file_ident_def queue_msg_def)
  have "proxyfs_real_file_write s F = Some (int n, s', F')"
    using S w k by (auto simp: server_link_def proxyfs_real_file_write_def proxyfs_tty_real_file_write_def proxyfs_generic_real_file_write_def)
  moreover have "ps_peers (pt_store ?S) q = Some y" "sv_phys S (rl_file s) = Some F" using keep(1) S by (simp_all only: server_link_def)
  moreover have "pf_peer s' = Some q" "proxyfs_file_get_file_ident s' = ident"
    using S id(1) by (simp_all add: server_link_def file_same_def proxyfs_file_get_file_ident_def)
  moreover have "proxyfs_msg_compose_new kmalloc MSG_WRITE_RESP ident [(4, le_bytes 4 (of_nat n :: u32)), (0, [])] = Some ?m"
    using mem by (simp add: proxyfs_msg_compose_new_def plain_msg_def)
  ultimately have r: "rw_write kmalloc b S = Some (if n = 0 then ?S else task_peer q (queue_msg ?m y) ?S)"
    by (simp add: rw_write_def s(1) task_send_ok u)
  then show ?thesis using keep n
    by (cases "n = 0") (intro exI [of _ n] exI [of _ s'] exI [of _ F'] exI conjI, assumption | simp add: queue_msg_def)+
qed

text \<open>
  The balance of the flow control: what the client has sent and not dropped is what was written
  out and not yet acknowledged, what waits in the buffer of the real file, and what is under way.
\<close>

definition balanced ::
  "('k \<Rightarrow> byte list) \<Rightarrow> byte list \<Rightarrow> proxyfs_proxy_file_t \<Rightarrow> proxyfs_pipe_real_file \<Rightarrow> 'k kfile \<Rightarrow> byte list list \<Rightarrow> nat list \<Rightarrow> bool" where
  "balanced wr tot c s F Q A \<longleftrightarrow> sum_list A \<le> unconf c \<and> drop (sum_list A) (take (unconf c) (wr_bytes c)) = rd_bytes s @ concat Q \<and>
     written wr F @ rd_bytes s @ concat Q @ drop (unconf c) (wr_bytes c) = tot \<and> (\<forall>bs \<in> set Q. bs \<noteq> [] \<and> length bs \<le> 4064) \<and> (\<forall>n \<in> set A. 0 < n)"

lemma balanced_room:
  assumes "balanced wr tot c s F Q A" "file_ok c"
  shows "length (rd_bytes s @ concat Q) + sum_list A = unconf c" "length (rd_bytes s @ concat Q) \<le> 8192"
proof -
  have "length (drop (sum_list A) (take (unconf c) (wr_bytes c))) = length (rd_bytes s @ concat Q)" "sum_list A \<le> unconf c"
    using assms(1) by (simp_all add: balanced_def)
  then show "length (rd_bytes s @ concat Q) + sum_list A = unconf c" using file_ok_bounds [OF assms(2)] by simp
  then show "length (rd_bytes s @ concat Q) \<le> 8192" using file_ok_bounds [OF assms(2)] by linarith
qed

lemma balanced_write:
  assumes "balanced wr tot c s F Q A" "unconf c \<le> length (wr_bytes c)" "wr_bytes c' = wr_bytes c @ bs" "unconf c' = unconf c"
  shows "balanced wr (tot @ bs) c' s F Q A"
  using assms by (auto simp: balanced_def)

lemma balanced_send:
  assumes "balanced wr tot c s F Q A" "wr_bytes c' = wr_bytes c" "unconf c' = unconf c + length bs" "bs = take 4064 (drop (unconf c) (wr_bytes c))"
    "bs \<noteq> []"
  shows "balanced wr tot c' s F (Q @ [bs]) A"
proof -
  have b: "take (length bs) (drop (unconf c) (wr_bytes c)) = bs" using assms(4) by (simp add: min_def)
  have "take (unconf c + length bs) (wr_bytes c) = take (unconf c) (wr_bytes c) @ bs" using b by (simp add: take_add)
  moreover have "bs @ drop (unconf c + length bs) (wr_bytes c) = drop (unconf c) (wr_bytes c)"
    using b by (metis append_take_drop_id drop_drop add.commute)
  moreover have "length bs \<le> 4064" using assms(4) by simp
  moreover have "sum_list A \<le> length (take (unconf c) (wr_bytes c))"
  proof -
    have "unconf c < length (wr_bytes c)" using assms(4,5) by (cases "unconf c < length (wr_bytes c)") simp_all
    then show ?thesis using assms(1) by (simp add: balanced_def)
  qed
  ultimately show ?thesis using assms(1-3,5) unfolding balanced_def by (simp add: ball_Un)
qed

lemma balanced_receive:
  assumes "balanced wr tot c s F (bs # Q) A" "rd_bytes s' = rd_bytes s @ bs"
  shows "balanced wr tot c s' F Q A"
  using assms by (simp add: balanced_def)

lemma take_drop_append: "take n xs @ drop n xs @ ys = xs @ ys"
  by (metis append.assoc append_take_drop_id)

lemma balanced_out:
  assumes "balanced wr tot c s F Q A" "wrote wr s F n s' F'" "file_ok c"
  shows "balanced wr tot c s' F' Q (if n = 0 then A else A @ [n])"
proof -
  have w: "n \<le> length (rd_bytes s)" "rd_bytes s' = drop n (rd_bytes s)" "written wr F' = written wr F @ take n (rd_bytes s)"
    using assms(2) by (simp_all add: wrote_def)
  have "drop n (drop (sum_list A) (take (unconf c) (wr_bytes c))) = drop n (rd_bytes s) @ concat Q" using assms(1) w(1) by (simp add: balanced_def)
  then have "drop (sum_list A + n) (take (unconf c) (wr_bytes c)) = drop n (rd_bytes s) @ concat Q" by (simp add: add.commute)
  moreover have "sum_list A + n \<le> unconf c" using balanced_room(1) [OF assms(1,3)] w(1) by simp
  ultimately show ?thesis using assms(1) w unfolding balanced_def by (cases "n = 0") (simp_all add: ball_Un take_drop_append)
qed

lemma balanced_answer:
  assumes "balanced wr tot c s F Q (n # A)" "wr_bytes c' = drop n (wr_bytes c)" "unconf c' = unconf c - n"
  shows "balanced wr tot c' s F Q A"
proof -
  have n: "n + sum_list A \<le> unconf c" "0 < n" using assms(1) by (simp_all add: balanced_def)
  have "take (unconf c - n) (drop n (wr_bytes c)) = drop n (take (unconf c) (wr_bytes c))" by (simp add: drop_take)
  moreover have "drop (unconf c - n) (drop n (wr_bytes c)) = drop (unconf c) (wr_bytes c)" using n by simp
  ultimately show ?thesis using assms n by (simp add: balanced_def add.commute)
qed

definition in_balance ::
  "nat \<Rightarrow> nat \<Rightarrow> nat \<Rightarrow> nat \<Rightarrow> u64 \<Rightarrow> ('k \<Rightarrow> byte list) \<Rightarrow> byte list \<Rightarrow> 's proxyfs_client_task \<Rightarrow> ('s, 'k) proxyfs_server \<Rightarrow> bool" where
  "in_balance a p b q ident wr tot C S \<longleftrightarrow> (\<exists>c x s F y Q A. client_link a p ident C c x \<and> server_link b q ident wr S s F y \<and>
     pp_msg_queue x = map (plain_msg MSG_WRITE ident) Q \<and>
     pp_msg_queue y = map (\<lambda>n. plain_msg MSG_WRITE_RESP ident (le_bytes 4 (of_nat n :: u32))) A \<and> balanced wr tot c s F Q A)"

lemma in_balanceI:
  "\<lbrakk>client_link a p ident C c x; server_link b q ident wr S s F y; pp_msg_queue x = map (plain_msg MSG_WRITE ident) Q;
    pp_msg_queue y = map (\<lambda>n. plain_msg MSG_WRITE_RESP ident (le_bytes 4 (of_nat n :: u32))) A; balanced wr tot c s F Q A\<rbrakk> \<Longrightarrow>
   in_balance a p b q ident wr tot C S"
  unfolding in_balance_def by blast

lemma in_balanceE:
  assumes "in_balance a p b q ident wr tot C S"
  obtains c x s F y Q A where "client_link a p ident C c x" "server_link b q ident wr S s F y" "pp_msg_queue x = map (plain_msg MSG_WRITE ident) Q"
    "pp_msg_queue y = map (\<lambda>n. plain_msg MSG_WRITE_RESP ident (le_bytes 4 (of_nat n :: u32))) A" "balanced wr tot c s F Q A" "file_ok c"
proof -
  from assms obtain c x s F y Q A where i: "client_link a p ident C c x" "server_link b q ident wr S s F y"
    "pp_msg_queue x = map (plain_msg MSG_WRITE ident) Q" "pp_msg_queue y = map (\<lambda>n. plain_msg MSG_WRITE_RESP ident (le_bytes 4 (of_nat n :: u32))) A"
    "balanced wr tot c s F Q A" unfolding in_balance_def by blast
  moreover have "file_ok c" using i(1) by (simp add: client_link_def)
  ultimately show thesis by (rule that)
qed

lemma in_balance_process_writes:
  assumes "in_balance a p b q ident wr tot C S" "proxyfs_proxy_file_write_user E a buf count C = Some (n, C')"
    and cfu: "\<forall>a n. ce_cfu E a n = (user_bytes umem a (unat n), 0)"
  shows "in_balance a p b q ident wr (tot @ take (nat (sint n)) (user_bytes umem buf (unat count))) C' S"
  using assms(1)
proof (rule in_balanceE)
  fix c x s F y Q A
  assume i: "client_link a p ident C c x" "server_link b q ident wr S s F y" "pp_msg_queue x = map (plain_msg MSG_WRITE ident) Q"
    "pp_msg_queue y = map (\<lambda>n. plain_msg MSG_WRITE_RESP ident (le_bytes 4 (of_nat n :: u32))) A" "balanced wr tot c s F Q A" "file_ok c"
  from client_write_step [OF i(1) cfu, of buf count] assms(2) obtain c' where
    "client_link a p ident C' c' x" "unconf c' = unconf c" "wr_bytes c' = wr_bytes c @ take (nat (sint n)) (user_bytes umem buf (unat count))" by auto
  from in_balanceI [OF this(1) i(2-4) balanced_write [OF i(5) file_ok_bounds(3) [OF i(6)] this(3,2)]] show ?thesis .
qed

lemma in_balance_client_sends:
  assumes "in_balance a p b q ident wr tot C S" "proxyfs_task_send_write_buf kmalloc proxy_file_ops a C = Some (r, C')" "kmalloc sizeof_proxyfs_msg"
  shows "in_balance a p b q ident wr tot C' S"
  using assms(1)
proof (rule in_balanceE)
  fix c x s F y Q A
  assume i: "client_link a p ident C c x" "server_link b q ident wr S s F y" "pp_msg_queue x = map (plain_msg MSG_WRITE ident) Q"
    "pp_msg_queue y = map (\<lambda>n. plain_msg MSG_WRITE_RESP ident (le_bytes 4 (of_nat n :: u32))) A" "balanced wr tot c s F Q A" "file_ok c"
  from client_send_step [where kmalloc = kmalloc, OF i(1) assms(3)] assms(2) consider "C' = C" | c' bs where
    "client_link a p ident C' c' (queue_msg (plain_msg MSG_WRITE ident bs) x)" "bs = take 4064 (drop (unconf c) (wr_bytes c))" "bs \<noteq> []"
    "wr_bytes c' = wr_bytes c" "unconf c' = unconf c + length bs" by auto
  then show ?thesis
  proof cases
    case 2
    then show ?thesis using in_balanceI [OF 2(1) i(2) _ i(4) balanced_send [OF i(5) 2(4,5,2,3)]] i(3) by (simp add: queue_msg_def)
  qed (use assms in simp)
qed

lemma in_balance_server_receives:
  assumes "in_balance a p b q ident wr tot C S" "dequeue p C = Some (m, C')" "hand_over (proxyfs_task_handle_msg real_file_ops hs) q m S = Some S'"
  shows "in_balance a p b q ident wr tot C' S'"
  using assms(1)
proof (rule in_balanceE)
  fix c x s F y Q A
  assume i: "client_link a p ident C c x" "server_link b q ident wr S s F y" "pp_msg_queue x = map (plain_msg MSG_WRITE ident) Q"
    "pp_msg_queue y = map (\<lambda>n. plain_msg MSG_WRITE_RESP ident (le_bytes 4 (of_nat n :: u32))) A" "balanced wr tot c s F Q A" "file_ok c"
  from dequeue_client [OF i(1) assms(2)] i(3) obtain bs Q' where m: "Q = bs # Q'" "m = plain_msg MSG_WRITE ident bs"
    and C': "client_link a p ident C' c (x\<lparr>pp_msg_queue := map (plain_msg MSG_WRITE ident) Q'\<rparr>)" by auto
  have bs: "bs \<noteq> []" "length bs \<le> 4064" "length (rd_bytes s) + length bs \<le> 8192"
    using i(5) balanced_room(2) [OF i(5,6)] m(1) by (simp_all add: balanced_def)
  from server_receive_step [OF i(2) bs, of hs] assms(3) m(2) obtain s' y' where
    s': "server_link b q ident wr S' s' F y'" "rd_bytes s' = rd_bytes s @ bs" "pp_msg_queue y' = pp_msg_queue y" by auto
  show ?thesis using in_balanceI [OF C' s'(1) _ _ balanced_receive [OF i(5) [unfolded m(1)] s'(2)]] i(4) s'(3) by simp
qed

lemma in_balance_server_writes:
  assumes "in_balance a p b q ident wr tot C S" "rw_write kmalloc b S = Some S'" "kmalloc sizeof_proxyfs_msg" "kmalloc 4"
  shows "in_balance a p b q ident wr tot C S'"
  using assms(1)
proof (rule in_balanceE)
  fix c x s F y Q A
  assume i: "client_link a p ident C c x" "server_link b q ident wr S s F y" "pp_msg_queue x = map (plain_msg MSG_WRITE ident) Q"
    "pp_msg_queue y = map (\<lambda>n. plain_msg MSG_WRITE_RESP ident (le_bytes 4 (of_nat n :: u32))) A" "balanced wr tot c s F Q A" "file_ok c"
  from server_write_step [where kmalloc = kmalloc, OF i(2) assms(3,4)] assms(2) obtain n s' F' y' where
    s': "server_link b q ident wr S' s' F' y'" "wrote wr s F n s' F'"
      "pp_msg_queue y' = pp_msg_queue y @ (if n = 0 then [] else [plain_msg MSG_WRITE_RESP ident (le_bytes 4 (of_nat n :: u32))])" by auto
  show ?thesis using in_balanceI [OF i(1) s'(1) i(3) _ balanced_out [OF i(5) s'(2) i(6)]] i(4) s'(3) by simp
qed

lemma in_balance_client_receives:
  assumes "in_balance a p b q ident wr tot C S" "dequeue q S = Some (m, S')" "hand_over (proxyfs_task_handle_msg proxy_file_ops hc) p m C = Some C'"
  shows "in_balance a p b q ident wr tot C' S'"
  using assms(1)
proof (rule in_balanceE)
  fix c x s F y Q A
  assume i: "client_link a p ident C c x" "server_link b q ident wr S s F y" "pp_msg_queue x = map (plain_msg MSG_WRITE ident) Q"
    "pp_msg_queue y = map (\<lambda>n. plain_msg MSG_WRITE_RESP ident (le_bytes 4 (of_nat n :: u32))) A" "balanced wr tot c s F Q A" "file_ok c"
  from dequeue_server [OF i(2) assms(2)] i(4) obtain n A' where m: "A = n # A'" "m = plain_msg MSG_WRITE_RESP ident (le_bytes 4 (of_nat n :: u32))"
    and S': "server_link b q ident wr S' s F (y\<lparr>pp_msg_queue := map (\<lambda>n. plain_msg MSG_WRITE_RESP ident (le_bytes 4 (of_nat n :: u32))) A'\<rparr>)" by auto
  have n: "0 < n" "n \<le> unconf c" using i(5) m(1) by (simp_all add: balanced_def)
  from client_receive_step [OF i(1) n, of hc] assms(3) m(2) obtain c' x' where
    c': "client_link a p ident C' c' x'" "wr_bytes c' = drop n (wr_bytes c)" "unconf c' = unconf c - n" "pp_msg_queue x' = pp_msg_queue x" by auto
  show ?thesis using in_balanceI [OF c'(1) S' _ _ balanced_answer [OF i(5) [unfolded m(1)] c'(2,3)]] i(3) c'(4) by simp
qed

lemma flow_balance:
  assumes "flow E umem kmalloc a p b q C0 S0 C S acc" "in_balance a p b q ident wr tot C0 S0"
    and env: "kmalloc sizeof_proxyfs_msg" "kmalloc 4" "\<forall>a n. ce_cfu E a n = (user_bytes umem a (unat n), 0)"
  shows "in_balance a p b q ident wr (tot @ acc) C S"
  using assms(1)
proof induction
  case start
  then show ?case using assms(2) by simp
next
  case (process_writes C S acc buf count n C')
  then show ?case using in_balance_process_writes [OF process_writes(3,2) env(3)] by simp
next
  case (client_sends C S acc r C')
  then show ?case using in_balance_client_sends [where kmalloc = kmalloc] env(1) by blast
next
  case (server_writes C S acc S')
  then show ?case using in_balance_server_writes [where kmalloc = kmalloc] env(1,2) by blast
qed (rule in_balance_server_receives in_balance_client_receives; assumption)+


definition fresh_buf :: circ_buf where
  "fresh_buf = \<lparr>cb_buf = 0, cb_write = 0, cb_read = 0, cb_full = False, cb_size = 8192, cb_mem = replicate 8192 0\<rparr>"

definition disk_ops :: "byte list file_operations" where
  "disk_ops = \<lparr>v_write = \<lambda>k bs pos. (int (length bs), pos + of_nat (length bs), k @ bs), v_read = \<lambda>k n pos. (0, [], pos, k), v_poll = None,
     v_fsync = \<lambda>k. (0, k), v_is_reg = \<lambda>k. True, v_unlocked_ioctl = None, v_ioctl = None, v_tty_ok = \<lambda>k. False, v_tty_ldisc = \<lambda>k. False, v_tty_read = None\<rparr>"

definition fresh_peer :: "(byte list \<times> byte list) proxyfs_peer_t" where
  "fresh_peer = \<lparr>pp_sock = None, pp_recv_buf = replicate 4096 0, pp_recv_start = 0, pp_msg_queue = [], pp_ref_count = 1, pp_state = PEER_CONNECTED\<rparr>"

definition fresh_proxy :: proxyfs_proxy_file_t where
  "fresh_proxy = \<lparr>pf_file_ident = 7, pf_file_owner_pid = 1, pf_write_buf = fresh_buf, pf_read_buf = fresh_buf, pf_write_buf_unconfirmed = 0,
     pf_read_was_requested = False, pf_state = 0, pf_peer = Some 0, pr_write_buf_sem = True, pr_read_buf_sem = True, pr_syscall_resp = False, pr_msg_resp = None,
     pr_ops = Some Generic_proxy_file\<rparr>"

definition fresh_real :: proxyfs_pipe_real_file where
  "fresh_real = \<lparr>pf_file_ident = 7, pf_file_owner_pid = 1, pf_write_buf = fresh_buf, pf_read_buf = fresh_buf, pf_write_buf_unconfirmed = 0,
     pf_read_was_requested = False, pf_state = 0, pf_peer = Some 0, rl_file = 0, rl_ops = Some Generic_real_file, rl_shadow_list = [], pi_write_counter = 0, pi_atomic_write = False\<rparr>"

definition fresh_client :: "(byte list \<times> byte list) proxyfs_client_task" where
  "fresh_client = \<lparr>pt_files = [0], pt_peers = [0], pt_ref_count = 1, pt_data_ready = False, pt_heap = [0 \<mapsto> fresh_proxy],
     pt_store = \<lparr>ps_peers = [0 \<mapsto> fresh_peer], ps_arch_refs = 0\<rparr>, ct_try_open = [], ct_try_open_send = [], ct_try_open_sem = True, ct_files_sem = True, ct_server = Some 0\<rparr>"

definition fresh_server :: "((byte list \<times> byte list), byte list) proxyfs_server" where
  "fresh_server = \<lparr>pt_files = [0], pt_peers = [0], pt_ref_count = 1, pt_data_ready = False, pt_heap = [0 \<mapsto> fresh_real],
     pt_store = \<lparr>ps_peers = [0 \<mapsto> fresh_peer], ps_arch_refs = 0\<rparr>, sv_files_sem = True, sv_server_sock = slow_sock [],
     sv_phys = [0 \<mapsto> \<lparr>f_op = disk_ops, f_state = [], f_pos = 0, f_count = 1\<rparr>], sv_ident = 1\<rparr>"

definition plain_env :: "(u64 \<Rightarrow> byte) \<Rightarrow> (byte list \<times> byte list) client_env" where
  "plain_env umem = \<lparr>ce_kmalloc = \<lambda>_. True, ce_access = \<lambda>_ _. True, ce_cfu = \<lambda>a n. (user_bytes umem a (unat n), 0), ce_ctu = \<lambda>_ _. 0,
     ce_woken = id, ce_woken_sig = \<lambda>t. (False, t), ce_exiting = False\<rparr>"

lemma fresh_buf_ok: "circ_buf_inv fresh_buf" "circ_contents fresh_buf = []" "cb_size fresh_buf = 8192"
  by (simp_all add: fresh_buf_def circ_buf_inv_def circ_contents_def ring_used_def ring_dist_def)

lemma fresh_link:
  "client_link 0 0 (proxyfs_file_get_file_ident fresh_proxy) fresh_client fresh_proxy fresh_peer"
  "server_link 0 0 (proxyfs_file_get_file_ident fresh_proxy) id fresh_server fresh_real \<lparr>f_op = disk_ops, f_state = [], f_pos = 0, f_count = 1\<rparr> fresh_peer"
proof -
  have "length (circ_contents fresh_buf) = 0" by (simp only: fresh_buf_ok list.size)
  then have "file_ok fresh_proxy" "file_ok fresh_real"
    using fresh_buf_ok by (simp_all add: file_ok_def fresh_proxy_def fresh_real_def)
  moreover have "proxyfs_file_get_file_ident fresh_real = proxyfs_file_get_file_ident fresh_proxy"
    by (simp add: proxyfs_file_get_file_ident_def fresh_proxy_def fresh_real_def)
  moreover have "vfs_ok disk_ops id" by (auto simp: vfs_ok_def disk_ops_def)
  ultimately show "client_link 0 0 (proxyfs_file_get_file_ident fresh_proxy) fresh_client fresh_proxy fresh_peer"
    "server_link 0 0 (proxyfs_file_get_file_ident fresh_proxy) id fresh_server fresh_real \<lparr>f_op = disk_ops, f_state = [], f_pos = 0, f_count = 1\<rparr> fresh_peer"
    by (simp_all add: client_link_def server_link_def proxyfs_task_find_file_def fresh_client_def fresh_server_def fresh_peer_def)
      (simp_all add: fresh_proxy_def fresh_real_def proxy_ready_def)
qed


end
