(* ===== verification/Proxyfs_Laws.thy ===== *)
theory Proxyfs_Laws
  imports Proxyfs_Flow
begin

text \<open>
  The commands and the names of ProxyFS, and the behaviour of its files at the edges.
\<close>

subsection \<open>Commands\<close>

lemma key_below:
  fixes table :: "('k :: linorder \<times> 'v) list"
  assumes "sorted (map fst table)" "i < length table" "fst (table ! i) < fst (table ! mid)" shows "i \<le> mid"
proof (rule ccontr)
  assume "\<not> i \<le> mid"
  then have "fst (table ! mid) \<le> fst (table ! i)" using sorted_nth_mono [OF assms(1), of mid i] assms(2) by simp
  then show False using assms(3) by simp
qed

lemma key_above:
  fixes table :: "('k :: linorder \<times> 'v) list"
  assumes "sorted (map fst table)" "mid < length table" "fst (table ! mid) < fst (table ! i)" shows "mid + 1 \<le> i"
proof (rule ccontr)
  assume "\<not> mid + 1 \<le> i"
  then have "fst (table ! i) \<le> fst (table ! mid)" using sorted_nth_mono [OF assms(1), of i mid] assms(2) by simp
  then show False using assms(3) by simp
qed

lemma map_of_key: "distinct (map fst table) \<Longrightarrow> i < length table \<Longrightarrow> map_of table (fst (table ! i)) = Some (snd (table ! i))"
  by (simp add: map_of_is_SomeI)

lemma map_of_no_key: "\<forall>i < length table. fst (table ! i) \<noteq> k \<Longrightarrow> map_of table k = None"
  by (auto simp: map_of_eq_None_iff in_set_conv_nth) (metis fst_conv)

lemma ioctl_search_lookup:
  assumes "sorted (map fst table)" "distinct (map fst table)" "low \<le> high" "high < length table"
    and "\<forall>i < length table. fst (table ! i) = cmd \<longrightarrow> low \<le> i \<and> i \<le> high"
  shows "ioctl_search table cmd low high = (case map_of table cmd of None \<Rightarrow> 0 | Some v \<Rightarrow> v)"
  using assms
proof (induction table cmd low high rule: ioctl_search.induct)
  case (1 table cmd low high)
  note srt = 1(3) and dst = 1(4) and le = 1(5) and hi = 1(6) and rng = 1(7) and unf = ioctl_search.simps [of table cmd low high]
  let ?mid = "low + (high - low) div 2"
  consider "low = high" "fst (table ! low) = cmd" | "low = high" "fst (table ! low) \<noteq> cmd" | "low < high" "cmd < fst (table ! ?mid)" |
    "low < high" "\<not> cmd < fst (table ! ?mid)" "fst (table ! ?mid) < cmd" | "low < high" "fst (table ! ?mid) = cmd"
    using le by fastforce
  then show ?case
  proof cases
    case 1
    then show ?thesis using map_of_key [OF dst, of low] hi unfolding unf by simp
  next
    case 2
    then have "\<forall>i < length table. fst (table ! i) \<noteq> cmd" using rng by (metis le_antisym)
    then show ?thesis using 2 map_of_no_key [of table cmd] unfolding unf by simp
  next
    case 3
    then have mid: "low \<le> ?mid" "?mid < high" by linarith+
    have "\<forall>i < length table. fst (table ! i) = cmd \<longrightarrow> i \<le> ?mid" using key_below [OF srt] 3(2) by blast
    then have "ioctl_search table cmd low ?mid = (case map_of table cmd of None \<Rightarrow> 0 | Some v \<Rightarrow> v)"
      using rng mid hi by (intro 1(1) [OF 3(1) refl 3(2) srt dst]) simp_all
    then show ?thesis using 3 unfolding unf Let_def by simp
  next
    case 4
    then have mid: "low \<le> ?mid" "?mid < high" by linarith+
    then have "\<forall>i < length table. fst (table ! i) = cmd \<longrightarrow> ?mid + 1 \<le> i" using key_above [OF srt, of ?mid] 4(3) hi by force
    then have "ioctl_search table cmd (?mid + 1) high = (case map_of table cmd of None \<Rightarrow> 0 | Some v \<Rightarrow> v)"
      using rng mid hi by (intro 1(2) [OF 4(1) refl 4(2,3) srt dst]) simp_all
    then show ?thesis using 4 unfolding unf Let_def by simp
  next
    case 5
    then have "?mid < length table" using hi by linarith
    then show ?thesis using 5 map_of_key [OF dst] unfolding unf Let_def by force
  qed
qed



text \<open>The same search over the commands alone: the place of a command.\<close>

function find_command :: "u64 list \<Rightarrow> u64 \<Rightarrow> nat \<Rightarrow> nat \<Rightarrow> nat option" where
  "find_command cmds cmd low high =
     (if low < high then
        (let mid = low + (high - low) div 2 in
         if cmd < cmds ! mid then find_command cmds cmd low mid
         else if cmds ! mid < cmd then find_command cmds cmd (mid + 1) high
         else Some mid)
      else if cmd = cmds ! low then Some low else None)"
  by pat_completeness auto
termination by (relation "measure (\<lambda>(cmds, cmd, low, high). high - low)") auto

declare find_command.simps [simp del]

lemma ioctl_search_place:
  "low \<le> high \<Longrightarrow> high < length table \<Longrightarrow>
   ioctl_search table cmd low high = (case find_command (map fst table) cmd low high of None \<Rightarrow> 0 | Some i \<Rightarrow> snd (table ! i))"
proof (induction table cmd low high rule: ioctl_search.induct)
  case (1 table cmd low high)
  let ?mid = "low + (high - low) div 2"
  note unf = ioctl_search.simps [of table cmd low high] find_command.simps [of "map fst table" cmd low high]
  have n: "map fst table ! ?mid = fst (table ! ?mid)" "map fst table ! low = fst (table ! low)" using 1(3,4) by simp_all
  consider "\<not> low < high" | "low < high" "cmd < fst (table ! ?mid)" |
    "low < high" "\<not> cmd < fst (table ! ?mid)" "fst (table ! ?mid) < cmd" | "low < high" "fst (table ! ?mid) = cmd" by fastforce
  then show ?case
  proof cases
    case 2
    then have "ioctl_search table cmd low ?mid = (case find_command (map fst table) cmd low ?mid of None \<Rightarrow> 0 | Some i \<Rightarrow> snd (table ! i))"
      using 1(4) by (intro 1(1) [OF 2(1) refl 2(2)]) simp_all
    then show ?thesis using 2 unfolding unf Let_def n by simp
  next
    case 3
    then have "ioctl_search table cmd (?mid + 1) high = (case find_command (map fst table) cmd (?mid + 1) high of None \<Rightarrow> 0 | Some i \<Rightarrow> snd (table ! i))"
      using 1(4) by (intro 1(2) [OF 3(1) refl 3(2,3)]) simp_all
    then show ?thesis using 3 unfolding unf Let_def n by simp
  qed (simp_all only: unf Let_def n if_False if_True, simp_all)
qed

definition table_commands :: "u64 list" where
  "table_commands = map fst (ioctl_table (\<lambda>_. 0))"

lemma table_commands: "map fst (ioctl_table sz) = table_commands" "length (ioctl_table sz) = 55"
  by (simp_all add: table_commands_def ioctl_table_def)

lemma table_places:
  "list_all (\<lambda>i. find_command table_commands (table_commands ! i) 0 54 = (if i < 6 then None else if i = 32 then Some 33 else Some i)) [0..<55]"
  by code_simp

lemma ioctl_get_info_place:
  assumes "i < 55"
  shows "ioctl_get_info (ioctl_table sz) (ucast (fst (ioctl_table sz ! i))) = (if i < 6 then 0 else snd (ioctl_table sz ! i))"
proof -
  have c: "fst (ioctl_table sz ! i) = table_commands ! i" using assms table_commands [of sz] by (metis nth_map)
  have "list_all (\<lambda>c. (scast (ucast c :: i32) :: u64) = c) table_commands" by code_simp
  then have "(scast (ucast (table_commands ! i) :: i32) :: u64) = table_commands ! i"
    using assms table_commands [of sz] by (simp add: list_all_length) (metis length_map)
  moreover have "find_command table_commands (table_commands ! i) 0 54 = (if i < 6 then None else if i = 32 then Some 33 else Some i)"
    using table_places assms by (simp add: list_all_iff)
  moreover have "snd (ioctl_table sz ! 33) = snd (ioctl_table sz ! 32)" by (simp add: ioctl_table_def)
  ultimately show ?thesis
    using ioctl_search_place [of 0 54 "ioctl_table sz" "table_commands ! i"] table_commands [of sz] by (simp add: ioctl_get_info_def c)
qed

text \<open>
  C39. But the table is not sorted: its first six commands, those of sockets, are larger than the others. They are not found, and the
  call fails with \<open>ENOTTY\<close>; every other command is found with its description.
\<close>

theorem ioctl_table_socket_commands_lost:
  assumes "i < length (ioctl_table sz)"
  shows "ioctl_get_info (ioctl_table sz) (ucast (fst (ioctl_table sz ! i))) = (if i < 6 then 0 else snd (ioctl_table sz ! i)) \<and>
    (i < 6 \<longrightarrow> proxyfs_fs_fdinode_ioctl (ioctl_table sz) E a (ucast (fst (ioctl_table sz ! i))) arg self = Some (- ENOTTY, [], self))"
  using ioctl_get_info_place [of i sz] assms table_commands(2) [of sz] by (simp add: proxyfs_fs_fdinode_ioctl_def)

theorem ioctl_table_socket_commands_lost_witness:
  "fst (ioctl_table (\<lambda>_. 4) ! 2) = 0x8903 \<and> ioctl_get_info (ioctl_table (\<lambda>_. 4)) 0x8903 = 0 \<and>
   fst (ioctl_table (\<lambda>_. 4) ! 6) = 0x5401 \<and> ioctl_get_info (ioctl_table (\<lambda>_. 4)) 0x5401 = 0x40000004"
proof -
  have "fst (ioctl_table (\<lambda>_. 4) ! 2) = 0x8903" "fst (ioctl_table (\<lambda>_. 4) ! 6) = 0x5401" "snd (ioctl_table (\<lambda>_. 4) ! 6) = 0x40000004"
    by (simp_all add: ioctl_table_def)
  then show ?thesis using ioctl_table_socket_commands_lost [where i = 2 and sz = "\<lambda>_. 4", THEN conjunct1]
      ioctl_table_socket_commands_lost [where i = 6 and sz = "\<lambda>_. 4", THEN conjunct1] table_commands(2) by simp
qed

subsection \<open>Names\<close>

lemma is_digit_minus [simp]: "\<not> is_digit (CHR ''-'')" by (simp add: is_digit_def)

lemma print_u_nonempty [simp]: "print_u n \<noteq> []"
  by (subst print_u.simps) simp

lemma scan_number_print [simp]: "scan_number (print_u n) = Some (n, [])"
  "scan_number (print_u n @ CHR ''-'' # rest) = Some (n, CHR ''-'' # rest)"
  by (simp_all add: scan_number_def scan_u_def takeWhile_append dropWhile_append print_u_all_digits fold_print_u)

lemma scan_pid_ident_print [simp]: "scan_pid_ident (print_u p @ CHR ''-'' # print_u i) = Some (p, i)"
  by (simp add: scan_pid_ident_def)

text \<open>
  C23. The name that is made for a proxy file leads back to it: the lookup of the part below the mount point gives the number of the
  file with this owner and identifier, for every owner and identifier of 16 bits. Renaming for another owner keeps the identifier.
\<close>

theorem proxyfs_name_roundtrip:
  "proxyfs_fs_rootinode_lookup (drop (length PROXYFS_MNT_POINT + 1) (create_proxyfs_name (unat (pf_file_owner_pid f)) (unat (pf_file_ident f)))) =
     Some (proxyfs_file_get_file_ident f) \<and>
   is_proxyfs_file (create_proxyfs_name p i) \<and>
   alter_proxyfs_name_task_change (create_proxyfs_name p i) q = Some (if p = q then (1, None) else (0, Some (create_proxyfs_name q i)))"
proof -
  have n: "drop (length PROXYFS_MNT_POINT + 1) (create_proxyfs_name p i) = print_u p @ CHR ''-'' # print_u i" for p i
    by (simp add: create_proxyfs_name_def)
  have m: "is_proxyfs_file (create_proxyfs_name p i)" by (simp add: is_proxyfs_file_def create_proxyfs_name_def)
  have "alter_proxyfs_name_task_change (create_proxyfs_name p i) q = Some (if p = q then (1, None) else (0, Some (create_proxyfs_name q i)))"
    unfolding alter_proxyfs_name_task_change_def n scan_pid_ident_print using m by simp
  then show ?thesis using m unfolding proxyfs_fs_rootinode_lookup_def n scan_pid_ident_print proxyfs_file_get_file_ident_def by simp
qed

subsection \<open>Messages that are too long\<close>

text \<open>
  C37. The size in a received header is not compared with the buffer. A peer that announces more data than the
  buffer of 4096 bytes has room for, and sends them, makes the receiver write behind its end.
\<close>

theorem proxyfs_oversize_overruns:
  assumes "pp_sock y = Some s" "pp_recv_start y = MSG_HDR_SIZE" "length (pp_recv_buf y) = unat MSG_MAX_SIZE"
    and "hd_magic (recv_header y) = MSG_MAGIC" "hd_data_size (recv_header y) = of_nat n" "4064 < n" "n < 2 ^ 31 - 32"
    and "kkc_sock_tcp_recv s n KKC_SOCK_NONBLOCK = (int n, bs, s')" "length bs = n"
  shows "proxyfs_peer_real_recv y = None"
proof -
  have "(ucast (of_nat (32 + n) :: u64) :: i32) = of_nat (32 + n)" using assms(7)
    by (simp only: unsigned_of_nat) (simp add: take_bit_nat_eq_self)
  then have g: "scast (proxyfs_msg_get_size (recv_header y)) = (of_nat (32 + n) :: u64)"
    using small_i32(3) [of "32 + n"] assms(4,5,7) by (simp add: proxyfs_msg_get_size_def add.commute)
  have ne: "(of_nat (32 + n) :: u64) \<noteq> 32"
  proof
    assume "(of_nat (32 + n) :: u64) = 32"
    then have "unat (of_nat (32 + n) :: u64) = 32" by simp
    then show False using assms(6,7) by (simp only: unat_of_nat) simp
  qed
  have b: "(ucast (of_nat (32 + n) - 32 :: u64) :: i32) = of_nat n" using assms(7)
    by (simp add: unsigned_of_nat take_bit_nat_eq_self)
  have u: "unat (scast (of_nat n :: i32) :: u64) = n" using small_i32(3) [of n] assms(7) by (simp add: unat_of_nat)
  have "recv_at (of_nat n) y = None" using assms(1-3,6,8,9) u by (simp add: recv_at_def kkc_sock_recv_def)
  then show ?thesis unfolding proxyfs_peer_real_recv_def using ne b by (simp add: assms(2) Let_def g)
qed

definition oversize_peer :: "(byte list \<times> byte list) proxyfs_peer_t" where
  "oversize_peer = (sample_peer [] [] (replicate 5000 1))\<lparr>pp_recv_start := 32,
     pp_recv_buf := header_bytes \<lparr>hd_magic = MSG_MAGIC, hd_msg_num = MSG_WRITE, hd_file_ident = 7, hd_data_size = 5000\<rparr> @ replicate 4064 0\<rparr>"

theorem proxyfs_oversize_overruns_witness: "proxyfs_peer_real_recv oversize_peer = None"
  by (rule proxyfs_oversize_overruns [where s = "eager_sock [] (replicate 5000 1)" and s' = "eager_sock [] []" and n = 5000 and bs = "replicate 5000 1"])
    (simp_all add: oversize_peer_def sample_peer_def recv_header_def kkc_sock_tcp_recv_def eager_sock_def eager_kern_def)

subsection \<open>The end of a file\<close>

text \<open>
  C38. A process that waits for data and is woken when data and the end of the file have both arrived is told that the file has ended,
  although the data are in the buffer: the result of the wait is compared with each of the two states alone.
\<close>

theorem proxyfs_read_premature_eof:
  assumes "\<not> count <s 0" "proxyfs_proxy_file_read_user E a buf count self = Some (0, bs, self1)" "file_status a PROXYFS_FILE_READ_EOF self1 = 0"
    and "proxyfs_proxy_file_wait_interruptible E a (PROXYFS_FILE_CAN_READ OR PROXYFS_FILE_READ_EOF) self1 = Some (st, self2)"
    and "st AND PROXYFS_FILE_CAN_READ \<noteq> 0" "st AND PROXYFS_FILE_READ_EOF \<noteq> 0"
  shows "proxyfs_fs_fdinode_read E False a buf count self = Some (0, bs, self2)"
proof -
  have "st \<noteq> PROXYFS_FILE_CAN_READ" "st \<noteq> 0" using assms(5,6) by auto
  then show ?thesis using assms(1-4) unfolding proxyfs_fs_fdinode_read_def fdinode_read_loop.simps [of E False a buf count self] by simp
qed

definition tiny_buf :: "byte list \<Rightarrow> circ_buf" where
  "tiny_buf bs = \<lparr>cb_buf = 0, cb_write = of_nat (length bs), cb_read = 0, cb_full = False, cb_size = 4, cb_mem = bs @ replicate (4 - length bs) 0\<rparr>"

definition eof_env :: "(byte list \<times> byte list) client_env" where
  "eof_env = (plain_env (\<lambda>a. ucast a))\<lparr>ce_woken_sig :=
     \<lambda>t. (False, task_file 0 (fresh_proxy\<lparr>pf_read_buf := tiny_buf [42], pf_state := PROXYFS_FILE_READ_EOF\<rparr>) t)\<rparr>"

definition eof_client :: "(byte list \<times> byte list) proxyfs_client_task" where
  "eof_client = task_file 0 (fresh_proxy\<lparr>pf_read_buf := tiny_buf []\<rparr>) fresh_client"

theorem proxyfs_read_premature_eof_witness:
  "\<exists>bs self2. proxyfs_fs_fdinode_read eof_env False 0 0 4 eof_client = Some (0, bs, self2) \<and> file_status 0 PROXYFS_FILE_CAN_READ self2 \<noteq> 0"
proof -
  let ?f = "fresh_proxy\<lparr>pf_read_buf := tiny_buf [], pr_read_buf_sem := True\<rparr>"
  let ?g = "fresh_proxy\<lparr>pf_read_buf := tiny_buf [42], pf_state := PROXYFS_FILE_READ_EOF\<rparr>"
  have n: "circ_buf_count (tiny_buf []) = 0" "circ_buf_count (tiny_buf [42]) = 1" by code_simp+
  have b: "circ_buf_read_user (\<lambda>_ _. 0) (tiny_buf []) 0 4 = (tiny_buf [], [], 0)" by code_simp
  have st: "proxyfs_file_get_status ?f 4 = 0" "proxyfs_file_get_status ?f 20 = 0" "proxyfs_file_get_status ?g 20 = 20" "proxyfs_file_get_status ?g 16 \<noteq> 0"
    using n by (simp_all add: proxyfs_file_get_status_def PROXYFS_FILE_RO_STATUS_def PROXYFS_FILE_RW_STATUS_def fresh_proxy_def)
  have f: "pf_peer fresh_proxy = Some 0" "pr_ops fresh_proxy = Some Generic_proxy_file" "pr_read_buf_sem fresh_proxy" by (simp_all add: fresh_proxy_def)
  have p: "ps_peers (pt_store fresh_client) 0 = Some fresh_peer" "pp_state fresh_peer = PEER_CONNECTED" by (simp_all add: fresh_client_def fresh_peer_def)
  obtain m where m: "proxyfs_msg_compose_new (\<lambda>_. True) MSG_WRITE_RESP (proxyfs_file_get_file_ident ?f) [(4, le_bytes 4 (0 :: i32)), (0, [])] = Some m"
    by (simp add: proxyfs_msg_compose_new_def)
  let ?self1 = "task_peer 0 (queue_msg m fresh_peer) (task_file 0 ?f fresh_client)"
  have r: "proxyfs_proxy_file_read_user eof_env 0 0 4 eof_client = Some (0, [], ?self1)"
    using b f m p(1) task_send_ok [of "task_file 0 ?f fresh_client" 0 fresh_peer m]
    by (simp add: proxyfs_proxy_file_read_user_def virtual_proxyfs_proxy_file_read_user_def eof_client_def
        proxyfs_generic_proxy_file_read_user_def eof_env_def plain_env_def with_read_sem_def proxyfs_client_send_message_def)
      (simp add: task_file_def)
  have w: "proxyfs_proxy_file_wait_interruptible eof_env 0 (PROXYFS_FILE_CAN_READ OR PROXYFS_FILE_READ_EOF) ?self1 = Some (20, task_file 0 ?g ?self1)"
    using st p(2) f(1) by (simp add: proxyfs_proxy_file_wait_interruptible_def wait_event_interruptible_def file_status_def file_connected_def
        proxyfs_peer_get_state_def eof_env_def queue_msg_def)
  have "file_status 0 PROXYFS_FILE_READ_EOF ?self1 = 0" using st(1) by (simp add: file_status_def)
  moreover have "\<not> (4 :: u64) <s 0" by code_simp
  ultimately have "proxyfs_fs_fdinode_read eof_env False 0 0 4 eof_client = Some (0, [], task_file 0 ?g ?self1)"
    by (intro proxyfs_read_premature_eof [OF _ r _ w]) simp_all
  moreover have "file_status 0 PROXYFS_FILE_CAN_READ (task_file 0 ?g ?self1) \<noteq> 0" using st(4) by (simp add: file_status_def)
  ultimately show ?thesis by blast
qed

end
