(* ===== verification/Spec2Isabelle.thy ===== *)
theory Spec2Isabelle
  imports Tcmi_Handshake Tcmi_Ccnlife Proxyfs_Laws
begin

text \<open>
  Clondike: a verification library for the kernel modules of a non-dedicated cluster.

  The program has a checkpointing and migration infrastructure (TCMI, under
  \<^verbatim>\<open>src/tcmi\<close>), a kernel-to-kernel communication layer (KKC, \<^verbatim>\<open>src/kkc\<close>), and a proxy
  file system (\<^verbatim>\<open>src/proxyfs\<close>) that carries the open files of a migrated process
  between its node of origin and the node that executes it.

  Theories:

  \<^item> \<open>Clondike_Prelude\<close>: machine types, error numbers, byte regions, word lemmas.
  \<^item> \<open>Circ_Buf\<close>: the circular buffer (\<^verbatim>\<open>src/proxyfs/buffer.h\<close>, \<^verbatim>\<open>buffer.c\<close>).
\<close>

end
